(* ===== verification/Prelude.thy ===== *)
theory Prelude
  imports Main "HOL-Library.Word" "HOL-Library.Sublist"
begin

text \<open>
  The conventions every component shares.

  A Rust function that performs effects is a function from the state of the outside world to a
  result and the next state, and its \<open>Result\<close> is a sum with the error on the left.  The
  world is a type variable: the services the program talks to (object stores, HTTP, Chromium,
  the clock) are parameters of the definitions, so nothing here fixes what they do.
  \<open>and_then\<close> is the operator \<open>?\<close>: an error ends the function and keeps the effects already made.

  The theory also holds the two notions in which frame facts are stated (\<open>keeps\<close> and
  \<open>preserves\<close>) and the rules by which they compose.
\<close>

named_theorems keeps_intros \<open>composition rules for \<open>keeps\<close>\<close>
named_theorems preserves_intros \<open>composition rules for \<open>preserves\<close>\<close>
named_theorems io_simps \<open>evaluation rules for the effect combinators\<close>
named_theorems io_elims \<open>inversion rules for an effect chain that returned\<close>

named_theorems never_intros \<open>composition rules for \<open>never\<close>\<close>

section \<open>Errors and effects\<close>

text \<open>
  A Rust \<open>String\<close>, \<open>str\<close>, \<open>Bytes\<close> and \<open>[u8]\<close> are all sequences of bytes, that is of HOL's 8-bit
  characters; a \<open>str\<close> is one that is valid UTF-8 (theory \<open>Rust_Std\<close>).
\<close>

type_synonym bytes = string

text \<open>
  An \<open>eyre::Report\<close>: a message under the contexts added on the way up.  \<open>Panic\<close> is an unwinding
  panic.  \<open>OutOfFuel\<close> is no behaviour of the code: it marks a run of a loop that was cut off.
\<close>

datatype report =
    Msg string
  | Ctx string report
  | Panic string
  | OutOfFuel

type_synonym 'a res = "report + 'a"
type_synonym ('w, 'e, 'a) eio = "'w \<Rightarrow> ('e + 'a) \<times> 'w"
type_synonym ('w, 'a) io = "('w, report, 'a) eio"

definition ret :: "'a \<Rightarrow> ('w, 'e, 'a) eio" where
  "ret x w = (Inr x, w)"

definition fail :: "'e \<Rightarrow> ('w, 'e, 'a) eio" where
  "fail e w = (Inl e, w)"

definition and_then :: "('w, 'e, 'a) eio \<Rightarrow> ('a \<Rightarrow> ('w, 'e, 'b) eio) \<Rightarrow> ('w, 'e, 'b) eio" where
  "and_then m f w = (case m w of (Inl e, w') \<Rightarrow> (Inl e, w') | (Inr x, w') \<Rightarrow> f x w')"

text \<open>A pure fallible call; a call that cannot fail; a call whose \<open>Result\<close> the caller matches on.\<close>

definition lift_res :: "'e + 'a \<Rightarrow> ('w, 'e, 'a) eio" where
  "lift_res r w = (r, w)"

definition effect :: "('w \<Rightarrow> 'a \<times> 'w) \<Rightarrow> ('w, 'e, 'a) eio" where
  "effect f w = (case f w of (x, w') \<Rightarrow> (Inr x, w'))"

definition attempt :: "('w, 'e, 'a) eio \<Rightarrow> ('w, 'f, 'e + 'a) eio" where
  "attempt m w = (case m w of (r, w') \<Rightarrow> (Inr r, w'))"

definition map_err :: "('e \<Rightarrow> 'f) \<Rightarrow> ('w, 'e, 'a) eio \<Rightarrow> ('w, 'f, 'a) eio" where
  "map_err f m w = (case m w of (Inl e, w') \<Rightarrow> (Inl (f e), w') | (Inr x, w') \<Rightarrow> (Inr x, w'))"

definition with_context :: "string \<Rightarrow> ('w, 'a) io \<Rightarrow> ('w, 'a) io" where
  "with_context c m = map_err (Ctx c) m"

definition res_context :: "string \<Rightarrow> 'a res \<Rightarrow> 'a res" where
  "res_context c r = (case r of Inl e \<Rightarrow> Inl (Ctx c e) | Inr x \<Rightarrow> Inr x)"

definition res_bind :: "'e + 'a \<Rightarrow> ('a \<Rightarrow> 'e + 'b) \<Rightarrow> 'e + 'b" where
  "res_bind r f = (case r of Inl e \<Rightarrow> Inl e | Inr x \<Rightarrow> f x)"

definition ok_or :: "report \<Rightarrow> 'a option \<Rightarrow> 'a res" where
  "ok_or e r = (case r of None \<Rightarrow> Inl e | Some x \<Rightarrow> Inr x)"

text \<open>A computation on one part of a larger state.\<close>

definition on_part ::
    "('w \<Rightarrow> 'p) \<Rightarrow> ('p \<Rightarrow> 'w \<Rightarrow> 'w) \<Rightarrow> ('p, 'e, 'a) eio \<Rightarrow> ('w, 'e, 'a) eio" where
  "on_part sel upd m w = (case m (sel w) of (r, p) \<Rightarrow> (r, upd p w))"

text \<open>\<open>ensure!\<close> and the loop \<open>for x in xs\<close> with an accumulator, left at the first error.\<close>

definition ensure :: "bool \<Rightarrow> report \<Rightarrow> unit res" where
  "ensure b e = (if b then Inr () else Inl e)"

fun fold_io :: "('s \<Rightarrow> 'a \<Rightarrow> ('w, 'e, 's) eio) \<Rightarrow> 's \<Rightarrow> 'a list \<Rightarrow> ('w, 'e, 's) eio" where
  "fold_io f s [] = ret s"
| "fold_io f s (x # xs) = and_then (f s x) (\<lambda>s'. fold_io f s' xs)"

text \<open>The text \<open>format!("{e:#}")\<close> prints for a report: its contexts and its message in one line.\<close>

fun report_chain :: "report \<Rightarrow> string" where
  "report_chain (Msg m) = m"
| "report_chain (Ctx c r) = c @ '': '' @ report_chain r"
| "report_chain (Panic m) = m"
| "report_chain OutOfFuel = []"


section \<open>Evaluation and inversion\<close>

lemma and_then_ret [simp]: "and_then (ret x) f = f x"
  by (rule ext) (simp add: and_then_def ret_def)

lemma and_then_fail [simp]: "and_then (fail e) f = fail e"
  by (rule ext) (simp add: and_then_def fail_def)

lemma and_then_lift_Inr [simp]: "and_then (lift_res (Inr x)) f = f x"
  by (rule ext) (simp add: and_then_def lift_res_def)

lemma and_then_lift_Inl [simp]: "and_then (lift_res (Inl e)) f = fail e"
  by (rule ext) (simp add: and_then_def lift_res_def fail_def)

lemma with_context_ret [simp]: "with_context c (ret x) = ret x"
  by (rule ext) (simp add: with_context_def map_err_def ret_def)

lemma and_then_assoc: "and_then (and_then m f) g = and_then m (\<lambda>x. and_then (f x) g)"
  by (rule ext) (simp add: and_then_def split: prod.splits sum.splits)

lemma and_then_if: "and_then (if c then a else b) f = (if c then and_then a f else and_then b f)"
  by simp

lemma ret_apply [io_simps]: "ret x w = (Inr x, w)"
  by (simp add: ret_def)

lemma fail_apply [io_simps]: "fail e w = (Inl e, w)"
  by (simp add: fail_def)

lemma lift_res_apply [io_simps]: "lift_res r w = (r, w)"
  by (simp add: lift_res_def)

lemma and_then_Inr: "m w = (Inr x, w') \<Longrightarrow> and_then m f w = f x w'"
  by (simp add: and_then_def)

lemma and_then_Inl: "m w = (Inl e, w') \<Longrightarrow> and_then m f w = (Inl e, w')"
  by (simp add: and_then_def)

text \<open>
  A chain that returned \<open>Ok\<close> is a chain each step of which returned \<open>Ok\<close>; a chain that returned
  an error failed in its first part or after it.
\<close>

lemma and_then_InrE [io_elims]:
  assumes "and_then m f w = (Inr y, w2)"
  obtains x w1 where "m w = (Inr x, w1)" and "f x w1 = (Inr y, w2)"
  using assms by (auto simp: and_then_def split: prod.splits sum.splits)

lemma and_then_cases:
  obtains (err) e w1 where "m w = (Inl e, w1)" and "and_then m f w = (Inl e, w1)"
  | (ok) x w1 where "m w = (Inr x, w1)" and "and_then m f w = f x w1"
  by (cases "m w"; cases "fst (m w)") (auto simp: and_then_def)

lemma with_context_InrE [io_elims]:
  assumes "with_context c m w = (Inr y, w2)"
  obtains "m w = (Inr y, w2)"
  using assms by (auto simp: with_context_def map_err_def split: prod.splits sum.splits)

lemma map_err_InrE [io_elims]:
  assumes "map_err f m w = (Inr y, w2)"
  obtains "m w = (Inr y, w2)"
  using assms by (auto simp: map_err_def split: prod.splits sum.splits)

lemma lift_res_InrE [io_elims]:
  assumes "lift_res r w = (Inr y, w2)"
  obtains "r = Inr y" and "w2 = w"
  using assms by (auto simp: lift_res_def)

lemma ret_InrE [io_elims]:
  assumes "ret x w = (Inr y, w2)"
  obtains "y = x" and "w2 = w"
  using assms by (auto simp: ret_def)

lemma fail_InrE [io_elims]:
  assumes "fail e w = (Inr y, w2)"
  obtains False
  using assms by (auto simp: fail_def)

lemma effect_InrE [io_elims]:
  assumes "effect f w = (Inr y, w2)"
  obtains "f w = (y, w2)"
  using assms by (auto simp: effect_def split: prod.splits)

lemma attempt_InrE [io_elims]:
  assumes "attempt m w = (Inr r, w2)"
  obtains "m w = (r, w2)"
  using assms by (auto simp: attempt_def split: prod.splits)

lemma attempt_result: "fst (attempt m w) = Inr (fst (m w))"
  by (simp add: attempt_def split: prod.splits)

lemma snd_with_context [simp]: "snd (with_context c m w) = snd (m w)"
  by (simp add: with_context_def map_err_def split: prod.splits sum.splits)

lemma with_context_Inr_iff [simp]: "with_context c m w = (Inr y, w2) \<longleftrightarrow> m w = (Inr y, w2)"
  by (auto simp: with_context_def map_err_def split: prod.splits sum.splits)

lemma snd_and_then_ret [simp]: "snd (and_then m (\<lambda>x. ret (f x)) w) = snd (m w)"
  by (simp add: and_then_def ret_def split: prod.splits sum.splits)

lemma and_then_ret_Inr_iff [simp]:
  "and_then m (\<lambda>x. ret (f x)) w = (Inr y, w2) \<longleftrightarrow> (\<exists>x. m w = (Inr x, w2) \<and> y = f x)"
  by (auto simp: and_then_def ret_def split: prod.splits sum.splits)

lemma res_context_Inr_iff [simp]: "res_context c r = Inr x \<longleftrightarrow> r = Inr x"
  by (cases r) (auto simp: res_context_def)

lemma ok_or_Inr_iff [simp]: "ok_or e r = Inr x \<longleftrightarrow> r = Some x"
  by (cases r) (auto simp: ok_or_def)

lemma ensure_Inr_iff [simp]: "ensure b e = Inr x \<longleftrightarrow> b"
  by (auto simp: ensure_def)

lemma res_bind_Inr_iff: "res_bind r f = Inr y \<longleftrightarrow> (\<exists>x. r = Inr x \<and> f x = Inr y)"
  by (cases r) (auto simp: res_bind_def)

text \<open>An invariant of the loop body holds after a loop that was not left early.\<close>

lemma fold_io_inv:
  assumes "\<And>a x w a' w'. x \<in> set xs \<Longrightarrow> P a w \<Longrightarrow> f a x w = (Inr a', w') \<Longrightarrow> P a' w'"
    and "P a w" and "fold_io f a xs w = (Inr b, v)"
  shows "P b v"
  using assms
proof (induction xs arbitrary: a w)
  case Nil
  then show ?case by (auto elim!: io_elims)
next
  case (Cons x xs)
  from Cons.prems(3) obtain a' w' where "f a x w = (Inr a', w')" "fold_io f a' xs w' = (Inr b, v)"
    by (auto elim!: io_elims)
  with Cons show ?case
    by (metis list.set_intros(1,2))
qed

lemma and_then_with_context: "m w = (Inr x, w') \<Longrightarrow> and_then (with_context c m) f w = f x w'"
  by (simp add: and_then_def with_context_def map_err_def)

section \<open>Frames\<close>

text \<open>
  \<open>keeps v m\<close>: whatever \<open>m\<close> returns, the part \<open>v\<close> of the world is as it was.
  \<open>preserves I m\<close>: \<open>m\<close> leads from a world with \<open>I\<close> to a world with \<open>I\<close>, errors included.
\<close>

definition keeps :: "('w \<Rightarrow> 'v) \<Rightarrow> ('w \<Rightarrow> 'r \<times> 'w) \<Rightarrow> bool" where
  "keeps v m \<longleftrightarrow> (\<forall>w. v (snd (m w)) = v w)"

definition preserves :: "('w \<Rightarrow> bool) \<Rightarrow> ('w \<Rightarrow> 'r \<times> 'w) \<Rightarrow> bool" where
  "preserves I m \<longleftrightarrow> (\<forall>w. I w \<longrightarrow> I (snd (m w)))"

lemma keepsI: "(\<And>w. v (snd (m w)) = v w) \<Longrightarrow> keeps v m"
  by (simp add: keeps_def)

lemma keepsD: "keeps v m \<Longrightarrow> m w = (r, w') \<Longrightarrow> v w' = v w"
  unfolding keeps_def by (metis snd_conv)

lemma keeps_snd: "keeps v m \<Longrightarrow> v (snd (m w)) = v w"
  by (simp add: keeps_def)

lemma preservesI: "(\<And>w. I w \<Longrightarrow> I (snd (m w))) \<Longrightarrow> preserves I m"
  by (simp add: preserves_def)

lemma preservesD: "preserves I m \<Longrightarrow> I w \<Longrightarrow> m w = (r, w') \<Longrightarrow> I w'"
  unfolding preserves_def by (metis snd_conv)

lemma preserves_snd: "preserves I m \<Longrightarrow> I w \<Longrightarrow> I (snd (m w))"
  by (simp add: preserves_def)

lemma keeps_compose: "keeps v m \<Longrightarrow> keeps (\<lambda>w. f (v w)) m"
  by (simp add: keeps_def)

lemma keeps_preserves: "keeps v m \<Longrightarrow> preserves (\<lambda>w. I (v w)) m"
  by (simp add: keeps_def preserves_def)

lemma keeps_ret [keeps_intros]: "keeps v (ret x)"
  by (simp add: keeps_def ret_def)

lemma keeps_fail [keeps_intros]: "keeps v (fail x)"
  by (simp add: keeps_def fail_def)

lemma keeps_lift_res [keeps_intros]: "keeps v (lift_res x)"
  by (simp add: keeps_def lift_res_def)

lemma keeps_and_then [keeps_intros]:
  "keeps v m \<Longrightarrow> (\<And>x. keeps v (f x)) \<Longrightarrow> keeps v (and_then m f)"
  by (auto simp: keeps_def and_then_def split: prod.splits sum.splits) (metis snd_conv)+

lemma keeps_map_err [keeps_intros]: "keeps v m \<Longrightarrow> keeps v (map_err f m)"
  by (auto simp: keeps_def map_err_def split: prod.splits sum.splits) (metis snd_conv)+

lemma keeps_with_context [keeps_intros]: "keeps v m \<Longrightarrow> keeps v (with_context c m)"
  unfolding with_context_def by (rule keeps_map_err)

lemma keeps_effect [keeps_intros]: "keeps v f \<Longrightarrow> keeps v (effect f)"
  by (auto simp: keeps_def effect_def split: prod.splits) (metis snd_conv)

lemma keeps_attempt [keeps_intros]: "keeps v m \<Longrightarrow> keeps v (attempt m)"
  by (auto simp: keeps_def attempt_def split: prod.splits) (metis snd_conv)

lemma keeps_fold_io [keeps_intros]:
  "(\<And>s x. x \<in> set xs \<Longrightarrow> keeps v (f s x)) \<Longrightarrow> keeps v (fold_io f s xs)"
  by (induction xs arbitrary: s) (auto intro!: keeps_intros)

lemma keeps_case_option [keeps_intros]:
  "(r = None \<Longrightarrow> keeps v a) \<Longrightarrow> (\<And>x. r = Some x \<Longrightarrow> keeps v (b x)) \<Longrightarrow>
    keeps v (case r of None \<Rightarrow> a | Some x \<Rightarrow> b x)"
  by (cases r) auto

lemma keeps_case_sum [keeps_intros]:
  "(\<And>e. r = Inl e \<Longrightarrow> keeps v (a e)) \<Longrightarrow> (\<And>x. r = Inr x \<Longrightarrow> keeps v (b x)) \<Longrightarrow>
    keeps v (case r of Inl e \<Rightarrow> a e | Inr x \<Rightarrow> b x)"
  by (cases r) auto

lemma keeps_case_prod [keeps_intros]:
  "(\<And>a b. p = (a, b) \<Longrightarrow> keeps v (f a b)) \<Longrightarrow> keeps v (case p of (a, b) \<Rightarrow> f a b)"
  by (cases p) auto

lemma keeps_if [keeps_intros]:
  "(c \<Longrightarrow> keeps v a) \<Longrightarrow> (\<not> c \<Longrightarrow> keeps v b) \<Longrightarrow> keeps v (if c then a else b)"
  by simp

lemma keeps_Let [keeps_intros]: "keeps v (f x) \<Longrightarrow> keeps v (let y = x in f y)"
  by simp

lemma on_part_result: "fst (on_part sel upd m w) = fst (m (sel w))"
  by (simp add: on_part_def split: prod.splits)

lemma on_part_eq:
  "on_part sel upd m w = (r, w') \<longleftrightarrow> (\<exists>p. m (sel w) = (r, p) \<and> w' = upd p w)"
  by (auto simp: on_part_def split: prod.splits)

lemma keeps_on_part [keeps_intros]:
  "keeps v m \<Longrightarrow> (\<And>p w. u (upd p w) = f (v p)) \<Longrightarrow> (\<And>w. u w = f (v (sel w))) \<Longrightarrow>
    keeps u (on_part sel upd m)"
  by (auto simp: keeps_def on_part_def split: prod.splits) (metis snd_conv)

lemma keeps_on_part_other:
  "(\<And>p w. u (upd p w) = u w) \<Longrightarrow> keeps u (on_part sel upd m)"
  by (auto simp: keeps_def on_part_def split: prod.splits)

lemma preserves_and_then [preserves_intros]:
  "preserves I m \<Longrightarrow> (\<And>x. preserves I (f x)) \<Longrightarrow> preserves I (and_then m f)"
  by (fastforce simp: preserves_def and_then_def split: prod.splits sum.splits)

lemma preserves_ret [preserves_intros]: "preserves I (ret x)"
  by (simp add: preserves_def ret_def)

lemma preserves_fail [preserves_intros]: "preserves I (fail x)"
  by (simp add: preserves_def fail_def)

lemma preserves_lift_res [preserves_intros]: "preserves I (lift_res x)"
  by (simp add: preserves_def lift_res_def)

lemma preserves_attempt [preserves_intros]: "preserves I m \<Longrightarrow> preserves I (attempt m)"
  by (fastforce simp: preserves_def attempt_def split: prod.splits)

lemma preserves_with_context [preserves_intros]: "preserves I m \<Longrightarrow> preserves I (with_context c m)"
  by (fastforce simp: preserves_def with_context_def map_err_def split: prod.splits sum.splits)

text \<open>A step kept by everything that follows may be read off the end of a chain.\<close>

lemma and_then_keeps_tail:
  assumes "\<And>x. keeps v (f x)"
  shows "v (snd (and_then m f w)) = v (snd (m w))"
  using assms by (auto simp: and_then_def keeps_def split: prod.splits sum.splits)

section \<open>Errors that cannot come out\<close>

definition never :: "'e \<Rightarrow> ('w, 'e, 'a) eio \<Rightarrow> bool" where
  "never e m \<longleftrightarrow> (\<forall>w. fst (m w) \<noteq> Inl e)"

lemma neverD: "never e m \<Longrightarrow> fst (m w) \<noteq> Inl e"
  by (simp add: never_def)

lemma never_ret [never_intros]: "never e (ret x)"
  by (simp add: never_def ret_def)

lemma never_fail [never_intros]: "e' \<noteq> e \<Longrightarrow> never e (fail e')"
  by (simp add: never_def fail_def)

lemma never_lift_res [never_intros]: "r \<noteq> Inl e \<Longrightarrow> never e (lift_res r)"
  by (simp add: never_def lift_res_def)

lemma never_effect [never_intros]: "never e (effect f)"
  by (simp add: never_def effect_def split: prod.splits)

lemma never_attempt [never_intros]: "never e (attempt m)"
  by (simp add: never_def attempt_def split: prod.splits)

lemma never_map_err [never_intros]: "(\<And>x. f x \<noteq> e) \<Longrightarrow> never e (map_err f m)"
  by (auto simp: never_def map_err_def split: prod.splits sum.splits)

lemma never_on_part [never_intros]: "never e m \<Longrightarrow> never e (on_part sel upd m)"
  by (simp add: never_def on_part_result)

lemma never_and_then [never_intros]:
  "never e m \<Longrightarrow> (\<And>x. never e (f x)) \<Longrightarrow> never e (and_then m f)"
  by (auto simp: never_def and_then_def split: prod.splits sum.splits) (metis fst_conv)+

lemma never_if [never_intros]:
  "(c \<Longrightarrow> never e a) \<Longrightarrow> (\<not> c \<Longrightarrow> never e b) \<Longrightarrow> never e (if c then a else b)"
  by simp

section \<open>Changes that come with a result\<close>

text \<open>
  A part of the world that a computation changes only together with certain results: \<open>Q\<close> is true of
  what it returned whenever \<open>v\<close> moved.
\<close>

definition moves_only :: "('w \<Rightarrow> 'v) \<Rightarrow> ('r \<Rightarrow> bool) \<Rightarrow> ('w \<Rightarrow> 'r \<times> 'w) \<Rightarrow> bool" where
  "moves_only v Q m \<longleftrightarrow> (\<forall>w. v (snd (m w)) = v w \<or> Q (fst (m w)))"

lemma moves_onlyD: "moves_only v Q m \<Longrightarrow> m w = (r, w') \<Longrightarrow> v w' = v w \<or> Q r"
  unfolding moves_only_def by (metis fst_conv snd_conv)

lemma moves_only_keeps: "keeps v m \<Longrightarrow> moves_only v Q m"
  by (simp add: moves_only_def keeps_def)

lemma moves_only_if:
  "(c \<Longrightarrow> moves_only v Q a) \<Longrightarrow> (\<not> c \<Longrightarrow> moves_only v Q b) \<Longrightarrow>
    moves_only v Q (if c then a else b)"
  by simp

lemma moves_only_bind:
  assumes "keeps v m" and "\<And>x. moves_only v Q (f x)"
  shows "moves_only v Q (and_then m f)"
  unfolding moves_only_def
proof
  fix w
  show "v (snd (and_then m f w)) = v w \<or> Q (fst (and_then m f w))"
  proof (cases rule: and_then_cases [of m w f])
    case (err e w1)
    then show ?thesis using keepsD [OF assms(1)] by simp
  next
    case (ok x w1)
    then show ?thesis
      using keepsD [OF assms(1)] assms(2) by (metis moves_only_def)
  qed
qed

lemma moves_only_last:
  assumes "\<And>e. Q (Inl (Ctx c e))" and "\<And>x w. Q (fst (f x w))"
  shows "moves_only v Q (and_then (with_context c m) f)"
  using assms
  by (auto simp: moves_only_def and_then_def with_context_def map_err_def
      split: prod.splits sum.splits)

lemma moves_only_result:
  assumes "moves_only v Q m" and "\<And>e. Q (Inl e) \<Longrightarrow> Q' (Inl e)" and "\<And>x. Q (Inr x) \<Longrightarrow> Q' (Inr (g x))"
  shows "moves_only v Q' (and_then m (\<lambda>x. ret (g x)))"
  using assms
  by (auto simp: moves_only_def and_then_def ret_def split: prod.splits sum.splits)
     (metis fst_conv snd_conv)+

end
