(* ===== verification/Rust_Std.thy ===== *)
theory Rust_Std
  imports Prelude
begin

unbundle bit_operations_syntax

text \<open>
  What the program uses of Rust's standard library and of its primitive types: byte-level UTF-8,
  the string methods, decimal printing and parsing, and comparison of \<open>f64\<close> values.

  A \<open>str\<close> is its UTF-8 encoding.  All the string methods here work on the encoding, which on
  valid UTF-8 is the same as working on scalar values, because no encoding of a scalar value
  starts inside another.
\<close>

section \<open>UTF-8\<close>

definition byte :: "char \<Rightarrow> nat" where
  "byte c = of_char c"

definition is_cont :: "char \<Rightarrow> bool" where
  "is_cont c \<longleftrightarrow> 128 \<le> byte c \<and> byte c < 192"

definition byte_in :: "nat \<Rightarrow> nat \<Rightarrow> char \<Rightarrow> bool" where
  "byte_in lo hi c \<longleftrightarrow> lo \<le> byte c \<and> byte c \<le> hi"

text \<open>
  \<open>str::from_utf8\<close>: the well-formed byte sequences of the Unicode standard (no overlong forms,
  no surrogates, nothing above U+10FFFF).
\<close>

fun valid_utf8 :: "string \<Rightarrow> bool" where
  "valid_utf8 [] = True"
| "valid_utf8 (a # s) =
    (if byte a < 128 then valid_utf8 s
     else (case s of [] \<Rightarrow> False | b # s1 \<Rightarrow>
       if byte_in 194 223 a then is_cont b \<and> valid_utf8 s1
       else (case s1 of [] \<Rightarrow> False | c # s2 \<Rightarrow>
         if byte a = 224 then byte_in 160 191 b \<and> is_cont c \<and> valid_utf8 s2
         else if byte a = 237 then byte_in 128 159 b \<and> is_cont c \<and> valid_utf8 s2
         else if byte_in 225 239 a then is_cont b \<and> is_cont c \<and> valid_utf8 s2
         else (case s2 of [] \<Rightarrow> False | d # s3 \<Rightarrow>
           if byte a = 240 then byte_in 144 191 b \<and> is_cont c \<and> is_cont d \<and> valid_utf8 s3
           else if byte_in 241 243 a then is_cont b \<and> is_cont c \<and> is_cont d \<and> valid_utf8 s3
           else byte a = 244 \<and> byte_in 128 143 b \<and> is_cont c \<and> is_cont d \<and> valid_utf8 s3))))"

definition from_utf8 :: "bytes \<Rightarrow> string option" where
  "from_utf8 b = (if valid_utf8 b then Some b else None)"

lemma valid_utf8_ascii: "\<forall>c \<in> set s. byte c < 128 \<Longrightarrow> valid_utf8 s"
  by (induction s) auto

text \<open>The one non-ASCII character of the program's messages.\<close>

definition em_dash :: string where
  "em_dash = [CHR 0xE2, CHR 0x80, CHR 0x94]"

section \<open>String methods\<close>

definition starts_with :: "string \<Rightarrow> string \<Rightarrow> bool" where
  "starts_with s p = prefix p s"

definition ends_with :: "string \<Rightarrow> string \<Rightarrow> bool" where
  "ends_with s p = suffix p s"

definition strip_prefix :: "string \<Rightarrow> string \<Rightarrow> string option" where
  "strip_prefix s p = (if prefix p s then Some (drop (length p) s) else None)"

fun contains :: "string \<Rightarrow> string \<Rightarrow> bool" where
  "contains [] p = (p = [])"
| "contains (c # s) p = (prefix p (c # s) \<or> contains s p)"

text \<open>\<open>str::replace\<close> for a non-empty pattern: left to right, non-overlapping.\<close>

fun replace_str :: "string \<Rightarrow> string \<Rightarrow> string \<Rightarrow> string" where
  "replace_str [] p r = []"
| "replace_str (c # s) p r =
    (if p \<noteq> [] \<and> prefix p (c # s) then r @ replace_str (drop (length p) (c # s)) p r
     else c # replace_str s p r)"

text \<open>\<open>str::split_once\<close> at a character.\<close>

fun split_once :: "string \<Rightarrow> char \<Rightarrow> (string \<times> string) option" where
  "split_once [] d = None"
| "split_once (c # s) d =
    (if c = d then Some ([], s)
     else (case split_once s d of None \<Rightarrow> None | Some (a, b) \<Rightarrow> Some (c # a, b)))"

text \<open>
  \<open>str::trim\<close>: Unicode \<open>White_Space\<close>, here by the UTF-8 encodings of its 25 scalar values.
\<close>

definition white_space :: "string list" where
  "white_space =
    [[CHR 0x20], [CHR 0x0A], [CHR 0x0D], [CHR 0x09], [CHR 0x0B], [CHR 0x0C],
     [CHR 0xC2, CHR 0x85], [CHR 0xC2, CHR 0xA0], [CHR 0xE1, CHR 0x9A, CHR 0x80],
     [CHR 0xE2, CHR 0x80, CHR 0x80], [CHR 0xE2, CHR 0x80, CHR 0x81],
     [CHR 0xE2, CHR 0x80, CHR 0x82], [CHR 0xE2, CHR 0x80, CHR 0x83],
     [CHR 0xE2, CHR 0x80, CHR 0x84], [CHR 0xE2, CHR 0x80, CHR 0x85],
     [CHR 0xE2, CHR 0x80, CHR 0x86], [CHR 0xE2, CHR 0x80, CHR 0x87],
     [CHR 0xE2, CHR 0x80, CHR 0x88], [CHR 0xE2, CHR 0x80, CHR 0x89],
     [CHR 0xE2, CHR 0x80, CHR 0x8A], [CHR 0xE2, CHR 0x80, CHR 0xA8],
     [CHR 0xE2, CHR 0x80, CHR 0xA9], [CHR 0xE2, CHR 0x80, CHR 0xAF],
     [CHR 0xE2, CHR 0x81, CHR 0x9F], [CHR 0xE3, CHR 0x80, CHR 0x80]]"

function strip_all :: "string list \<Rightarrow> string \<Rightarrow> string" where
  "strip_all encs s =
    (case find (\<lambda>e. e \<noteq> [] \<and> prefix e s) encs of
       None \<Rightarrow> s
     | Some e \<Rightarrow> strip_all encs (drop (length e) s))"
  by pat_completeness auto
termination
proof (relation "measure (\<lambda>(encs, s). length s)", goal_cases)
  case 1
  show ?case by simp
next
  case (2 encs s e)
  then have "e \<noteq> [] \<and> prefix e s"
    by (auto simp: find_Some_iff)
  then show ?case
    by (auto simp: prefix_def)
qed

declare strip_all.simps [simp del]

definition trim :: "string \<Rightarrow> string" where
  "trim s = rev (strip_all (map rev white_space) (rev (strip_all white_space s)))"

text \<open>\<open>str::trim_start_matches\<close> with a single character.\<close>

definition trim_start_char :: "char \<Rightarrow> string \<Rightarrow> string" where
  "trim_start_char c s = dropWhile (\<lambda>x. x = c) s"

text \<open>
  \<open>str::lines\<close>: split after each line feed, drop the line feed and a carriage return before it.
\<close>

fun split_inclusive :: "char \<Rightarrow> string \<Rightarrow> string list" where
  "split_inclusive d [] = []"
| "split_inclusive d (c # s) =
    (if c = d then [c] # split_inclusive d s
     else (case split_inclusive d s of [] \<Rightarrow> [[c]] | l # ls \<Rightarrow> (c # l) # ls))"

definition chop_eol :: "string \<Rightarrow> string" where
  "chop_eol l =
    (if suffix [CHR 0x0D, CHR 0x0A] l then butlast (butlast l)
     else if suffix [CHR 0x0A] l then butlast l else l)"

definition str_lines :: "string \<Rightarrow> string list" where
  "str_lines s = map chop_eol (split_inclusive (CHR 0x0A) s)"

text \<open>
  \<open>str::split_whitespace\<close>: the words between white space.  The first argument counts the bytes of a
  white-space encoding still to be passed over, the second is the word so far, reversed.
\<close>

fun split_words :: "nat \<Rightarrow> string \<Rightarrow> string \<Rightarrow> string list" where
  "split_words k cur [] = (if cur = [] then [] else [rev cur])"
| "split_words (Suc k) cur (c # s) = split_words k cur s"
| "split_words 0 cur (c # s) =
    (case find (\<lambda>e. prefix e (c # s)) white_space of
       Some e \<Rightarrow> (if cur = [] then [] else [rev cur]) @ split_words (length e - 1) [] s
     | None \<Rightarrow> split_words 0 (c # cur) s)"

definition split_whitespace :: "string \<Rightarrow> string list" where
  "split_whitespace s = split_words 0 [] s"

text \<open>\<open>[T]::join\<close> on strings.\<close>

fun join_str :: "string \<Rightarrow> string list \<Rightarrow> string" where
  "join_str sep [] = []"
| "join_str sep [x] = x"
| "join_str sep (x # y # xs) = x @ sep @ join_str sep (y # xs)"

section \<open>Decimal numbers\<close>

text \<open>\<open>Display\<close> of an unsigned integer, and \<open>str::parse\<close> into one of the given width.\<close>

definition digit_char :: "nat \<Rightarrow> char" where
  "digit_char d = char_of (48 + d)"

fun show_nat :: "nat \<Rightarrow> string" where
  "show_nat n = (if n < 10 then [digit_char n] else show_nat (n div 10) @ [digit_char (n mod 10)])"

declare show_nat.simps [simp del]

definition digits_value :: "string \<Rightarrow> nat" where
  "digits_value s = foldl (\<lambda>a c. 10 * a + (byte c - 48)) 0 s"

definition parse_unsigned :: "nat \<Rightarrow> string \<Rightarrow> nat option" where
  "parse_unsigned bits s =
    (let d = (case s of [] \<Rightarrow> s | c # r \<Rightarrow> if c = CHR ''+'' then r else s)
     in if d \<noteq> [] \<and> list_all (byte_in 48 57) d \<and> digits_value d < 2 ^ bits
        then Some (digits_value d) else None)"

lemma byte_digit_char: "d < 10 \<Longrightarrow> byte (digit_char d) = 48 + d"
  by (simp add: byte_def digit_char_def)

lemma show_nat_nonempty [simp]: "show_nat n \<noteq> []"
  by (subst show_nat.simps) simp

lemma show_nat_digits: "c \<in> set (show_nat n) \<Longrightarrow> byte_in 48 57 c"
proof (induction n rule: show_nat.induct)
  case (1 n)
  show ?case
  proof (cases "n < 10")
    case True
    with "1.prems" show ?thesis
      by (subst (asm) show_nat.simps) (auto simp: byte_in_def byte_digit_char)
  next
    case False
    then have "c \<in> set (show_nat (n div 10)) \<or> c = digit_char (n mod 10)"
      using "1.prems" by (subst (asm) show_nat.simps) auto
    then show ?thesis
      using "1.IH" [OF False] by (auto simp: byte_in_def byte_digit_char)
  qed
qed

lemma digits_value_show_nat: "digits_value (show_nat n) = n"
proof (induction n rule: show_nat.induct)
  case (1 n)
  show ?case
  proof (cases "n < 10")
    case True
    then show ?thesis
      by (subst show_nat.simps) (simp add: digits_value_def byte_digit_char)
  next
    case False
    then have "digits_value (show_nat (n div 10)) = n div 10"
      by (rule "1.IH")
    with False show ?thesis
      by (subst show_nat.simps) (simp add: digits_value_def byte_digit_char)
  qed
qed

lemma show_nat_inject [simp]: "show_nat m = show_nat n \<longleftrightarrow> m = n"
  by (metis digits_value_show_nat)

lemma parse_show_nat: "n < 2 ^ bits \<Longrightarrow> parse_unsigned bits (show_nat n) = Some n"
proof -
  assume bound: "n < 2 ^ bits"
  obtain c s where cs: "show_nat n = c # s"
    by (cases "show_nat n") auto
  then have "byte_in 48 57 c"
    by (metis list.set_intros(1) show_nat_digits)
  then have "c \<noteq> CHR ''+''"
    by (auto simp: byte_in_def byte_def)
  moreover have "list_all (byte_in 48 57) (show_nat n)"
    by (simp add: list_all_iff show_nat_digits)
  ultimately show ?thesis
    using bound cs digits_value_show_nat [of n] by (simp add: parse_unsigned_def)
qed

section \<open>Debug printing of strings\<close>

text \<open>
  \<open>{:?}\<close> of a \<open>str\<close> and of an \<open>Option<str>\<close>: quotes, the named escapes, and \<open>\u{..}\<close> for the other
  ASCII control characters.  Unprintable scalar values beyond ASCII, which Rust escapes too, are
  left as they are; these texts only ever occur in messages.
\<close>

definition hex_nibble :: "nat \<Rightarrow> char" where
  "hex_nibble d = char_of (if d < 10 then 48 + d else 87 + d)"

definition debug_char :: "char \<Rightarrow> string" where
  "debug_char c =
    (if byte c = 34 then [CHR 0x5C, CHR 0x22]
     else if byte c = 92 then [CHR 0x5C, CHR 0x5C]
     else if byte c = 10 then [CHR 0x5C, CHR ''n'']
     else if byte c = 13 then [CHR 0x5C, CHR ''r'']
     else if byte c = 9 then [CHR 0x5C, CHR ''t'']
     else if byte c = 0 then [CHR 0x5C, CHR ''0'']
     else if byte c < 16 then [CHR 0x5C] @ ''u{'' @ [hex_nibble (byte c)] @ ''}''
     else if byte c < 32 \<or> byte c = 127 then
       [CHR 0x5C] @ ''u{'' @ [hex_nibble (byte c div 16), hex_nibble (byte c mod 16)] @ ''}''
     else [c])"

definition debug_str :: "string \<Rightarrow> string" where
  "debug_str s = [CHR 0x22] @ concat (map debug_char s) @ [CHR 0x22]"

definition debug_opt_str :: "string option \<Rightarrow> string" where
  "debug_opt_str v = (case v of None \<Rightarrow> ''None'' | Some s \<Rightarrow> ''Some('' @ debug_str s @ '')'')"

definition debug_strs :: "string list \<Rightarrow> string" where
  "debug_strs xs = ''['' @ join_str '', '' (map debug_str xs) @ '']''"

section \<open>Comparison of f64 values\<close>

text \<open>
  An \<open>f64\<close> is its IEEE 754 bit pattern.  The program stores, compares for equality and tests the
  sign of such values; \<open>NaN\<close> is unequal to itself and the two zeros are equal.
\<close>

type_synonym f64 = "64 word"

definition f64_nan :: "f64 \<Rightarrow> bool" where
  "f64_nan x \<longleftrightarrow> x AND 0x7FF0000000000000 = 0x7FF0000000000000 \<and> x AND 0x000FFFFFFFFFFFFF \<noteq> 0"

definition f64_zero :: "f64 \<Rightarrow> bool" where
  "f64_zero x \<longleftrightarrow> x AND 0x7FFFFFFFFFFFFFFF = 0"

definition f64_eq :: "f64 \<Rightarrow> f64 \<Rightarrow> bool" where
  "f64_eq x y \<longleftrightarrow> \<not> f64_nan x \<and> \<not> f64_nan y \<and> (x = y \<or> f64_zero x \<and> f64_zero y)"

definition f64_negative :: "f64 \<Rightarrow> bool" where
  "f64_negative x \<longleftrightarrow> \<not> f64_nan x \<and> \<not> f64_zero x \<and> x AND 0x8000000000000000 \<noteq> 0"

text \<open>\<open>PartialEq\<close> of \<open>Option<f64>\<close>.\<close>

fun opt_f64_eq :: "f64 option \<Rightarrow> f64 option \<Rightarrow> bool" where
  "opt_f64_eq (Some x) (Some y) = f64_eq x y"
| "opt_f64_eq None None = True"
| "opt_f64_eq _ _ = False"

lemma f64_eq_refl: "f64_eq x x \<longleftrightarrow> \<not> f64_nan x"
  by (auto simp: f64_eq_def)

lemma f64_eq_sym: "f64_eq x y \<longleftrightarrow> f64_eq y x"
  by (auto simp: f64_eq_def)

lemma opt_f64_eq_refl: "(\<And>x. t = Some x \<Longrightarrow> \<not> f64_nan x) \<Longrightarrow> opt_f64_eq t t"
  by (cases t) (auto simp: f64_eq_refl)

lemma opt_f64_eq_sym: "opt_f64_eq s t \<longleftrightarrow> opt_f64_eq t s"
  by (cases "(s, t)" rule: opt_f64_eq.cases) (auto simp: f64_eq_sym)

text \<open>
  \<open>x as i64\<close>: truncation towards zero that saturates; \<open>NaN\<close> gives 0.  And \<open>n as f64\<close>, for integers
  of a magnitude below \<open>2 ^ 53\<close>, where it is exact.
\<close>

definition f64_magnitude :: "f64 \<Rightarrow> nat" where
  "f64_magnitude x =
    (let e = unat (drop_bit 52 x AND 0x7FF);
         m = unat (x AND 0x000FFFFFFFFFFFFF)
     in if e < 1075 then (if e = 0 then 0 else (m + 2 ^ 52) div 2 ^ (1075 - e))
        else (m + 2 ^ 52) * 2 ^ (e - 1075))"

definition f64_as_i64 :: "f64 \<Rightarrow> int" where
  "f64_as_i64 x =
    (if f64_nan x then 0
     else if x AND 0x8000000000000000 \<noteq> 0 then max (- (2 ^ 63)) (- int (f64_magnitude x))
     else min (2 ^ 63 - 1) (int (f64_magnitude x)))"

fun bit_length :: "nat \<Rightarrow> nat" where
  "bit_length n = (if n = 0 then 0 else bit_length (n div 2) + 1)"

declare bit_length.simps [simp del]

definition i64_as_f64 :: "int \<Rightarrow> f64" where
  "i64_as_f64 n =
    (let a = nat \<bar>n\<bar>;
         k = bit_length a - 1;
         bits = of_nat ((1023 + k) * 2 ^ 52 + (a * 2 ^ (52 - k) - 2 ^ 52))
     in if n = 0 then 0 else if n < 0 then bits OR 0x8000000000000000 else bits)"

section \<open>Trimming printable text\<close>

lemma strip_all_id:
  assumes "s = [] \<or> (\<forall>e \<in> set encs. e \<noteq> [] \<longrightarrow> hd e \<noteq> hd s)"
  shows "strip_all encs s = s"
proof -
  have "find (\<lambda>e. e \<noteq> [] \<and> prefix e s) encs = None"
    using assms by (auto simp: find_None_iff prefix_def)
  then show ?thesis
    by (subst strip_all.simps) simp
qed

text \<open>Text that neither starts nor ends with a byte of a white-space encoding is left alone.\<close>

lemma trim_id:
  assumes "\<forall>c \<in> set s. 32 < byte c \<and> byte c < 128"
  shows "trim s = s"
proof -
  have ends: "c = [] \<or> \<not> (32 < byte (hd c) \<and> byte (hd c) < 128)"
    if "c \<in> set white_space \<union> rev ` set white_space" for c
    using that by (auto simp: white_space_def byte_def)
  have fwd: "strip_all white_space s = s"
    using assms ends by (intro strip_all_id) (metis UnI1 hd_in_set)
  have "rev s = [] \<or> (\<forall>e \<in> set (map rev white_space). e \<noteq> [] \<longrightarrow> hd e \<noteq> hd (rev s))"
    using assms ends by (metis UnI2 hd_in_set list.set_map set_rev)
  then have "strip_all (map rev white_space) (rev s) = rev s"
    by (rule strip_all_id)
  with fwd show ?thesis
    by (simp add: trim_def)
qed

section \<open>Unix paths\<close>

text \<open>
  \<open>Path\<close> methods on the text of a path: \<open>is_relative\<close>, \<open>join\<close>, and \<open>parent\<close> and \<open>file_name\<close> for paths
  without a \<open>.\<close> component (\<open>..\<close> has no file name).
\<close>

definition path_is_relative :: "string \<Rightarrow> bool" where
  "path_is_relative p \<longleftrightarrow> \<not> prefix ''/'' p"

definition path_join :: "string \<Rightarrow> string \<Rightarrow> string" where
  "path_join base p =
    (if \<not> path_is_relative p then p
     else if base = [] \<or> last base = CHR ''/'' then base @ p else base @ ''/'' @ p)"

definition trim_end_slash :: "string \<Rightarrow> string" where
  "trim_end_slash p = rev (dropWhile (\<lambda>c. c = CHR ''/'') (rev p))"

definition path_parent :: "string \<Rightarrow> string option" where
  "path_parent p =
    (let q = trim_end_slash p;
         up = rev (dropWhile (\<lambda>c. c \<noteq> CHR ''/'') (rev q));
         r = trim_end_slash up
     in if q = [] then None else Some (if r = [] \<and> up \<noteq> [] then ''/'' else r))"

definition path_file_name :: "string \<Rightarrow> string option" where
  "path_file_name p =
    (let q = trim_end_slash p;
         f = rev (takeWhile (\<lambda>c. c \<noteq> CHR ''/'') (rev q))
     in if f = [] \<or> f = ''..'' then None else Some f)"

fun split_on :: "char \<Rightarrow> string \<Rightarrow> string list" where
  "split_on d [] = [[]]"
| "split_on d (c # s) =
    (if c = d then [] # split_on d s
     else (case split_on d s of [] \<Rightarrow> [[c]] | l # ls \<Rightarrow> (c # l) # ls))"

text \<open>Paths are ordered by their components, and components by their bytes.\<close>

definition path_components :: "string \<Rightarrow> string list" where
  "path_components p = filter (\<lambda>c. c \<noteq> []) (split_on (CHR ''/'') p)"

fun bytes_le :: "string \<Rightarrow> string \<Rightarrow> bool" where
  "bytes_le [] t = True"
| "bytes_le (a # s) [] = False"
| "bytes_le (a # s) (b # t) = (byte a < byte b \<or> byte a = byte b \<and> bytes_le s t)"

fun components_le :: "string list \<Rightarrow> string list \<Rightarrow> bool" where
  "components_le [] ys = True"
| "components_le (x # xs) [] = False"
| "components_le (x # xs) (y # ys) = (if x = y then components_le xs ys else bytes_le x y)"

definition path_le :: "string \<Rightarrow> string \<Rightarrow> bool" where
  "path_le p q = components_le (path_components p) (path_components q)"

text \<open>\<open>sort\<close>, which is stable: insertion sort gives the same list.\<close>

fun insert_by :: "('a \<Rightarrow> 'a \<Rightarrow> bool) \<Rightarrow> 'a \<Rightarrow> 'a list \<Rightarrow> 'a list" where
  "insert_by le x [] = [x]"
| "insert_by le x (y # ys) = (if le x y then x # y # ys else y # insert_by le x ys)"

fun sort_by :: "('a \<Rightarrow> 'a \<Rightarrow> bool) \<Rightarrow> 'a list \<Rightarrow> 'a list" where
  "sort_by le [] = []"
| "sort_by le (x # xs) = insert_by le x (sort_by le xs)"

lemma byte_inject: "byte a = byte b \<longleftrightarrow> a = b"
  by (simp add: byte_def)

lemma bytes_le_refl [simp]: "bytes_le s s"
  by (induction s) auto

lemma bytes_le_Nil_iff [simp]: "bytes_le s [] \<longleftrightarrow> s = []"
  by (cases s) auto

lemma bytes_le_total: "bytes_le s t \<or> bytes_le t s"
  by (induction s t rule: bytes_le.induct) auto

lemma bytes_le_antisym: "bytes_le s t \<Longrightarrow> bytes_le t s \<Longrightarrow> s = t"
  by (induction s t rule: bytes_le.induct) (auto simp: byte_inject)

lemma bytes_le_trans: "bytes_le s t \<Longrightarrow> bytes_le t u \<Longrightarrow> bytes_le s u"
proof (induction s t arbitrary: u rule: bytes_le.induct)
  case (3 a s b t)
  then show ?case by (cases u) auto
qed auto

lemma components_le_total: "components_le xs ys \<or> components_le ys xs"
  using bytes_le_total by (induction xs ys rule: components_le.induct) auto

lemma components_le_trans:
  "components_le xs ys \<Longrightarrow> components_le ys zs \<Longrightarrow> components_le xs zs"
proof (induction xs ys arbitrary: zs rule: components_le.induct)
  case (3 x xs y ys)
  then show ?case
    by (cases zs) (auto split: if_splits dest: bytes_le_trans bytes_le_antisym)
qed auto

lemma path_le_total: "path_le p q \<or> path_le q p"
  unfolding path_le_def by (rule components_le_total)

lemma path_le_trans: "path_le p q \<Longrightarrow> path_le q r \<Longrightarrow> path_le p r"
  unfolding path_le_def by (rule components_le_trans)

lemma set_insert_by [simp]: "set (insert_by le x ys) = insert x (set ys)"
  by (induction ys) auto

lemma set_sort_by [simp]: "set (sort_by le xs) = set xs"
  by (induction xs) auto

lemma sorted_insert_by:
  assumes total: "\<And>a b. le a b \<or> le b a" and trans: "\<And>a b c. le a b \<Longrightarrow> le b c \<Longrightarrow> le a c"
    and "sorted_wrt le ys"
  shows "sorted_wrt le (insert_by le x ys)"
  using assms(3)
proof (induction ys)
  case (Cons y ys)
  then show ?case
    using total trans by simp (metis total trans)
qed simp

lemma sorted_sort_by:
  assumes "\<And>a b. le a b \<or> le b a" and "\<And>a b c. le a b \<Longrightarrow> le b c \<Longrightarrow> le a c"
  shows "sorted_wrt le (sort_by le xs)"
proof (induction xs)
  case (Cons x xs)
  with sorted_insert_by [of le, OF assms] show ?case by simp
qed simp

lemma prefix_rev_dropWhile: "prefix (rev (dropWhile P s)) (rev s)"
  by (metis rev_rev_ident suffix_dropWhile suffix_to_prefix)

lemma path_parent_absolute:
  assumes abs: "prefix ''/'' p" and parent: "path_parent p = Some q"
  shows "prefix ''/'' q"
proof -
  define s where "s = trim_end_slash p"
  define up where "up = rev (dropWhile (\<lambda>c. c \<noteq> CHR ''/'') (rev s))"
  define r where "r = trim_end_slash up"
  have s: "prefix s p" and up: "prefix up s" and r: "prefix r up"
    unfolding r_def up_def s_def trim_end_slash_def
    by (metis prefix_rev_dropWhile rev_rev_ident)+
  have start: "t = [] \<or> prefix ''/'' t" if "prefix t p" for t
    using abs that by (cases t) (auto simp: prefix_def)
  from parent have q: "s \<noteq> []" "q = (if r = [] \<and> up \<noteq> [] then ''/'' else r)"
    by (auto simp: path_parent_def Let_def s_def up_def r_def split: if_splits)
  with start [OF s] have "CHR ''/'' \<in> set s"
    by (auto simp: prefix_def)
  then have "up \<noteq> []"
    by (auto simp: up_def dropWhile_eq_Nil_conv)
  with q show ?thesis
    using start s up r by (auto dest: prefix_order.trans)
qed

end
