(* ===== verification/Crypto.thy ===== *)
theory Crypto
  imports Rust_Std
begin

text \<open>
  \<open>src/crypto/encrypt.rs\<close> and \<open>src/crypto/sign.rs\<close> over the crates they call: \<open>age\<close>,
  \<open>ed25519-dalek\<close>, \<open>hex\<close>, \<open>sha2\<close> and \<open>zstd\<close>.  The crates' functions are the fields of a record
  that every definition takes as a parameter; their keys, writers and readers are opaque strings.
  Starting an age encryption draws a fresh file key, so it is an effect.

  The predicates at the end of the theory state what the program relies on: an age identity opens
  what its recipient seals, a verifying key accepts what its signing key signs, and the two
  encodings round-trip.
\<close>

section \<open>The crates\<close>

type_synonym recipient = string
type_synonym identity = string
type_synonym signing_key = string
type_synonym verifying_key = string
type_synonym signature = string

record 'w crypto_api =
  sha256_digest :: "bytes \<Rightarrow> bytes"
  hex_encode :: "bytes \<Rightarrow> string"
  hex_decode :: "string \<Rightarrow> bytes res"
  age_recipient_from_str :: "string \<Rightarrow> recipient res"
  age_identity_from_str :: "string \<Rightarrow> identity res"
  age_with_recipients :: "recipient list \<Rightarrow> string res"
  age_wrap_output :: "string \<Rightarrow> ('w, string) io"
  age_write_all :: "string \<Rightarrow> bytes \<Rightarrow> string res"
  age_finish :: "string \<Rightarrow> bytes res"
  age_decryptor_new :: "bytes \<Rightarrow> string res"
  age_decryptor_decrypt :: "string \<Rightarrow> identity list \<Rightarrow> string res"
  age_read_to_end :: "string \<Rightarrow> bytes res"
  ed_signing_key :: "bytes \<Rightarrow> signing_key"
  ed_verifying_key :: "bytes \<Rightarrow> verifying_key res"
  ed_sign :: "signing_key \<Rightarrow> bytes \<Rightarrow> bytes"
  ed_signature_from_slice :: "bytes \<Rightarrow> signature res"
  ed_verify :: "verifying_key \<Rightarrow> bytes \<Rightarrow> signature \<Rightarrow> unit res"
  zstd_encode_all :: "bytes \<Rightarrow> int \<Rightarrow> bytes res"
  zstd_decode_all :: "bytes \<Rightarrow> bytes res"

text \<open>\<open>std::fs::read_to_string\<close> on a snapshot of the file system.\<close>

type_synonym file_system = "string \<rightharpoonup> bytes"

definition read_to_string :: "file_system \<Rightarrow> string \<Rightarrow> string res" where
  "read_to_string fs path =
    (case fs path of
       None \<Rightarrow> Inl (Msg ''No such file or directory'')
     | Some b \<Rightarrow> ok_or (Msg ''stream did not contain valid UTF-8'') (from_utf8 b))"

section \<open>encrypt.rs\<close>

definition read_recipient :: "'w crypto_api \<Rightarrow> file_system \<Rightarrow> string \<Rightarrow> recipient res" where
  "read_recipient C fs path =
    res_bind (res_context ''read recipient file'' (read_to_string fs path)) (\<lambda>raw.
    let trimmed = trim raw in
    (case age_recipient_from_str C trimmed of
       Inl e \<Rightarrow> Inl (Msg (''invalid age recipient: '' @ report_chain e))
     | Inr r \<Rightarrow> Inr r))"

definition encrypt :: "'w crypto_api \<Rightarrow> bytes \<Rightarrow> recipient \<Rightarrow> ('w, bytes) io" where
  "encrypt C plaintext r =
    and_then (map_err (\<lambda>e. Msg (''encryptor build: '' @ report_chain e))
               (lift_res (age_with_recipients C [r]))) (\<lambda>encryptor.
    and_then (age_wrap_output C encryptor) (\<lambda>writer.
    and_then (lift_res (age_write_all C writer plaintext)) (\<lambda>writer'.
    lift_res (age_finish C writer'))))"

definition decrypt :: "'w crypto_api \<Rightarrow> bytes \<Rightarrow> identity \<Rightarrow> bytes res" where
  "decrypt C ciphertext identity =
    res_bind (age_decryptor_new C ciphertext) (\<lambda>decryptor.
    res_bind (age_decryptor_decrypt C decryptor [identity]) (\<lambda>reader.
    age_read_to_end C reader))"

section \<open>sign.rs\<close>

definition parse_signing_key :: "'w crypto_api \<Rightarrow> string \<Rightarrow> signing_key res" where
  "parse_signing_key C raw =
    res_bind (res_context ''signing key must be hex-encoded'' (hex_decode C (trim raw))) (\<lambda>bytes.
    if length bytes = 32 then Inr (ed_signing_key C bytes)
    else Inl (Msg ''signing key wrong length''))"

definition parse_verifying_key :: "'w crypto_api \<Rightarrow> string \<Rightarrow> verifying_key res" where
  "parse_verifying_key C raw =
    res_bind (res_context ''pubkey must be hex-encoded'' (hex_decode C (trim raw))) (\<lambda>bytes.
    if length bytes = 32 then
      (case ed_verifying_key C bytes of
         Inl e \<Rightarrow> Inl (Msg (''invalid pubkey: '' @ report_chain e))
       | Inr k \<Rightarrow> Inr k)
    else Inl (Msg ''pubkey wrong length''))"

definition sign :: "'w crypto_api \<Rightarrow> signing_key \<Rightarrow> bytes \<Rightarrow> bytes" where
  "sign C key payload = ed_sign C key payload"

definition verify :: "'w crypto_api \<Rightarrow> verifying_key \<Rightarrow> bytes \<Rightarrow> bytes \<Rightarrow> unit res" where
  "verify C pubkey payload sig =
    res_bind (res_context ''signature wrong length'' (ed_signature_from_slice C sig)) (\<lambda>s.
    (case ed_verify C pubkey payload s of
       Inl e \<Rightarrow> Inl (Msg (''signature verification failed: '' @ report_chain e))
     | Inr u \<Rightarrow> Inr u))"

section \<open>What the program relies on\<close>

definition age_key_pair :: "'w crypto_api \<Rightarrow> identity \<Rightarrow> recipient \<Rightarrow> bool" where
  "age_key_pair C identity r \<longleftrightarrow>
    (\<forall>p w c w'. encrypt C p r w = (Inr c, w') \<longrightarrow> decrypt C c identity = Inr p)"

definition ed_key_pair :: "'w crypto_api \<Rightarrow> signing_key \<Rightarrow> verifying_key \<Rightarrow> bool" where
  "ed_key_pair C sk vk \<longleftrightarrow> (\<forall>p. verify C vk p (sign C sk p) = Inr ())"

definition hex_digit :: "char \<Rightarrow> bool" where
  "hex_digit c \<longleftrightarrow> byte_in 48 57 c \<or> byte_in 97 102 c"

definition hex_codec :: "'w crypto_api \<Rightarrow> bool" where
  "hex_codec C \<longleftrightarrow>
    (\<forall>b. hex_decode C (hex_encode C b) = Inr b \<and> list_all hex_digit (hex_encode C b))"

definition zstd_codec :: "'w crypto_api \<Rightarrow> bool" where
  "zstd_codec C \<longleftrightarrow> (\<forall>b l z. zstd_encode_all C b l = Inr z \<longrightarrow> zstd_decode_all C z = Inr b)"

lemma hex_digit_ascii: "hex_digit c \<Longrightarrow> 32 < byte c \<and> byte c < 128"
  by (auto simp: hex_digit_def byte_in_def)

text \<open>A hex-encoded payload survives being read back as text, trimmed and decoded.\<close>

lemma hex_text_roundtrip:
  assumes "hex_codec C"
  shows "from_utf8 (hex_encode C b) = Some (hex_encode C b)"
    and "hex_decode C (trim (hex_encode C b)) = Inr b"
proof -
  have "\<forall>c \<in> set (hex_encode C b). 32 < byte c \<and> byte c < 128"
    using assms hex_digit_ascii by (auto simp: hex_codec_def list_all_iff)
  then show "from_utf8 (hex_encode C b) = Some (hex_encode C b)"
    and "hex_decode C (trim (hex_encode C b)) = Inr b"
    using assms valid_utf8_ascii trim_id by (auto simp: from_utf8_def hex_codec_def)
qed

lemma decrypt_encrypt:
  "age_key_pair C identity r \<Longrightarrow> encrypt C p r w = (Inr c, w') \<Longrightarrow> decrypt C c identity = Inr p"
  by (auto simp: age_key_pair_def)

lemma verify_sign: "ed_key_pair C sk vk \<Longrightarrow> verify C vk p (sign C sk p) = Inr ()"
  by (simp add: ed_key_pair_def)

lemma keeps_encrypt:
  "(\<And>e. keeps v (age_wrap_output C e)) \<Longrightarrow> keeps v (encrypt C p r)"
  unfolding encrypt_def by (intro keeps_intros) auto

end
