(* ===== verification/Snapshot.thy ===== *)
theory Snapshot
  imports Crypto
begin

text \<open>
  \<open>src/snapshot.rs\<close>, \<open>src/archive.rs\<close> and the storage-state data of \<open>src/browser/cdp.rs\<close>: the
  pointer \<open>latest.json\<close>, the digest check, the rollback check and the archive format of the
  session state.  The serializers that \<open>serde\<close> derives are parameters, one record per type.
\<close>

section \<open>Serializers and time\<close>

record 'a serde =
  to_vec :: "'a \<Rightarrow> bytes res"
  to_vec_pretty :: "'a \<Rightarrow> bytes res"
  from_slice :: "bytes \<Rightarrow> 'a res"

text \<open>The round trip the program relies on, for one value.\<close>

definition serde_ok :: "'a serde \<Rightarrow> 'a \<Rightarrow> bool" where
  "serde_ok J x \<longleftrightarrow>
    (\<forall>b. to_vec J x = Inr b \<or> to_vec_pretty J x = Inr b \<longrightarrow> from_slice J b = Inr x)"

lemma serde_to_vec: "serde_ok J x \<Longrightarrow> to_vec J x = Inr b \<Longrightarrow> from_slice J b = Inr x"
  by (simp add: serde_ok_def)

lemma serde_to_vec_pretty:
  "serde_ok J x \<Longrightarrow> to_vec_pretty J x = Inr b \<Longrightarrow> from_slice J b = Inr x"
  by (simp add: serde_ok_def)

text \<open>
  A \<open>DateTime<Utc>\<close> is its distance from the Unix epoch in nanoseconds.  The clock and the
  formatting of a time are \<open>chrono\<close>'s; \<open>add_std_duration\<close> is
  \<open>t + chrono::Duration::from_std(Duration::from_secs(n))?\<close>.
\<close>

type_synonym datetime = int

record 'w chrono =
  utc_now :: "'w \<Rightarrow> datetime \<times> 'w"
  add_std_duration :: "datetime \<Rightarrow> nat \<Rightarrow> datetime res"
  format_compact :: "datetime \<Rightarrow> string"
  display_time :: "datetime \<Rightarrow> string"
  timestamp_secs :: "datetime \<Rightarrow> int"

definition durations_add :: "'w chrono \<Rightarrow> bool" where
  "durations_add K \<longleftrightarrow>
    (\<forall>t n t'. add_std_duration K t n = Inr t' \<longrightarrow> t' = t + int n * 10 ^ 9)"

section \<open>snapshot.rs\<close>

definition LATEST_KEY :: string where
  "LATEST_KEY = ''latest.json''"

definition LOCK_KEY :: string where
  "LOCK_KEY = ''lock.json''"

datatype snapshot_format = StorageStateV1 | UserDataDirV1

record latest_pointer =
  lp_version :: string
  lp_object :: string
  lp_object_sha256 :: string
  lp_signature_object :: string
  lp_created_at :: datetime
  lp_format :: snapshot_format

definition sha256_hex :: "'w crypto_api \<Rightarrow> bytes \<Rightarrow> string" where
  "sha256_hex C b = (let digest = sha256_digest C b in hex_encode C digest)"

definition verify_digest :: "'w crypto_api \<Rightarrow> string \<Rightarrow> bytes \<Rightarrow> unit res" where
  "verify_digest C expected_hex actual_bytes =
    (let actual = sha256_hex C actual_bytes in
     ensure (actual = expected_hex)
       (Msg (''snapshot digest mismatch: expected '' @ expected_hex @ '', got '' @ actual)))"

definition ensure_monotonic ::
    "'w chrono \<Rightarrow> latest_pointer option \<Rightarrow> latest_pointer \<Rightarrow> unit res" where
  "ensure_monotonic K prev nxt =
    (case prev of
       Some p \<Rightarrow>
         ensure (lp_created_at nxt > lp_created_at p)
           (Msg (''pointer rollback detected: prev created_at = '' @ display_time K (lp_created_at p)
             @ '', next created_at = '' @ display_time K (lp_created_at nxt)))
     | None \<Rightarrow> Inr ())"

lemma LATEST_not_LOCK [simp]: "LATEST_KEY \<noteq> LOCK_KEY" "LOCK_KEY \<noteq> LATEST_KEY"
  by (simp_all add: LATEST_KEY_def LOCK_KEY_def)

lemma verify_digest_Inr_iff [simp]:
  "verify_digest C d b = Inr u \<longleftrightarrow> sha256_hex C b = d"
  by (auto simp: verify_digest_def Let_def)

lemma ensure_monotonic_Some_iff [simp]:
  "ensure_monotonic K (Some p) n = Inr u \<longleftrightarrow> lp_created_at p < lp_created_at n"
  by (simp add: ensure_monotonic_def)

lemma ensure_monotonic_None [simp]: "ensure_monotonic K None n = Inr ()"
  by (simp add: ensure_monotonic_def)

section \<open>The session state and its archive\<close>

record kv =
  kv_name :: string
  kv_value :: string

record web_origin =
  or_origin :: string
  or_local_storage :: "kv list"

record stored_cookie =
  ck_name :: string
  ck_value :: string
  ck_domain :: string
  ck_path :: string
  ck_expires :: "f64 option"
  ck_http_only :: bool
  ck_secure :: bool
  ck_same_site :: "string option"

record storage_state =
  ss_cookies :: "stored_cookie list"
  ss_origins :: "web_origin list"

definition compress :: "'w crypto_api \<Rightarrow> storage_state serde \<Rightarrow> storage_state \<Rightarrow> bytes res" where
  "compress C J state =
    res_bind (res_context ''serialize state'' (to_vec J state)) (\<lambda>json.
    res_bind (res_context ''zstd compress'' (zstd_encode_all C json 3)) (\<lambda>compressed.
    Inr compressed))"

definition decompress :: "'w crypto_api \<Rightarrow> storage_state serde \<Rightarrow> bytes \<Rightarrow> storage_state res" where
  "decompress C J data =
    res_bind (res_context ''zstd decompress'' (zstd_decode_all C data)) (\<lambda>json.
    res_context ''deserialize state'' (from_slice J json))"

lemma decompress_compress:
  assumes "zstd_codec C" and "serde_ok J state" and "compress C J state = Inr z"
  shows "decompress C J z = Inr state"
  using assms
  by (auto simp: compress_def decompress_def res_bind_Inr_iff zstd_codec_def serde_ok_def)

end
