(* ===== verification/Stores.thy ===== *)
theory Stores
  imports Snapshot
begin

text \<open>
  \<open>src/stores/mod.rs\<close>: the trait \<open>SnapshotStore\<close> and the fan-out to mirrors.

  A \<open>&dyn SnapshotStore\<close> is a record of its operations.  The contract of the trait is the locale
  \<open>snapshot_store\<close>: the doc comments of the trait, stated over a view of the objects a world
  holds (key to body and etag).  \<open>per_object_store\<close> adds what the callers rely on when they keep
  an etag across writes to other keys: a write moves the etag of the key it writes and no other.
  An operation that returns an error is allowed to have written its own key, as a request whose
  answer is lost may have; it is never allowed to touch another key.
\<close>

record put_result =
  pr_etag :: string

record object_meta =
  om_key :: string
  om_etag :: string
  om_size :: nat

record 'w store =
  st_name :: string
  st_put_if_unmodified :: "string \<Rightarrow> bytes \<Rightarrow> string option \<Rightarrow> ('w, put_result) io"
  st_put :: "string \<Rightarrow> bytes \<Rightarrow> ('w, put_result) io"
  st_get :: "string \<Rightarrow> ('w, bytes \<times> string) io"
  st_head :: "string \<Rightarrow> ('w, string option) io"
  st_list :: "string \<Rightarrow> ('w, object_meta list) io"
  st_delete_if_match :: "string \<Rightarrow> string \<Rightarrow> ('w, unit) io"

type_synonym 'w objects = "'w \<Rightarrow> string \<rightharpoonup> bytes \<times> string"

text \<open>The body and the etag stored under a key.\<close>

definition body_at :: "'w objects \<Rightarrow> string \<Rightarrow> 'w \<Rightarrow> bytes option" where
  "body_at objs k w = map_option fst (objs w k)"

definition etag_at :: "'w objects \<Rightarrow> string \<Rightarrow> 'w \<Rightarrow> string option" where
  "etag_at objs k w = map_option snd (objs w k)"

text \<open>\<open>stores::fanout\<close>: every mirror is written in turn; a failure is logged and dropped.\<close>

fun fanout :: "'w store list \<Rightarrow> string \<Rightarrow> bytes \<Rightarrow> ('w, 'e, unit) eio" where
  "fanout [] k body = ret ()"
| "fanout (m # ms) k body = and_then (attempt (st_put m k body)) (\<lambda>r. fanout ms k body)"

lemma fanout_fold: "fanout ms k b w = (Inr (), fold (\<lambda>m. snd \<circ> st_put m k b) ms w)"
  by (induction ms arbitrary: w)
    (auto simp: and_then_def attempt_def ret_def split: prod.splits)

lemma keeps_fanout [keeps_intros]:
  "(\<And>m. m \<in> set ms \<Longrightarrow> keeps v (st_put m k b)) \<Longrightarrow> keeps v (fanout ms k b)"
  by (induction ms) (auto intro!: keeps_intros)

text \<open>
  A store that is up: it answers reads, and carries out every request whose precondition holds.
\<close>

definition responsive :: "'w store \<Rightarrow> 'w objects \<Rightarrow> bool" where
  "responsive st objs \<longleftrightarrow>
    (\<forall>k w.
      (\<forall>b e. objs w k = Some (b, e) \<longrightarrow> fst (st_get st k w) = Inr (b, e)) \<and>
      fst (st_head st k w) = Inr (etag_at objs k w) \<and>
      (\<forall>b. \<exists>r. fst (st_put st k b w) = Inr r) \<and>
      (\<forall>b. \<exists>r. fst (st_put_if_unmodified st k b (etag_at objs k w) w) = Inr r) \<and>
      (\<forall>tag. etag_at objs k w = Some tag \<longrightarrow> fst (st_delete_if_match st k tag w) = Inr ()))"

lemma responsiveD:
  assumes "responsive st objs"
  shows "objs w k = Some (b, e) \<Longrightarrow> \<exists>w'. st_get st k w = (Inr (b, e), w')"
    and "\<exists>w'. st_head st k w = (Inr (etag_at objs k w), w')"
    and "\<exists>r w'. st_put st k b w = (Inr r, w')"
    and "etag_at objs k w = x \<Longrightarrow> \<exists>r w'. st_put_if_unmodified st k b x w = (Inr r, w')"
    and "etag_at objs k w = Some tag \<Longrightarrow> \<exists>w'. st_delete_if_match st k tag w = (Inr (), w')"
  using assms unfolding responsive_def by (metis prod.collapse)+

section \<open>The contract of the trait\<close>

locale snapshot_store =
  fixes st :: "'w store" and objs :: "'w objects"
  assumes get_keeps: "keeps objs (st_get st k)"
    and get_ok: "st_get st k w = (Inr (b, e), w') \<Longrightarrow> objs w k = Some (b, e)"
    and head_keeps: "keeps objs (st_head st k)"
    and head_ok: "st_head st k w = (Inr h, w') \<Longrightarrow> h = etag_at objs k w"
    and list_keeps: "keeps objs (st_list st p)"
    and put_ok: "st_put st k b w = (Inr r, w') \<Longrightarrow> objs w' k = Some (b, pr_etag r)"
    and put_frame: "k' \<noteq> k \<Longrightarrow> keeps (body_at objs k') (st_put st k b)"
    and cas_ok: "st_put_if_unmodified st k b x w = (Inr r, w') \<Longrightarrow>
      etag_at objs k w = x \<and> objs w' k = Some (b, pr_etag r)"
    and cas_refused: "etag_at objs k w \<noteq> x \<Longrightarrow>
      objs (snd (st_put_if_unmodified st k b x w)) = objs w"
    and cas_frame: "k' \<noteq> k \<Longrightarrow> keeps (body_at objs k') (st_put_if_unmodified st k b x)"
    and delete_ok: "st_delete_if_match st k tag w = (Inr u, w') \<Longrightarrow>
      objs w' k = None \<and> (objs w k = None \<or> etag_at objs k w = Some tag)"
    and delete_refused: "objs w k \<noteq> None \<Longrightarrow> etag_at objs k w \<noteq> Some tag \<Longrightarrow>
      objs (snd (st_delete_if_match st k tag w)) = objs w"
    and delete_frame: "k' \<noteq> k \<Longrightarrow> keeps (body_at objs k') (st_delete_if_match st k tag)"

locale per_object_store = snapshot_store +
  assumes put_other: "k' \<noteq> k \<Longrightarrow> keeps (\<lambda>w. objs w k') (st_put st k b)"
    and cas_other: "k' \<noteq> k \<Longrightarrow> keeps (\<lambda>w. objs w k') (st_put_if_unmodified st k b x)"
    and delete_other: "k' \<noteq> k \<Longrightarrow> keeps (\<lambda>w. objs w k') (st_delete_if_match st k tag)"

context snapshot_store begin

lemma cas_mismatch_err:
  assumes "etag_at objs k w \<noteq> x"
  shows "\<exists>e. fst (st_put_if_unmodified st k b x w) = Inl e"
proof (cases "st_put_if_unmodified st k b x w")
  case (Pair r w')
  with assms cas_ok show ?thesis by (cases r) auto
qed

lemma create_only_ok:
  "st_put_if_unmodified st k b None w = (Inr r, w') \<Longrightarrow> objs w k = None"
  using cas_ok [of k b None w r w'] by (auto simp: etag_at_def)

lemma get_body_keeps: "keeps (body_at objs k') (st_get st k)"
  using get_keeps by (auto simp: keeps_def body_at_def)

lemma head_body_keeps: "keeps (body_at objs k') (st_head st k)"
  using head_keeps by (auto simp: keeps_def body_at_def)

lemma get_obj_keeps: "keeps (\<lambda>w. objs w k') (st_get st k)"
  using get_keeps by (auto simp: keeps_def)

lemma head_obj_keeps: "keeps (\<lambda>w. objs w k') (st_head st k)"
  using head_keeps by (auto simp: keeps_def)

lemmas frame_rules = get_keeps head_keeps list_keeps get_body_keeps head_body_keeps
  get_obj_keeps head_obj_keeps put_frame cas_frame delete_frame

end

end
