(* ===== verification/Mem_Store.thy ===== *)
theory Mem_Store
  imports Stores "HOL-Library.AList"
begin

text \<open>
  The in-memory store of the repository's own test harness (\<open>InMemoryStore\<close> of
  \<open>tests/chatgpt_workload.rs\<close>): the smallest implementation of the trait under \<open>src/\<close>, and the
  one on which the contract is first discharged and on which witnesses run.

  The store lives in one part of a larger world, given by a selector and an update, so that a
  primary, mirrors and a clock can sit side by side.
\<close>

record mem =
  inner :: "(string \<times> bytes \<times> nat) list"
  counter :: nat

definition mem_new :: mem where
  "mem_new = \<lparr>inner = [], counter = 0\<rparr>"

definition mem_put :: "string \<Rightarrow> bytes \<Rightarrow> (mem, put_result) io" where
  "mem_put k body m =
    (let e = counter m + 1 in
     (Inr \<lparr>pr_etag = show_nat e\<rparr>,
      m\<lparr>inner := AList.update k (body, e) (inner m), counter := e\<rparr>))"

definition mem_put_if_unmodified ::
    "string \<Rightarrow> bytes \<Rightarrow> string option \<Rightarrow> (mem, put_result) io" where
  "mem_put_if_unmodified k body expected m =
    (case (map_of (inner m) k, expected) of
       (Some _, None) \<Rightarrow> (Inl (Msg (''CAS create-only: '' @ k @ '' already exists'')), m)
     | (None, Some e) \<Rightarrow>
         (Inl (Msg (''CAS update-only: '' @ k @ '' does not exist (expected etag '' @ e @ '')'')), m)
     | (Some (b, cur), Some e) \<Rightarrow>
         if show_nat cur \<noteq> e
         then (Inl (Msg (''CAS etag mismatch on '' @ k @ '': have '' @ show_nat cur
                 @ '', expected '' @ e)), m)
         else mem_put k body m
     | (None, None) \<Rightarrow> mem_put k body m)"

definition mem_get :: "string \<Rightarrow> (mem, bytes \<times> string) io" where
  "mem_get k m =
    (case map_of (inner m) k of
       Some (b, e) \<Rightarrow> (Inr (b, show_nat e), m)
     | None \<Rightarrow> (Inl (Msg (''not found: '' @ k)), m))"

definition mem_head :: "string \<Rightarrow> (mem, string option) io" where
  "mem_head k m = (Inr (case map_of (inner m) k of Some (_, e) \<Rightarrow> Some (show_nat e) | None \<Rightarrow> None), m)"

definition mem_list :: "string \<Rightarrow> (mem, object_meta list) io" where
  "mem_list p m =
    (Inr (map (\<lambda>(k, b, e). \<lparr>om_key = k, om_etag = show_nat e, om_size = length b\<rparr>)
           (filter (\<lambda>(k, _). starts_with k p) (inner m))), m)"

definition mem_delete_if_match :: "string \<Rightarrow> string \<Rightarrow> (mem, unit) io" where
  "mem_delete_if_match k x m =
    (case map_of (inner m) k of
       Some (b, cur) \<Rightarrow>
         if show_nat cur = x then (Inr (), m\<lparr>inner := AList.delete k (inner m)\<rparr>)
         else (Inl (Msg (''delete etag mismatch on '' @ k @ '': have '' @ show_nat cur
                 @ '', expected '' @ x)), m)
     | None \<Rightarrow> (Inr (), m))"

definition mem_store :: "('w \<Rightarrow> mem) \<Rightarrow> (mem \<Rightarrow> 'w \<Rightarrow> 'w) \<Rightarrow> string \<Rightarrow> 'w store" where
  "mem_store sel upd nm =
    \<lparr>st_name = nm,
     st_put_if_unmodified = (\<lambda>k b x. on_part sel upd (mem_put_if_unmodified k b x)),
     st_put = (\<lambda>k b. on_part sel upd (mem_put k b)),
     st_get = (\<lambda>k. on_part sel upd (mem_get k)),
     st_head = (\<lambda>k. on_part sel upd (mem_head k)),
     st_list = (\<lambda>p. on_part sel upd (mem_list p)),
     st_delete_if_match = (\<lambda>k x. on_part sel upd (mem_delete_if_match k x))\<rparr>"

definition mem_objects :: "mem objects" where
  "mem_objects m k =
    (case map_of (inner m) k of Some (b, e) \<Rightarrow> Some (b, show_nat e) | None \<Rightarrow> None)"

lemma mem_objects_update [simp]:
  "mem_objects (m\<lparr>inner := AList.update k (b, e) (inner m), counter := c\<rparr>) =
    (mem_objects m)(k \<mapsto> (b, show_nat e))"
  by (rule ext) (simp add: mem_objects_def update_conv')

lemma mem_objects_delete [simp]:
  "mem_objects (m\<lparr>inner := AList.delete k (inner m)\<rparr>) = (mem_objects m)(k := None)"
  by (rule ext) (simp add: mem_objects_def delete_conv')

text \<open>
  The harness keeps several stores in one world; the contract holds of each as soon as the
  update is followed by the selector it belongs to.
\<close>

lemma mem_per_object_store:
  assumes sel_upd: "\<And>p w. sel (upd p w) = p"
  shows "per_object_store (mem_store sel upd nm) (\<lambda>w. mem_objects (sel w))"
proof -
  note defs = mem_store_def mem_put_if_unmodified_def mem_put_def mem_get_def mem_head_def
    mem_delete_if_match_def mem_list_def on_part_def keeps_def body_at_def etag_at_def Let_def
  show ?thesis
    by unfold_locales
      (auto simp: defs sel_upd mem_objects_def update_conv' delete_conv'
        split: option.splits prod.splits if_splits)
qed

interpretation mem_alone: per_object_store "mem_store id (\<lambda>p w. p) nm" "\<lambda>w. mem_objects (id w)"
  by (rule mem_per_object_store) simp

end
