(* ===== verification/Bench.thy ===== *)
theory Bench
  imports Mem_Store
begin

text \<open>
  A concrete world on which hypotheses are met and definitions are run: two of the repository's
  in-memory stores, a clock that advances at every reading, and small reversible stand-ins for the
  crates.  Nothing here models code of the program; it shows that the parameters of the model can
  be given values with the properties the theorems assume.
\<close>

record bench =
  bn_primary :: mem
  bn_mirror :: mem
  bn_clock :: datetime

definition bench_primary :: "bench store" where
  "bench_primary = mem_store bn_primary (\<lambda>p w. w\<lparr>bn_primary := p\<rparr>) ''primary''"

definition bench_mirror :: "bench store" where
  "bench_mirror = mem_store bn_mirror (\<lambda>p w. w\<lparr>bn_mirror := p\<rparr>) ''mirror''"

definition bench_objects :: "bench objects" where
  "bench_objects w = mem_objects (bn_primary w)"

definition bench_start :: "datetime \<Rightarrow> bench" where
  "bench_start t = \<lparr>bn_primary = mem_new, bn_mirror = mem_new, bn_clock = t\<rparr>"

interpretation bench: per_object_store bench_primary bench_objects
  unfolding bench_primary_def bench_objects_def by (rule mem_per_object_store) simp

lemma bench_responsive: "responsive bench_primary bench_objects"
  by (auto simp: responsive_def bench_primary_def mem_store_def on_part_def bench_objects_def
      mem_objects_def etag_at_def mem_get_def mem_head_def mem_put_def mem_put_if_unmodified_def
      mem_delete_if_match_def Let_def split: option.splits prod.splits)

definition bench_chrono :: "bench chrono" where
  "bench_chrono =
    \<lparr>utc_now = (\<lambda>w. (bn_clock w, w\<lparr>bn_clock := bn_clock w + 10 ^ 9\<rparr>)),
     add_std_duration = (\<lambda>t n. Inr (t + int n * 10 ^ 9)),
     format_compact = (\<lambda>t. show_nat (nat (t div 10 ^ 9))),
     display_time = (\<lambda>t. show_nat (nat t)),
     timestamp_secs = (\<lambda>t. t div 10 ^ 9)\<rparr>"

lemma bench_clock_keeps: "keeps bench_objects (utc_now bench_chrono)"
  by (simp add: keeps_def bench_objects_def bench_chrono_def)

lemma bench_durations: "durations_add bench_chrono"
  by (simp add: durations_add_def bench_chrono_def)

lemma bench_mirror_keeps: "keeps bench_objects (st_put bench_mirror k b)"
  unfolding bench_mirror_def mem_store_def
  by (simp add: keeps_def bench_objects_def on_part_def split: prod.splits)

section \<open>Hexadecimal\<close>

definition bench_hex_encode :: "bytes \<Rightarrow> string" where
  "bench_hex_encode b = concat (map (\<lambda>c. [hex_nibble (byte c div 16), hex_nibble (byte c mod 16)]) b)"

definition nibble_value :: "char \<Rightarrow> nat option" where
  "nibble_value c =
    (if byte_in 48 57 c then Some (byte c - 48)
     else if byte_in 97 102 c then Some (byte c - 87) else None)"

fun bench_hex_decode :: "string \<Rightarrow> bytes res" where
  "bench_hex_decode [] = Inr []"
| "bench_hex_decode [_] = Inl (Msg ''Odd number of digits'')"
| "bench_hex_decode (a # b # s) =
    (case (nibble_value a, nibble_value b) of
       (Some h, Some l) \<Rightarrow> res_bind (bench_hex_decode s) (\<lambda>r. Inr (char_of (16 * h + l) # r))
     | _ \<Rightarrow> Inl (Msg ''Invalid character''))"

lemma byte_hex_nibble: "d < 16 \<Longrightarrow> byte (hex_nibble d) = (if d < 10 then 48 + d else 87 + d)"
  by (simp add: hex_nibble_def byte_def)

lemma nibble_value_hex_nibble: "d < 16 \<Longrightarrow> nibble_value (hex_nibble d) = Some d"
  by (auto simp: nibble_value_def byte_in_def byte_hex_nibble)

lemma hex_nibbles:
  "hex_nibble 3 = CHR ''3''" "hex_nibble 4 = CHR ''4''" "hex_nibble 5 = CHR ''5''"
  "hex_nibble 6 = CHR ''6''" "hex_nibble 11 = CHR ''b''"
  by (simp_all add: hex_nibble_def char_of_def bit_iff_odd)

lemma bench_numerals: "show_nat 0 = ''0''" "show_nat 2 = ''2''" "show_nat 3 = ''3''"
  by (subst show_nat.simps, simp add: digit_char_def char_of_def bit_iff_odd)+

lemma byte_less: "byte c < 256"
  by (simp add: byte_def)

lemma bench_hex_roundtrip: "bench_hex_decode (bench_hex_encode b) = Inr b"
proof (induction b)
  case Nil
  show ?case by (simp add: bench_hex_encode_def)
next
  case (Cons c b)
  have "byte c div 16 < 16" "byte c mod 16 < 16"
    using byte_less [of c] by auto
  moreover have "char_of (16 * (byte c div 16) + byte c mod 16) = c"
    by (simp add: byte_def)
  ultimately show ?case
    using Cons.IH
    by (simp add: bench_hex_encode_def nibble_value_hex_nibble res_bind_def)
qed

lemma bench_hex_digits: "list_all hex_digit (bench_hex_encode b)"
proof -
  have "hex_digit (hex_nibble d)" if "d < 16" for d
    using that by (auto simp: hex_digit_def byte_in_def byte_hex_nibble)
  moreover have "byte c div 16 < 16" for c
    using byte_less [of c] by auto
  ultimately show ?thesis
    by (auto simp: bench_hex_encode_def list_all_iff)
qed

section \<open>Crates\<close>

text \<open>A sealed payload is marked with one byte; a signature is the key followed by the payload.\<close>

definition bench_crypto :: "'w crypto_api" where
  "bench_crypto =
    \<lparr>sha256_digest = (\<lambda>b. b), hex_encode = bench_hex_encode, hex_decode = bench_hex_decode,
     age_recipient_from_str = Inr, age_identity_from_str = Inr,
     age_with_recipients = (\<lambda>rs. Inr (concat rs)), age_wrap_output = (\<lambda>e. ret e),
     age_write_all = (\<lambda>w p. Inr (CHR ''S'' # p)), age_finish = Inr,
     age_decryptor_new = (\<lambda>c. case c of x # p \<Rightarrow> (if x = CHR ''S'' then Inr p else Inl (Msg ''Header''))
                                  | [] \<Rightarrow> Inl (Msg ''Header'')),
     age_decryptor_decrypt = (\<lambda>d ids. Inr d), age_read_to_end = Inr,
     ed_signing_key = (\<lambda>b. b), ed_verifying_key = Inr, ed_sign = (\<lambda>k p. k @ p),
     ed_signature_from_slice = Inr,
     ed_verify = (\<lambda>k p s. if s = k @ p then Inr () else Inl (Msg ''signature error'')),
     zstd_encode_all = (\<lambda>b l. Inr b), zstd_decode_all = Inr\<rparr>"

lemma bench_hex_codec: "hex_codec bench_crypto"
  by (simp add: hex_codec_def bench_crypto_def bench_hex_roundtrip bench_hex_digits)

lemma bench_age: "age_key_pair bench_crypto i r"
  by (auto simp: age_key_pair_def encrypt_def decrypt_def bench_crypto_def res_bind_def lift_res_def
      map_err_def and_then_def ret_def)

lemma bench_ed: "ed_key_pair bench_crypto k k"
  by (simp add: ed_key_pair_def verify_def sign_def bench_crypto_def res_bind_def res_context_def)

lemma bench_zstd: "zstd_codec bench_crypto"
  by (simp add: zstd_codec_def bench_crypto_def)

text \<open>A serializer that knows a list of values and their texts.\<close>

definition table_serde :: "('a \<times> bytes) list \<Rightarrow> 'a serde" where
  "table_serde tbl =
    (let enc = (\<lambda>x. ok_or (Msg ''serialize'') (map_of tbl x));
         dec = (\<lambda>b. ok_or (Msg ''deserialize'') (map_of (map (\<lambda>(x, t). (t, x)) tbl) b))
     in \<lparr>to_vec = enc, to_vec_pretty = enc, from_slice = dec\<rparr>)"

lemma table_serde_simps [simp]:
  "to_vec (table_serde tbl) x = ok_or (Msg ''serialize'') (map_of tbl x)"
  "to_vec_pretty (table_serde tbl) x = ok_or (Msg ''serialize'') (map_of tbl x)"
  "from_slice (table_serde tbl) b =
    ok_or (Msg ''deserialize'') (map_of (map (\<lambda>(x, t). (t, x)) tbl) b)"
  by (simp_all add: table_serde_def Let_def)

end
