(* ===== verification/Lock.thy ===== *)
theory Lock
  imports Bench
begin

text \<open>
  \<open>src/lock.rs\<close>: the single-writer lock on the primary store.  \<open>acquire\<close> and \<open>release\<close> are
  translated as one piece each; what they do to \<open>lock.json\<close> is proved from the contract of the
  store alone, so it holds on every backend that meets it.
\<close>

record lock =
  lk_run_id :: string
  lk_created_at :: datetime
  lk_expires_at :: datetime

record 'w lock_guard =
  lg_store :: "'w store"
  lg_etag :: string

text \<open>The lines \<open>if prev.expires_at > now { bail!(..) }\<close>.\<close>

definition lock_free :: "'w chrono \<Rightarrow> lock \<Rightarrow> datetime \<Rightarrow> unit res" where
  "lock_free K prev now =
    (if lk_expires_at prev > now
     then Inl (Msg (''lock held by run_id='' @ lk_run_id prev @ '' until ''
            @ display_time K (lk_expires_at prev) @ '' (now '' @ display_time K now @ '')''))
     else Inr ())"

definition acquire ::
    "'w chrono \<Rightarrow> lock serde \<Rightarrow> 'w store \<Rightarrow> string \<Rightarrow> nat \<Rightarrow> ('w, 'w lock_guard) io" where
  "acquire K J st run_id ttl =
    and_then (effect (utc_now K)) (\<lambda>now.
    and_then (lift_res (add_std_duration K now ttl)) (\<lambda>expires_at.
    let lk = \<lparr>lk_run_id = run_id, lk_created_at = now, lk_expires_at = expires_at\<rparr> in
    and_then (lift_res (to_vec_pretty J lk)) (\<lambda>body.
    and_then (st_head st LOCK_KEY) (\<lambda>existing_etag.
    and_then
      (case existing_etag of
         None \<Rightarrow> st_put_if_unmodified st LOCK_KEY body None
       | Some e \<Rightarrow>
           and_then (st_get st LOCK_KEY) (\<lambda>(existing_body, _).
           and_then (lift_res (from_slice J existing_body)) (\<lambda>prev.
           and_then (lift_res (lock_free K prev now)) (\<lambda>_.
           st_put_if_unmodified st LOCK_KEY body (Some e)))))
      (\<lambda>p. ret \<lparr>lg_store = st, lg_etag = pr_etag p\<rparr>)))))"

definition release :: "'w lock_guard \<Rightarrow> ('w, unit) io" where
  "release g = st_delete_if_match (lg_store g) LOCK_KEY (lg_etag g)"

lemma lock_free_Inr_iff [simp]: "lock_free K prev now = Inr u \<longleftrightarrow> lk_expires_at prev \<le> now"
  by (auto simp: lock_free_def)

text \<open>There is no lock, or it has expired by \<open>now\<close>.\<close>

definition takeable :: "lock serde \<Rightarrow> 'w objects \<Rightarrow> datetime \<Rightarrow> 'w \<Rightarrow> bool" where
  "takeable J objs now w \<longleftrightarrow>
    (case objs w LOCK_KEY of
       None \<Rightarrow> True
     | Some (b, e) \<Rightarrow> (case from_slice J b of Inr prev \<Rightarrow> lk_expires_at prev \<le> now | Inl _ \<Rightarrow> False))"

context snapshot_store begin

text \<open>Only \<open>lock.json\<close> is ever written.\<close>

lemma acquire_frame:
  assumes "keeps objs (utc_now K)" and "k \<noteq> LOCK_KEY"
  shows "keeps (body_at objs k) (acquire K J st run_id ttl)"
proof -
  have "keeps (body_at objs k) (utc_now K)"
    using assms(1) by (auto simp: keeps_def body_at_def)
  then show ?thesis
    unfolding acquire_def Let_def
    using assms(2) by (auto intro!: keeps_intros frame_rules)
qed

text \<open>
  A lock that has not expired is neither overwritten nor taken, whatever the outcome of the
  requests on the way.
\<close>

lemma acquire_live:
  assumes clock: "keeps objs (utc_now K)"
    and held: "objs w LOCK_KEY = Some (b, e)" and prev: "from_slice J b = Inr prev"
    and live: "lk_expires_at prev > fst (utc_now K w)"
  shows "(\<exists>err. fst (acquire K J st run_id ttl w) = Inl err) \<and>
    objs (snd (acquire K J st run_id ttl w)) = objs w"
proof -
  obtain now w1 where now: "utc_now K w = (now, w1)" by fastforce
  with clock have w1: "objs w1 = objs w" by (rule keepsD)
  obtain h w2 where hd: "st_head st LOCK_KEY w1 = (h, w2)" by fastforce
  with head_keeps w1 have w2: "objs w2 = objs w" by (metis keepsD)
  obtain g w3 where gt: "st_get st LOCK_KEY w2 = (g, w3)" by fastforce
  with get_keeps w2 have w3: "objs w3 = objs w" by (metis keepsD)
  have h: "h = Inr r \<Longrightarrow> r = Some e" for r
    using hd head_ok [of LOCK_KEY w1 r w2] held w1 by (simp add: etag_at_def)
  have g: "g = Inr (b', e') \<Longrightarrow> b' = b" for b' e'
    using gt get_ok [of LOCK_KEY w2 b' e' w3] held w2 by simp
  show ?thesis
  proof (cases h)
    case Inl
    then show ?thesis
      using w1 w2 by (auto simp: acquire_def and_then_def effect_def lift_res_def now hd Let_def
          split: sum.splits)
  next
    case (Inr r)
    then show ?thesis
      using w1 w2 w3 h g prev live
      by (auto simp: acquire_def and_then_def effect_def lift_res_def now hd gt Let_def lock_free_def
          split: sum.splits prod.splits)
  qed
qed

text \<open>
  A lock that was taken was free or expired at the time read, and is now the caller's: the object
  holds the lock it serialized, under the etag its guard keeps.
\<close>

lemma acquire_taken:
  assumes clock: "keeps objs (utc_now K)"
    and ok: "acquire K J st run_id ttl w = (Inr g, w')"
  obtains now expires body where
    "fst (utc_now K w) = now" and "add_std_duration K now ttl = Inr expires"
    and "to_vec_pretty J \<lparr>lk_run_id = run_id, lk_created_at = now, lk_expires_at = expires\<rparr> = Inr body"
    and "objs w' LOCK_KEY = Some (body, lg_etag g)" and "lg_store g = st"
    and "objs w LOCK_KEY = None \<or>
      (\<exists>b e prev. objs w LOCK_KEY = Some (b, e) \<and> from_slice J b = Inr prev \<and>
        lk_expires_at prev \<le> now)"
proof -
  obtain now w1 where now: "utc_now K w = (now, w1)" by fastforce
  with clock have w1: "objs w1 = objs w" by (rule keepsD)
  from ok now obtain expires body h w2 p where
    steps: "add_std_duration K now ttl = Inr expires"
      "to_vec_pretty J \<lparr>lk_run_id = run_id, lk_created_at = now, lk_expires_at = expires\<rparr> = Inr body"
      "st_head st LOCK_KEY w1 = (Inr h, w2)" and
    put: "(case h of None \<Rightarrow> st_put_if_unmodified st LOCK_KEY body None
       | Some e \<Rightarrow> and_then (st_get st LOCK_KEY) (\<lambda>(existing_body, _).
           and_then (lift_res (from_slice J existing_body)) (\<lambda>prev.
           and_then (lift_res (lock_free K prev now)) (\<lambda>_.
           st_put_if_unmodified st LOCK_KEY body (Some e))))) w2 = (Inr p, w')"
      "g = \<lparr>lg_store = st, lg_etag = pr_etag p\<rparr>"
    unfolding acquire_def Let_def by (auto elim!: io_elims)
  have w2: "objs w2 = objs w"
    using head_keeps steps(3) w1 by (metis keepsD)
  have "objs w LOCK_KEY = None \<or>
      (\<exists>b e prev. objs w LOCK_KEY = Some (b, e) \<and> from_slice J b = Inr prev \<and>
        lk_expires_at prev \<le> now)"
  proof (cases h)
    case None
    then show ?thesis
      using put(1) create_only_ok [of LOCK_KEY body w2 p w'] w2 by simp
  next
    case (Some e)
    then obtain b e' w3 prev where "st_get st LOCK_KEY w2 = (Inr (b, e'), w3)"
      and "from_slice J b = Inr prev" and "lk_expires_at prev \<le> now"
      using put(1) by (auto elim!: io_elims split: prod.splits)
    then show ?thesis
      using get_ok w2 by metis
  qed
  moreover have "objs w' LOCK_KEY = Some (body, lg_etag g)"
    using put by (auto elim!: io_elims split: option.splits prod.splits dest: cas_ok)
  ultimately show thesis
    using that now steps put(2) by auto
qed

text \<open>On a store that is up, the lock is taken exactly when there is none or it has expired.\<close>

lemma acquire_responsive:
  assumes up: "responsive st objs" and clock: "keeps objs (utc_now K)"
    and ttl: "add_std_duration K (fst (utc_now K w)) ttl = Inr expires"
    and body: "to_vec_pretty J \<lparr>lk_run_id = run_id, lk_created_at = fst (utc_now K w),
      lk_expires_at = expires\<rparr> = Inr body"
  shows "if takeable J objs (fst (utc_now K w)) w
    then \<exists>g w'. acquire K J st run_id ttl w = (Inr g, w') \<and> lg_store g = st \<and>
      objs w' LOCK_KEY = Some (body, lg_etag g)
    else \<exists>e w'. acquire K J st run_id ttl w = (Inl e, w') \<and> objs w' = objs w"
proof -
  obtain now w1 where now: "utc_now K w = (now, w1)" by fastforce
  with clock have w1: "objs w1 = objs w" by (rule keepsD)
  obtain w2 where hd: "st_head st LOCK_KEY w1 = (Inr (etag_at objs LOCK_KEY w), w2)"
    using responsiveD(2) [OF up, of LOCK_KEY w1] w1 by (auto simp: etag_at_def)
  have w2: "objs w2 = objs w" using keepsD [OF head_keeps hd] w1 by simp
  note start = acquire_def and_then_def effect_def lift_res_def now hd Let_def ttl body ret_def fail_def
  have body': "to_vec_pretty J \<lparr>lk_run_id = run_id, lk_created_at = now, lk_expires_at = expires\<rparr> = Inr body"
    and ttl': "add_std_duration K now ttl = Inr expires"
    using body ttl now by simp_all
  show ?thesis
  proof (cases "objs w LOCK_KEY")
    case None
    then obtain p w3 where cas: "st_put_if_unmodified st LOCK_KEY body None w2 = (Inr p, w3)"
      using responsiveD(4) [OF up, of LOCK_KEY w2 None body] w2 by (auto simp: etag_at_def)
    then have "acquire K J st run_id ttl w = (Inr \<lparr>lg_store = st, lg_etag = pr_etag p\<rparr>, w3)"
      using None by (simp add: start body' ttl' etag_at_def)
    with cas_ok [OF cas] None show ?thesis
      by (simp add: takeable_def)
  next
    case (Some be)
    obtain b e where be: "be = (b, e)" by fastforce
    obtain w3 where gt: "st_get st LOCK_KEY w2 = (Inr (b, e), w3)"
      using responsiveD(1) [OF up, of w2 LOCK_KEY b e] Some w2 be by auto
    have w3: "objs w3 = objs w" using keepsD [OF get_keeps gt] w2 by simp
    have head: "etag_at objs LOCK_KEY w = Some e" using Some be by (simp add: etag_at_def)
    obtain p w4 where cas: "st_put_if_unmodified st LOCK_KEY body (Some e) w3 = (Inr p, w4)"
      using responsiveD(4) [OF up, of LOCK_KEY w3 "Some e" body] w3 head by (auto simp: etag_at_def)
    show ?thesis
    proof (cases "from_slice J b")
      case Inl
      then show ?thesis
        using Some be head w3 by (simp add: start body' ttl' gt takeable_def)
    next
      case (Inr prev)
      then show ?thesis
        using Some be head w3 cas_ok [OF cas]
        by (simp add: start body' ttl' gt takeable_def lock_free_def cas)
    qed
  qed
qed

text \<open>Releasing removes the lock only while it is the one that was taken.\<close>

lemma release_own:
  assumes "lg_store g = st" and "release g w = (Inr u, w')"
  shows "objs w' LOCK_KEY = None"
    and "objs w LOCK_KEY = None \<or> etag_at objs LOCK_KEY w = Some (lg_etag g)"
  using assms delete_ok [of LOCK_KEY "lg_etag g" w u w'] by (auto simp: release_def)

lemma release_foreign:
  assumes "lg_store g = st" and "objs w LOCK_KEY \<noteq> None"
    and "etag_at objs LOCK_KEY w \<noteq> Some (lg_etag g)"
  shows "objs (snd (release g w)) = objs w"
  using assms delete_refused [of w LOCK_KEY "lg_etag g"] by (simp add: release_def)

lemma release_frame:
  "lg_store g = st \<Longrightarrow> k \<noteq> LOCK_KEY \<Longrightarrow> keeps (body_at objs k) (release g)"
  unfolding release_def using delete_frame by simp

end

section \<open>Properties\<close>

definition bench_lock_a :: lock where
  "bench_lock_a = \<lparr>lk_run_id = ''run-1'', lk_created_at = 0, lk_expires_at = 60 * 10 ^ 9\<rparr>"

definition bench_lock_b :: lock where
  "bench_lock_b =
    \<lparr>lk_run_id = ''run-2'', lk_created_at = 100 * 10 ^ 9, lk_expires_at = 130 * 10 ^ 9\<rparr>"

definition bench_lock_json :: "lock serde" where
  "bench_lock_json = table_serde [(bench_lock_a, ''A''), (bench_lock_b, ''B'')]"

text \<open>A store that holds the lock of \<open>run-1\<close>, at a time of the reader's choice.\<close>

definition bench_locked :: "datetime \<Rightarrow> bench" where
  "bench_locked t =
    (bench_start t)\<lparr>bn_primary := \<lparr>inner = [(LOCK_KEY, ''A'', 1)], counter = 1\<rparr>\<rparr>"

lemma bench_locked_object: "bench_objects (bench_locked t) LOCK_KEY = Some (''A'', show_nat 1)"
  by (simp add: bench_objects_def bench_locked_def mem_objects_def)

lemma bench_lock_json_a: "from_slice bench_lock_json ''A'' = Inr bench_lock_a"
  by (simp add: bench_lock_json_def)

lemma bench_lock_b_text: "to_vec_pretty bench_lock_json bench_lock_b = Inr ''B''"
  by (simp add: bench_lock_json_def bench_lock_a_def bench_lock_b_def)

text \<open>
  A call of \<open>acquire\<close> on a store whose \<open>lock.json\<close> holds a lock that has not expired at the
  time the call reads returns an error and leaves every object of the store, body and etag, as it
  was, whatever the requests on the way return.
\<close>

theorem live_lock_refused:
  assumes "snapshot_store st objs" and "keeps objs (utc_now K)"
    and "objs w LOCK_KEY = Some (b, e)" and "from_slice J b = Inr prev"
    and "lk_expires_at prev > fst (utc_now K w)"
  shows "(\<exists>err. fst (acquire K J st run_id ttl w) = Inl err) \<and>
    objs (snd (acquire K J st run_id ttl w)) = objs w"
  using assms(2-5) by (rule snapshot_store.acquire_live [OF assms(1)])

theorem live_lock_refused_witness:
  "(\<exists>err. fst (acquire bench_chrono bench_lock_json bench_primary ''run-2'' 30
      (bench_locked (50 * 10 ^ 9))) = Inl err) \<and>
    bench_objects (snd (acquire bench_chrono bench_lock_json bench_primary ''run-2'' 30
      (bench_locked (50 * 10 ^ 9)))) = bench_objects (bench_locked (50 * 10 ^ 9))"
  by (rule live_lock_refused [OF bench.snapshot_store_axioms bench_clock_keeps
        bench_locked_object bench_lock_json_a])
    (simp add: bench_lock_a_def bench_chrono_def bench_locked_def bench_start_def)

text \<open>
  C30: On a store that is up a crashed run does not block the next for longer than its TTL, and a
  live one always does: \<open>acquire\<close> succeeds exactly when there is no lock or it has expired at the
  time read; then \<open>lock.json\<close> holds the caller's run id with that time and the time plus the TTL,
  under the etag the guard keeps, and otherwise no object has changed.
\<close>

theorem acquire_exactly_when_free:
  assumes "snapshot_store st objs" and "responsive st objs" and "keeps objs (utc_now K)"
    and "add_std_duration K (fst (utc_now K w)) ttl = Inr expires"
    and "to_vec_pretty J \<lparr>lk_run_id = run_id, lk_created_at = fst (utc_now K w),
      lk_expires_at = expires\<rparr> = Inr body"
  shows "if takeable J objs (fst (utc_now K w)) w
    then \<exists>g w'. acquire K J st run_id ttl w = (Inr g, w') \<and> lg_store g = st \<and>
      objs w' LOCK_KEY = Some (body, lg_etag g)
    else \<exists>e w'. acquire K J st run_id ttl w = (Inl e, w') \<and> objs w' = objs w"
  using assms(2-5) by (rule snapshot_store.acquire_responsive [OF assms(1)])

theorem acquire_exactly_when_free_witness:
  "\<exists>g w'. acquire bench_chrono bench_lock_json bench_primary ''run-2'' 30 (bench_locked 100000000000) =
    (Inr g, w') \<and> bench_objects w' LOCK_KEY = Some (''B'', lg_etag g)"
proof -
  let ?w = "bench_locked 100000000000"
  have now: "fst (utc_now bench_chrono ?w) = 100000000000"
    by (simp add: bench_chrono_def bench_locked_def bench_start_def)
  have free: "takeable bench_lock_json bench_objects 100000000000 ?w"
    by (simp add: takeable_def bench_locked_object bench_lock_json_a) (simp add: bench_lock_a_def)
  have ttl: "add_std_duration bench_chrono 100000000000 30 = Inr 130000000000"
    by (simp add: bench_chrono_def)
  have body: "to_vec_pretty bench_lock_json \<lparr>lk_run_id = ''run-2'', lk_created_at = 100000000000,
      lk_expires_at = 130000000000\<rparr> = Inr ''B''"
    using bench_lock_b_text by (simp add: bench_lock_b_def)
  from acquire_exactly_when_free [OF bench.snapshot_store_axioms bench_responsive bench_clock_keeps,
      of ?w, unfolded now, OF ttl body] free
  show ?thesis by auto
qed

text \<open>
  A lock \<open>acquire\<close> returns was free, or held a lock that had expired at the time read; and
  \<open>lock.json\<close> now holds the caller's run id with that time and the time plus the TTL, under the
  etag the guard keeps.
\<close>

theorem acquired_lock_installed:
  assumes "snapshot_store st objs" and "keeps objs (utc_now K)"
    and "acquire K J st run_id ttl w = (Inr g, w')"
  shows "\<exists>expires body.
    add_std_duration K (fst (utc_now K w)) ttl = Inr expires \<and>
    to_vec_pretty J \<lparr>lk_run_id = run_id, lk_created_at = fst (utc_now K w),
      lk_expires_at = expires\<rparr> = Inr body \<and>
    objs w' LOCK_KEY = Some (body, lg_etag g) \<and>
    (objs w LOCK_KEY = None \<or>
      (\<exists>b e prev. objs w LOCK_KEY = Some (b, e) \<and> from_slice J b = Inr prev \<and>
        lk_expires_at prev \<le> fst (utc_now K w)))"
  by (rule snapshot_store.acquire_taken [OF assms]) auto

lemma bench_acquire_expired:
  "acquire bench_chrono bench_lock_json bench_primary ''run-2'' 30 (bench_locked (100 * 10 ^ 9)) =
    (Inr \<lparr>lg_store = bench_primary, lg_etag = show_nat 2\<rparr>,
     \<lparr>bn_primary = \<lparr>inner = [(LOCK_KEY, ''B'', 2)], counter = 2\<rparr>, bn_mirror = mem_new,
      bn_clock = 101 * 10 ^ 9\<rparr>)"
proof -
  have b: "to_vec_pretty bench_lock_json
      \<lparr>lk_run_id = ''run-2'', lk_created_at = 100000000000, lk_expires_at = 130000000000\<rparr> = Inr ''B''"
    using bench_lock_b_text by (simp add: bench_lock_b_def)
  show ?thesis
    by (simp add: acquire_def and_then_def effect_def lift_res_def bench_chrono_def ret_def
        bench_locked_def bench_start_def bench_primary_def mem_store_def mem_head_def mem_get_def
        mem_put_if_unmodified_def mem_put_def on_part_def b bench_lock_json_a bench_lock_a_def
        lock_free_def)
qed

theorem acquired_lock_installed_witness:
  "\<exists>expires body.
    add_std_duration bench_chrono (fst (utc_now bench_chrono (bench_locked (100 * 10 ^ 9)))) 30 =
      Inr expires \<and>
    to_vec_pretty bench_lock_json \<lparr>lk_run_id = ''run-2'',
      lk_created_at = fst (utc_now bench_chrono (bench_locked (100 * 10 ^ 9))),
      lk_expires_at = expires\<rparr> = Inr body \<and>
    bench_objects \<lparr>bn_primary = \<lparr>inner = [(LOCK_KEY, ''B'', 2)], counter = 2\<rparr>,
      bn_mirror = mem_new, bn_clock = 101 * 10 ^ 9\<rparr> LOCK_KEY = Some (body, show_nat 2)"
  using acquired_lock_installed [OF bench.snapshot_store_axioms bench_clock_keeps
      bench_acquire_expired]
  by auto

text \<open>
  Releasing a guard never removes somebody else's lock: when \<open>lock.json\<close> holds an object under
  another etag than the guard's, the store is left as it was, and when the release succeeds the
  lock is gone and was the guard's own.
\<close>

theorem release_only_own:
  assumes "snapshot_store (lg_store g) objs"
  shows "if objs w LOCK_KEY \<noteq> None \<and> etag_at objs LOCK_KEY w \<noteq> Some (lg_etag g)
    then objs (snd (release g w)) = objs w
    else (case release g w of (Inr u, w') \<Rightarrow> objs w' LOCK_KEY = None | (Inl e, w') \<Rightarrow> True)"
  using snapshot_store.release_foreign [OF assms refl] snapshot_store.release_own [OF assms refl]
  by (auto split: prod.splits sum.splits)

theorem release_only_own_witness:
  "bench_objects (snd (release \<lparr>lg_store = bench_primary, lg_etag = show_nat 7\<rparr> (bench_locked 0))) =
    bench_objects (bench_locked 0)"
  using release_only_own [of "\<lparr>lg_store = bench_primary, lg_etag = show_nat 7\<rparr>" bench_objects
      "bench_locked 0"] bench.snapshot_store_axioms
  by (simp add: bench_locked_object etag_at_def)

end
