(* ===== verification/Lock_Protocol.thy ===== *)
theory Lock_Protocol
  imports Lock
begin

text \<open>
  Any number of processes running \<open>acquire\<close> and \<open>release\<close> of \<open>src/lock.rs\<close> against one store.

  A step is one request of one process, with the reading of the clock a step of its own, so the
  requests of different processes interleave freely and time passes between any two.  A request
  whose answer is lost takes effect without its process learning of it, and a process may stop at
  any point.  The store is the cell \<open>lock.json\<close>: it refuses a conditional write whose etag does not
  match and gives every write an etag it never used before.
\<close>

datatype phase =
    Idle
  | Stamped lock
  | Headed lock "string option"
  | Passed lock string
  | Holding lock string

record lock_sys =
  ls_cell :: "(lock \<times> string) option"
  ls_used :: "string set"
  ls_clock :: datetime
  ls_phase :: "nat \<Rightarrow> phase"

definition set_phase :: "nat \<Rightarrow> phase \<Rightarrow> lock_sys \<Rightarrow> lock_sys" where
  "set_phase i p s = s\<lparr>ls_phase := (ls_phase s)(i := p)\<rparr>"

definition write_cell :: "lock \<Rightarrow> string \<Rightarrow> lock_sys \<Rightarrow> lock_sys" where
  "write_cell l e s = s\<lparr>ls_cell := Some (l, e), ls_used := insert e (ls_used s)\<rparr>"

definition fresh_lock_sys :: "datetime \<Rightarrow> lock_sys" where
  "fresh_lock_sys t = \<lparr>ls_cell = None, ls_used = {}, ls_clock = t, ls_phase = (\<lambda>_. Idle)\<rparr>"

definition stamp :: "string \<Rightarrow> datetime \<Rightarrow> int \<Rightarrow> lock" where
  "stamp run_id now d = \<lparr>lk_run_id = run_id, lk_created_at = now, lk_expires_at = now + d\<rparr>"

text \<open>The rules follow the requests of \<open>acquire\<close> in order, then \<open>release\<close>, then failures.\<close>

inductive lock_step :: "lock_sys \<Rightarrow> lock_sys \<Rightarrow> bool" where
  tick: "ls_clock s \<le> t \<Longrightarrow> lock_step s (s\<lparr>ls_clock := t\<rparr>)"
| start: "ls_phase s i = Idle \<Longrightarrow> 0 \<le> d \<Longrightarrow>
    lock_step s (set_phase i (Stamped (stamp r (ls_clock s) d)) s)"
| look: "ls_phase s i = Stamped l \<Longrightarrow>
    lock_step s (set_phase i (Headed l (map_option snd (ls_cell s))) s)"
| create: "ls_phase s i = Headed l None \<Longrightarrow> ls_cell s = None \<Longrightarrow> e \<notin> ls_used s \<Longrightarrow>
    lock_step s (set_phase i (Holding l e) (write_cell l e s))"
| create_lost: "ls_phase s i = Headed l None \<Longrightarrow> ls_cell s = None \<Longrightarrow> e \<notin> ls_used s \<Longrightarrow>
    lock_step s (set_phase i Idle (write_cell l e s))"
| expired: "ls_phase s i = Headed l (Some e) \<Longrightarrow> ls_cell s = Some (prev, e') \<Longrightarrow>
    lk_expires_at prev \<le> lk_created_at l \<Longrightarrow> lock_step s (set_phase i (Passed l e) s)"
| overwrite: "ls_phase s i = Passed l e \<Longrightarrow> ls_cell s = Some (prev, e) \<Longrightarrow> e' \<notin> ls_used s \<Longrightarrow>
    lock_step s (set_phase i (Holding l e') (write_cell l e' s))"
| overwrite_lost: "ls_phase s i = Passed l e \<Longrightarrow> ls_cell s = Some (prev, e) \<Longrightarrow> e' \<notin> ls_used s \<Longrightarrow>
    lock_step s (set_phase i Idle (write_cell l e' s))"
| let_go: "ls_phase s i = Holding l e \<Longrightarrow> ls_cell s = Some (prev, e) \<Longrightarrow>
    lock_step s (set_phase i Idle (s\<lparr>ls_cell := None\<rparr>))"
| stop: "lock_step s (set_phase i Idle s)"

inductive lock_reachable :: "lock_sys \<Rightarrow> bool" where
  init: "lock_reachable (fresh_lock_sys t)"
| step: "lock_reachable s \<Longrightarrow> lock_step s s' \<Longrightarrow> lock_reachable s'"

section \<open>The invariant\<close>

text \<open>
  Every etag a process remembers was used, so a later write never brings it back; a process that
  passed the expiry test passed it against whatever the cell holds under the etag it will present;
  and a holder whose lock has not expired is the one in the cell.
\<close>

fun phase_lock :: "phase \<Rightarrow> lock option" where
  "phase_lock Idle = None"
| "phase_lock (Stamped l) = Some l"
| "phase_lock (Headed l _) = Some l"
| "phase_lock (Passed l _) = Some l"
| "phase_lock (Holding l _) = Some l"

fun phase_etag :: "phase \<Rightarrow> string option" where
  "phase_etag (Headed _ e) = e"
| "phase_etag (Passed _ e) = Some e"
| "phase_etag (Holding _ e) = Some e"
| "phase_etag _ = None"

definition stamps_past :: "lock_sys \<Rightarrow> bool" where
  "stamps_past s \<longleftrightarrow> (\<forall>i l. phase_lock (ls_phase s i) = Some l \<longrightarrow> lk_created_at l \<le> ls_clock s)"

definition etags_used :: "lock_sys \<Rightarrow> bool" where
  "etags_used s \<longleftrightarrow>
    (\<forall>i e. phase_etag (ls_phase s i) = Some e \<longrightarrow> e \<in> ls_used s) \<and>
    (\<forall>l e. ls_cell s = Some (l, e) \<longrightarrow> e \<in> ls_used s)"

definition passed_expired :: "lock_sys \<Rightarrow> bool" where
  "passed_expired s \<longleftrightarrow>
    (\<forall>i l e p. ls_phase s i = Passed l e \<longrightarrow> ls_cell s = Some (p, e) \<longrightarrow>
      lk_expires_at p \<le> lk_created_at l)"

definition holders_own :: "lock_sys \<Rightarrow> bool" where
  "holders_own s \<longleftrightarrow>
    (\<forall>i l e. ls_phase s i = Holding l e \<longrightarrow>
      ls_cell s = Some (l, e) \<or> lk_expires_at l \<le> ls_clock s)"

definition holders_differ :: "lock_sys \<Rightarrow> bool" where
  "holders_differ s \<longleftrightarrow>
    (\<forall>i j l l' e. ls_phase s i = Holding l e \<longrightarrow> ls_phase s j = Holding l' e \<longrightarrow> i = j)"

definition cell_of_holder :: "lock_sys \<Rightarrow> bool" where
  "cell_of_holder s \<longleftrightarrow>
    (\<forall>i l e p. ls_phase s i = Holding l e \<longrightarrow> ls_cell s = Some (p, e) \<longrightarrow> p = l)"

definition lock_inv :: "lock_sys \<Rightarrow> bool" where
  "lock_inv s \<longleftrightarrow> stamps_past s \<and> etags_used s \<and> passed_expired s \<and> holders_own s \<and>
    holders_differ s \<and> cell_of_holder s"

lemmas lock_inv_defs = lock_inv_def stamps_past_def etags_used_def passed_expired_def
  holders_own_def holders_differ_def cell_of_holder_def

lemma set_phase_simps [simp]:
  "ls_cell (set_phase i p s) = ls_cell s"
  "ls_used (set_phase i p s) = ls_used s"
  "ls_clock (set_phase i p s) = ls_clock s"
  "ls_phase (set_phase i p s) j = (if j = i then p else ls_phase s j)"
  by (simp_all add: set_phase_def)

lemma write_cell_simps [simp]:
  "ls_cell (write_cell l e s) = Some (l, e)"
  "ls_used (write_cell l e s) = insert e (ls_used s)"
  "ls_clock (write_cell l e s) = ls_clock s"
  "ls_phase (write_cell l e s) = ls_phase s"
  by (simp_all add: write_cell_def)

lemma lock_inv_fresh: "lock_inv (fresh_lock_sys t)"
  by (simp add: lock_inv_defs fresh_lock_sys_def)

lemma stamps_pastD:
  "stamps_past s \<Longrightarrow> ls_phase s i = p \<Longrightarrow> phase_lock p = Some l \<Longrightarrow> lk_created_at l \<le> ls_clock s"
  by (auto simp: stamps_past_def)

lemma etags_usedD:
  "etags_used s \<Longrightarrow> ls_phase s i = p \<Longrightarrow> phase_etag p = Some e \<Longrightarrow> e \<in> ls_used s"
  "etags_used s \<Longrightarrow> ls_cell s = Some (l, e) \<Longrightarrow> e \<in> ls_used s"
  by (auto simp: etags_used_def)

lemma stamps_past_step:
  assumes "lock_step s s'" and "stamps_past s"
  shows "stamps_past s'"
proof -
  have "lk_created_at l \<le> ls_clock s'" if "phase_lock (ls_phase s' i) = Some l" for i l
    using assms that
    by (induction rule: lock_step.induct)
      (fastforce dest: stamps_pastD simp: stamp_def split: if_splits)+
  then show ?thesis
    by (simp add: stamps_past_def)
qed

lemma etags_used_step:
  assumes "lock_step s s'" and "etags_used s"
  shows "etags_used s'"
proof -
  have "e \<in> ls_used s'" if "phase_etag (ls_phase s' i) = Some e" for i e
    using assms that
    by (induction rule: lock_step.induct) (fastforce dest: etags_usedD split: if_splits)+
  moreover have "e \<in> ls_used s'" if "ls_cell s' = Some (l, e)" for l e
    using assms that
    by (induction rule: lock_step.induct) (auto dest: etags_usedD(2))
  ultimately show ?thesis
    by (auto simp: etags_used_def)
qed

lemma passed_expired_step:
  assumes "lock_step s s'" and "etags_used s" and "passed_expired s"
  shows "passed_expired s'"
  unfolding passed_expired_def
proof (intro allI impI)
  fix i l e p
  assume "ls_phase s' i = Passed l e" and "ls_cell s' = Some (p, e)"
  with assms show "lk_expires_at p \<le> lk_created_at l"
    by (induction rule: lock_step.induct)
      (fastforce simp: passed_expired_def dest: etags_usedD(1) split: if_splits)+
qed

lemma holders_differ_step:
  assumes "lock_step s s'" and "etags_used s" and "holders_differ s"
  shows "holders_differ s'"
  unfolding holders_differ_def
proof (intro allI impI)
  fix i j l l' e
  assume "ls_phase s' i = Holding l e" and "ls_phase s' j = Holding l' e"
  with assms show "i = j"
    by (induction rule: lock_step.induct)
      (fastforce simp: holders_differ_def dest: etags_usedD(1) split: if_splits)+
qed

lemma cell_of_holder_step:
  assumes "lock_step s s'" and "etags_used s" and "cell_of_holder s"
  shows "cell_of_holder s'"
  unfolding cell_of_holder_def
proof (intro allI impI)
  fix i l e p
  assume "ls_phase s' i = Holding l e" and "ls_cell s' = Some (p, e)"
  with assms show "p = l"
    by (induction rule: lock_step.induct)
      (fastforce simp: cell_of_holder_def dest: etags_usedD(1) split: if_splits)+
qed

text \<open>
  The heart of the argument: the only writes that remove a holder's lock are its own release and
  an overwrite, and an overwrite has seen that lock expired at a time that is now past.
\<close>

lemma holders_own_step:
  assumes "lock_step s s'" and inv: "lock_inv s"
  shows "holders_own s'"
  unfolding holders_own_def
proof (intro allI impI)
  fix i l e
  assume "ls_phase s' i = Holding l e"
  with assms show "ls_cell s' = Some (l, e) \<or> lk_expires_at l \<le> ls_clock s'"
  proof (induction rule: lock_step.induct)
    case (overwrite s j l' e1 prev e')
    then have "lk_expires_at prev \<le> lk_created_at l'" and "lk_created_at l' \<le> ls_clock s"
      by (auto simp: lock_inv_def passed_expired_def dest: stamps_pastD)
    with overwrite show ?case
      by (fastforce simp: lock_inv_defs split: if_splits)
  next
    case (overwrite_lost s j l' e1 prev e')
    then have "lk_expires_at prev \<le> lk_created_at l'" and "lk_created_at l' \<le> ls_clock s"
      by (auto simp: lock_inv_def passed_expired_def dest: stamps_pastD)
    with overwrite_lost show ?case
      by (fastforce simp: lock_inv_defs split: if_splits)
  next
    case (tick s t)
    then show ?case by (fastforce simp: lock_inv_def holders_own_def)
  qed (fastforce simp: lock_inv_def holders_own_def holders_differ_def split: if_splits)+
qed

lemma lock_inv_step: "lock_step s s' \<Longrightarrow> lock_inv s \<Longrightarrow> lock_inv s'"
  using stamps_past_step etags_used_step passed_expired_step holders_own_step
    holders_differ_step cell_of_holder_step
  by (simp add: lock_inv_def)

lemma lock_inv_reachable: "lock_reachable s \<Longrightarrow> lock_inv s"
  by (induction rule: lock_reachable.induct) (auto intro: lock_inv_fresh lock_inv_step)

lemma live_holder_cell:
  "lock_reachable s \<Longrightarrow> ls_phase s i = Holding l e \<Longrightarrow> ls_clock s < lk_expires_at l \<Longrightarrow>
    ls_cell s = Some (l, e)"
  using lock_inv_reachable [of s] by (fastforce simp: lock_inv_def holders_own_def)

lemma live_holders_equal:
  "lock_reachable s \<Longrightarrow> ls_phase s i = Holding l e \<Longrightarrow> ls_phase s j = Holding l' e' \<Longrightarrow>
    ls_clock s < lk_expires_at l \<Longrightarrow> ls_clock s < lk_expires_at l' \<Longrightarrow> i = j"
  using live_holder_cell [of s i l e] live_holder_cell [of s j l' e'] lock_inv_reachable [of s]
  by (auto simp: lock_inv_def holders_differ_def)

section \<open>One undisturbed call is a run of the protocol\<close>

definition cell_of :: "lock serde \<Rightarrow> 'w objects \<Rightarrow> 'w \<Rightarrow> (lock \<times> string) option" where
  "cell_of J objs w =
    (case objs w LOCK_KEY of
       None \<Rightarrow> None
     | Some (b, e) \<Rightarrow> (case from_slice J b of Inr l \<Rightarrow> Some (l, e) | Inl _ \<Rightarrow> None))"

lemma three_steps: "R a b \<Longrightarrow> R b c \<Longrightarrow> R c d \<Longrightarrow> R\<^sup>*\<^sup>* a d"
  by (blast intro: converse_rtranclp_into_rtranclp)

lemma four_steps: "R a b \<Longrightarrow> R b c \<Longrightarrow> R c d \<Longrightarrow> R d f \<Longrightarrow> R\<^sup>*\<^sup>* a f"
  by (blast intro: converse_rtranclp_into_rtranclp)

text \<open>What \<open>acquire\<close> does in one go, the process of the protocol does step by step.\<close>

lemma lock_steps_create:
  assumes "ls_cell s = None" and "ls_phase s i = Idle" and "0 \<le> d" and "e \<notin> ls_used s"
  shows "\<exists>s'. lock_step\<^sup>*\<^sup>* s s' \<and> ls_cell s' = Some (stamp r (ls_clock s) d, e) \<and>
    ls_phase s' i = Holding (stamp r (ls_clock s) d) e \<and> ls_clock s' = ls_clock s"
proof -
  let ?l = "stamp r (ls_clock s) d"
  let ?s1 = "set_phase i (Stamped ?l) s"
  let ?s2 = "set_phase i (Headed ?l None) ?s1"
  let ?s3 = "set_phase i (Holding ?l e) (write_cell ?l e ?s2)"
  have "lock_step s ?s1"
    using assms by (intro lock_step.start)
  moreover have "lock_step ?s1 ?s2"
    using lock_step.look [of ?s1 i ?l] assms(1) by simp
  moreover have "lock_step ?s2 ?s3"
    using assms by (intro lock_step.create) auto
  ultimately have "lock_step\<^sup>*\<^sup>* s ?s3" by (rule three_steps)
  then show ?thesis by (intro exI [of _ ?s3]) simp
qed

lemma lock_steps_overwrite:
  assumes "ls_cell s = Some (prev, e0)" and "ls_phase s i = Idle" and "0 \<le> d"
    and "e \<notin> ls_used s" and "lk_expires_at prev \<le> ls_clock s"
  shows "\<exists>s'. lock_step\<^sup>*\<^sup>* s s' \<and> ls_cell s' = Some (stamp r (ls_clock s) d, e) \<and>
    ls_phase s' i = Holding (stamp r (ls_clock s) d) e \<and> ls_clock s' = ls_clock s"
proof -
  let ?l = "stamp r (ls_clock s) d"
  let ?s1 = "set_phase i (Stamped ?l) s"
  let ?s2 = "set_phase i (Headed ?l (Some e0)) ?s1"
  let ?s3 = "set_phase i (Passed ?l e0) ?s2"
  let ?s4 = "set_phase i (Holding ?l e) (write_cell ?l e ?s3)"
  have "lock_step s ?s1"
    using assms by (intro lock_step.start)
  moreover have "lock_step ?s1 ?s2"
    using lock_step.look [of ?s1 i ?l] assms(1) by simp
  moreover have "lock_step ?s2 ?s3"
    using assms by (intro lock_step.expired) (auto simp: stamp_def)
  moreover have "lock_step ?s3 ?s4"
    using assms by (intro lock_step.overwrite) auto
  ultimately have "lock_step\<^sup>*\<^sup>* s ?s4" by (rule four_steps)
  then show ?thesis by (intro exI [of _ ?s4]) simp
qed

section \<open>Properties\<close>

text \<open>
  C6: Mutual exclusion.  In every state reachable by any interleaving of any number of processes
  running the requests of \<open>acquire\<close> and \<open>release\<close>, with lost answers and processes that stop, two
  processes that hold locks which have not expired are the same process, and the lock in the store
  is the one it holds.
\<close>

theorem lock_mutual_exclusion:
  assumes "lock_reachable s"
    and "ls_phase s i = Holding l e" and "ls_clock s < lk_expires_at l"
    and "ls_phase s j = Holding l' e'" and "ls_clock s < lk_expires_at l'"
  shows "i = j \<and> ls_cell s = Some (l, e)"
  using assms live_holders_equal live_holder_cell by blast

text \<open>
  The witness runs two processes: process 1 takes the lock, then process 2 looks and finds it live.
\<close>

definition demo_lock :: lock where
  "demo_lock = stamp ''run-1'' 0 60"

definition demo_held :: lock_sys where
  "demo_held = \<lparr>ls_cell = Some (demo_lock, ''e1''), ls_used = {''e1''}, ls_clock = 0,
    ls_phase = (\<lambda>_. Idle)(1 := Holding demo_lock ''e1'')\<rparr>"

lemma demo_held_reachable: "lock_reachable demo_held"
proof -
  let ?s0 = "fresh_lock_sys 0"
  let ?s1 = "set_phase 1 (Stamped demo_lock) ?s0"
  let ?s2 = "set_phase 1 (Headed demo_lock None) ?s1"
  let ?s3 = "set_phase 1 (Holding demo_lock ''e1'') (write_cell demo_lock ''e1'' ?s2)"
  have "lock_step ?s0 ?s1"
    using lock_step.start [of ?s0 1 60 "''run-1''"] by (simp add: fresh_lock_sys_def demo_lock_def)
  moreover have "lock_step ?s1 ?s2"
    using lock_step.look [of ?s1 1 demo_lock] by (simp add: fresh_lock_sys_def)
  moreover have "lock_step ?s2 ?s3"
    by (rule lock_step.create) (auto simp: fresh_lock_sys_def)
  ultimately have "lock_reachable ?s3"
    by (blast intro: lock_reachable.intros)
  moreover have "?s3 = demo_held"
    by (simp add: demo_held_def set_phase_def write_cell_def fresh_lock_sys_def)
  ultimately show ?thesis by simp
qed

theorem lock_mutual_exclusion_witness:
  "(1 :: nat) = 1 \<and> ls_cell demo_held = Some (demo_lock, ''e1'')"
  by (rule lock_mutual_exclusion [OF demo_held_reachable, where l' = demo_lock and e' = "''e1''"])
    (simp_all add: demo_held_def demo_lock_def stamp_def)

text \<open>
  C19: The protocol is what the code does.  A call of \<open>acquire\<close> that returns a guard, on a store that
  meets the contract, is a run of the protocol's steps of one process from idle to holding the lock
  it wrote, ending with the same \<open>lock.json\<close>.
\<close>

theorem acquire_refines_protocol:
  assumes "snapshot_store st objs" and "keeps objs (utc_now K)" and "durations_add K"
    and ok: "acquire K J st run_id ttl w = (Inr g, w')"
    and round: "\<And>l. serde_ok J l"
    and rel: "ls_cell s = cell_of J objs w" "ls_clock s = fst (utc_now K w)" "ls_phase s i = Idle"
    and fresh: "lg_etag g \<notin> ls_used s"
  shows "\<exists>s' l. lock_step\<^sup>*\<^sup>* s s' \<and> ls_phase s' i = Holding l (lg_etag g) \<and>
    ls_cell s' = cell_of J objs w' \<and> ls_clock s' = ls_clock s"
proof (rule snapshot_store.acquire_taken [OF assms(1,2) ok])
  fix now expires body
  assume now: "fst (utc_now K w) = now" and add: "add_std_duration K now ttl = Inr expires"
    and ser: "to_vec_pretty J \<lparr>lk_run_id = run_id, lk_created_at = now, lk_expires_at = expires\<rparr> =
      Inr body"
    and new: "objs w' LOCK_KEY = Some (body, lg_etag g)"
    and old: "objs w LOCK_KEY = None \<or> (\<exists>b e prev. objs w LOCK_KEY = Some (b, e) \<and>
      from_slice J b = Inr prev \<and> lk_expires_at prev \<le> now)"
  let ?d = "int ttl * 10 ^ 9"
  have lk: "\<lparr>lk_run_id = run_id, lk_created_at = now, lk_expires_at = expires\<rparr> =
      stamp run_id (ls_clock s) ?d"
    using add assms(3) now rel(2) by (simp add: stamp_def durations_add_def)
  have "cell_of J objs w' = Some (stamp run_id (ls_clock s) ?d, lg_etag g)"
    using new serde_to_vec_pretty [OF round ser] by (simp add: cell_of_def lk)
  moreover have "ls_cell s = None \<or> (\<exists>prev e. ls_cell s = Some (prev, e) \<and>
      lk_expires_at prev \<le> ls_clock s)"
    using old now rel by (auto simp: cell_of_def)
  moreover have "(0 :: int) \<le> ?d" by simp
  ultimately show ?thesis
    using lock_steps_create [OF _ rel(3) _ fresh] lock_steps_overwrite [OF _ rel(3) _ fresh]
    by metis
qed

lemma bench_lock_json_ok: "serde_ok bench_lock_json l"
  by (auto simp: serde_ok_def bench_lock_json_def split: if_splits)

definition demo_expired :: lock_sys where
  "demo_expired = \<lparr>ls_cell = Some (bench_lock_a, show_nat 1), ls_used = {show_nat 1},
    ls_clock = 100 * 10 ^ 9, ls_phase = (\<lambda>_. Idle)\<rparr>"

theorem acquire_refines_protocol_witness:
  "\<exists>s' l. lock_step\<^sup>*\<^sup>* demo_expired s' \<and> ls_phase s' 2 = Holding l (show_nat 2) \<and>
    ls_cell s' = cell_of bench_lock_json bench_objects
      \<lparr>bn_primary = \<lparr>inner = [(LOCK_KEY, ''B'', 2)], counter = 2\<rparr>, bn_mirror = mem_new,
       bn_clock = 101 * 10 ^ 9\<rparr> \<and>
    ls_clock s' = ls_clock demo_expired"
proof -
  have "ls_cell demo_expired = cell_of bench_lock_json bench_objects (bench_locked (100 * 10 ^ 9))"
    by (simp add: demo_expired_def cell_of_def bench_locked_object bench_lock_json_a)
  moreover have "ls_clock demo_expired = fst (utc_now bench_chrono (bench_locked (100 * 10 ^ 9)))"
    by (simp add: demo_expired_def bench_chrono_def bench_locked_def bench_start_def)
  ultimately show ?thesis
    using acquire_refines_protocol [OF bench.snapshot_store_axioms bench_clock_keeps bench_durations
        bench_acquire_expired bench_lock_json_ok, of demo_expired 2]
    by (simp add: demo_expired_def)
qed

end
