(* ===== verification/Json.thy ===== *)
theory Json
  imports Rust_Std
begin

text \<open>
  \<open>serde_json::Value\<close> as the program takes it apart: the variants it matches on and the accessors
  \<open>get\<close>, \<open>as_str\<close> and \<open>as_array\<close>.  A number is its literal text; turning it into an \<open>f64\<close>, parsing,
  printing and RFC 6901 pointers are the crate's, hence parameters.
\<close>

datatype json =
    JNull
  | JBool bool
  | JNumber string
  | JString string
  | JArray "json list"
  | JObject "(string \<times> json) list"

record json_api =
  js_from_slice :: "bytes \<Rightarrow> json res"
  js_to_vec :: "json \<Rightarrow> bytes res"
  js_display :: "json \<Rightarrow> string"
  js_as_f64 :: "string \<Rightarrow> f64 option"
  js_pointer :: "string \<Rightarrow> json \<Rightarrow> json option"

definition json_get :: "string \<Rightarrow> json \<Rightarrow> json option" where
  "json_get k v = (case v of JObject kvs \<Rightarrow> map_of kvs k | _ \<Rightarrow> None)"

definition json_str :: "json \<Rightarrow> string option" where
  "json_str v = (case v of JString s \<Rightarrow> Some s | _ \<Rightarrow> None)"

definition json_f64 :: "json_api \<Rightarrow> json \<Rightarrow> f64 option" where
  "json_f64 JS v = (case v of JNumber n \<Rightarrow> js_as_f64 JS n | _ \<Rightarrow> None)"

end
