(* ===== verification/Http.thy ===== *)
theory Http
  imports Snapshot Json "HOL-Library.AList"
begin

text \<open>
  \<open>reqwest\<close> as the program uses it, and \<open>src/browser/canary.rs\<close>: the HTTP client of the run and
  the probe that decides whether the restored session is still logged in.

  A client is what it was configured with: the cookies added to its jar, its user agent and its
  default headers.  Sending a request and reading a body are effects, and parameters.
\<close>

record http_client =
  hc_jar :: "(string \<times> string) list"
  hc_user_agent :: "string option"
  hc_headers :: "(string \<times> string) list"

record http_request =
  rq_url :: string
  rq_headers :: "(string \<times> string) list"

record http_response =
  rs_status :: nat
  rs_headers :: "(string \<times> string) list"
  rs_body :: string

record 'w http_api =
  http_send :: "http_client \<Rightarrow> http_request \<Rightarrow> ('w, http_response) io"
  http_bytes :: "http_response \<Rightarrow> ('w, bytes) io"
  http_text :: "http_response \<Rightarrow> ('w, string) io"
  http_build :: "http_client \<Rightarrow> http_client res"
  header_name :: "string \<Rightarrow> string res"
  header_value :: "string \<Rightarrow> string res"
  url_parse :: "string \<Rightarrow> string option"

text \<open>\<open>client.get(url).send()\<close>; \<open>StatusCode::is_success\<close> and \<open>is_server_error\<close>.\<close>

definition http_get :: "'w http_api \<Rightarrow> http_client \<Rightarrow> string \<Rightarrow> ('w, http_response) io" where
  "http_get H client url = http_send H client \<lparr>rq_url = url, rq_headers = []\<rparr>"

definition is_success :: "nat \<Rightarrow> bool" where
  "is_success status \<longleftrightarrow> 200 \<le> status \<and> status < 300"

definition is_server_error :: "nat \<Rightarrow> bool" where
  "is_server_error status \<longleftrightarrow> 500 \<le> status \<and> status < 600"

definition http_keeps :: "'w http_api \<Rightarrow> ('w \<Rightarrow> 'v) \<Rightarrow> bool" where
  "http_keeps H v \<longleftrightarrow>
    (\<forall>c rq. keeps v (http_send H c rq)) \<and> (\<forall>rs. keeps v (http_bytes H rs)) \<and>
    (\<forall>rs. keeps v (http_text H rs))"

lemma http_keeps_rules:
  assumes "http_keeps H v"
  shows "keeps v (http_send H c rq)" "keeps v (http_bytes H rs)" "keeps v (http_text H rs)"
    "keeps v (http_get H c url)"
  using assms by (auto simp: http_keeps_def http_get_def)

section \<open>canary.rs\<close>

record canary_cfg =
  cn_url :: string
  cn_expected_status :: nat
  cn_field :: string
  cn_expected_value :: string
  cn_user_agent :: string
  cn_headers :: "(string \<times> string) list"

record canary_result =
  cr_ok :: bool
  cr_status :: nat
  cr_observed :: "string option"

text \<open>
  \<open>for (k, v) in &cfg.headers\<close>: \<open>HeaderMap::insert\<close> replaces an entry of the same name.  The map of
  configured headers is the list of its entries in the order the iteration visits them.
\<close>

fun insert_headers ::
    "'w http_api \<Rightarrow> (string \<times> string) list \<Rightarrow> (string \<times> string) list \<Rightarrow> (string \<times> string) list res" where
  "insert_headers H headers [] = Inr headers"
| "insert_headers H headers ((k, v) # rest) =
    res_bind (res_context (''invalid canary header name '' @ debug_str k) (header_name H k)) (\<lambda>nm.
    res_bind (res_context (''invalid canary header value for '' @ debug_str k) (header_value H v))
      (\<lambda>val. insert_headers H (AList.update nm val headers) rest))"

definition build_client ::
    "'w http_api \<Rightarrow> (string \<times> string) list \<Rightarrow> canary_cfg \<Rightarrow> http_client res" where
  "build_client H jar cfg =
    res_bind (insert_headers H [(''accept'', ''application/json, text/plain, */*'')] (cn_headers cfg))
      (\<lambda>headers.
    res_context ''build canary client''
      (http_build H \<lparr>hc_jar = jar, hc_user_agent = Some (cn_user_agent cfg), hc_headers = headers\<rparr>))"

definition check ::
    "'w http_api \<Rightarrow> json_api \<Rightarrow> http_client \<Rightarrow> string \<Rightarrow> nat \<Rightarrow> string \<Rightarrow> string \<Rightarrow>
      ('w, canary_result) io" where
  "check H JS client url expected_status field_pointer expected_value =
    and_then (with_context ''canary GET'' (http_get H client url)) (\<lambda>resp.
    let status = rs_status resp in
    if status \<noteq> expected_status then
      ret \<lparr>cr_ok = False, cr_status = status, cr_observed = None\<rparr>
    else
      and_then (with_context ''canary JSON parse''
          (and_then (http_bytes H resp) (\<lambda>raw. lift_res (js_from_slice JS raw)))) (\<lambda>body.
      let observed = Option.bind (js_pointer JS field_pointer body) json_str;
          good = (observed = Some expected_value)
      in ret \<lparr>cr_ok = good, cr_status = status, cr_observed = observed\<rparr>))"

lemma keeps_check:
  assumes "http_keeps H v"
  shows "keeps v (check H JS client url st field expected)"
  unfolding check_def Let_def
  by (intro keeps_intros http_keeps_rules [OF assms])

end
