(* ===== verification/Chats_Api.thy ===== *)
theory Chats_Api
  imports Http Bench
begin

text \<open>
  The HTTP client of the chats workload, the second half of \<open>src/workload/chatgpt_chats.rs\<close>: the
  access token and its refresh, the retry loop with its backoff, and the classification of answers.

  The token lives behind a mutex; it is the second component of the state \<open>api\<close>, beside the world.
\<close>

record chats_cfg =
  cf_name :: string
  cf_prefix :: string
  cf_base_url :: string
  cf_session_path :: string
  cf_list_path :: string
  cf_detail_path_template :: string
  cf_list_page_limit :: "32 word"
  cf_incremental_stop_after_known :: "32 word"
  cf_list_delay_ms :: nat
  cf_detail_delay_ms :: nat
  cf_detail_batch_size :: "32 word"
  cf_detail_batch_cooldown_ms :: nat
  cf_retry_sweep_cooldown_ms :: nat
  cf_max_backoff_ms :: nat
  cf_max_retries :: "32 word"
  cf_zstd_level :: int

record conversation_summary =
  sm_id :: string
  sm_title :: "string option"
  sm_update_time :: "f64 option"

text \<open>
  Errors as the source has them.  \<open>OutOfRequests\<close> is the fuel mark of the retry loop and no
  outcome of the code.
\<close>

datatype get_error = Inaccessible string | Transient string | Fatal report | OutOfRequests

datatype fetch_error = FetchInaccessible string | FetchTransient string | FetchFatal report

record 'w api =
  ap_world :: 'w
  ap_token :: string

definition on_world :: "('w, 'e, 'a) eio \<Rightarrow> ('w api, 'e, 'a) eio" where
  "on_world m = on_part ap_world (\<lambda>w s. s\<lparr>ap_world := w\<rparr>) m"

text \<open>
  What the client calls: HTTP, JSON, the parsers derived for the session and list answers, and
  \<open>tokio::time::sleep\<close> in milliseconds.
\<close>

record 'w api_env =
  ae_http :: "'w http_api"
  ae_json :: json_api
  ae_session_from_slice :: "bytes \<Rightarrow> string option res"
  ae_list_from_value :: "json \<Rightarrow> conversation_summary list res"
  ae_sleep :: "nat \<Rightarrow> 'w \<Rightarrow> unit \<times> 'w"

definition api_env_keeps :: "'w api_env \<Rightarrow> ('w \<Rightarrow> 'v) \<Rightarrow> bool" where
  "api_env_keeps E v \<longleftrightarrow> http_keeps (ae_http E) v \<and> (\<forall>n. keeps v (ae_sleep E n))"

section \<open>Backoff\<close>

definition saturating_mul64 :: "nat \<Rightarrow> nat \<Rightarrow> nat" where
  "saturating_mul64 a b = min (a * b) (2 ^ 64 - 1)"

definition saturating_pow64 :: "nat \<Rightarrow> nat \<Rightarrow> nat" where
  "saturating_pow64 a n = min (a ^ n) (2 ^ 64 - 1)"

text \<open>Durations are in milliseconds.\<close>

definition exponential_backoff :: "32 word \<Rightarrow> nat \<Rightarrow> nat" where
  "exponential_backoff att cap_ms =
    (let base = saturating_mul64 30000 (saturating_pow64 2 (unat (min att 5)))
     in min base cap_ms)"

definition retry_after :: "http_response \<Rightarrow> nat option" where
  "retry_after resp =
    map_option (\<lambda>secs. 1000 * secs)
      (Option.bind (map_of (rs_headers resp) ''retry-after'') (parse_unsigned 64))"

section \<open>The session token\<close>

definition fetch_session :: "'w api_env \<Rightarrow> http_client \<Rightarrow> chats_cfg \<Rightarrow> ('w, string) io" where
  "fetch_session E http cfg =
    (let url = cf_base_url cfg @ cf_session_path cfg in
     and_then (with_context (''GET '' @ url) (http_get (ae_http E) http url)) (\<lambda>resp.
     if \<not> is_success (rs_status resp) then
       fail (Msg (url @ '' returned '' @ show_nat (rs_status resp) @
         '' '' @ em_dash @ '' session expired; re-run `repossess seed`''))
     else
       and_then (with_context ''parse session JSON''
         (and_then (http_bytes (ae_http E) resp) (\<lambda>raw. lift_res (ae_session_from_slice E raw))))
       (\<lambda>access_token.
       lift_res (ok_or
         (Msg (''no accessToken in session response '' @ em_dash @
          '' session may be invalid; re-run `repossess seed`''))
         (case access_token of Some t \<Rightarrow> (if t \<noteq> [] then Some t else None) | None \<Rightarrow> None)))))"

text \<open>
  \<open>ChatsApiClient::new\<close>: the first 20 bytes of the token are logged, and \<open>&token[..n]\<close> panics
  when the cut falls inside a character.
\<close>

definition is_char_boundary :: "string \<Rightarrow> nat \<Rightarrow> bool" where
  "is_char_boundary s n \<longleftrightarrow> n = 0 \<or> n = length s \<or> n < length s \<and> \<not> is_cont (s ! n)"

definition api_new :: "'w api_env \<Rightarrow> http_client \<Rightarrow> chats_cfg \<Rightarrow> ('w, string) io" where
  "api_new E http cfg =
    and_then (fetch_session E http cfg) (\<lambda>token.
    if is_char_boundary token (min 20 (length token)) then ret token
    else fail (Panic ''byte index 20 is not a char boundary''))"

definition current_token :: "('w api, 'e, string) eio" where
  "current_token = effect (\<lambda>s. (ap_token s, s))"

definition refresh_token :: "'w api_env \<Rightarrow> http_client \<Rightarrow> chats_cfg \<Rightarrow> ('w api, unit) io" where
  "refresh_token E http cfg =
    and_then (on_world (fetch_session E http cfg)) (\<lambda>new_tok.
    effect (\<lambda>s. ((), s\<lparr>ap_token := new_tok\<rparr>)))"

section \<open>One answer\<close>

text \<open>The message of a body of the form \<open>{"detail": ..}\<close>, and what it means.\<close>

definition detail_message :: "json_api \<Rightarrow> json \<Rightarrow> string" where
  "detail_message JS detail =
    (case detail of
       JString s \<Rightarrow> s
     | JObject _ \<Rightarrow>
         (let code = (case Option.bind (json_get ''code'' detail) json_str of
                        Some c \<Rightarrow> c | None \<Rightarrow> ''api_error'');
              m = (case Option.bind (json_get ''message'' detail) json_str of
                        Some m \<Rightarrow> m | None \<Rightarrow> [])
          in code @ '': '' @ m)
     | _ \<Rightarrow> js_display JS detail)"

definition classify_body :: "json_api \<Rightarrow> string \<Rightarrow> string \<Rightarrow> get_error + json" where
  "classify_body JS url raw =
    (case js_from_slice JS raw of
       Inl e \<Rightarrow> Inl (Fatal (Msg (''parse JSON from '' @ url @ '': '' @ report_chain e)))
     | Inr body \<Rightarrow>
         (case json_get ''detail'' body of
            None \<Rightarrow> Inr body
          | Some detail \<Rightarrow>
              (let msg = detail_message JS detail in
               if contains msg ''inaccessible'' \<or> contains msg ''not_found'' then Inl (Inaccessible msg)
               else Inl (Fatal (Msg (''API error from '' @ url @ '': '' @ msg))))))"

definition auth_headers :: "chats_cfg \<Rightarrow> string \<Rightarrow> (string \<times> string) list" where
  "auth_headers cfg token =
    [(''Authorization'', ''Bearer '' @ token), (''Accept'', ''application/json''),
     (''Accept-Language'', ''en-US,en;q=0.9''), (''Referer'', cf_base_url cfg @ ''/''),
     (''sec-fetch-dest'', ''empty''), (''sec-fetch-mode'', ''cors''),
     (''sec-fetch-site'', ''same-origin'')]"

section \<open>The retry loop\<close>

text \<open>
  \<open>get_json\<close>: one turn of the loop is one request; the fuel is the number of requests allowed.
  \<open>att\<close>, the source's \<open>attempt\<close>, is a \<open>u32\<close> and wraps.
\<close>

fun get_json_loop ::
    "'w api_env \<Rightarrow> http_client \<Rightarrow> chats_cfg \<Rightarrow> string \<Rightarrow> nat \<Rightarrow> 32 word \<Rightarrow> bool \<Rightarrow>
      ('w api, get_error, json) eio" where
  "get_json_loop E http cfg url 0 att refreshed_once = fail OutOfRequests"
| "get_json_loop E http cfg url (Suc fuel) att refreshed_once =
    and_then current_token (\<lambda>token.
    and_then (map_err (\<lambda>e. Fatal (Msg (''GET '' @ url @ '': '' @ report_chain e)))
        (on_world (http_send (ae_http E) http
          \<lparr>rq_url = url, rq_headers = auth_headers cfg token\<rparr>))) (\<lambda>resp.
    let status = rs_status resp in
    if status = 429 then
      (let att' = att + 1 in
       if att' > cf_max_retries cfg then
         fail (Transient (''GET '' @ url @ '': 429 after '' @
           show_nat (unat (cf_max_retries cfg)) @ '' retries''))
       else
         (let backoff = (case retry_after resp of Some d \<Rightarrow> d
                         | None \<Rightarrow> exponential_backoff att' (cf_max_backoff_ms cfg))
          in and_then (on_world (effect (ae_sleep E backoff))) (\<lambda>_.
             get_json_loop E http cfg url fuel att' refreshed_once)))
    else if status = 401 then
      (if refreshed_once then
         fail (Fatal (Msg (''GET '' @ url @ '': 401 after token refresh; re-run `repossess seed`'')))
       else
         and_then (map_err Fatal (refresh_token E http cfg)) (\<lambda>_.
         get_json_loop E http cfg url fuel att True))
    else if is_server_error status then
      (let att' = att + 1 in
       if att' > cf_max_retries cfg then
         fail (Transient (''GET '' @ url @ '': '' @ show_nat status @ '' after '' @
           show_nat (unat (cf_max_retries cfg)) @ '' retries''))
       else
         and_then (on_world (effect (ae_sleep E
             (exponential_backoff att' (cf_max_backoff_ms cfg))))) (\<lambda>_.
         get_json_loop E http cfg url fuel att' refreshed_once))
    else if \<not> is_success status then
      and_then (attempt (on_world (http_text (ae_http E) resp))) (\<lambda>r.
      let body = (case r of Inr b \<Rightarrow> b | Inl _ \<Rightarrow> []) in
      fail (Fatal (Msg (''GET '' @ url @ '': status '' @ show_nat status @ '' body '' @ body))))
    else
      and_then (map_err (\<lambda>e. Fatal (Msg (''read '' @ url @ '': '' @ report_chain e)))
        (on_world (http_text (ae_http E) resp))) (\<lambda>raw.
      lift_res (classify_body (ae_json E) url raw))))"

text \<open>
  The whole call, with fuel for every request the configured number of retries allows: the
  retries, one more for the refresh, and the last.
\<close>

definition get_json ::
    "'w api_env \<Rightarrow> http_client \<Rightarrow> chats_cfg \<Rightarrow> string \<Rightarrow> ('w api, get_error, json) eio" where
  "get_json E http cfg url =
    get_json_loop E http cfg url (unat (cf_max_retries cfg) + 2) 0 False"

definition api_list ::
    "'w api_env \<Rightarrow> http_client \<Rightarrow> chats_cfg \<Rightarrow> 32 word \<Rightarrow> 32 word \<Rightarrow>
      ('w api, conversation_summary list) io" where
  "api_list E http cfg offset limit =
    (let url = cf_base_url cfg @ cf_list_path cfg @ ''?offset='' @ show_nat (unat offset) @
                ''&limit='' @ show_nat (unat limit)
     in and_then
          (map_err (\<lambda>e. case e of Fatal r \<Rightarrow> r | Transient m \<Rightarrow> Msg m | Inaccessible m \<Rightarrow> Msg m
                    | OutOfRequests \<Rightarrow> OutOfFuel)
            (get_json E http cfg url)) (\<lambda>v.
        lift_res (res_context (''deserialize list from '' @ url) (ae_list_from_value E v))))"

definition get_raw ::
    "'w api_env \<Rightarrow> http_client \<Rightarrow> chats_cfg \<Rightarrow> string \<Rightarrow> ('w api, fetch_error, json) eio" where
  "get_raw E http cfg cid =
    (let path = replace_str (cf_detail_path_template cfg) ''{id}'' cid;
         url = cf_base_url cfg @ path
     in map_err (\<lambda>e. case e of Inaccessible m \<Rightarrow> FetchInaccessible m
                   | Transient m \<Rightarrow> FetchTransient m | Fatal r \<Rightarrow> FetchFatal r
                   | OutOfRequests \<Rightarrow> FetchFatal OutOfFuel)
          (get_json E http cfg url))"

section \<open>How many requests\<close>

lemma current_token_ok: "current_token s = (Inr (ap_token s), s)"
  by (simp add: current_token_def effect_def)

lemma never_current_token [never_intros]: "never e current_token"
  by (simp add: current_token_def never_intros)

lemma never_on_world [never_intros]: "never e m \<Longrightarrow> never e (on_world m)"
  by (simp add: on_world_def never_intros)

lemma unat_inc:
  fixes c :: "32 word"
  assumes "c \<noteq> - 1"
  shows "unat (c + 1) = unat c + 1"
proof -
  have "1 + c \<noteq> 0"
    using assms by (metis add_eq_0_iff)
  then show ?thesis
    by (simp add: unatSuc add.commute)
qed

lemma retry_next:
  fixes att :: "32 word"
  shows "att \<le> m \<Longrightarrow> m \<noteq> - 1 \<Longrightarrow> unat (att + 1) = unat att + 1"
  by (metis unat_inc word_order.extremum_uniqueI)

text \<open>
  With one request for the first try, one for each retry left and one for the refresh if it is
  still unused, the loop ends by itself.
\<close>

lemma get_json_loop_ends:
  assumes "cf_max_retries cfg \<noteq> - 1" and "att \<le> cf_max_retries cfg"
    and "fuel > unat (cf_max_retries cfg) - unat att + (if refreshed_once then 0 else 1)"
  shows "never OutOfRequests (get_json_loop E http cfg url fuel att refreshed_once)"
  using assms(2-3)
proof (induction fuel arbitrary: att refreshed_once)
  case 0
  then show ?case by simp
next
  case (Suc fuel)
  have next_att: "never OutOfRequests (get_json_loop E http cfg url fuel (att + 1) refreshed_once)"
    if "\<not> att + 1 > cf_max_retries cfg"
  proof (rule Suc.IH)
    show "att + 1 \<le> cf_max_retries cfg" using that by simp
    then have "unat (att + 1) \<le> unat (cf_max_retries cfg)" by (simp add: word_le_nat_alt)
    then show "unat (cf_max_retries cfg) - unat (att + 1) + (if refreshed_once then 0 else 1) < fuel"
      using Suc.prems(2) retry_next [OF Suc.prems(1) assms(1)] by (simp split: if_splits)
  qed
  have refreshed: "never OutOfRequests (get_json_loop E http cfg url fuel att True)"
    if "\<not> refreshed_once"
    using Suc.prems that by (intro Suc.IH) auto
  have "classify_body (ae_json E) url raw \<noteq> Inl OutOfRequests" for raw
    by (simp add: classify_body_def Let_def split: sum.splits option.splits)
  then show ?case
    unfolding get_json_loop.simps Let_def
    by (intro never_intros next_att refreshed) auto
qed

text \<open>More fuel than that changes nothing.\<close>

lemma get_json_loop_fuel:
  assumes "cf_max_retries cfg \<noteq> - 1" and "att \<le> cf_max_retries cfg"
    and "fuel > unat (cf_max_retries cfg) - unat att + (if refreshed_once then 0 else 1)"
    and "fuel \<le> fuel'"
  shows "get_json_loop E http cfg url fuel' att refreshed_once =
    get_json_loop E http cfg url fuel att refreshed_once"
  using assms(2-4)
proof (induction fuel arbitrary: fuel' att refreshed_once)
  case 0
  then show ?case by simp
next
  case (Suc fuel)
  then obtain more where more: "fuel' = Suc more" "fuel \<le> more"
    by (cases fuel') auto
  have next_att: "get_json_loop E http cfg url more (att + 1) refreshed_once =
      get_json_loop E http cfg url fuel (att + 1) refreshed_once"
    if "\<not> att + 1 > cf_max_retries cfg"
  proof (rule Suc.IH)
    show "att + 1 \<le> cf_max_retries cfg" using that by simp
    then have "unat (att + 1) \<le> unat (cf_max_retries cfg)" by (simp add: word_le_nat_alt)
    then show "unat (cf_max_retries cfg) - unat (att + 1) + (if refreshed_once then 0 else 1) < fuel"
      using Suc.prems(2) retry_next [OF Suc.prems(1) assms(1)] by (simp split: if_splits)
  qed (rule more(2))
  have refreshed: "get_json_loop E http cfg url more att True = get_json_loop E http cfg url fuel att True"
    if "\<not> refreshed_once"
    using Suc.prems that more(2) by (intro Suc.IH) auto
  show ?case
    unfolding more(1) get_json_loop.simps Let_def
    by (simp add: next_att refreshed cong: if_cong)
qed

lemma get_json_never: "cf_max_retries cfg \<noteq> - 1 \<Longrightarrow> never OutOfRequests (get_json E http cfg url)"
  unfolding get_json_def by (rule get_json_loop_ends) auto

section \<open>What an answer means\<close>

lemma classify_body_Inr:
  "classify_body JS url raw = Inr v \<Longrightarrow> js_from_slice JS raw = Inr v \<and> json_get ''detail'' v = None"
  by (auto simp: classify_body_def Let_def split: sum.splits option.splits if_splits)

lemma get_json_loop_Inr:
  "get_json_loop E http cfg url fuel att r s = (Inr v, s') \<Longrightarrow>
    json_get ''detail'' v = None \<and> (\<exists>raw. js_from_slice (ae_json E) raw = Inr v)"
  by (induction fuel arbitrary: att r s)
    (auto simp: Let_def dest!: classify_body_Inr elim!: io_elims split: if_splits)

section \<open>Properties\<close>

text \<open>
  A service that answers every request for one URL with one response, and leaves the world alone.
\<close>

definition answers :: "'w api_env \<Rightarrow> http_client \<Rightarrow> string \<Rightarrow> http_response \<Rightarrow> bool" where
  "answers E http url resp \<longleftrightarrow>
    (\<forall>hs w. http_send (ae_http E) http \<lparr>rq_url = url, rq_headers = hs\<rparr> w = (Inr resp, w))"

lemma on_world_Inr: "m (ap_world s) = (Inr x, w) \<Longrightarrow> on_world m s = (Inr x, s\<lparr>ap_world := w\<rparr>)"
  by (simp add: on_world_def on_part_def)

lemma answers_send:
  assumes "answers E http url resp"
  shows "on_world (http_send (ae_http E) http \<lparr>rq_url = url, rq_headers = hs\<rparr>) s = (Inr resp, s)"
  using assms by (simp add: on_world_def on_part_def answers_def)

lemma and_then_token [simp]: "and_then current_token f s = f (ap_token s) s"
  by (simp add: and_then_Inr [OF current_token_ok])

lemma map_err_Inr: "m s = (Inr x, s') \<Longrightarrow> map_err f m s = (Inr x, s')"
  by (simp add: map_err_def)

lemma and_then_map_err: "m s = (Inr x, s') \<Longrightarrow> and_then (map_err g m) f s = f x s'"
  by (simp add: and_then_def map_err_def)

lemma and_then_sleep:
  "and_then (on_world (effect (ae_sleep E d))) f s =
    f () (s\<lparr>ap_world := snd (ae_sleep E d (ap_world s))\<rparr>)"
  by (simp add: on_world_def on_part_def effect_def and_then_def split: prod.splits)

definition backoffs :: "'w api_env \<Rightarrow> chats_cfg \<Rightarrow> nat list \<Rightarrow> 'w \<Rightarrow> 'w" where
  "backoffs E cfg ns =
    fold (\<lambda>n w. snd (ae_sleep E (exponential_backoff (of_nat n) (cf_max_backoff_ms cfg)) w)) ns"

lemma rate_limited_loop:
  assumes ans: "answers E http url resp" "rs_status resp = 429" "retry_after resp = None"
    and m: "cf_max_retries cfg \<noteq> - 1"
  shows "att \<le> cf_max_retries cfg \<Longrightarrow> fuel > unat (cf_max_retries cfg) - unat att \<Longrightarrow>
    get_json_loop E http cfg url fuel att r s =
      (Inl (Transient (''GET '' @ url @ '': 429 after '' @
          show_nat (unat (cf_max_retries cfg)) @ '' retries'')),
       s\<lparr>ap_world := backoffs E cfg [Suc (unat att)..<Suc (unat (cf_max_retries cfg))] (ap_world s)\<rparr>)"
proof (induction fuel arbitrary: att s)
  case 0
  then show ?case by simp
next
  case (Suc fuel)
  note [simp] = and_then_Inr [OF map_err_Inr [OF answers_send [OF ans(1)]]]
  have att: "unat (att + 1) = Suc (unat att)" "of_nat (Suc (unat att)) = att + 1"
    using retry_next [OF Suc.prems(1) m] by auto
  have less: "att + 1 \<le> cf_max_retries cfg \<longleftrightarrow> unat att < unat (cf_max_retries cfg)"
    unfolding word_le_nat_alt by (simp add: att Suc_le_eq)
  show ?case
  proof (cases "att + 1 \<le> cf_max_retries cfg")
    case True
    have "unat (cf_max_retries cfg) - unat (att + 1) < fuel"
      using Suc.prems(2) True by (simp add: att less)
    note step = Suc.IH [OF True this]
    have "[Suc (unat att)..<Suc (unat (cf_max_retries cfg))] =
        Suc (unat att) # [Suc (unat (att + 1))..<Suc (unat (cf_max_retries cfg))]"
      using True by (simp add: att less upt_conv_Cons del: upt_Suc)
    moreover have "\<not> cf_max_retries cfg < att + 1"
      using True by simp
    ultimately show ?thesis
      by (simp add: ans Let_def and_then_sleep step backoffs_def att del: upt_Suc of_nat_Suc)
  next
    case False
    then have "unat (cf_max_retries cfg) = unat att"
      using Suc.prems(1) less by (simp add: word_le_nat_alt)
    with False show ?thesis
      by (simp add: ans Let_def fail_def not_le backoffs_def del: upt_Suc)
  qed
qed

definition bench_http :: "(string \<Rightarrow> http_response) \<Rightarrow> 'w http_api" where
  "bench_http f =
    \<lparr>http_send = (\<lambda>c rq w. (Inr (f (rq_url rq)), w)), http_bytes = (\<lambda>rs w. (Inr (rs_body rs), w)),
     http_text = (\<lambda>rs w. (Inr (rs_body rs), w)), http_build = Inr, header_name = Inr,
     header_value = Inr, url_parse = Some\<rparr>"

text \<open>A request that is answered with success at once.\<close>

lemma get_json_success:
  assumes "answers E http url resp" and "is_success (rs_status resp)"
    and "http_text (ae_http E) resp w = (Inr raw, w)"
  shows "get_json E http cfg url \<lparr>ap_world = w, ap_token = t\<rparr> =
    (classify_body (ae_json E) url raw, \<lparr>ap_world = w, ap_token = t\<rparr>)"
proof -
  note [simp] = and_then_Inr [OF map_err_Inr [OF answers_send [OF assms(1)]]]
  have "rs_status resp \<noteq> 429" "rs_status resp \<noteq> 401" "\<not> is_server_error (rs_status resp)"
    using assms(2) by (auto simp: is_success_def is_server_error_def)
  moreover have read: "on_world (http_text (ae_http E) resp) \<lparr>ap_world = w, ap_token = t\<rparr> =
      (Inr raw, \<lparr>ap_world = w, ap_token = t\<rparr>)"
    using assms(3) by (simp add: on_world_def on_part_def)
  ultimately show ?thesis
    using assms(2)
    by (simp add: get_json_def Let_def lift_res_apply
        and_then_map_err [where m = "on_world (http_text (ae_http E) resp)", OF read])
qed

definition bench_json :: "(bytes \<times> json) list \<Rightarrow> json_api" where
  "bench_json tbl =
    \<lparr>js_from_slice = (\<lambda>b. ok_or (Msg ''JSON'') (map_of tbl b)),
     js_to_vec = (\<lambda>v. ok_or (Msg ''JSON'') (map_of (map (\<lambda>(b, v). (v, b)) tbl) v)),
     js_display = (\<lambda>v. ''..''), js_as_f64 = (\<lambda>s. None),
     js_pointer = (\<lambda>p v. json_get (drop 1 p) v)\<rparr>"

definition bench_env ::
    "(string \<Rightarrow> http_response) \<Rightarrow> (bytes \<times> json) list \<Rightarrow> (json \<Rightarrow> conversation_summary list res) \<Rightarrow>
      bench api_env" where
  "bench_env f tbl parse =
    \<lparr>ae_http = bench_http f, ae_json = bench_json tbl,
     ae_session_from_slice = (\<lambda>b. Inr (Some b)), ae_list_from_value = parse,
     ae_sleep = (\<lambda>d w. ((), w\<lparr>bn_clock := bn_clock w + int d * 10 ^ 6\<rparr>))\<rparr>"

definition bench_client :: http_client where
  "bench_client = \<lparr>hc_jar = [], hc_user_agent = None, hc_headers = []\<rparr>"

definition bench_chats_cfg :: chats_cfg where
  "bench_chats_cfg =
    \<lparr>cf_name = ''chats'', cf_prefix = ''chats/'', cf_base_url = ''https://c'',
     cf_session_path = ''/session'', cf_list_path = ''/list'',
     cf_detail_path_template = ''/conv/{id}'', cf_list_page_limit = 2,
     cf_incremental_stop_after_known = 2, cf_list_delay_ms = 1, cf_detail_delay_ms = 1,
     cf_detail_batch_size = 2, cf_detail_batch_cooldown_ms = 5, cf_retry_sweep_cooldown_ms = 7,
     cf_max_backoff_ms = 900000, cf_max_retries = 2, cf_zstd_level = 3\<rparr>"

lemma bench_cfg_simps [simp]:
  "cf_name bench_chats_cfg = ''chats''" "cf_prefix bench_chats_cfg = ''chats/''"
  "cf_base_url bench_chats_cfg = ''https://c''" "cf_session_path bench_chats_cfg = ''/session''"
  "cf_list_path bench_chats_cfg = ''/list''"
  "cf_detail_path_template bench_chats_cfg = ''/conv/{id}''"
  "cf_list_page_limit bench_chats_cfg = 2" "cf_incremental_stop_after_known bench_chats_cfg = 2"
  "cf_list_delay_ms bench_chats_cfg = 1" "cf_detail_delay_ms bench_chats_cfg = 1"
  "cf_detail_batch_size bench_chats_cfg = 2" "cf_detail_batch_cooldown_ms bench_chats_cfg = 5"
  "cf_retry_sweep_cooldown_ms bench_chats_cfg = 7" "cf_max_backoff_ms bench_chats_cfg = 900000"
  "cf_max_retries bench_chats_cfg = 2" "cf_zstd_level bench_chats_cfg = 3"
  by (simp_all add: bench_chats_cfg_def)

lemma bench_env_simps [simp]:
  "ae_http (bench_env f tbl parse) = bench_http f" "ae_json (bench_env f tbl parse) = bench_json tbl"
  "ae_session_from_slice (bench_env f tbl parse) b = Inr (Some b)"
  "ae_list_from_value (bench_env f tbl parse) = parse"
  "ae_sleep (bench_env f tbl parse) d w = ((), w\<lparr>bn_clock := bn_clock w + int d * 10 ^ 6\<rparr>)"
  by (simp_all add: bench_env_def)

definition status_only :: "nat \<Rightarrow> http_response" where
  "status_only n = \<lparr>rs_status = n, rs_headers = [], rs_body = ''body''\<rparr>"

lemma bench_answers:
  "f url = resp \<Longrightarrow> answers (bench_env f tbl parse) http url resp"
  by (simp add: answers_def bench_env_def bench_http_def)



text \<open>
  C37: Against a server that keeps answering 429 without a Retry-After header, \<open>get_json\<close> waits the
  backoffs of attempts 1 to \<open>max_retries\<close>, in that order and each once, and then reports a
  transient error; the token is untouched.
\<close>

theorem rate_limited_gives_up:
  assumes "answers E http url resp" and "rs_status resp = 429" and "retry_after resp = None"
    and "cf_max_retries cfg \<noteq> - 1"
  shows "get_json E http cfg url s =
    (Inl (Transient (''GET '' @ url @ '': 429 after '' @
        show_nat (unat (cf_max_retries cfg)) @ '' retries'')),
     s\<lparr>ap_world := fold (\<lambda>n w. snd (ae_sleep E (exponential_backoff (of_nat n)
        (cf_max_backoff_ms cfg)) w)) [1..<Suc (unat (cf_max_retries cfg))] (ap_world s)\<rparr>)"
  using rate_limited_loop [OF assms, of 0 "unat (cf_max_retries cfg) + 2" False s]
  by (simp add: get_json_def backoffs_def del: upt_Suc)

theorem rate_limited_gives_up_witness:
  "get_json (bench_env (\<lambda>_. status_only 429) [] (\<lambda>_. Inr [])) bench_client bench_chats_cfg ''u''
      \<lparr>ap_world = bench_start 0, ap_token = ''t''\<rparr> =
    (Inl (Transient (''GET u: 429 after '' @ show_nat 2 @ '' retries'')),
     \<lparr>ap_world = bench_start (180 * 10 ^ 9), ap_token = ''t''\<rparr>)"
  using rate_limited_gives_up [OF bench_answers [OF refl], of "\<lambda>_. status_only 429" "''u''"
      bench_chats_cfg "[]" "\<lambda>_. Inr []" bench_client
      "\<lparr>ap_world = bench_start 0, ap_token = ''t''\<rparr>"]
  by (simp add: status_only_def retry_after_def bench_chats_cfg_def bench_env_def bench_start_def
      upt_rec exponential_backoff_def saturating_mul64_def saturating_pow64_def)

text \<open>
  C38: Against a server that answers 401, \<open>get_json\<close> refreshes the token once and, when the new token
  is refused too, fails with a fatal error that asks for a new seed; the new token stays in place.
\<close>

theorem unauthorized_refreshes_once:
  assumes "answers E http url resp" and "rs_status resp = 401"
    and "fetch_session E http cfg (ap_world s) = (Inr tok, w2)"
  shows "get_json E http cfg url s =
    (Inl (Fatal (Msg (''GET '' @ url @ '': 401 after token refresh; re-run `repossess seed`''))),
     \<lparr>ap_world = w2, ap_token = tok\<rparr>)"
proof -
  note [simp] = and_then_Inr [OF map_err_Inr [OF answers_send [OF assms(1)]]]
  have refresh: "refresh_token E http cfg s = (Inr (), \<lparr>ap_world = w2, ap_token = tok\<rparr>)"
    using assms(3) by (simp add: refresh_token_def on_world_def on_part_def and_then_def effect_def)
  show ?thesis
    by (simp add: get_json_def numeral_2_eq_2 assms(2) Let_def fail_apply
        and_then_map_err [where m = "refresh_token E http cfg", OF refresh])
qed

theorem unauthorized_refreshes_once_witness:
  "get_json (bench_env (\<lambda>u. if u = ''https://c/session'' then status_only 200 else status_only 401) []
      (\<lambda>_. Inr [])) bench_client bench_chats_cfg ''u''
      \<lparr>ap_world = bench_start 0, ap_token = ''t''\<rparr> =
    (Inl (Fatal (Msg ''GET u: 401 after token refresh; re-run `repossess seed`'')),
     \<lparr>ap_world = bench_start 0, ap_token = ''body''\<rparr>)"
proof -
  have "fetch_session (bench_env (\<lambda>u. if u = ''https://c/session'' then status_only 200
      else status_only 401) [] (\<lambda>_. Inr [])) bench_client bench_chats_cfg (bench_start 0) =
    (Inr ''body'', bench_start 0)"
    by (simp add: fetch_session_def bench_env_def bench_http_def bench_chats_cfg_def status_only_def
        http_get_def and_then_def with_context_def map_err_def is_success_def lift_res_def Let_def)
  then show ?thesis
    using unauthorized_refreshes_once [OF bench_answers [OF refl],
        of "\<lambda>u. if u = ''https://c/session'' then status_only 200 else status_only 401" "''u''"
          "[]" "\<lambda>_. Inr []" bench_client bench_chats_cfg
          "\<lparr>ap_world = bench_start 0, ap_token = ''t''\<rparr>"]
    by (simp add: status_only_def)
qed

end
