(* ===== verification/Chats.thy ===== *)
theory Chats
  imports Chats_Api
begin

text \<open>
  The chats workload, the first half of \<open>src/workload/chatgpt_chats.rs\<close>, with its context of
  \<open>src/workload/mod.rs\<close>: the encrypted index, the archive of conversation bodies, the incremental
  walk over the listing, and the run that ties them together.

  The walk over the listing ends when the server says so; its fuel \<open>pages\<close> is the number of listing
  requests allowed.
\<close>

section \<open>Data\<close>

record chats_index_entry =
  ce_update_time :: "f64 option"
  ce_title :: "string option"
  ce_object_key :: string
  ce_sha256 :: string
  ce_bytes :: nat
  ce_stored_at :: datetime

text \<open>The \<open>HashMap\<close> of entries is an association list that is only ever read and updated by key.\<close>

record chats_index =
  ci_schema_version :: "32 word"
  ci_updated_at :: datetime
  ci_entries :: "(string \<times> chats_index_entry) list"

record 'w workload_ctx =
  wx_http :: http_client
  wx_primary :: "'w store"
  wx_mirrors :: "'w store list"
  wx_recipient :: recipient
  wx_identity :: identity

text \<open>The libraries the workload calls.\<close>

record 'w chats_env =
  ve_api :: "'w api_env"
  ve_chrono :: "'w chrono"
  ve_crypto :: "'w crypto_api"
  ve_index_serde :: "chats_index serde"

definition index_empty :: "'w chrono \<Rightarrow> ('w, 'e, chats_index) eio" where
  "index_empty K =
    and_then (effect (utc_now K)) (\<lambda>now.
    ret \<lparr>ci_schema_version = 1, ci_updated_at = now, ci_entries = []\<rparr>)"

definition index_key :: "chats_cfg \<Rightarrow> string" where
  "index_key cfg = cf_prefix cfg @ ''index.json.age''"

definition conv_key :: "chats_cfg \<Rightarrow> string \<Rightarrow> string" where
  "conv_key cfg cid = cf_prefix cfg @ ''conv/'' @ cid @ ''.json.zst.age''"

section \<open>Encoding\<close>

definition encode_conversation ::
    "'w chats_env \<Rightarrow> chats_cfg \<Rightarrow> json \<Rightarrow> recipient \<Rightarrow> ('w, bytes) io" where
  "encode_conversation V cfg v recip =
    and_then (lift_res (res_context ''serialize conversation'' (js_to_vec (ae_json (ve_api V)) v)))
      (\<lambda>json.
    and_then (lift_res (res_context ''zstd compress conversation''
        (zstd_encode_all (ve_crypto V) json (cf_zstd_level cfg)))) (\<lambda>compressed.
    with_context ''encrypt conversation'' (encrypt (ve_crypto V) compressed recip)))"

definition decode_conversation :: "'w chats_env \<Rightarrow> bytes \<Rightarrow> identity \<Rightarrow> json res" where
  "decode_conversation V ciphertext ident =
    res_bind (res_context ''decrypt conversation'' (decrypt (ve_crypto V) ciphertext ident))
      (\<lambda>compressed.
    res_bind (res_context ''zstd decompress conversation'' (zstd_decode_all (ve_crypto V) compressed))
      (\<lambda>json.
    res_context ''parse conversation JSON'' (js_from_slice (ae_json (ve_api V)) json)))"

definition encode_index :: "'w chats_env \<Rightarrow> chats_index \<Rightarrow> recipient \<Rightarrow> ('w, bytes) io" where
  "encode_index V idx recip =
    and_then (lift_res (res_context ''serialize index'' (to_vec_pretty (ve_index_serde V) idx)))
      (\<lambda>json.
    with_context ''encrypt index'' (encrypt (ve_crypto V) json recip))"

definition decode_index :: "'w chats_env \<Rightarrow> bytes \<Rightarrow> identity \<Rightarrow> chats_index res" where
  "decode_index V ciphertext ident =
    res_bind (res_context ''decrypt index'' (decrypt (ve_crypto V) ciphertext ident)) (\<lambda>plaintext.
    res_context ''parse index JSON'' (from_slice (ve_index_serde V) plaintext))"

section \<open>The store\<close>

definition load_index ::
    "'w chats_env \<Rightarrow> chats_cfg \<Rightarrow> 'w store \<Rightarrow> identity \<Rightarrow> ('w, chats_index \<times> string option) io" where
  "load_index V cfg primary ident =
    (let k = index_key cfg in
     and_then (st_head primary k) (\<lambda>h.
     (case h of
        None \<Rightarrow> and_then (index_empty (ve_chrono V)) (\<lambda>idx. ret (idx, None))
      | Some _ \<Rightarrow>
          and_then (with_context (''get '' @ k) (st_get primary k)) (\<lambda>(b, etag).
          and_then (lift_res (decode_index V b ident)) (\<lambda>idx.
          ret (idx, Some etag))))))"

definition save_index ::
    "'w chats_env \<Rightarrow> chats_cfg \<Rightarrow> 'w workload_ctx \<Rightarrow> chats_index \<Rightarrow> string option \<Rightarrow> ('w, unit) io" where
  "save_index V cfg ctx idx prev_etag =
    and_then (effect (utc_now (ve_chrono V))) (\<lambda>now.
    let to_save = idx\<lparr>ci_updated_at := now\<rparr> in
    and_then (encode_index V to_save (wx_recipient ctx)) (\<lambda>b.
    let k = index_key cfg in
    and_then (with_context (''CAS update of '' @ k)
        (st_put_if_unmodified (wx_primary ctx) k b prev_etag)) (\<lambda>_.
    and_then (fanout (wx_mirrors ctx) k b) (\<lambda>_. ret ()))))"

definition store_conversation ::
    "'w chats_env \<Rightarrow> chats_cfg \<Rightarrow> 'w workload_ctx \<Rightarrow> string \<Rightarrow> string option \<Rightarrow> f64 option \<Rightarrow> json \<Rightarrow>
      ('w, chats_index_entry) io" where
  "store_conversation V cfg ctx cid title update_time body =
    and_then (encode_conversation V cfg body (wx_recipient ctx)) (\<lambda>ciphertext.
    let k = conv_key cfg cid;
        sha = sha256_hex (ve_crypto V) ciphertext;
        bytes_len = length ciphertext in
    and_then (with_context (''put '' @ k) (st_put (wx_primary ctx) k ciphertext)) (\<lambda>_.
    and_then (fanout (wx_mirrors ctx) k ciphertext) (\<lambda>_.
    and_then (effect (utc_now (ve_chrono V))) (\<lambda>now.
    ret \<lparr>ce_update_time = update_time, ce_title = title, ce_object_key = k, ce_sha256 = sha,
         ce_bytes = bytes_len, ce_stored_at = now\<rparr>))))"

section \<open>Phase 1: the incremental walk\<close>

definition known :: "chats_index \<Rightarrow> conversation_summary \<Rightarrow> bool" where
  "known idx sm =
    (case map_option (\<lambda>e. opt_f64_eq (ce_update_time e) (sm_update_time sm))
        (map_of (ci_entries idx) (sm_id sm)) of
       Some b \<Rightarrow> b | None \<Rightarrow> False)"

text \<open>
  One page: whether the early stop was reached, the run of known items so far, and the items to
  fetch.
\<close>

fun scan_items ::
    "chats_index \<Rightarrow> 32 word \<Rightarrow> 32 word \<Rightarrow> conversation_summary list \<Rightarrow> conversation_summary list \<Rightarrow>
      bool \<times> 32 word \<times> conversation_summary list" where
  "scan_items idx stop_after consecutive_known to_fetch [] = (False, consecutive_known, to_fetch)"
| "scan_items idx stop_after consecutive_known to_fetch (sm # items) =
    (if known idx sm then
       (let consecutive_known' = consecutive_known + 1 in
        if consecutive_known' \<ge> stop_after then (True, consecutive_known', to_fetch)
        else scan_items idx stop_after consecutive_known' to_fetch items)
     else scan_items idx stop_after 0 (to_fetch @ [sm]) items)"

fun collect_loop ::
    "'w api_env \<Rightarrow> http_client \<Rightarrow> chats_cfg \<Rightarrow> chats_index \<Rightarrow> nat \<Rightarrow> 32 word \<Rightarrow> 32 word \<Rightarrow>
      conversation_summary list \<Rightarrow> ('w api, conversation_summary list) io" where
  "collect_loop E http cfg idx 0 offset consecutive_known to_fetch = fail OutOfFuel"
| "collect_loop E http cfg idx (Suc pages) offset consecutive_known to_fetch =
    (let limit = max (cf_list_page_limit cfg) 1;
         stop_after = max (cf_incremental_stop_after_known cfg) 1 in
     and_then (on_world (effect (ae_sleep E (cf_list_delay_ms cfg)))) (\<lambda>_.
     and_then (api_list E http cfg offset limit) (\<lambda>items.
     if items = [] then ret to_fetch
     else
       (let returned = of_nat (length items) :: 32 word in
        case scan_items idx stop_after consecutive_known to_fetch items of
          (stopped, consecutive_known', to_fetch') \<Rightarrow>
            if stopped then ret to_fetch'
            else if returned < limit then ret to_fetch'
            else collect_loop E http cfg idx pages (offset + limit) consecutive_known' to_fetch'))))"

definition collect_outdated ::
    "'w api_env \<Rightarrow> http_client \<Rightarrow> chats_cfg \<Rightarrow> chats_index \<Rightarrow> nat \<Rightarrow>
      ('w api, conversation_summary list) io" where
  "collect_outdated E http cfg idx pages = collect_loop E http cfg idx pages 0 0 []"

section \<open>Phases 2 and 3: bodies\<close>

fun chunks :: "nat \<Rightarrow> 'a list \<Rightarrow> 'a list list" where
  "chunks n [] = []"
| "chunks n (x # xs) = (x # take (n - 1) xs) # chunks n (drop (n - 1) xs)"

definition insert_entry :: "string \<Rightarrow> chats_index_entry \<Rightarrow> chats_index \<Rightarrow> chats_index" where
  "insert_entry cid entry idx = idx\<lparr>ci_entries := AList.update cid entry (ci_entries idx)\<rparr>"

definition store_summary ::
    "'w chats_env \<Rightarrow> chats_cfg \<Rightarrow> 'w workload_ctx \<Rightarrow> chats_index \<Rightarrow> conversation_summary \<Rightarrow> json \<Rightarrow>
      ('w api, chats_index) io" where
  "store_summary V cfg ctx idx sm body =
    and_then (on_world (store_conversation V cfg ctx (sm_id sm) (sm_title sm) (sm_update_time sm) body))
      (\<lambda>entry. ret (insert_entry (sm_id sm) entry idx))"

definition fetch_one ::
    "'w chats_env \<Rightarrow> chats_cfg \<Rightarrow> 'w workload_ctx \<Rightarrow> chats_index \<times> conversation_summary list \<Rightarrow>
      conversation_summary \<Rightarrow> ('w api, chats_index \<times> conversation_summary list) io" where
  "fetch_one V cfg ctx acc sm =
    (case acc of (idx, failed) \<Rightarrow>
     and_then (on_world (effect (ae_sleep (ve_api V) (cf_detail_delay_ms cfg)))) (\<lambda>_.
     and_then (attempt (get_raw (ve_api V) (wx_http ctx) cfg (sm_id sm))) (\<lambda>r.
     (case r of
        Inr body \<Rightarrow>
          and_then (store_summary V cfg ctx idx sm body) (\<lambda>idx'. ret (idx', failed))
      | Inl (FetchInaccessible msg) \<Rightarrow> ret (idx, failed)
      | Inl (FetchTransient msg) \<Rightarrow> ret (idx, failed @ [sm])
      | Inl (FetchFatal e) \<Rightarrow> fail e))))"

fun fetch_batches ::
    "'w chats_env \<Rightarrow> chats_cfg \<Rightarrow> 'w workload_ctx \<Rightarrow> nat \<Rightarrow> chats_index \<times> conversation_summary list \<Rightarrow>
      conversation_summary list list \<Rightarrow> ('w api, chats_index \<times> conversation_summary list) io" where
  "fetch_batches V cfg ctx i acc [] = ret acc"
| "fetch_batches V cfg ctx i acc (chunk # rest) =
    and_then (if i > 0
              then on_world (effect (ae_sleep (ve_api V) (cf_detail_batch_cooldown_ms cfg)))
              else ret ()) (\<lambda>_.
    and_then (fold_io (fetch_one V cfg ctx) acc chunk) (\<lambda>acc'.
    fetch_batches V cfg ctx (i + 1) acc' rest))"

text \<open>
  The sweep drops every error of a second try, fatal ones too.  Only a try that was cut off by its
  fuel is passed on, as no outcome of the code.
\<close>

definition sweep_one ::
    "'w chats_env \<Rightarrow> chats_cfg \<Rightarrow> 'w workload_ctx \<Rightarrow> chats_index \<Rightarrow> conversation_summary \<Rightarrow>
      ('w api, chats_index) io" where
  "sweep_one V cfg ctx idx sm =
    and_then (on_world (effect (ae_sleep (ve_api V) (cf_detail_delay_ms cfg)))) (\<lambda>_.
    and_then (attempt (get_raw (ve_api V) (wx_http ctx) cfg (sm_id sm))) (\<lambda>r.
    (case r of
       Inr body \<Rightarrow> store_summary V cfg ctx idx sm body
     | Inl e \<Rightarrow> if e = FetchFatal OutOfFuel then fail OutOfFuel else ret idx)))"

definition retry_sweep ::
    "'w chats_env \<Rightarrow> chats_cfg \<Rightarrow> 'w workload_ctx \<Rightarrow> chats_index \<Rightarrow> conversation_summary list \<Rightarrow>
      ('w api, chats_index) io" where
  "retry_sweep V cfg ctx idx failed =
    (if failed = [] then ret idx
     else
       and_then (on_world (effect (ae_sleep (ve_api V) (cf_retry_sweep_cooldown_ms cfg)))) (\<lambda>_.
       fold_io (sweep_one V cfg ctx) idx failed))"

section \<open>The run\<close>

definition with_token :: "string \<Rightarrow> ('w api, 'e, 'a) eio \<Rightarrow> ('w, 'e, 'a) eio" where
  "with_token tok m w = (case m \<lparr>ap_world = w, ap_token = tok\<rparr> of (r, s) \<Rightarrow> (r, ap_world s))"

definition batch_size :: "chats_cfg \<Rightarrow> nat" where
  "batch_size cfg = unat (max (cf_detail_batch_size cfg) 1)"

definition chats_phases ::
    "'w chats_env \<Rightarrow> chats_cfg \<Rightarrow> nat \<Rightarrow> 'w workload_ctx \<Rightarrow> chats_index \<Rightarrow> string option \<Rightarrow>
      ('w api, unit) io" where
  "chats_phases V cfg pages ctx index prev_etag =
    and_then (collect_outdated (ve_api V) (wx_http ctx) cfg index pages) (\<lambda>to_fetch.
    if to_fetch = [] then ret ()
    else
      and_then (fetch_batches V cfg ctx 0 (index, []) (chunks (batch_size cfg) to_fetch))
        (\<lambda>(index', failed).
      and_then (retry_sweep V cfg ctx index' failed) (\<lambda>index''.
      on_world (save_index V cfg ctx index'' prev_etag))))"

definition chats_run ::
    "'w chats_env \<Rightarrow> chats_cfg \<Rightarrow> nat \<Rightarrow> 'w workload_ctx \<Rightarrow> ('w, unit) io" where
  "chats_run V cfg pages ctx =
    and_then (load_index V cfg (wx_primary ctx) (wx_identity ctx)) (\<lambda>(index, prev_etag).
    and_then (api_new (ve_api V) (wx_http ctx) cfg) (\<lambda>token.
    with_token token (chats_phases V cfg pages ctx index prev_etag)))"

section \<open>Keys and codecs\<close>

lemma conv_key_inject [simp]: "conv_key cfg a = conv_key cfg b \<longleftrightarrow> a = b"
  by (simp add: conv_key_def)

lemma conv_key_not_index [simp]: "conv_key cfg a \<noteq> index_key cfg" "index_key cfg \<noteq> conv_key cfg a"
  by (simp_all add: conv_key_def index_key_def)

lemma decode_encode_conversation:
  assumes "age_key_pair (ve_crypto V) ident recip" and "zstd_codec (ve_crypto V)"
    and "encode_conversation V cfg v recip w = (Inr c, w')"
  shows "\<exists>js. js_to_vec (ae_json (ve_api V)) v = Inr js \<and>
    decode_conversation V c ident = res_context ''parse conversation JSON''
      (js_from_slice (ae_json (ve_api V)) js)"
proof -
  from assms(3) obtain js z where "js_to_vec (ae_json (ve_api V)) v = Inr js"
    and "zstd_encode_all (ve_crypto V) js (cf_zstd_level cfg) = Inr z"
    and "encrypt (ve_crypto V) z recip w = (Inr c, w')"
    unfolding encode_conversation_def by (auto elim!: io_elims)
  with assms(1,2) show ?thesis
    by (auto simp: decode_conversation_def res_bind_def res_context_def zstd_codec_def
        dest!: decrypt_encrypt)
qed

lemma decode_encode_index:
  assumes "age_key_pair (ve_crypto V) ident recip" and "serde_ok (ve_index_serde V) idx"
    and "encode_index V idx recip w = (Inr c, w')"
  shows "decode_index V c ident = Inr idx"
proof -
  from assms(3) obtain js where "to_vec_pretty (ve_index_serde V) idx = Inr js"
    and "encrypt (ve_crypto V) js recip w = (Inr c, w')"
    unfolding encode_index_def by (auto elim!: io_elims)
  with assms(1,2) show ?thesis
    by (auto simp: decode_index_def res_bind_def res_context_def
        dest!: decrypt_encrypt serde_to_vec_pretty)
qed

section \<open>What the walk returns\<close>

lemma scan_items_append:
  "scan_items idx stop c acc (xs @ ys) =
    (case scan_items idx stop c acc xs of
       (stopped, c', acc') \<Rightarrow>
         if stopped then (stopped, c', acc') else scan_items idx stop c' acc' ys)"
  by (induction xs arbitrary: c acc) (auto simp: Let_def)

definition ends_known :: "chats_index \<Rightarrow> nat \<Rightarrow> conversation_summary list \<Rightarrow> bool" where
  "ends_known idx n sms \<longleftrightarrow>
    n \<le> length sms \<and> list_all (known idx) (drop (length sms - n) sms)"

definition outdated :: "chats_index \<Rightarrow> conversation_summary list \<Rightarrow> conversation_summary list" where
  "outdated idx sms = filter (\<lambda>sm. \<not> known idx sm) sms"

lemma ends_known_0 [simp]: "ends_known idx 0 sms"
  by (simp add: ends_known_def)

lemma ends_known_snoc: "ends_known idx n sms \<Longrightarrow> known idx sm \<Longrightarrow> ends_known idx (Suc n) (sms @ [sm])"
  by (auto simp: ends_known_def)

lemma outdated_snoc [simp]:
  "outdated idx (sms @ [sm]) = (if known idx sm then outdated idx sms else outdated idx sms @ [sm])"
  by (simp add: outdated_def)

text \<open>
  The items to fetch are the outdated ones of a prefix of the listing; the prefix is all of it, or
  ends in the run of known items that triggers the stop.  \<open>seen\<close> is what earlier pages held.
\<close>

lemma scan_items_spec:
  assumes "c < stop" and "ends_known idx (unat c) seen"
  shows "case scan_items idx stop c (outdated idx seen) xs of (stopped, c', acc') \<Rightarrow>
    (if stopped then
       (\<exists>pre post. seen @ xs = pre @ post \<and> acc' = outdated idx pre \<and> ends_known idx (unat stop) pre)
     else acc' = outdated idx (seen @ xs) \<and> ends_known idx (unat c') (seen @ xs) \<and> c' < stop)"
  using assms
proof (induction xs arbitrary: c seen)
  case Nil
  then show ?case by auto
next
  case (Cons sm xs)
  show ?case
  proof (cases "known idx sm")
    case False
    have "0 < stop"
      using Cons.prems(1) by (metis word_gt_0 word_not_simps(1))
    from Cons.IH [OF this, of "seen @ [sm]"] False show ?thesis
      by (auto split: prod.splits if_splits)
  next
    case True
    have wrap: "unat (c + 1) = Suc (unat c)"
      using unat_inc [of c] Cons.prems(1) by (metis Suc_eq_plus1 word_order.extremum_strict)
    have seen: "ends_known idx (unat (c + 1)) (seen @ [sm])"
      unfolding wrap by (rule ends_known_snoc [OF Cons.prems(2) True])
    show ?thesis
    proof (cases "c + 1 \<ge> stop")
      case stop: True
      then have "stop = c + 1"
        using Cons.prems(1) wrap by (simp add: word_le_nat_alt word_less_nat_alt word_unat_eq_iff)
      then show ?thesis
        using True seen
        by (simp add: Let_def) (metis append.assoc append_Cons append_Nil outdated_snoc)
    next
      case False
      then have "c + 1 < stop" "\<not> stop \<le> c + 1" by auto
      with Cons.IH [of "c + 1" "seen @ [sm]"] seen True show ?thesis
        by (auto simp: Let_def split: prod.splits if_splits)
    qed
  qed
qed

text \<open>A listing that stays as it is while it is walked, served in pages of the configured size.\<close>

definition page_limit :: "chats_cfg \<Rightarrow> 32 word" where
  "page_limit cfg = max (cf_list_page_limit cfg) 1"

definition stop_after :: "chats_cfg \<Rightarrow> 32 word" where
  "stop_after cfg = max (cf_incremental_stop_after_known cfg) 1"

definition serves_listing ::
    "'w api_env \<Rightarrow> http_client \<Rightarrow> chats_cfg \<Rightarrow> conversation_summary list \<Rightarrow> bool" where
  "serves_listing E http cfg xs \<longleftrightarrow>
    (\<forall>off s. fst (api_list E http cfg off (page_limit cfg) s) =
      Inr (take (unat (page_limit cfg)) (drop (unat off) xs)))"

lemma page_limit_pos: "0 < unat (page_limit cfg)" "0 < stop_after cfg"
proof -
  have "0 < max x 1" for x :: "32 word"
    by (metis max.strict_coboundedI2 zero_less_one word_gt_0 zero_neq_one)
  then show "0 < unat (page_limit cfg)" "0 < stop_after cfg"
    by (auto simp: page_limit_def stop_after_def unat_gt_0 word_gt_0)
qed

lemma collect_loop_spec:
  assumes serves: "serves_listing E http cfg xs"
    and fits: "length xs + unat (page_limit cfg) < 2 ^ 32"
  shows "c < stop_after cfg \<Longrightarrow> ends_known idx (unat c) (take (unat off) xs) \<Longrightarrow>
    unat off \<le> length xs \<Longrightarrow> (length xs - unat off) div unat (page_limit cfg) < pages \<Longrightarrow>
    \<exists>pre post s'. collect_loop E http cfg idx pages off c (outdated idx (take (unat off) xs)) s =
        (Inr (outdated idx pre), s') \<and> xs = pre @ post \<and>
      (post = [] \<or> ends_known idx (unat (stop_after cfg)) pre)"
proof (induction pages arbitrary: off c s)
  case 0
  then show ?case by simp
next
  case (Suc pages)
  let ?l = "unat (page_limit cfg)" and ?seen = "take (unat off) xs"
  let ?items = "take ?l (drop (unat off) xs)"
  let ?s1 = "s\<lparr>ap_world := snd (ae_sleep E (cf_list_delay_ms cfg) (ap_world s))\<rparr>"
  obtain s2 where ls: "api_list E http cfg off (page_limit cfg) ?s1 = (Inr ?items, s2)"
    using serves by (metis serves_listing_def prod.collapse)
  obtain stopped c' acc' where scan:
    "scan_items idx (stop_after cfg) c (outdated idx ?seen) ?items = (stopped, c', acc')"
    by (metis prod_cases3)
  have spec: "if stopped then
       (\<exists>pre post. ?seen @ ?items = pre @ post \<and> acc' = outdated idx pre \<and>
         ends_known idx (unat (stop_after cfg)) pre)
     else acc' = outdated idx (?seen @ ?items) \<and> ends_known idx (unat c') (?seen @ ?items) \<and>
       c' < stop_after cfg"
    using scan_items_spec [OF Suc.prems(1,2), of ?items] unfolding scan by simp
  have run: "collect_loop E http cfg idx (Suc pages) off c (outdated idx ?seen) s =
    (if ?items = [] then ret (outdated idx ?seen)
     else if stopped \<or> (of_nat (length ?items) :: 32 word) < page_limit cfg then ret acc'
     else collect_loop E http cfg idx pages (off + page_limit cfg) c' acc') s2"
    by (simp add: page_limit_def [symmetric] stop_after_def [symmetric] Let_def and_then_sleep
        and_then_Inr [where m = "api_list E http cfg off (page_limit cfg)", OF ls] scan del: take_eq_Nil)
  have upto: "?seen @ ?items = take (unat off + ?l) xs"
    by (simp add: take_add)
  have len: "(of_nat (length ?items) :: 32 word) < page_limit cfg \<longleftrightarrow> length ?items < ?l"
    using fits by (simp add: word_less_nat_alt unat_of_nat)
  consider (empty) "?items = []" | (stop) "?items \<noteq> []" stopped
    | (short) "?items \<noteq> []" "\<not> stopped" "length ?items < ?l"
    | (more) "?items \<noteq> []" "\<not> stopped" "\<not> length ?items < ?l"
    by blast
  then show ?case
  proof cases
    case empty
    then have "?seen = xs"
      using Suc.prems(3) page_limit_pos(1) [of cfg] by simp
    with run empty show ?thesis
      by (auto simp: ret_def)
  next
    case stop
    with spec obtain pre post where "?seen @ ?items = pre @ post" "acc' = outdated idx pre"
      "ends_known idx (unat (stop_after cfg)) pre" by auto
    moreover have "xs = pre @ post @ drop (unat off + ?l) xs"
      using upto calculation(1) append_take_drop_id [of "unat off + ?l" xs]
      by (metis append.assoc)
    ultimately show ?thesis
      using run stop by (auto simp: ret_def)
  next
    case short
    then have "length xs \<le> unat off + ?l" by auto
    then have "?seen @ ?items = xs" using upto by simp
    then show ?thesis
      using run short len spec by (auto simp: ret_def simp del: length_take length_drop)
  next
    case more
    then have enough: "unat off + ?l \<le> length xs" by auto
    then have off: "unat (off + page_limit cfg) = unat off + ?l"
      using fits by (simp add: unat_word_ariths)
    have "(length xs - unat off) div ?l = Suc ((length xs - (unat off + ?l)) div ?l)"
      using enough page_limit_pos(1) [of cfg] by (simp add: le_div_geq)
    then have pages: "(length xs - unat (off + page_limit cfg)) div ?l < pages"
      using Suc.prems(4) off by simp
    have c': "c' < stop_after cfg" "ends_known idx (unat c') (take (unat (off + page_limit cfg)) xs)"
      and acc: "acc' = outdated idx (take (unat (off + page_limit cfg)) xs)"
      using spec more upto off by auto
    show ?thesis
      using Suc.IH [OF c' _ pages, of s2] enough off run more len acc
      by (simp del: length_take length_drop take_eq_Nil)
  qed
qed

end
