(* ===== verification/Chats_Archive.thy ===== *)
theory Chats_Archive
  imports Chats Snapshot
begin

text \<open>
  What a run of the chats workload does to the archive it keeps in the primary store: the keys it
  may write, and the agreement of the index with the bodies it points to.  The facts are proved in
  the locale \<open>chats_site\<close>, a store that meets its contract under the calls of one workload, which
  is interpreted on the concrete bench at the end.
\<close>

section \<open>Network calls leave the store alone\<close>

lemma keeps_on_world [keeps_intros]:
  "keeps v m \<Longrightarrow> keeps (\<lambda>s. v (ap_world s)) (on_world m)"
  by (auto simp: keeps_def on_world_def on_part_def split: prod.splits) (metis snd_conv)

lemma keeps_current_token [keeps_intros]: "keeps v current_token"
  by (simp add: keeps_def current_token_ok)

lemma keeps_with_token [keeps_intros]:
  "keeps (\<lambda>s. v (ap_world s)) m \<Longrightarrow> keeps v (with_token tok m)"
  by (auto simp: keeps_def with_token_def split: prod.splits) (metis api.select_convs(1) snd_conv)

lemma keeps_fetch_session:
  "api_env_keeps E v \<Longrightarrow> keeps v (fetch_session E http cfg)"
  unfolding fetch_session_def Let_def api_env_keeps_def
  by (auto intro!: keeps_intros http_keeps_rules)

lemma keeps_api_new: "api_env_keeps E v \<Longrightarrow> keeps v (api_new E http cfg)"
  unfolding api_new_def by (intro keeps_intros keeps_fetch_session)

lemma keeps_refresh_token:
  "api_env_keeps E v \<Longrightarrow> keeps (\<lambda>s. v (ap_world s)) (refresh_token E http cfg)"
  unfolding refresh_token_def
  by (intro keeps_intros keeps_fetch_session) (auto simp: keeps_def)

lemma keeps_get_json_loop:
  assumes "api_env_keeps E v"
  shows "keeps (\<lambda>s. v (ap_world s)) (get_json_loop E http cfg url fuel att refreshed)"
proof -
  have http: "http_keeps (ae_http E) v" and sl: "\<And>n. keeps v (ae_sleep E n)"
    using assms by (auto simp: api_env_keeps_def)
  show ?thesis
    by (induction fuel arbitrary: att refreshed)
      (auto simp: Let_def intro!: keeps_intros http_keeps_rules [OF http] sl
        keeps_refresh_token [OF assms])
qed

lemma keeps_get_raw:
  "api_env_keeps E v \<Longrightarrow> keeps (\<lambda>s. v (ap_world s)) (get_raw E http cfg cid)"
  unfolding get_raw_def Let_def get_json_def by (intro keeps_intros keeps_get_json_loop)

lemma keeps_api_list:
  "api_env_keeps E v \<Longrightarrow> keeps (\<lambda>s. v (ap_world s)) (api_list E http cfg off limit)"
  unfolding api_list_def Let_def get_json_def by (intro keeps_intros keeps_get_json_loop)

lemma keeps_collect:
  assumes "api_env_keeps E v"
  shows "keeps (\<lambda>s. v (ap_world s)) (collect_loop E http cfg idx pages off c acc)"
proof -
  have sl: "\<And>n. keeps v (ae_sleep E n)"
    using assms by (auto simp: api_env_keeps_def)
  show ?thesis
    by (induction pages arbitrary: off c acc)
      (auto simp: Let_def intro!: keeps_intros sl keeps_api_list [OF assms])
qed

section \<open>What a workload leaves alone\<close>

text \<open>The keys of one workload.\<close>

definition chats_keys :: "chats_cfg \<Rightarrow> string set" where
  "chats_keys cfg = insert (index_key cfg) (range (conv_key cfg))"

text \<open>They are neither the pointer nor the lock.\<close>

lemma LATEST_not_chats: "LATEST_KEY \<notin> chats_keys cfg" "LOCK_KEY \<notin> chats_keys cfg"
  by (auto simp: chats_keys_def index_key_def conv_key_def LATEST_KEY_def LOCK_KEY_def
      dest: arg_cong [where f = last])

lemma keeps_body: "keeps objs m \<Longrightarrow> keeps (body_at objs k) m"
  by (auto simp: keeps_def body_at_def)

text \<open>
  A view of the world that is kept by everything a workload calls until it saves its index, writes of
  its own bodies included; and one that is kept by the writes of the index too, and so by the whole
  workload.  The view may be an object of the primary with its etag, a mirror, or anything else.
\<close>

locale bodies_frame =
  fixes V :: "'w chats_env" and cfg :: chats_cfg and ctx :: "'w workload_ctx" and v :: "'w \<Rightarrow> 'v"
  assumes gets: "keeps v (st_get (wx_primary ctx) k)"
    and heads: "keeps v (st_head (wx_primary ctx) k)"
    and puts: "keeps v (st_put (wx_primary ctx) (conv_key cfg cid) b)"
    and mirrors: "m \<in> set (wx_mirrors ctx) \<Longrightarrow> keeps v (st_put m (conv_key cfg cid) b)"
    and clock: "keeps v (utc_now (ve_chrono V))"
    and sealing: "keeps v (age_wrap_output (ve_crypto V) e)"
    and network: "api_env_keeps (ve_api V) v"

locale chats_frame = bodies_frame +
  assumes cass: "keeps v (st_put_if_unmodified (wx_primary ctx) (index_key cfg) b x)"
    and index_mirrors: "m \<in> set (wx_mirrors ctx) \<Longrightarrow> keeps v (st_put m (index_key cfg) b)"

lemma own_chats_keys [simp]: "conv_key cfg cid \<in> chats_keys cfg" "index_key cfg \<in> chats_keys cfg"
  by (simp_all add: chats_keys_def)

lemma not_own_key: "k \<notin> chats_keys cfg \<Longrightarrow> k \<noteq> conv_key cfg cid \<and> k \<noteq> index_key cfg"
  by (auto simp: chats_keys_def)

context bodies_frame begin

lemma sleeps: "keeps v (ae_sleep (ve_api V) n)"
  using network by (simp add: api_env_keeps_def)

lemma keeps_load_index: "keeps v (load_index V cfg (wx_primary ctx) ident)"
  unfolding load_index_def Let_def index_empty_def
  by (auto intro!: keeps_intros clock gets heads)

lemma keeps_store_conversation: "keeps v (store_conversation V cfg ctx cid t u b)"
  unfolding store_conversation_def encode_conversation_def Let_def
  by (intro keeps_intros keeps_encrypt sealing puts clock mirrors)

lemma keeps_store_summary: "keeps (\<lambda>s. v (ap_world s)) (store_summary V cfg ctx idx sm b)"
  unfolding store_summary_def by (intro keeps_intros keeps_store_conversation)

lemma keeps_raw: "keeps (\<lambda>s. v (ap_world s)) (get_raw (ve_api V) http c cid)"
  by (rule keeps_get_raw [OF network])

lemma keeps_fetch_one: "keeps (\<lambda>s. v (ap_world s)) (fetch_one V cfg ctx acc sm)"
  unfolding fetch_one_def
  by (auto intro!: keeps_intros keeps_raw keeps_store_summary sleeps split: fetch_error.splits)

lemma keeps_sweep_one: "keeps (\<lambda>s. v (ap_world s)) (sweep_one V cfg ctx idx sm)"
  unfolding sweep_one_def
  by (auto intro!: keeps_intros keeps_raw keeps_store_summary sleeps)

lemma keeps_fetch_batches: "keeps (\<lambda>s. v (ap_world s)) (fetch_batches V cfg ctx i acc cs)"
  by (induction cs arbitrary: i acc) (auto intro!: keeps_intros keeps_fetch_one sleeps)

end

context chats_frame begin

lemma keeps_save_index: "keeps v (save_index V cfg ctx idx tag)"
  unfolding save_index_def encode_index_def Let_def
  by (intro keeps_intros keeps_encrypt sealing cass clock index_mirrors)

lemma keeps_chats_phases: "keeps (\<lambda>s. v (ap_world s)) (chats_phases V cfg pages ctx idx tag)"
  unfolding chats_phases_def retry_sweep_def collect_outdated_def
  by (auto intro!: keeps_intros keeps_fetch_batches keeps_sweep_one keeps_save_index sleeps
      keeps_collect [OF network])

lemma keeps_chats_run: "keeps v (chats_run V cfg pages ctx)"
  unfolding chats_run_def
  by (auto intro!: keeps_intros keeps_load_index keeps_chats_phases keeps_api_new [OF network])

end

section \<open>A workload at its store\<close>

locale chats_site = snapshot_store st objs for st :: "'w store" and objs :: "'w objects" +
  fixes V :: "'w chats_env" and ctx :: "'w workload_ctx"
  assumes primary: "wx_primary ctx = st"
    and mirrors: "m \<in> set (wx_mirrors ctx) \<Longrightarrow> keeps objs (st_put m k b)"
    and clock: "keeps objs (utc_now (ve_chrono V))"
    and sealing: "keeps objs (age_wrap_output (ve_crypto V) e)"
    and network: "api_env_keeps (ve_api V) objs"

text \<open>An entry tells the truth about the body stored under its key; so does every entry.\<close>

definition entry_ok ::
    "'w chats_env \<Rightarrow> chats_cfg \<Rightarrow> 'w objects \<Rightarrow> 'w \<Rightarrow> string \<Rightarrow> chats_index_entry \<Rightarrow> bool" where
  "entry_ok V cfg objs w cid e \<longleftrightarrow>
    ce_object_key e = conv_key cfg cid \<and>
    (\<exists>b. body_at objs (conv_key cfg cid) w = Some b \<and> ce_sha256 e = sha256_hex (ve_crypto V) b \<and>
      ce_bytes e = length b)"

definition index_ok :: "'w chats_env \<Rightarrow> chats_cfg \<Rightarrow> 'w objects \<Rightarrow> chats_index \<Rightarrow> 'w \<Rightarrow> bool" where
  "index_ok V cfg objs idx w \<longleftrightarrow>
    (\<forall>cid e. map_of (ci_entries idx) cid = Some e \<longrightarrow> entry_ok V cfg objs w cid e)"

definition archive_ok ::
    "'w chats_env \<Rightarrow> chats_cfg \<Rightarrow> identity \<Rightarrow> 'w objects \<Rightarrow> 'w \<Rightarrow> bool" where
  "archive_ok V cfg ident objs w \<longleftrightarrow>
    (\<forall>b idx. body_at objs (index_key cfg) w = Some b \<longrightarrow> decode_index V b ident = Inr idx \<longrightarrow>
      index_ok V cfg objs idx w)"

lemma index_ok_cong:
  "(\<And>cid. body_at objs (conv_key cfg cid) w' = body_at objs (conv_key cfg cid) w) \<Longrightarrow>
    index_ok V cfg objs idx w' = index_ok V cfg objs idx w"
  by (simp add: index_ok_def entry_ok_def)

context chats_site begin

lemma mirrors_keep: "keeps objs (fanout (wx_mirrors ctx) k b)"
  by (intro keeps_intros mirrors)

lemma sleep_keeps: "keeps objs (ae_sleep (ve_api V) n)"
  using network by (simp add: api_env_keeps_def)

lemma encode_conversation_keeps: "keeps objs (encode_conversation V cfg v r)"
  unfolding encode_conversation_def by (intro keeps_intros keeps_encrypt sealing)

lemma encode_index_keeps: "keeps objs (encode_index V idx r)"
  unfolding encode_index_def by (intro keeps_intros keeps_encrypt sealing)

lemma load_index_keeps: "keeps objs (load_index V cfg (wx_primary ctx) ident)"
  unfolding load_index_def Let_def index_empty_def primary
  by (auto intro!: keeps_intros clock get_keeps head_keeps)

lemma store_conversation_frame:
  "k \<noteq> conv_key cfg cid \<Longrightarrow> keeps (body_at objs k) (store_conversation V cfg ctx cid t u b)"
  unfolding store_conversation_def Let_def primary
  by (intro keeps_intros put_frame keeps_body [OF encode_conversation_keeps] keeps_body [OF clock]
      keeps_body [OF mirrors_keep]) auto

lemma save_index_frame:
  "k \<noteq> index_key cfg \<Longrightarrow> keeps (body_at objs k) (save_index V cfg ctx idx tag)"
  unfolding save_index_def Let_def primary
  by (intro keeps_intros cas_frame keeps_body [OF encode_index_keeps] keeps_body [OF clock]
      keeps_body [OF mirrors_keep]) auto

lemma get_raw_keeps:
  "keeps (\<lambda>s. body_at objs k (ap_world s)) (get_raw (ve_api V) http cfg cid)"
  using keeps_get_raw [OF network] by (auto simp: keeps_def body_at_def)

lemma other_keys:
  assumes "k \<notin> chats_keys cfg"
  shows "chats_frame V cfg ctx (body_at objs k)"
proof -
  have "http_keeps (ae_http (ve_api V)) (body_at objs k)"
    using network by (auto simp: api_env_keeps_def http_keeps_def intro: keeps_body)
  moreover have "k \<noteq> conv_key cfg cid" "k \<noteq> index_key cfg" for cid
    using not_own_key [OF assms] by blast+
  ultimately show ?thesis
    by unfold_locales
      (auto simp: primary api_env_keeps_def intro!: get_body_keeps head_body_keeps put_frame cas_frame
        intro: keeps_body [OF mirrors] keeps_body [OF clock] keeps_body [OF sealing]
        keeps_body [OF sleep_keeps])
qed

text \<open>A run writes its own index and its own bodies and nothing else.\<close>

lemma chats_run_frame: "k \<notin> chats_keys cfg \<Longrightarrow> keeps (body_at objs k) (chats_run V cfg pages ctx)"
  by (rule chats_frame.keeps_chats_run [OF other_keys])

end

section \<open>The index agrees with the bodies\<close>

context chats_site begin

text \<open>A stored body is under its key, unaltered, and its entry describes it.\<close>

lemma store_conversation_ok:
  assumes "store_conversation V cfg ctx cid t u body w = (Inr e, w')"
  shows "entry_ok V cfg objs w' cid e \<and> ce_update_time e = u \<and> ce_title e = t \<and>
    (\<exists>c w1. body_at objs (conv_key cfg cid) w' = Some c \<and>
      encode_conversation V cfg body (wx_recipient ctx) w = (Inr c, w1))"
proof -
  from assms obtain c w1 r w2 w3 now where
    enc: "encode_conversation V cfg body (wx_recipient ctx) w = (Inr c, w1)"
    and put: "st_put st (conv_key cfg cid) c w1 = (Inr r, w2)"
    and fan: "fanout (wx_mirrors ctx) (conv_key cfg cid) c w2 = (Inr () :: unit res, w3)"
    and now: "utc_now (ve_chrono V) w3 = (now, w')"
    and e: "e = \<lparr>ce_update_time = u, ce_title = t, ce_object_key = conv_key cfg cid,
      ce_sha256 = sha256_hex (ve_crypto V) c, ce_bytes = length c, ce_stored_at = now\<rparr>"
    unfolding store_conversation_def Let_def primary by (auto elim!: io_elims)
  have "objs w' = objs w2"
    using keepsD [OF mirrors_keep fan] keepsD [OF clock now] by simp
  with put_ok [OF put] enc e show ?thesis
    by (auto simp: entry_ok_def body_at_def)
qed

lemma store_summary_ok:
  assumes "index_ok V cfg objs idx (ap_world s)"
    and "store_summary V cfg ctx idx sm body s = (Inr idx', s')"
  shows "index_ok V cfg objs idx' (ap_world s')"
proof -
  from assms(2) obtain e w' where
    e: "store_conversation V cfg ctx (sm_id sm) (sm_title sm) (sm_update_time sm) body (ap_world s) =
      (Inr e, w')"
    and s': "s' = s\<lparr>ap_world := w'\<rparr>" "idx' = insert_entry (sm_id sm) e idx"
    unfolding store_summary_def on_world_def by (auto simp: on_part_eq elim!: io_elims)
  have "body_at objs (conv_key cfg cid) w' = body_at objs (conv_key cfg cid) (ap_world s)"
    if "cid \<noteq> sm_id sm" for cid
    using keepsD [OF store_conversation_frame e] that by simp
  then show ?thesis
    using assms(1) store_conversation_ok [OF e] s'
    by (auto simp: index_ok_def entry_ok_def insert_entry_def update_conv')
qed

lemma index_ok_step:
  "keeps objs m \<Longrightarrow> m w = (r, w') \<Longrightarrow> index_ok V cfg objs idx w' = index_ok V cfg objs idx w"
  by (intro index_ok_cong) (auto simp: body_at_def dest: keepsD)

lemma sleep_index_ok:
  "on_world (effect (ae_sleep (ve_api V) n)) s = (r, s') \<Longrightarrow>
    index_ok V cfg objs idx (ap_world s') = index_ok V cfg objs idx (ap_world s)"
  using keepsD [OF keeps_on_world [OF keeps_effect [OF sleep_keeps]], of n s r s']
  by (intro index_ok_cong) (simp add: body_at_def)

lemma get_raw_index_ok:
  "get_raw (ve_api V) http cfg cid s = (r, s') \<Longrightarrow>
    index_ok V cfg objs idx (ap_world s') = index_ok V cfg objs idx (ap_world s)"
  using keepsD [OF get_raw_keeps] by (intro index_ok_cong) auto

lemma fetch_one_ok:
  assumes "index_ok V cfg objs (fst acc) (ap_world s)"
    and "fetch_one V cfg ctx acc sm s = (Inr acc', s')"
  shows "index_ok V cfg objs (fst acc') (ap_world s')"
  using assms unfolding fetch_one_def
  by (auto elim!: io_elims dest!: sleep_index_ok get_raw_index_ok
      split: prod.splits sum.splits fetch_error.splits) (rule store_summary_ok)

lemma sweep_one_ok:
  assumes "index_ok V cfg objs idx (ap_world s)"
    and "sweep_one V cfg ctx idx sm s = (Inr idx', s')"
  shows "index_ok V cfg objs idx' (ap_world s')"
  using assms unfolding sweep_one_def
  by (auto elim!: io_elims dest!: sleep_index_ok get_raw_index_ok dest: store_summary_ok [rotated]
      split: sum.splits if_splits)

lemma fetch_batches_ok:
  "index_ok V cfg objs (fst acc) (ap_world s) \<Longrightarrow>
    fetch_batches V cfg ctx i acc cs s = (Inr acc', s') \<Longrightarrow>
    index_ok V cfg objs (fst acc') (ap_world s')"
proof (induction cs arbitrary: i acc s)
  case Nil
  then show ?case by (auto elim!: io_elims)
next
  case (Cons chunk cs)
  from Cons.prems(2) obtain s1 acc1 s2 where
    pause: "(if i > 0 then on_world (effect (ae_sleep (ve_api V) (cf_detail_batch_cooldown_ms cfg)))
      else ret ()) s = (Inr () :: unit res, s1)"
    and chunk: "fold_io (fetch_one V cfg ctx) acc chunk s1 = (Inr acc1, s2)"
    and rest: "fetch_batches V cfg ctx (i + 1) acc1 cs s2 = (Inr acc', s')"
    by (auto elim!: io_elims)
  have "index_ok V cfg objs (fst acc) (ap_world s1)"
    using Cons.prems(1) pause by (auto simp: ret_def dest: sleep_index_ok split: if_splits)
  then have "index_ok V cfg objs (fst acc1) (ap_world s2)"
    using fold_io_inv [where P = "\<lambda>a s. index_ok V cfg objs (fst a) (ap_world s)", OF _ _ chunk]
      fetch_one_ok by blast
  then show ?case
    using Cons.IH rest by blast
qed

lemma retry_sweep_ok:
  assumes "index_ok V cfg objs idx (ap_world s)"
    and "retry_sweep V cfg ctx idx failed s = (Inr idx', s')"
  shows "index_ok V cfg objs idx' (ap_world s')"
proof (cases "failed = []")
  case True
  with assms show ?thesis by (auto simp: retry_sweep_def elim!: io_elims)
next
  case False
  then obtain s1 where
    pause: "on_world (effect (ae_sleep (ve_api V) (cf_retry_sweep_cooldown_ms cfg))) s =
      (Inr () :: unit res, s1)"
    and sweep: "fold_io (sweep_one V cfg ctx) idx failed s1 = (Inr idx', s')"
    using assms(2) by (auto simp: retry_sweep_def elim!: io_elims)
  from assms(1) have "index_ok V cfg objs idx (ap_world s1)"
    using sleep_index_ok [OF pause] by simp
  then show ?thesis
    using fold_io_inv [where P = "\<lambda>a s. index_ok V cfg objs a (ap_world s)", OF _ _ sweep]
      sweep_one_ok by blast
qed

text \<open>Saving an index and reading it back; the index that is read is the one that was saved.\<close>

lemma save_index_ok:
  assumes keys: "age_key_pair (ve_crypto V) ident (wx_recipient ctx)"
    and serde: "\<And>i. serde_ok (ve_index_serde V) i"
    and ok: "save_index V cfg ctx idx tag w = (Inr (), w')"
  shows "etag_at objs (index_key cfg) w = tag"
    and "\<exists>b. body_at objs (index_key cfg) w' = Some b \<and>
      decode_index V b ident = Inr (idx\<lparr>ci_updated_at := fst (utc_now (ve_chrono V) w)\<rparr>)"
proof -
  from ok obtain now w1 b w2 r w3 w4 where
    now: "utc_now (ve_chrono V) w = (now, w1)"
    and enc: "encode_index V (idx\<lparr>ci_updated_at := now\<rparr>) (wx_recipient ctx) w1 = (Inr b, w2)"
    and cas: "st_put_if_unmodified st (index_key cfg) b tag w2 = (Inr r, w3)"
    and fan: "fanout (wx_mirrors ctx) (index_key cfg) b w3 = (Inr () :: unit res, w')"
    unfolding save_index_def Let_def primary by (auto elim!: io_elims)
  have objs: "objs w2 = objs w" "objs w' = objs w3"
    using keepsD [OF clock now] keepsD [OF encode_index_keeps enc] keepsD [OF mirrors_keep fan]
    by simp_all
  show "etag_at objs (index_key cfg) w = tag"
    using cas_ok [OF cas] objs by (simp add: etag_at_def)
  show "\<exists>b. body_at objs (index_key cfg) w' = Some b \<and>
      decode_index V b ident = Inr (idx\<lparr>ci_updated_at := fst (utc_now (ve_chrono V) w)\<rparr>)"
    using cas_ok [OF cas] objs now decode_encode_index [OF keys serde enc]
    by (auto simp: body_at_def)
qed

lemma load_index_ok:
  assumes ok: "load_index V cfg (wx_primary ctx) ident w = (Inr (idx, tag), w')"
  shows "etag_at objs (index_key cfg) w = tag \<and>
    (case body_at objs (index_key cfg) w of
       None \<Rightarrow> idx = \<lparr>ci_schema_version = 1, ci_updated_at = ci_updated_at idx, ci_entries = []\<rparr>
     | Some b \<Rightarrow> decode_index V b ident = Inr idx)"
proof -
  from ok obtain h w1 where h: "st_head st (index_key cfg) w = (Inr h, w1)"
    and rest: "(case h of None \<Rightarrow> and_then (index_empty (ve_chrono V)) (\<lambda>idx. ret (idx, None))
      | Some _ \<Rightarrow> and_then (with_context (''get '' @ index_key cfg) (st_get st (index_key cfg)))
          (\<lambda>(b, etag). and_then (lift_res (decode_index V b ident)) (\<lambda>idx. ret (idx, Some etag)))) w1 =
      (Inr (idx, tag), w')"
    unfolding load_index_def Let_def primary by (rule and_then_InrE) (rule that)
  have w1: "objs w1 = objs w"
    using keepsD [OF head_keeps h] .
  show ?thesis
  proof (cases h)
    case None
    then have "objs w (index_key cfg) = None"
      using head_ok [OF h] by (simp add: etag_at_def)
    with None rest show ?thesis
      by (auto simp: etag_at_def body_at_def index_empty_def elim!: io_elims)
  next
    case (Some e)
    with rest obtain b t where "st_get st (index_key cfg) w1 = (Inr (b, t), w')" "tag = Some t"
      "decode_index V b ident = Inr idx"
      by (auto elim!: io_elims split: prod.splits)
    with get_ok [of "index_key cfg" w1 b t w'] w1 show ?thesis
      by (auto simp: etag_at_def body_at_def)
  qed
qed

lemma load_index_archive_ok:
  assumes "archive_ok V cfg ident objs w"
    and "load_index V cfg (wx_primary ctx) ident w = (Inr (idx, tag), w')"
  shows "index_ok V cfg objs idx w'"
proof -
  have "index_ok V cfg objs idx w"
    using load_index_ok [OF assms(2)] assms(1)
    by (cases "body_at objs (index_key cfg) w")
      (auto simp: archive_ok_def index_ok_def dest: arg_cong [where f = ci_entries])
  then show ?thesis
    using index_ok_step [OF load_index_keeps assms(2)] by simp
qed

end

section \<open>A whole run\<close>

lemma with_token_InrE [io_elims]:
  assumes "with_token tok m w = (Inr x, w')"
  obtains s' where "m \<lparr>ap_world = w, ap_token = tok\<rparr> = (Inr x, s')" and "w' = ap_world s'"
  using assms by (auto simp: with_token_def split: prod.splits)

lemma archive_ok_cong:
  "(\<And>k. body_at objs k w' = body_at objs k w) \<Longrightarrow>
    archive_ok V cfg ident objs w' = archive_ok V cfg ident objs w"
  by (simp add: archive_ok_def index_ok_def entry_ok_def)

context chats_site begin

lemma collect_keeps:
  "keeps (\<lambda>s. objs (ap_world s)) (collect_outdated (ve_api V) http cfg idx pages)"
  unfolding collect_outdated_def by (rule keeps_collect [OF network])

lemma chats_phases_ok:
  assumes keys: "age_key_pair (ve_crypto V) (wx_identity ctx) (wx_recipient ctx)"
    and serde: "\<And>i. serde_ok (ve_index_serde V) i"
    and idx: "index_ok V cfg objs idx (ap_world s)"
    and old: "archive_ok V cfg (wx_identity ctx) objs (ap_world s)"
    and ok: "chats_phases V cfg pages ctx idx tag s = (Inr (), s')"
  shows "archive_ok V cfg (wx_identity ctx) objs (ap_world s')"
proof -
  from ok obtain to_fetch s1 where
    walk: "collect_outdated (ve_api V) (wx_http ctx) cfg idx pages s = (Inr to_fetch, s1)"
    and rest: "(if to_fetch = [] then ret () else
      and_then (fetch_batches V cfg ctx 0 (idx, []) (chunks (batch_size cfg) to_fetch))
        (\<lambda>(index', failed). and_then (retry_sweep V cfg ctx index' failed) (\<lambda>index''.
          on_world (save_index V cfg ctx index'' tag)))) s1 = (Inr (), s')"
    unfolding chats_phases_def by (rule and_then_InrE) (rule that)
  have objs1: "objs (ap_world s1) = objs (ap_world s)"
    using keepsD [OF collect_keeps walk] .
  show ?thesis
  proof (cases "to_fetch = []")
    case True
    with rest have "s' = s1" by (auto elim!: io_elims)
    with old objs1 show ?thesis
      using archive_ok_cong [of objs "ap_world s'" "ap_world s"] by (simp add: body_at_def)
  next
    case False
    with rest obtain idx1 failed s2 idx2 s3 w' where
      fetched: "fetch_batches V cfg ctx 0 (idx, []) (chunks (batch_size cfg) to_fetch) s1 =
        (Inr (idx1, failed), s2)"
      and swept: "retry_sweep V cfg ctx idx1 failed s2 = (Inr idx2, s3)"
      and saved: "save_index V cfg ctx idx2 tag (ap_world s3) = (Inr (), w')"
      and s': "ap_world s' = w'"
      by (auto simp: on_world_def on_part_eq elim!: io_elims split: prod.splits)
    have "index_ok V cfg objs idx (ap_world s1)"
      using idx index_ok_cong [of objs cfg "ap_world s1" "ap_world s"] objs1
      by (simp add: body_at_def)
    then have "index_ok V cfg objs idx1 (ap_world s2)"
      using fetch_batches_ok [OF _ fetched] by simp
    then have idx2: "index_ok V cfg objs idx2 (ap_world s3)"
      using retry_sweep_ok [OF _ swept] by simp
    have "index_ok V cfg objs idx2 w'"
      using idx2 index_ok_cong [of objs cfg w' "ap_world s3"]
        keepsD [OF save_index_frame saved] by simp
    then show ?thesis
      using save_index_ok(2) [OF keys serde saved] s'
      by (auto simp: archive_ok_def index_ok_def)
  qed
qed

lemma chats_run_archive_ok:
  assumes keys: "age_key_pair (ve_crypto V) (wx_identity ctx) (wx_recipient ctx)"
    and serde: "\<And>i. serde_ok (ve_index_serde V) i"
    and old: "archive_ok V cfg (wx_identity ctx) objs w"
    and ok: "chats_run V cfg pages ctx w = (Inr (), w')"
  shows "archive_ok V cfg (wx_identity ctx) objs w'"
proof -
  from ok obtain idx tag w1 tok w2 s' where
    load: "load_index V cfg (wx_primary ctx) (wx_identity ctx) w = (Inr (idx, tag), w1)"
    and tok: "api_new (ve_api V) (wx_http ctx) cfg w1 = (Inr tok, w2)"
    and run: "chats_phases V cfg pages ctx idx tag \<lparr>ap_world = w2, ap_token = tok\<rparr> = (Inr (), s')"
    and w': "w' = ap_world s'"
    unfolding chats_run_def by (auto elim!: io_elims split: prod.splits)
  have "objs w2 = objs w"
    using keepsD [OF load_index_keeps load] keepsD [OF keeps_api_new [OF network] tok] by simp
  then have "archive_ok V cfg (wx_identity ctx) objs w2"
    using old archive_ok_cong [of objs w2 w] by (simp add: body_at_def)
  moreover have "index_ok V cfg objs idx w2"
    using load_index_archive_ok [OF old load]
      index_ok_step [OF keeps_api_new [OF network] tok] by simp
  ultimately show ?thesis
    using chats_phases_ok [OF keys serde _ _ run] w' by simp
qed

text \<open>With nothing outdated in the listing, nothing is written.\<close>

lemma chats_run_idle:
  assumes serves: "serves_listing (ve_api V) (wx_http ctx) cfg xs"
    and fits: "length xs + unat (page_limit cfg) < 2 ^ 32"
      "length xs div unat (page_limit cfg) < pages"
    and load: "load_index V cfg (wx_primary ctx) (wx_identity ctx) w = (Inr (idx, tag), w1)"
    and known: "list_all (known idx) xs"
  shows "objs (snd (chats_run V cfg pages ctx w)) = objs w"
proof -
  have w1: "objs w1 = objs w"
    using keepsD [OF load_index_keeps load] .
  obtain r w2 where tok: "api_new (ve_api V) (wx_http ctx) cfg w1 = (r, w2)" by fastforce
  have w2: "objs w2 = objs w"
    using keepsD [OF keeps_api_new [OF network] tok] w1 by simp
  show ?thesis
  proof (cases r)
    case (Inl e)
    then show ?thesis
      using w2 by (simp add: chats_run_def and_then_def load tok)
  next
    case (Inr t)
    let ?s = "\<lparr>ap_world = w2, ap_token = t\<rparr>"
    obtain pre post s' where walk:
      "collect_outdated (ve_api V) (wx_http ctx) cfg idx pages ?s = (Inr (outdated idx pre), s')"
      and xs: "xs = pre @ post"
      using collect_loop_spec [OF serves fits(1), of 0 idx 0 pages ?s] fits(2) page_limit_pos(2)
      by (auto simp: collect_outdated_def outdated_def)
    have "outdated idx pre = []"
      using known xs by (auto simp: outdated_def filter_empty_conv list_all_iff)
    then have "chats_phases V cfg pages ctx idx tag ?s = (Inr (), s')"
      using walk by (simp add: chats_phases_def and_then_def ret_def)
    moreover have "objs (ap_world s') = objs w"
      using keepsD [OF collect_keeps walk] w2 by simp
    ultimately show ?thesis
      using Inr by (simp add: chats_run_def and_then_def load tok with_token_def)
  qed
qed

end

end
