(* ===== verification/Browser.thy ===== *)
theory Browser
  imports Http
begin

text \<open>
  \<open>src/browser/cdp.rs\<close>: the Chromium session.  The DevTools commands are parameters; what the
  code does around them is translated: which cookies it exports, clears and sets, how it closes,
  the header lines it hands to the HTTP client, and the loop that waits for the user to close the
  browser.
\<close>

datatype same_site = SameSiteStrict | SameSiteLax | SameSiteNone

record cdp_cookie =
  cc_name :: string
  cc_value :: string
  cc_domain :: string
  cc_path :: string
  cc_expires :: f64
  cc_http_only :: bool
  cc_secure :: bool
  cc_same_site :: "same_site option"

record cookie_param =
  cp_name :: string
  cp_value :: string
  cp_domain :: "string option"
  cp_path :: "string option"
  cp_http_only :: "bool option"
  cp_secure :: "bool option"
  cp_expires :: "f64 option"
  cp_same_site :: "same_site option"

record browser_config =
  bc_executable :: string
  bc_user_data_dir :: string
  bc_args :: "string list"
  bc_with_head :: bool

record 'w chromium_api =
  ch_create_dir_all :: "string \<Rightarrow> ('w, unit) io"
  ch_build :: "browser_config \<Rightarrow> browser_config res"
  ch_launch :: "browser_config \<Rightarrow> ('w, string) io"
  ch_get_cookies :: "string \<Rightarrow> ('w, cdp_cookie list) io"
  ch_clear_cookies :: "string \<Rightarrow> ('w, unit) io"
  ch_set_cookies :: "string \<Rightarrow> cookie_param list \<Rightarrow> ('w, unit) io"
  ch_get_targets :: "string \<Rightarrow> ('w, string list) io"
  ch_listen :: "string \<Rightarrow> string \<Rightarrow> ('w, unit) io"
  ch_new_page :: "string \<Rightarrow> string \<Rightarrow> ('w, string) io"
  ch_add_script :: "string \<Rightarrow> string \<Rightarrow> ('w, unit) io"
  ch_goto :: "string \<Rightarrow> string \<Rightarrow> ('w, unit) io"
  ch_close :: "string \<Rightarrow> ('w, unit) io"
  ch_wait :: "string \<Rightarrow> ('w, unit) io"

definition chromium_keeps :: "'w chromium_api \<Rightarrow> ('w \<Rightarrow> 'v) \<Rightarrow> bool" where
  "chromium_keeps CH v \<longleftrightarrow>
    (\<forall>d. keeps v (ch_create_dir_all CH d)) \<and> (\<forall>c. keeps v (ch_launch CH c)) \<and>
    (\<forall>b. keeps v (ch_get_cookies CH b)) \<and> (\<forall>b. keeps v (ch_clear_cookies CH b)) \<and>
    (\<forall>b ps. keeps v (ch_set_cookies CH b ps)) \<and> (\<forall>b. keeps v (ch_get_targets CH b)) \<and>
    (\<forall>b e. keeps v (ch_listen CH b e)) \<and> (\<forall>b u. keeps v (ch_new_page CH b u)) \<and>
    (\<forall>p s. keeps v (ch_add_script CH p s)) \<and> (\<forall>p u. keeps v (ch_goto CH p u)) \<and>
    (\<forall>b. keeps v (ch_close CH b)) \<and> (\<forall>b. keeps v (ch_wait CH b))"

record browser_session =
  bs_browser :: string
  bs_user_data_dir :: string
  bs_browser_closed :: bool

section \<open>Launching, opening, closing\<close>

definition STEALTH_SCRIPT :: string where
  "STEALTH_SCRIPT = [CHR 0x0A] @
     ''Object.defineProperty(navigator, '' @ [CHR 0x27] @ ''webdriver'' @ [CHR 0x27] @
     '', { get: () => undefined });'' @ [CHR 0x0A] @
     ''if (!window.chrome) { window.chrome = { runtime: {} }; }'' @ [CHR 0x0A]"

definition launch ::
    "'w chromium_api \<Rightarrow> string \<Rightarrow> string \<Rightarrow> bool \<Rightarrow> ('w, browser_session) io" where
  "launch CH chromium_bin user_data_dir headless =
    and_then (with_context ''create user_data_dir'' (ch_create_dir_all CH user_data_dir)) (\<lambda>_.
    let builder = \<lparr>bc_executable = chromium_bin, bc_user_data_dir = user_data_dir,
          bc_args = [''--no-default-browser-check'', ''--no-first-run'', ''--disable-dev-shm-usage'',
            ''--disable-background-networking'', ''--disable-blink-features=AutomationControlled''],
          bc_with_head = False\<rparr>;
        builder = (if \<not> headless then builder\<lparr>bc_with_head := True\<rparr> else builder)
    in and_then (map_err (\<lambda>e. Msg (''browser config: '' @ report_chain e))
          (lift_res (ch_build CH builder))) (\<lambda>cfg.
       and_then (ch_launch CH cfg) (\<lambda>browser.
       ret \<lparr>bs_browser = browser, bs_user_data_dir = user_data_dir, bs_browser_closed = False\<rparr>)))"

definition open_page :: "'w chromium_api \<Rightarrow> browser_session \<Rightarrow> string \<Rightarrow> ('w, string) io" where
  "open_page CH self url =
    and_then (ch_new_page CH (bs_browser self) ''about:blank'') (\<lambda>page.
    and_then (with_context ''inject stealth script'' (ch_add_script CH page STEALTH_SCRIPT)) (\<lambda>_.
    and_then (with_context ''navigate'' (ch_goto CH page url)) (\<lambda>_. ret page)))"

definition close_session :: "'w chromium_api \<Rightarrow> browser_session \<Rightarrow> ('w, unit) io" where
  "close_session CH self =
    and_then (if \<not> bs_browser_closed self
              then and_then (attempt (ch_close CH (bs_browser self))) (\<lambda>_. ret ())
              else ret ()) (\<lambda>_.
    and_then (attempt (ch_wait CH (bs_browser self))) (\<lambda>_. ret ()))"

section \<open>Cookies\<close>

definition same_site_to_str :: "same_site \<Rightarrow> string" where
  "same_site_to_str s =
    (case s of SameSiteStrict \<Rightarrow> ''Strict'' | SameSiteLax \<Rightarrow> ''Lax'' | SameSiteNone \<Rightarrow> ''None'')"

definition same_site_from_str :: "string \<Rightarrow> same_site option" where
  "same_site_from_str s =
    (if s = ''Strict'' then Some SameSiteStrict
     else if s = ''Lax'' then Some SameSiteLax
     else if s = ''None'' then Some SameSiteNone else None)"

definition stored_of_cdp :: "cdp_cookie \<Rightarrow> stored_cookie" where
  "stored_of_cdp c =
    \<lparr>ck_name = cc_name c, ck_value = cc_value c, ck_domain = cc_domain c, ck_path = cc_path c,
     ck_expires = (if f64_negative (cc_expires c) then None else Some (cc_expires c)),
     ck_http_only = cc_http_only c, ck_secure = cc_secure c,
     ck_same_site = map_option same_site_to_str (cc_same_site c)\<rparr>"

definition export_cookies :: "'w chromium_api \<Rightarrow> browser_session \<Rightarrow> ('w, stored_cookie list) io" where
  "export_cookies CH self =
    and_then (with_context ''Storage.getCookies'' (ch_get_cookies CH (bs_browser self)))
      (\<lambda>cs. ret (map stored_of_cdp cs))"

definition export_storage_state ::
    "'w chromium_api \<Rightarrow> browser_session \<Rightarrow> ('w, storage_state) io" where
  "export_storage_state CH self =
    and_then (export_cookies CH self) (\<lambda>cs. ret \<lparr>ss_cookies = cs, ss_origins = []\<rparr>)"

definition param_of_stored :: "stored_cookie \<Rightarrow> cookie_param" where
  "param_of_stored c =
    (let p = \<lparr>cp_name = ck_name c, cp_value = ck_value c, cp_domain = Some (ck_domain c),
              cp_path = Some (ck_path c), cp_http_only = Some (ck_http_only c),
              cp_secure = Some (ck_secure c), cp_expires = None, cp_same_site = None\<rparr>;
         p = (case ck_expires c of Some x \<Rightarrow> p\<lparr>cp_expires := Some x\<rparr> | None \<Rightarrow> p)
     in (case ck_same_site c of
           Some s \<Rightarrow> p\<lparr>cp_same_site := same_site_from_str s\<rparr> | None \<Rightarrow> p))"

definition import_storage_state ::
    "'w chromium_api \<Rightarrow> browser_session \<Rightarrow> storage_state \<Rightarrow> ('w, unit) io" where
  "import_storage_state CH self state =
    (if ss_cookies state = [] then ret ()
     else
       and_then (with_context ''Storage.clearCookies'' (ch_clear_cookies CH (bs_browser self))) (\<lambda>_.
       let ps = map param_of_stored (ss_cookies state) in
       and_then (with_context ''Network.setCookies'' (ch_set_cookies CH (bs_browser self) ps))
         (\<lambda>_. ret ())))"

text \<open>\<open>cookies_to_reqwest_jar\<close>: the header line and URL of each cookie whose URL parses.\<close>

definition cookie_header :: "stored_cookie \<Rightarrow> string" where
  "cookie_header c =
    ck_name c @ ''='' @ ck_value c @ ''; Path='' @ ck_path c @ ''; Domain='' @ ck_domain c @
    (if ck_secure c then ''; Secure'' else []) @
    (if ck_http_only c then ''; HttpOnly'' else []) @
    (case ck_same_site c of Some s \<Rightarrow> ''; SameSite='' @ s | None \<Rightarrow> [])"

definition cookie_url :: "stored_cookie \<Rightarrow> string" where
  "cookie_url c =
    (if ck_secure c then ''https'' else ''http'') @ ''://'' @
    trim_start_char (CHR ''.'') (ck_domain c)"

fun cookies_to_reqwest_jar :: "'w http_api \<Rightarrow> stored_cookie list \<Rightarrow> (string \<times> string) list" where
  "cookies_to_reqwest_jar H [] = []"
| "cookies_to_reqwest_jar H (c # cs) =
    (case url_parse H (cookie_url c) of
       Some url \<Rightarrow> (cookie_header c, url) # cookies_to_reqwest_jar H cs
     | None \<Rightarrow> cookies_to_reqwest_jar H cs)"

section \<open>Waiting for the user\<close>

text \<open>
  \<open>wait_and_capture\<close> selects among a timer and two event streams.  The events it sees, in the order
  it sees them, are a list; a stream that ended yields \<open>None\<close>.  A list that is used up while the
  loop still waits ends in \<open>OutOfFuel\<close>.  The idle counter and the log lines have no effect.
\<close>

datatype wait_event = TimerTick | TargetDestroyed "unit option" | TargetChanged "unit option"

definition live_cookies ::
    "'w chromium_api \<Rightarrow> browser_session \<Rightarrow> ('w, storage_state option) io" where
  "live_cookies CH self =
    and_then (attempt (export_storage_state CH self)) (\<lambda>r.
    ret (case r of Inr state \<Rightarrow> (if ss_cookies state \<noteq> [] then Some state else None)
         | Inl _ \<Rightarrow> None))"

definition capture_finish :: "browser_session \<Rightarrow> storage_state \<Rightarrow> ('w, storage_state \<times> browser_session) io" where
  "capture_finish self cache =
    (if ss_cookies cache = [] then fail (Msg ''browser closed before any cookies were captured'')
     else ret (cache, self\<lparr>bs_browser_closed := True\<rparr>))"

text \<open>The branch taken when a poll shows no page left: a last snapshot, else the cache.\<close>

definition last_page_gone ::
    "'w chromium_api \<Rightarrow> browser_session \<Rightarrow> storage_state \<Rightarrow> ('w, storage_state \<times> browser_session) io" where
  "last_page_gone CH self cache =
    and_then (live_cookies CH self) (\<lambda>r.
    (case r of Some state \<Rightarrow> ret (state, self\<lparr>bs_browser_closed := True\<rparr>)
     | None \<Rightarrow> capture_finish self cache))"

definition page_count :: "string list \<Rightarrow> nat" where
  "page_count types = length (filter (\<lambda>t. t = ''page'') types)"

fun capture_loop ::
    "'w chromium_api \<Rightarrow> browser_session \<Rightarrow> storage_state \<Rightarrow> wait_event list \<Rightarrow>
      ('w, storage_state \<times> browser_session) io" where
  "capture_loop CH self cache [] = fail OutOfFuel"
| "capture_loop CH self cache (TimerTick # es) =
    and_then (attempt (ch_get_targets CH (bs_browser self))) (\<lambda>r.
    (case r of
       Inr types \<Rightarrow>
         if page_count types = 0 then last_page_gone CH self cache
         else capture_loop CH self cache es
     | Inl _ \<Rightarrow> capture_finish self cache))"
| "capture_loop CH self cache (TargetDestroyed None # es) = capture_finish self cache"
| "capture_loop CH self cache (TargetDestroyed (Some _) # es) =
    and_then (attempt (ch_get_targets CH (bs_browser self))) (\<lambda>r.
    (case r of
       Inr types \<Rightarrow>
         if page_count types = 0 then last_page_gone CH self cache
         else capture_loop CH self cache es
     | Inl _ \<Rightarrow> capture_finish self cache))"
| "capture_loop CH self cache (TargetChanged None # es) = capture_finish self cache"
| "capture_loop CH self cache (TargetChanged (Some _) # es) =
    and_then (live_cookies CH self) (\<lambda>r.
    (case r of Some state \<Rightarrow> capture_loop CH self state es
     | None \<Rightarrow> capture_loop CH self cache es))"

definition wait_and_capture ::
    "'w chromium_api \<Rightarrow> browser_session \<Rightarrow> wait_event list \<Rightarrow>
      ('w, storage_state \<times> browser_session) io" where
  "wait_and_capture CH self events =
    and_then (ch_listen CH (bs_browser self) ''Target.targetDestroyed'') (\<lambda>_.
    and_then (ch_listen CH (bs_browser self) ''Target.targetInfoChanged'') (\<lambda>_.
    and_then (attempt (export_storage_state CH self)) (\<lambda>r.
    let cache = (case r of Inr state \<Rightarrow> state | Inl _ \<Rightarrow> \<lparr>ss_cookies = [], ss_origins = []\<rparr>) in
    capture_loop CH self cache events)))"

end
