(* ===== verification/Config.thy ===== *)
theory Config
  imports Chats Browser
begin

text \<open>
  \<open>src/config.rs\<close>: the configuration, how it is loaded, resolved and validated.  The TOML parser
  and \<open>Path::canonicalize\<close> are parameters; the defaults that \<open>serde\<close> fills in are the
  parser's, and the default values themselves are given at the end.
\<close>

record browser_cfg =
  bw_chromium_bin :: string
  bw_user_data_dir :: string
  bw_headless :: bool

record crypto_cfg =
  cy_recipient_file :: string
  cy_verify_pubkey_file :: string

datatype store_cfg =
    StoreS3 (sc_name: string) (sc_endpoint: string) (sc_region: string) (sc_bucket: string)
      (sc_prefix: string) (sc_access_key_env: string) (sc_secret_key_env: string)
  | StoreGithubRelease (sc_name: string) (sc_repo: string) (sc_token_env: string)
  | StoreGitBranch (sc_name: string) (sc_repo_url: string) (sc_branch: string) (sc_token_env: string)

datatype workload_cfg = ChatgptChats chats_cfg

record export_cfg =
  ex_chatgpt_base_url :: string
  ex_rate_limit_delay_ms :: nat
  ex_max_retries :: "32 word"
  ex_prefix :: string

record config =
  cg_browser :: browser_cfg
  cg_login_url :: string
  cg_canary :: canary_cfg
  cg_crypto :: crypto_cfg
  cg_lock_ttl_seconds :: nat
  cg_stores :: "store_cfg list"
  cg_export :: export_cfg
  cg_workloads :: "workload_cfg list"

definition workload_name :: "workload_cfg \<Rightarrow> string" where
  "workload_name w = (case w of ChatgptChats c \<Rightarrow> cf_name c)"

text \<open>\<open>primary\<close> and \<open>mirrors\<close> slice the list of stores and panic when it is empty.\<close>

definition primary_cfg :: "config \<Rightarrow> store_cfg res" where
  "primary_cfg cfg =
    (case cg_stores cfg of [] \<Rightarrow> Inl (Panic ''index out of bounds'') | s # _ \<Rightarrow> Inr s)"

definition mirrors_cfg :: "config \<Rightarrow> store_cfg list res" where
  "mirrors_cfg cfg =
    (case cg_stores cfg of [] \<Rightarrow> Inl (Panic ''range start index 1 out of range'') | _ # ss \<Rightarrow> Inr ss)"

definition validate :: "config \<Rightarrow> unit res" where
  "validate cfg =
    res_bind (ensure (cg_stores cfg \<noteq> [])
      (Msg ''config: stores must contain at least one entry (the primary)'')) (\<lambda>_.
    res_bind (ensure (cg_lock_ttl_seconds cfg > 0)
      (Msg ''config: lock.ttl_seconds must be > 0 (lock with TTL=0 expires immediately and provides no mutual exclusion)''))
      (\<lambda>_. Inr ()))"

section \<open>Paths and loading\<close>

definition resolve_path :: "string \<Rightarrow> string \<Rightarrow> string" where
  "resolve_path base p = (if path_is_relative p then path_join base p else p)"

record loader =
  ld_files :: file_system
  ld_toml :: "string \<Rightarrow> config res"
  ld_canonicalize :: "string \<Rightarrow> string res"
  ld_env :: "string \<Rightarrow> string option"

definition load_config :: "loader \<Rightarrow> string \<Rightarrow> config res" where
  "load_config L path =
    res_bind (res_context (''read config '' @ path) (read_to_string (ld_files L) path)) (\<lambda>raw.
    res_bind (res_context (''parse config '' @ path) (ld_toml L raw)) (\<lambda>cfg.
    res_bind (res_context (''canonicalize config path '' @ path) (ld_canonicalize L path)) (\<lambda>canon.
    let base = (case path_parent canon of Some p \<Rightarrow> p | None \<Rightarrow> ''.'');
        b = cg_browser cfg;
        c = cg_crypto cfg;
        b = b\<lparr>bw_chromium_bin := resolve_path base (bw_chromium_bin b),
              bw_user_data_dir := resolve_path base (bw_user_data_dir b)\<rparr>;
        c = c\<lparr>cy_recipient_file := resolve_path base (cy_recipient_file c),
              cy_verify_pubkey_file := resolve_path base (cy_verify_pubkey_file c)\<rparr>;
        b = (case ld_env L ''CHROMIUM_BIN'' of Some bin \<Rightarrow> b\<lparr>bw_chromium_bin := bin\<rparr> | None \<Rightarrow> b);
        cfg = cfg\<lparr>cg_browser := b, cg_crypto := c\<rparr>
    in res_bind (validate cfg) (\<lambda>_. Inr cfg))))"

section \<open>Defaults\<close>

definition default_user_agent :: string where
  "default_user_agent =
    ''Mozilla/5.0 (X11; Linux x86_64) AppleWebKit/537.36 (KHTML, like Gecko) Chrome/131.0.0.0 Safari/537.36''"

definition default_export :: export_cfg where
  "default_export =
    \<lparr>ex_chatgpt_base_url = ''https://chatgpt.com'', ex_rate_limit_delay_ms = 2000,
     ex_max_retries = 5, ex_prefix = ''exports/''\<rparr>"

definition default_chats :: "string \<Rightarrow> chats_cfg" where
  "default_chats nm =
    \<lparr>cf_name = nm, cf_prefix = ''chatgpt/'', cf_base_url = ''https://chatgpt.com'',
     cf_session_path = ''/api/auth/session'', cf_list_path = ''/backend-api/conversations'',
     cf_detail_path_template = ''/backend-api/conversation/{id}'', cf_list_page_limit = 28,
     cf_incremental_stop_after_known = 50, cf_list_delay_ms = 1200, cf_detail_delay_ms = 4000,
     cf_detail_batch_size = 75, cf_detail_batch_cooldown_ms = 45000,
     cf_retry_sweep_cooldown_ms = 600000, cf_max_backoff_ms = 900000, cf_max_retries = 5,
     cf_zstd_level = 19\<rparr>"

section \<open>Facts\<close>

lemma validate_Inr_iff [simp]:
  "validate cfg = Inr u \<longleftrightarrow> cg_stores cfg \<noteq> [] \<and> 0 < cg_lock_ttl_seconds cfg"
  by (auto simp: validate_def res_bind_Inr_iff)

lemma resolve_path_absolute:
  assumes "prefix ''/'' base"
  shows "\<not> path_is_relative (resolve_path base p)"
  using assms by (auto simp: resolve_path_def path_join_def path_is_relative_def prefix_def)

text \<open>
  C36: A configuration that loads is usable: it names a primary store, so neither \<open>primary()\<close> nor
  \<open>mirrors()\<close> can panic, its lock TTL is positive, and the key files and the browser profile are
  absolute paths, whatever directory the program is started from.
\<close>

theorem loaded_config_usable:
  assumes "load_config L path = Inr cfg"
    and "\<And>p. ld_canonicalize L path = Inr p \<Longrightarrow> prefix ''/'' p \<and> path_parent p \<noteq> None"
  shows "(\<exists>s ss. primary_cfg cfg = Inr s \<and> mirrors_cfg cfg = Inr ss \<and> cg_stores cfg = s # ss) \<and>
    0 < cg_lock_ttl_seconds cfg \<and>
    \<not> path_is_relative (cy_recipient_file (cg_crypto cfg)) \<and>
    \<not> path_is_relative (cy_verify_pubkey_file (cg_crypto cfg)) \<and>
    \<not> path_is_relative (bw_user_data_dir (cg_browser cfg))"
proof -
  from assms(1) obtain canon where canon: "ld_canonicalize L path = Inr canon"
    by (auto simp: load_config_def res_bind_Inr_iff Let_def)
  with assms(2) obtain base where base: "path_parent canon = Some base" "prefix ''/'' base"
    by (metis not_Some_eq path_parent_absolute)
  from assms(1) have "cg_stores cfg \<noteq> []" "0 < cg_lock_ttl_seconds cfg"
    by (auto simp: load_config_def res_bind_Inr_iff Let_def)
  then show ?thesis
    using assms(1) canon base resolve_path_absolute [OF base(2)]
    by (cases "cg_stores cfg")
      (auto simp: load_config_def res_bind_Inr_iff Let_def primary_cfg_def mirrors_cfg_def
        split: option.splits)
qed

definition bench_config :: config where
  "bench_config =
    \<lparr>cg_browser = \<lparr>bw_chromium_bin = ''/usr/bin/chromium'', bw_user_data_dir = ''profile'',
       bw_headless = True\<rparr>,
     cg_login_url = ''https://c/login'',
     cg_canary = \<lparr>cn_url = ''https://c/me'', cn_expected_status = 200, cn_field = ''/id'',
       cn_expected_value = ''me'', cn_user_agent = default_user_agent, cn_headers = []\<rparr>,
     cg_crypto = \<lparr>cy_recipient_file = ''age.txt'', cy_verify_pubkey_file = ''/etc/pub.hex''\<rparr>,
     cg_lock_ttl_seconds = 300,
     cg_stores = [StoreS3 ''primary'' ''https://r2'' ''auto'' ''b'' ''p/'' ''AK'' ''SK''],
     cg_export = default_export, cg_workloads = [ChatgptChats (default_chats ''chats'')]\<rparr>"

definition bench_loader :: loader where
  "bench_loader =
    \<lparr>ld_files = [''config.toml'' \<mapsto> ''toml''], ld_toml = (\<lambda>s. Inr bench_config),
     ld_canonicalize = (\<lambda>p. Inr (''/srv/app/'' @ p)), ld_env = (\<lambda>v. None)\<rparr>"

theorem loaded_config_usable_witness:
  "\<exists>cfg. load_config bench_loader ''config.toml'' = Inr cfg \<and>
    cy_recipient_file (cg_crypto cfg) = ''/srv/app/age.txt'' \<and>
    \<not> path_is_relative (bw_user_data_dir (cg_browser cfg))"
proof -
  let ?cfg = "bench_config\<lparr>
      cg_browser := (cg_browser bench_config)\<lparr>bw_user_data_dir := ''/srv/app/profile''\<rparr>,
      cg_crypto := (cg_crypto bench_config)\<lparr>cy_recipient_file := ''/srv/app/age.txt''\<rparr>\<rparr>"
  have utf8: "valid_utf8 ''toml''"
    by (rule valid_utf8_ascii) (simp add: byte_def)
  have load: "load_config bench_loader ''config.toml'' = Inr ?cfg"
    by (simp add: load_config_def bench_loader_def read_to_string_def from_utf8_def utf8 res_bind_def
        res_context_def ok_or_def Let_def path_parent_def trim_end_slash_def resolve_path_def path_join_def
        path_is_relative_def bench_config_def validate_def ensure_def del: valid_utf8.simps)
  have "\<not> path_is_relative (bw_user_data_dir (cg_browser ?cfg))"
    using loaded_config_usable [OF load]
    by (simp add: bench_loader_def path_parent_def trim_end_slash_def)
  with load show ?thesis by auto
qed

end
