(* ===== verification/Import.thy ===== *)
theory Import
  imports Chats_Archive Config
begin

text \<open>
  \<open>src/commands/import_chatgpt.rs\<close>: filling the archive of the chats workload from an official data
  export.  A scan of the files decides what to upload; the uploads run with a bounded number in
  flight; the index is saved at the end with what made it through.

  The uploads interleave.  Each one is a task that advances by one request at a time, and a schedule,
  a list of numbers, says which task in flight advances next.  Every schedule is allowed for, so
  every order in which the futures of \<open>buffer_unordered\<close> may be polled and answered is one of them.
  A schedule that is used up before the last task is done ends in \<open>OutOfFuel\<close>.
\<close>

section \<open>The files\<close>

text \<open>
  \<open>std::fs::read_dir\<close> (the entries, each of which may be an error), \<open>std::fs::read\<close>, and the parser of
  a JSON array.
\<close>

record 'w archive_api =
  rd_read_dir :: "string \<Rightarrow> ('w, string res list) io"
  rd_read :: "string \<Rightarrow> ('w, bytes) io"
  rd_array_from_slice :: "bytes \<Rightarrow> json list res"

definition is_archive_name :: "string \<Rightarrow> bool" where
  "is_archive_name name \<longleftrightarrow> starts_with name ''conversations'' \<and> ends_with name ''.json''"

definition archive_path :: "string \<Rightarrow> bool" where
  "archive_path path =
    (case Option.bind (path_file_name path) from_utf8 of
       None \<Rightarrow> False
     | Some name \<Rightarrow> is_archive_name name)"

fun archive_entries :: "string res list \<Rightarrow> string list \<Rightarrow> string list res" where
  "archive_entries [] out = Inr out"
| "archive_entries (Inl e # rest) out = Inl e"
| "archive_entries (Inr path # rest) out =
    archive_entries rest (if archive_path path then out @ [path] else out)"

definition list_archive_files :: "'w archive_api \<Rightarrow> string \<Rightarrow> ('w, string list) io" where
  "list_archive_files D dir =
    and_then (with_context (''read_dir '' @ dir) (rd_read_dir D dir)) (\<lambda>entries.
    and_then (lift_res (archive_entries entries [])) (\<lambda>out.
    ret (sort_by path_le out)))"

section \<open>Phase 1: the scan\<close>

record pending_item =
  pi_id :: string
  pi_title :: "string option"
  pi_update_time :: "f64 option"
  pi_value :: json

record scan_state =
  sn_pending :: "pending_item list"
  sn_skipped :: nat
  sn_malformed :: nat

definition conversation_id :: "json \<Rightarrow> string option" where
  "conversation_id v =
    Option.bind (case json_get ''id'' v of
       Some i \<Rightarrow> Some i
     | None \<Rightarrow> json_get ''conversation_id'' v) json_str"

definition pending_of :: "json_api \<Rightarrow> string \<Rightarrow> json \<Rightarrow> pending_item" where
  "pending_of JS cid v =
    \<lparr>pi_id = cid, pi_title = Option.bind (json_get ''title'' v) json_str,
     pi_update_time = Option.bind (json_get ''update_time'' v) (json_f64 JS), pi_value = v\<rparr>"

definition already_current :: "chats_index \<Rightarrow> pending_item \<Rightarrow> bool" where
  "already_current idx item =
    (case map_of (ci_entries idx) (pi_id item) of
       Some existing \<Rightarrow> opt_f64_eq (ce_update_time existing) (pi_update_time item)
     | None \<Rightarrow> False)"

definition scan_value :: "json_api \<Rightarrow> chats_index \<Rightarrow> scan_state \<Rightarrow> json \<Rightarrow> scan_state" where
  "scan_value JS idx s v =
    (case conversation_id v of
       None \<Rightarrow> s\<lparr>sn_malformed := sn_malformed s + 1\<rparr>
     | Some cid \<Rightarrow>
         (let item = pending_of JS cid v in
          if already_current idx item then s\<lparr>sn_skipped := sn_skipped s + 1\<rparr>
          else s\<lparr>sn_pending := sn_pending s @ [item]\<rparr>))"

fun scan_files ::
    "'w archive_api \<Rightarrow> json_api \<Rightarrow> chats_index \<Rightarrow> scan_state \<Rightarrow> string list \<Rightarrow> ('w, scan_state) io" where
  "scan_files D JS idx s [] = ret s"
| "scan_files D JS idx s (path # rest) =
    and_then (with_context (''read '' @ path) (rd_read D path)) (\<lambda>raw.
    and_then (lift_res (res_context (''parse '' @ path @ '' as JSON array '' @ em_dash @
        '' official exports ship one array per file'') (rd_array_from_slice D raw))) (\<lambda>batch.
    scan_files D JS idx (foldl (scan_value JS idx) s batch) rest))"

section \<open>Phase 2: uploads in flight\<close>

text \<open>
  Where an upload stands: not yet polled; encoded, with the primary write next; writing to the
  mirrors that are left.  The last step reads the clock and completes the upload with its entry.
\<close>

datatype 'w upload =
    UpQueued pending_item
  | UpEncoded pending_item bytes
  | UpFanout pending_item bytes "'w store list"

definition upload_item :: "'w upload \<Rightarrow> pending_item" where
  "upload_item u = (case u of UpQueued i \<Rightarrow> i | UpEncoded i c \<Rightarrow> i | UpFanout i c ms \<Rightarrow> i)"

text \<open>One step: the upload goes on, or is done with a result.\<close>

type_synonym 'w upload_next = "'w upload + chats_index_entry res"

definition upload_failed :: "pending_item \<Rightarrow> report \<Rightarrow> 'w upload_next" where
  "upload_failed item e = Inr (Inl (Ctx (''store '' @ pi_id item) e))"

fun upload_step ::
    "'w chats_env \<Rightarrow> chats_cfg \<Rightarrow> 'w workload_ctx \<Rightarrow> 'w upload \<Rightarrow> ('w, report, 'w upload_next) eio" where
  "upload_step V cfg ctx (UpQueued item) =
    and_then (attempt (encode_conversation V cfg (pi_value item) (wx_recipient ctx))) (\<lambda>r.
    ret (case r of Inl e \<Rightarrow> upload_failed item e | Inr c \<Rightarrow> Inl (UpEncoded item c)))"
| "upload_step V cfg ctx (UpEncoded item c) =
    (let k = conv_key cfg (pi_id item) in
     and_then (attempt (with_context (''put '' @ k) (st_put (wx_primary ctx) k c))) (\<lambda>r.
     ret (case r of Inl e \<Rightarrow> upload_failed item e | Inr _ \<Rightarrow> Inl (UpFanout item c (wx_mirrors ctx)))))"
| "upload_step V cfg ctx (UpFanout item c (m # ms)) =
    and_then (attempt (st_put m (conv_key cfg (pi_id item)) c)) (\<lambda>_. ret (Inl (UpFanout item c ms)))"
| "upload_step V cfg ctx (UpFanout item c []) =
    and_then (effect (utc_now (ve_chrono V))) (\<lambda>now.
    ret (Inr (Inr \<lparr>ce_update_time = pi_update_time item, ce_title = pi_title item,
      ce_object_key = conv_key cfg (pi_id item), ce_sha256 = sha256_hex (ve_crypto V) c,
      ce_bytes = length c, ce_stored_at = now\<rparr>)))"

record import_state =
  im_index :: chats_index
  im_imported :: nat
  im_failed :: nat

text \<open>The body of \<open>while let Some((id, result)) = upload_stream.next().await\<close>.\<close>

definition take_result :: "string \<Rightarrow> chats_index_entry res \<Rightarrow> import_state \<Rightarrow> import_state" where
  "take_result cid r s =
    (case r of
       Inr entry \<Rightarrow> s\<lparr>im_index := insert_entry cid entry (im_index s), im_imported := im_imported s + 1\<rparr>
     | Inl e \<Rightarrow> s\<lparr>im_failed := im_failed s + 1\<rparr>)"

text \<open>\<open>buffer_unordered(n)\<close>: futures are taken from the stream while fewer than \<open>n\<close> are in flight.\<close>

definition refill ::
    "nat \<Rightarrow> pending_item list \<Rightarrow> 'w upload list \<Rightarrow> pending_item list \<times> 'w upload list" where
  "refill n queue running =
    (let k = n - length running in
     (drop k queue, running @ map UpQueued (take k queue)))"

fun run_uploads ::
    "'w chats_env \<Rightarrow> chats_cfg \<Rightarrow> 'w workload_ctx \<Rightarrow> nat \<Rightarrow> nat list \<Rightarrow> pending_item list \<Rightarrow>
      'w upload list \<Rightarrow> import_state \<Rightarrow> ('w, import_state) io" where
  "run_uploads V cfg ctx n [] queue running s =
    (if queue = [] \<and> running = [] then ret s else fail OutOfFuel)"
| "run_uploads V cfg ctx n (i # schedule) queue running s =
    (if queue = [] \<and> running = [] then ret s
     else
       (case refill n queue running of (queue', running') \<Rightarrow>
         let j = i mod length running' in
         and_then (upload_step V cfg ctx (running' ! j)) (\<lambda>nx.
         (case nx of
            Inl u \<Rightarrow> run_uploads V cfg ctx n schedule queue' (running'[j := u]) s
          | Inr r \<Rightarrow>
              run_uploads V cfg ctx n schedule queue' (take j running' @ drop (Suc j) running')
                (take_result (pi_id (upload_item (running' ! j))) r s)))))"

section \<open>The command\<close>

definition import_summary :: "import_state \<Rightarrow> scan_state \<Rightarrow> string" where
  "import_summary s sc =
    ''imported '' @ show_nat (im_imported s) @ '' new/updated, skipped '' @ show_nat (sn_skipped sc) @
    '' already-current, '' @ show_nat (im_failed s) @ '' failed, '' @ show_nat (sn_malformed sc) @
    '' malformed; index size now '' @ show_nat (length (ci_entries (im_index s)))"

text \<open>Phases 2 and 3; the first component of the result is what is printed.\<close>

definition import_upload ::
    "'w chats_env \<Rightarrow> chats_cfg \<Rightarrow> 'w workload_ctx \<Rightarrow> nat \<Rightarrow> nat list \<Rightarrow> scan_state \<Rightarrow> chats_index \<Rightarrow>
      string option \<Rightarrow> ('w, string) io" where
  "import_upload V cfg ctx concurrency schedule sc index prev_etag =
    and_then (run_uploads V cfg ctx concurrency schedule (sn_pending sc) []
        \<lparr>im_index = index, im_imported = 0, im_failed = 0\<rparr>) (\<lambda>s.
    and_then (save_index V cfg ctx (im_index s) prev_etag) (\<lambda>_.
    if im_failed s > 0 then
      fail (Msg (show_nat (im_failed s) @ '' conversation(s) failed to upload; re-run to retry''))
    else ret (import_summary s sc)))"

definition import_run ::
    "'w archive_api \<Rightarrow> 'w chats_env \<Rightarrow> chats_cfg \<Rightarrow> 'w workload_ctx \<Rightarrow> string \<Rightarrow> nat \<Rightarrow> nat list \<Rightarrow> bool \<Rightarrow>
      ('w, string) io" where
  "import_run D V cfg ctx dir concurrency schedule dry_run =
    and_then (list_archive_files D dir) (\<lambda>files.
    if files = [] then
      fail (Msg (''no conversations-*.json files in '' @ dir @ '' '' @ em_dash @
        '' point --from at the unpacked export dir''))
    else
      and_then (load_index V cfg (wx_primary ctx) (wx_identity ctx)) (\<lambda>(index, prev_etag).
      and_then (scan_files D (ae_json (ve_api V)) index
          \<lparr>sn_pending = [], sn_skipped = 0, sn_malformed = 0\<rparr> files) (\<lambda>sc.
      if dry_run then
        ret (''dry run: would upload '' @ show_nat (length (sn_pending sc)) @ '' new/updated, skip '' @
          show_nat (sn_skipped sc) @ '' already-current, '' @ show_nat (sn_malformed sc) @ '' malformed'')
      else import_upload V cfg ctx concurrency schedule sc index prev_etag)))"

end
