(* ===== verification/Chats_Run.thy ===== *)
theory Chats_Run
  imports Chats_Archive
begin

text \<open>
  The properties of the chats workload as a whole, and the bench on which its contract is
  interpreted: the two in-memory stores of theory \<open>Bench\<close> and a server with one conversation.
\<close>

section \<open>A bench for the workload\<close>

definition bench_chats_env ::
    "(string \<Rightarrow> http_response) \<Rightarrow> (bytes \<times> json) list \<Rightarrow> (json \<Rightarrow> conversation_summary list res) \<Rightarrow>
      chats_index serde \<Rightarrow> bench chats_env" where
  "bench_chats_env f tbl parse J =
    \<lparr>ve_api = bench_env f tbl parse, ve_chrono = bench_chrono, ve_crypto = bench_crypto,
     ve_index_serde = J\<rparr>"

definition bench_ctx :: "bench workload_ctx" where
  "bench_ctx =
    \<lparr>wx_http = bench_client, wx_primary = bench_primary, wx_mirrors = [bench_mirror],
     wx_recipient = ''age1'', wx_identity = ''AGE-SECRET-KEY-1''\<rparr>"

lemma bench_network: "api_env_keeps (bench_env f tbl parse) bench_objects"
  by (auto simp: api_env_keeps_def http_keeps_def bench_env_def bench_http_def keeps_def
      bench_objects_def)

interpretation bench_chats:
  chats_site bench_primary bench_objects "bench_chats_env f tbl parse J" bench_ctx
proof
  fix m :: "bench store" and k b
  assume "m \<in> set (wx_mirrors bench_ctx)"
  then show "keeps bench_objects (st_put m k b)"
    by (simp add: bench_ctx_def bench_mirror_keeps)
next
  fix e
  show "keeps bench_objects (age_wrap_output (ve_crypto (bench_chats_env f tbl parse J)) e)"
    by (simp add: bench_chats_env_def bench_crypto_def keeps_ret)
qed (simp_all add: bench_ctx_def bench_chats_env_def bench_clock_keeps bench_network)

lemmas bench_chats_site = bench_chats.chats_site_axioms

text \<open>The pointer of the bench is a view its workload keeps.\<close>

interpretation bench_chats_view:
  chats_frame "bench_chats_env f tbl parse J" cfg bench_ctx "body_at bench_objects LATEST_KEY"
  by (rule bench_chats.other_keys [OF LATEST_not_chats(1)])

text \<open>The server of the bench: one listed conversation, \<open>a\<close>, with a body.\<close>

definition bench_answer :: "string \<Rightarrow> string \<Rightarrow> http_response" where
  "bench_answer body url = \<lparr>rs_status = 200, rs_headers = [],
    rs_body = (if url = ''https://c/session'' then ''tok''
      else if url = ''https://c/conv/a'' then body else ''L'')\<rparr>"

definition bench_summary :: conversation_summary where
  "bench_summary = \<lparr>sm_id = ''a'', sm_title = Some ''Title'', sm_update_time = Some 1\<rparr>"

definition bench_bodies :: "(bytes \<times> json) list" where
  "bench_bodies = [(''L'', JNull), (''C'', JString ''hello'')]"

definition bench_index :: chats_index where
  "bench_index =
    \<lparr>ci_schema_version = 1, ci_updated_at = 2002000000,
     ci_entries = [(''a'', \<lparr>ce_update_time = Some 1, ce_title = Some ''Title'',
       ce_object_key = ''chats/conv/a.json.zst.age'', ce_sha256 = ''5343'', ce_bytes = 2,
       ce_stored_at = 1002000000\<rparr>)]\<rparr>"

abbreviation bench_V :: "bench chats_env" where
  "bench_V \<equiv> bench_chats_env (bench_answer ''C'') bench_bodies (\<lambda>_. Inr [bench_summary])
    (table_serde [(bench_index, ''I'')])"

lemma table_serde_single: "serde_ok (table_serde [(x, t)]) y"
  by (auto simp: serde_ok_def)

lemma bench_get_json:
  "get_json (bench_env (bench_answer body) tbl parse) bench_client bench_chats_cfg url
      \<lparr>ap_world = w, ap_token = t\<rparr> =
    (classify_body (bench_json tbl) url (rs_body (bench_answer body url)), \<lparr>ap_world = w, ap_token = t\<rparr>)"
  by (simp add: get_json_def bench_http_def Let_def bench_answer_def on_world_def
      on_part_def map_err_def and_then_def is_success_def is_server_error_def lift_res_def
      current_token_ok eval_nat_numeral)

lemma bench_api_list:
  "api_list (bench_env (bench_answer body) [(''L'', JNull), (''C'', v)] parse) bench_client
      bench_chats_cfg off lim \<lparr>ap_world = w, ap_token = t\<rparr> =
    (res_context (''deserialize list from https://c/list?offset='' @ show_nat (unat off) @
      ''&limit='' @ show_nat (unat lim)) (parse JNull), \<lparr>ap_world = w, ap_token = t\<rparr>)"
  by (simp add: api_list_def Let_def map_err_def and_then_def bench_get_json bench_answer_def
      classify_body_def bench_json_def json_get_def lift_res_def ok_or_def)

lemma bench_get_raw:
  "get_raw (bench_env (bench_answer ''C'') bench_bodies parse) bench_client
      bench_chats_cfg ''a'' \<lparr>ap_world = w, ap_token = t\<rparr> =
    (Inr (JString ''hello''), \<lparr>ap_world = w, ap_token = t\<rparr>)"
  by (simp add: get_raw_def Let_def map_err_def bench_get_json bench_answer_def
      classify_body_def bench_json_def bench_bodies_def json_get_def ok_or_def lift_res_def)

lemma bench_api_new:
  "api_new (bench_env (bench_answer body) tbl parse) bench_client bench_chats_cfg w = (Inr ''tok'', w)"
  by (simp add: api_new_def fetch_session_def bench_http_def bench_answer_def http_get_def
      and_then_def with_context_def map_err_def is_success_def lift_res_def Let_def ret_def
      is_char_boundary_def ok_or_def)

lemma bench_collect:
  "collect_outdated (bench_env (bench_answer body) bench_bodies (\<lambda>_. Inr [bench_summary]))
      bench_client bench_chats_cfg \<lparr>ci_schema_version = 1, ci_updated_at = u, ci_entries = []\<rparr> 1
      \<lparr>ap_world = w, ap_token = t\<rparr> =
    (Inr [bench_summary], \<lparr>ap_world = w\<lparr>bn_clock := bn_clock w + 10 ^ 6\<rparr>, ap_token = t\<rparr>)"
  by (simp add: collect_outdated_def One_nat_def bench_bodies_def Let_def known_def
      and_then_def bench_api_list res_context_def ret_def on_world_def on_part_def effect_def)

text \<open>The store after the run.\<close>

definition bench_archived :: bench where
  "bench_archived =
    \<lparr>bn_primary = \<lparr>inner = [(''chats/conv/a.json.zst.age'', ''SC'', 1),
       (''chats/index.json.age'', ''SI'', 2)], counter = 2\<rparr>,
     bn_mirror = \<lparr>inner = [(''chats/conv/a.json.zst.age'', ''SC'', 1),
       (''chats/index.json.age'', ''SI'', 2)], counter = 2\<rparr>,
     bn_clock = 3002000000\<rparr>"

lemma bench_save:
  "save_index bench_V bench_chats_cfg bench_ctx
      \<lparr>ci_schema_version = 1, ci_updated_at = u, ci_entries = ci_entries bench_index\<rparr> None
      (bench_archived\<lparr>bn_clock := 2002000000,
        bn_primary := \<lparr>inner = [(''chats/conv/a.json.zst.age'', ''SC'', 1)], counter = 1\<rparr>,
        bn_mirror := \<lparr>inner = [(''chats/conv/a.json.zst.age'', ''SC'', 1)], counter = 1\<rparr>\<rparr>) =
    (Inr (), bench_archived)"
proof -
  have idx: "\<lparr>ci_schema_version = 1, ci_updated_at = 2002000000,
      ci_entries = ci_entries bench_index\<rparr> = bench_index"
    by (simp add: bench_index_def)
  show ?thesis
    by (simp add: save_index_def bench_chats_env_def bench_chrono_def bench_ctx_def encode_index_def
        encrypt_def bench_crypto_def and_then_def effect_def lift_res_def map_err_def with_context_def
        res_context_def ok_or_def idx ret_def Let_def index_key_def attempt_def
        bench_archived_def bench_primary_def bench_mirror_def mem_store_def on_part_def
        mem_put_if_unmodified_def mem_put_def)
qed

lemma bench_load:
  "load_index bench_V bench_chats_cfg bench_primary ''AGE-SECRET-KEY-1'' (bench_start 0) =
    (Inr (\<lparr>ci_schema_version = 1, ci_updated_at = 0, ci_entries = []\<rparr>, None),
     (bench_start 0)\<lparr>bn_clock := 10 ^ 9\<rparr>)"
  by (simp add: load_index_def Let_def index_empty_def bench_chats_env_def bench_chrono_def
      bench_primary_def mem_store_def mem_head_def on_part_def and_then_def effect_def ret_def
      bench_start_def mem_new_def)

lemma bench_hex_SC: "bench_hex_encode ''SC'' = ''5343''"
  by (simp add: bench_hex_encode_def byte_def hex_nibbles)

lemma bench_fetch:
  "fetch_one bench_V bench_chats_cfg bench_ctx
      (\<lparr>ci_schema_version = 1, ci_updated_at = 0, ci_entries = []\<rparr>, []) bench_summary
      \<lparr>ap_world = (bench_start 0)\<lparr>bn_clock := 1001000000\<rparr>, ap_token = t\<rparr> =
    (Inr (\<lparr>ci_schema_version = 1, ci_updated_at = 0, ci_entries = ci_entries bench_index\<rparr>, []),
     \<lparr>ap_world = bench_archived\<lparr>bn_clock := 2002000000,
        bn_primary := \<lparr>inner = [(''chats/conv/a.json.zst.age'', ''SC'', 1)], counter = 1\<rparr>,
        bn_mirror := \<lparr>inner = [(''chats/conv/a.json.zst.age'', ''SC'', 1)], counter = 1\<rparr>\<rparr>,
      ap_token = t\<rparr>)"
  by (simp add: fetch_one_def store_summary_def store_conversation_def encode_conversation_def
      bench_chats_env_def bench_ctx_def and_then_def on_world_def on_part_def effect_def attempt_def
      bench_summary_def bench_get_raw [unfolded bench_bodies_def] lift_res_def res_context_def bench_json_def bench_bodies_def
      ok_or_def bench_crypto_def with_context_def map_err_def encrypt_def ret_def Let_def conv_key_def
      sha256_hex_def bench_hex_SC bench_primary_def bench_mirror_def
      mem_store_def mem_put_def bench_start_def mem_new_def bench_chrono_def insert_entry_def
      bench_index_def bench_archived_def)

lemma bench_chats_run:
  "chats_run bench_V bench_chats_cfg 1 bench_ctx (bench_start 0) = (Inr (), bench_archived)"
proof -
  have env: "ve_api bench_V = bench_env (bench_answer ''C'') bench_bodies (\<lambda>_. Inr [bench_summary])"
    by (simp add: bench_chats_env_def)
  have ctx: "wx_primary bench_ctx = bench_primary" "wx_identity bench_ctx = ''AGE-SECRET-KEY-1''"
    "wx_http bench_ctx = bench_client"
    by (simp_all add: bench_ctx_def)
  have chunks: "chunks (batch_size bench_chats_cfg) [bench_summary] = [[bench_summary]]"
    by (simp add: batch_size_def)
  have clock: "(bench_start 0)\<lparr>bn_clock := 10 ^ 9\<rparr>\<lparr>bn_clock := bn_clock ((bench_start 0)
      \<lparr>bn_clock := 10 ^ 9\<rparr>) + 10 ^ 6\<rparr> = (bench_start 0)\<lparr>bn_clock := 1001000000\<rparr>"
    by (simp add: bench_start_def)
  have "chats_phases bench_V bench_chats_cfg 1 bench_ctx
      \<lparr>ci_schema_version = 1, ci_updated_at = 0, ci_entries = []\<rparr> None
      \<lparr>ap_world = (bench_start 0)\<lparr>bn_clock := 10 ^ 9\<rparr>, ap_token = ''tok''\<rparr> =
    (Inr (), \<lparr>ap_world = bench_archived, ap_token = ''tok''\<rparr>)"
    unfolding chats_phases_def env ctx
      and_then_Inr [where m = "collect_outdated _ _ _ _ _", OF bench_collect] clock
    by (simp add: chunks and_then_assoc and_then_Inr [where m = "fetch_one _ _ _ _ _", OF bench_fetch]
        retry_sweep_def on_world_def on_part_def bench_save [unfolded One_nat_def])
  then show ?thesis
    unfolding chats_run_def env ctx and_then_Inr [where m = "load_index _ _ _ _", OF bench_load]
    by (simp add: and_then_Inr [where m = "api_new _ _ _", OF bench_api_new] with_token_def)
qed

section \<open>Properties\<close>



text \<open>
  C29: A run of the workload, successful or not, writes no object of the primary store but its own
  index and its own conversation bodies: the session snapshots, \<open>latest.json\<close>, the lock and the
  health log are untouched.
\<close>

theorem chats_run_writes_own_keys:
  assumes "chats_site st objs V ctx"
    and "k \<noteq> index_key cfg" and "\<And>cid. k \<noteq> conv_key cfg cid"
  shows "body_at objs k (snd (chats_run V cfg pages ctx w)) = body_at objs k w"
proof -
  have "k \<notin> chats_keys cfg"
    using assms(2,3) by (auto simp: chats_keys_def)
  then show ?thesis
    by (rule keeps_snd [OF chats_site.chats_run_frame [OF assms(1)]])
qed

theorem chats_run_writes_own_keys_witness:
  "body_at bench_objects LATEST_KEY (snd (chats_run bench_V bench_chats_cfg 1 bench_ctx
      (bench_start 0))) = body_at bench_objects LATEST_KEY (bench_start 0)"
  by (rule chats_run_writes_own_keys [OF bench_chats_site])
    (simp_all add: LATEST_KEY_def index_key_def conv_key_def)



text \<open>
  C18: A conversation that was stored can be read back: the object under the key of its entry has
  the digest and the length of the entry, and decrypts, decompresses and parses to the JSON value
  the server sent, with every field of it.
\<close>

theorem stored_conversation_decodes:
  assumes "chats_site st objs V ctx"
    and "age_key_pair (ve_crypto V) ident (wx_recipient ctx)" and "zstd_codec (ve_crypto V)"
    and "\<And>b. js_to_vec (ae_json (ve_api V)) body = Inr b \<Longrightarrow>
      js_from_slice (ae_json (ve_api V)) b = Inr body"
    and "store_conversation V cfg ctx cid t u body w = (Inr e, w')"
  shows "\<exists>c. body_at objs (ce_object_key e) w' = Some c \<and> ce_sha256 e = sha256_hex (ve_crypto V) c \<and>
    ce_bytes e = length c \<and> ce_update_time e = u \<and> decode_conversation V c ident = Inr body"
proof -
  from chats_site.store_conversation_ok [OF assms(1,5)] obtain c w1 where
    "entry_ok V cfg objs w' cid e" "ce_update_time e = u"
    "body_at objs (conv_key cfg cid) w' = Some c"
    "encode_conversation V cfg body (wx_recipient ctx) w = (Inr c, w1)" by blast
  with decode_encode_conversation [OF assms(2,3)] assms(4) show ?thesis
    by (fastforce simp: entry_ok_def)
qed

theorem stored_conversation_decodes_witness:
  "\<exists>c. decode_conversation bench_V c ''AGE-SECRET-KEY-1'' = Inr (JString ''hello'') \<and> length c = 2"
proof -
  have "store_conversation bench_V bench_chats_cfg bench_ctx ''a'' None None (JString ''hello'')
      (bench_start 0) = (Inr \<lparr>ce_update_time = None, ce_title = None,
        ce_object_key = ''chats/conv/a.json.zst.age'', ce_sha256 = ''5343'', ce_bytes = 2,
        ce_stored_at = 0\<rparr>, \<lparr>bn_primary = \<lparr>inner = [(''chats/conv/a.json.zst.age'', ''SC'', 1)],
          counter = 1\<rparr>, bn_mirror = \<lparr>inner = [(''chats/conv/a.json.zst.age'', ''SC'', 1)],
          counter = 1\<rparr>, bn_clock = 10 ^ 9\<rparr>)"
    by (simp add: store_conversation_def encode_conversation_def
      bench_chats_env_def bench_ctx_def and_then_def on_part_def effect_def attempt_def
      lift_res_def res_context_def bench_json_def bench_bodies_def
      ok_or_def bench_crypto_def with_context_def map_err_def encrypt_def ret_def Let_def conv_key_def
      sha256_hex_def bench_hex_SC bench_primary_def bench_mirror_def
      mem_store_def mem_put_def bench_start_def mem_new_def bench_chrono_def)
  from stored_conversation_decodes [OF bench_chats_site _ _ _ this, of "''AGE-SECRET-KEY-1''"]
  show ?thesis
    by (auto simp: bench_chats_env_def bench_age bench_zstd bench_json_def bench_bodies_def)
qed

text \<open>A server whose listing is a fixed list, served by offset in pages of two.\<close>

definition listing_url :: "nat \<Rightarrow> string" where
  "listing_url n = ''https://c/list?offset='' @ show_nat n @ ''&limit=2''"

definition listing_page :: "conversation_summary list \<Rightarrow> json \<Rightarrow> conversation_summary list res" where
  "listing_page xs v =
    (case v of JString u \<Rightarrow>
       Inr (case find (\<lambda>n. listing_url n = u) [0..<length xs] of
              Some n \<Rightarrow> take 2 (drop n xs) | None \<Rightarrow> [])
     | _ \<Rightarrow> Inl (Msg ''list''))"

definition listing_env :: "conversation_summary list \<Rightarrow> bench api_env" where
  "listing_env xs =
    (bench_env (\<lambda>url. \<lparr>rs_status = 200, rs_headers = [], rs_body = url\<rparr>) [] (listing_page xs))
      \<lparr>ae_json := (bench_json [])\<lparr>js_from_slice := (\<lambda>b. Inr (JString b)), js_to_vec := (\<lambda>v. Inr ''J'')\<rparr>\<rparr>"

lemma listing_url_inject [simp]: "listing_url a = listing_url b \<longleftrightarrow> a = b"
  by (simp add: listing_url_def)

lemma listing_page_at: "listing_page xs (JString (listing_url n)) = Inr (take 2 (drop n xs))"
proof (cases "n < length xs")
  case True
  then have "find (\<lambda>m. m = n) [0..<length xs] = Some n"
    by (intro find_Some_iff [THEN iffD2] exI [of _ n]) auto
  with True show ?thesis by (simp add: listing_page_def)
next
  case False
  then have "find (\<lambda>m. m = n) [0..<length xs] = None"
    by (auto simp: find_None_iff)
  with False show ?thesis by (simp add: listing_page_def)
qed

lemma listing_served: "serves_listing (listing_env xs) bench_client bench_chats_cfg xs"
proof -
  have limit: "page_limit bench_chats_cfg = 2"
    by (simp add: page_limit_def)
  have "fst (api_list (listing_env xs) bench_client bench_chats_cfg off 2 s) =
      Inr (take 2 (drop (unat off) xs))" for off s
  proof (cases s)
    case (fields w t)
    have "get_json (listing_env xs) bench_client bench_chats_cfg (listing_url (unat off)) s =
        (Inr (JString (listing_url (unat off))), s)"
      unfolding fields
      by (subst get_json_success [where resp =
            "\<lparr>rs_status = 200, rs_headers = [], rs_body = listing_url (unat off)\<rparr>"])
        (auto simp: answers_def listing_env_def bench_http_def is_success_def classify_body_def
          json_get_def)
    moreover have "''https://c'' @ ''/list'' @ ''?offset='' @ show_nat (unat off) @ ''&limit='' @
        show_nat (unat (2 :: 32 word)) = listing_url (unat off)"
      by (simp add: listing_url_def bench_numerals)
    ultimately show ?thesis
      by (simp add: api_list_def Let_def map_err_def and_then_def lift_res_def listing_page_at
          listing_env_def res_context_def del: append.simps)
  qed
  then show ?thesis
    by (simp add: serves_listing_def limit)
qed

text \<open>
  C17: The incremental walk over a listing that does not change meanwhile, allowed one request per
  page and one more, ends and returns the outdated conversations, in listing order, of a prefix of
  it.  That prefix is the whole listing, unless it ends in as many consecutive up-to-date
  conversations as the configuration asks for to stop early.
\<close>

theorem incremental_walk:
  assumes "serves_listing E http cfg xs" and "length xs + unat (page_limit cfg) < 2 ^ 32"
    and "length xs div unat (page_limit cfg) < pages"
  shows "\<exists>pre post s'. collect_outdated E http cfg idx pages s =
      (Inr (filter (\<lambda>sm. \<not> known idx sm) pre), s') \<and> xs = pre @ post \<and>
    (post = [] \<or> unat (stop_after cfg) \<le> length pre \<and>
      list_all (known idx) (drop (length pre - unat (stop_after cfg)) pre))"
  using collect_loop_spec [OF assms(1,2), of 0 idx 0 pages s] assms(3) page_limit_pos(2) [of cfg]
  by (simp add: collect_outdated_def outdated_def ends_known_def)

theorem incremental_walk_witness:
  "\<exists>pre post s'. collect_outdated (listing_env [bench_summary, bench_summary, bench_summary])
      bench_client bench_chats_cfg bench_index 2 \<lparr>ap_world = bench_start 0, ap_token = ''t''\<rparr> =
    (Inr (filter (\<lambda>sm. \<not> known bench_index sm) pre), s') \<and>
    [bench_summary, bench_summary, bench_summary] = pre @ post"
  using incremental_walk [OF listing_served, of "[bench_summary, bench_summary, bench_summary]" 2
      bench_index "\<lparr>ap_world = bench_start 0, ap_token = ''t''\<rparr>"]
  by (auto simp: page_limit_def)

text \<open>
  A run that finds every listed conversation up to date in the index it loaded writes nothing:
  every object of the store, body and etag, is as it was, so the index is not rewritten either.
\<close>

theorem chats_run_idle_writes_nothing:
  assumes "chats_site st objs V ctx"
    and "serves_listing (ve_api V) (wx_http ctx) cfg xs"
    and "length xs + unat (page_limit cfg) < 2 ^ 32"
    and "length xs div unat (page_limit cfg) < pages"
    and "load_index V cfg (wx_primary ctx) (wx_identity ctx) w = (Inr (idx, tag), w1)"
    and "list_all (known idx) xs"
  shows "objs (snd (chats_run V cfg pages ctx w)) = objs w"
  using assms(2-6) by (rule chats_site.chats_run_idle [OF assms(1)])

definition idle_V :: "bench chats_env" where
  "idle_V = (bench_V)\<lparr>ve_api := listing_env [bench_summary, bench_summary]\<rparr>"

lemma idle_site: "chats_site bench_primary bench_objects idle_V bench_ctx"
proof -
  have "api_env_keeps (listing_env xs) bench_objects" for xs
    using bench_network
    by (simp add: listing_env_def api_env_keeps_def)
  then show ?thesis
    unfolding idle_V_def
    using bench_chats.sealing bench_chats.clock bench_chats.primary bench_chats.mirrors
    by (intro chats_site.intro [OF bench.snapshot_store_axioms] chats_site_axioms.intro) simp_all
qed

theorem chats_run_idle_witness:
  "bench_objects (snd (chats_run idle_V bench_chats_cfg 2 bench_ctx bench_archived)) =
    bench_objects bench_archived"
proof (rule chats_run_idle_writes_nothing [OF idle_site])
  show "serves_listing (ve_api idle_V) (wx_http bench_ctx) bench_chats_cfg
      [bench_summary, bench_summary]"
    using listing_served by (simp add: idle_V_def bench_ctx_def)
  show "load_index idle_V bench_chats_cfg (wx_primary bench_ctx) (wx_identity bench_ctx)
      bench_archived = (Inr (bench_index, Some (show_nat 2)), bench_archived)"
    by (simp add: load_index_def Let_def idle_V_def bench_chats_env_def bench_ctx_def
        bench_primary_def mem_store_def mem_head_def mem_get_def on_part_def and_then_def ret_def
        with_context_def map_err_def bench_archived_def index_key_def lift_res_def decode_index_def
        decrypt_def bench_crypto_def res_bind_def res_context_def ok_or_def)
  show "list_all (known bench_index) [bench_summary, bench_summary]"
    by (simp add: known_def bench_index_def bench_summary_def f64_eq_def f64_nan_def)
qed (simp_all add: page_limit_def)

end
