(* ===== verification/Import_Facts.thy ===== *)
theory Import_Facts
  imports Import Chats_Run
begin

text \<open>
  What an import does to the archive, whatever the order in which its uploads are answered: it ends,
  it leaves an index that agrees with the bodies, a dry run changes nothing, and one upload at a time
  is the loop over \<open>store_conversation\<close>.
\<close>

section \<open>The listing of files\<close>

lemma archive_entries_Inr:
  "archive_entries es out = Inr fs \<Longrightarrow>
    set fs = set out \<union> {p. Inr p \<in> set es \<and> archive_path p}"
  by (induction es out rule: archive_entries.induct) auto

section \<open>The uploads in flight\<close>

definition in_flight :: "pending_item list \<Rightarrow> 'w upload list \<Rightarrow> string list" where
  "in_flight queue running = map pi_id (map upload_item running @ queue)"

lemma upload_item_simps [simp]:
  "upload_item (UpQueued i) = i" "upload_item (UpEncoded i c) = i" "upload_item (UpFanout i c ms) = i"
  by (simp_all add: upload_item_def)

lemma map_upload_item_queued [simp]: "map (upload_item \<circ> UpQueued) xs = xs"
  by (simp add: comp_def)

lemma refill_in_flight:
  assumes "refill n queue running = (q, r)"
  shows "in_flight q r = in_flight queue running"
proof -
  have "map upload_item r @ q = map upload_item running @
      (take (n - length running) queue @ drop (n - length running) queue)"
    using assms by (auto simp: refill_def Let_def simp del: append_take_drop_id)
  then show ?thesis
    by (simp add: in_flight_def)
qed

lemma refill_running:
  "refill n queue running = (q, r) \<Longrightarrow> 0 < n \<Longrightarrow> queue \<noteq> [] \<or> running \<noteq> [] \<Longrightarrow> r \<noteq> []"
  by (cases running) (auto simp: refill_def Let_def)

lemma refill_tasks:
  "refill n queue running = (q, r) \<Longrightarrow> u \<in> set r \<Longrightarrow> u \<in> set running \<or> (\<exists>i. u = UpQueued i)"
  by (auto simp: refill_def Let_def)

lemma take_drop_nth:
  "j < length xs \<Longrightarrow> xs = take j xs @ xs ! j # drop (Suc j) xs"
  by (rule id_take_nth_drop)

lemma in_flight_update:
  assumes "upload_item u = upload_item (running ! j)" and "j < length running"
  shows "in_flight queue (running[j := u]) = in_flight queue running"
proof -
  have "map upload_item (running[j := u]) = (map upload_item running)[j := map upload_item running ! j]"
    using assms by (simp add: map_update)
  then show ?thesis
    by (simp add: in_flight_def del: nth_map)
qed

lemma in_flight_remove:
  assumes "j < length running" and "distinct (in_flight queue running)"
  shows "distinct (in_flight queue (take j running @ drop (Suc j) running))"
    and "pi_id (upload_item (running ! j)) \<notin> set (in_flight queue (take j running @ drop (Suc j) running))"
    and "set (in_flight queue running) =
      insert (pi_id (upload_item (running ! j))) (set (in_flight queue (take j running @ drop (Suc j) running)))"
proof -
  have split: "in_flight queue running = map pi_id (map upload_item (take j running)) @
      pi_id (upload_item (running ! j)) # map pi_id (map upload_item (drop (Suc j) running) @ queue)"
    unfolding in_flight_def
    by (subst (1) take_drop_nth [OF assms(1)]) simp
  then show "distinct (in_flight queue (take j running @ drop (Suc j) running))"
    and "pi_id (upload_item (running ! j)) \<notin> set (in_flight queue (take j running @ drop (Suc j) running))"
    and "set (in_flight queue running) =
      insert (pi_id (upload_item (running ! j))) (set (in_flight queue (take j running @ drop (Suc j) running)))"
    using assms(2) unfolding split by (auto simp: in_flight_def)
qed

section \<open>One step\<close>

lemma sleep_free_step: "\<exists>nx. fst (upload_step V cfg ctx u w) = Inr nx"
  by (cases "(V, cfg, ctx, u)" rule: upload_step.cases)
    (auto simp: and_then_def attempt_def effect_def ret_def Let_def split: prod.splits)

definition upload_ok ::
    "chats_cfg \<Rightarrow> 'w workload_ctx \<Rightarrow> 'w objects \<Rightarrow> 'w \<Rightarrow> 'w upload \<Rightarrow> bool" where
  "upload_ok cfg ctx objs w u \<longleftrightarrow>
    (case u of
       UpFanout item c ms \<Rightarrow>
         set ms \<subseteq> set (wx_mirrors ctx) \<and> body_at objs (conv_key cfg (pi_id item)) w = Some c
     | _ \<Rightarrow> True)"

lemma upload_ok_cong:
  "body_at objs (conv_key cfg (pi_id (upload_item u))) w' =
    body_at objs (conv_key cfg (pi_id (upload_item u))) w \<Longrightarrow>
    upload_ok cfg ctx objs w' u = upload_ok cfg ctx objs w u"
  by (cases u) (simp_all add: upload_ok_def)

context chats_site begin

lemma upload_step_frame:
  assumes "upload_ok cfg ctx objs w u" and "upload_step V cfg ctx u w = (r, w')"
    and "k \<noteq> conv_key cfg (pi_id (upload_item u))"
  shows "body_at objs k w' = body_at objs k w"
proof (cases u)
  case (UpQueued item)
  then have "keeps objs (upload_step V cfg ctx u)"
    by (auto intro!: keeps_intros encode_conversation_keeps)
  with assms(2) show ?thesis by (auto simp: body_at_def dest: keepsD)
next
  case (UpEncoded item c)
  then have "keeps (body_at objs k) (upload_step V cfg ctx u)"
    using assms(3) by (auto simp: Let_def primary intro!: keeps_intros put_frame)
  with assms(2) show ?thesis by (auto dest: keepsD)
next
  case (UpFanout item c ms)
  with assms(1) have "keeps objs (upload_step V cfg ctx u)"
    by (cases ms) (auto simp: upload_ok_def intro!: keeps_intros mirrors clock)
  with assms(2) show ?thesis by (auto simp: body_at_def dest: keepsD)
qed

lemma upload_step_ok:
  assumes "upload_ok cfg ctx objs w u" and "upload_step V cfg ctx u w = (Inr nx, w')"
  shows "case nx of
      Inl u' \<Rightarrow> upload_item u' = upload_item u \<and> upload_ok cfg ctx objs w' u'
    | Inr (Inr e) \<Rightarrow> entry_ok V cfg objs w' (pi_id (upload_item u)) e
    | Inr (Inl e) \<Rightarrow> True"
proof (cases u)
  case (UpQueued item)
  with assms(2) obtain r where
    "nx = (case r of Inl e \<Rightarrow> upload_failed item e | Inr c \<Rightarrow> Inl (UpEncoded item c))"
    by (auto elim!: io_elims)
  with UpQueued show ?thesis
    by (cases r) (auto simp: upload_failed_def upload_ok_def)
next
  case (UpEncoded item c)
  with assms(2) obtain r where
    put: "with_context (''put '' @ conv_key cfg (pi_id item)) (st_put st (conv_key cfg (pi_id item)) c) w = (r, w')"
    and nx: "nx = (case r of Inl e \<Rightarrow> upload_failed item e | Inr _ \<Rightarrow> Inl (UpFanout item c (wx_mirrors ctx)))"
    by (auto simp: Let_def primary elim!: io_elims)
  show ?thesis
    using put nx UpEncoded put_ok
    by (cases r) (auto simp: upload_failed_def upload_ok_def body_at_def)
next
  case (UpFanout item c ms)
  show ?thesis
  proof (cases ms)
    case Nil
    with UpFanout assms(2) obtain now where now: "utc_now (ve_chrono V) w = (now, w')"
      and nx: "nx = Inr (Inr \<lparr>ce_update_time = pi_update_time item, ce_title = pi_title item,
      ce_object_key = conv_key cfg (pi_id item), ce_sha256 = sha256_hex (ve_crypto V) c,
      ce_bytes = length c, ce_stored_at = now\<rparr>)"
      by (auto elim!: io_elims)
    have "objs w' = objs w" using keepsD [OF clock now] .
    with assms(1) UpFanout nx show ?thesis
      by (auto simp: entry_ok_def upload_ok_def body_at_def)
  next
    case (Cons m ms')
    with UpFanout assms(1) have "keeps objs (st_put m (conv_key cfg (pi_id item)) c)"
      by (auto simp: upload_ok_def intro: mirrors)
    with Cons UpFanout assms show ?thesis
      by (auto simp: upload_ok_def body_at_def elim!: io_elims dest!: keepsD)
  qed
qed

end

text \<open>
  The invariant of the loop: what is in flight is about different conversations, an upload past its
  write finds what it wrote, and, unless an upload failed, every entry of the index that is not in
  flight describes its body.
\<close>

definition running_ids :: "'w upload list \<Rightarrow> string set" where
  "running_ids running = pi_id ` upload_item ` set running"

definition uploads_inv ::
    "'w chats_env \<Rightarrow> chats_cfg \<Rightarrow> 'w workload_ctx \<Rightarrow> 'w objects \<Rightarrow> pending_item list \<Rightarrow> 'w upload list \<Rightarrow>
      import_state \<Rightarrow> 'w \<Rightarrow> bool" where
  "uploads_inv V cfg ctx objs queue running s w \<longleftrightarrow>
    distinct (in_flight queue running) \<and>
    (\<forall>u \<in> set running. upload_ok cfg ctx objs w u) \<and>
    (im_failed s = 0 \<longrightarrow> (\<forall>cid e. map_of (ci_entries (im_index s)) cid = Some e \<longrightarrow>
      cid \<notin> running_ids running \<longrightarrow> entry_ok V cfg objs w cid e))"

lemma running_ids_update:
  assumes "upload_item u = upload_item (running ! j)" and "j < length running"
  shows "running_ids (running[j := u]) = running_ids running"
proof -
  have "map upload_item (running[j := u]) = map upload_item running"
    using assms by (simp add: map_update list_update_same_conv)
  then show ?thesis
    unfolding running_ids_def by (metis list.set_map)
qed

lemma running_ids_in_flight: "running_ids running \<subseteq> set (in_flight queue running)"
  by (auto simp: running_ids_def in_flight_def)

lemma running_ids_remove:
  "j < length running \<Longrightarrow> running_ids running =
    insert (pi_id (upload_item (running ! j))) (running_ids (take j running @ drop (Suc j) running))"
  unfolding running_ids_def by (subst (1) take_drop_nth) auto

lemma uploads_inv_refill:
  assumes "uploads_inv V cfg ctx objs queue running s w" and "refill n queue running = (q, r)"
  shows "uploads_inv V cfg ctx objs q r s w"
proof -
  have "running_ids running \<subseteq> running_ids r"
    using assms(2) by (auto simp: running_ids_def refill_def Let_def)
  moreover have "upload_ok cfg ctx objs w u" if "u \<in> set r" for u
    using refill_tasks [OF assms(2) that] assms(1) by (auto simp: uploads_inv_def upload_ok_def)
  ultimately show ?thesis
    using assms(1) refill_in_flight [OF assms(2)] by (simp add: uploads_inv_def) blast
qed

context chats_site begin

text \<open>Uploads of other conversations, and entries of other conversations, are not disturbed.\<close>

lemma upload_step_others:
  assumes inv: "uploads_inv V cfg ctx objs queue running s w" and j: "j < length running"
    and step: "upload_step V cfg ctx (running ! j) w = (Inr nx, w')"
  shows "\<And>u. u \<in> set (take j running @ drop (Suc j) running) \<Longrightarrow> upload_ok cfg ctx objs w' u"
    and "\<And>cid e. cid \<noteq> pi_id (upload_item (running ! j)) \<Longrightarrow>
      entry_ok V cfg objs w' cid e = entry_ok V cfg objs w cid e"
proof -
  have ok: "upload_ok cfg ctx objs w (running ! j)"
    using inv j by (auto simp: uploads_inv_def)
  have frame: "body_at objs (conv_key cfg cid) w' = body_at objs (conv_key cfg cid) w"
    if "cid \<noteq> pi_id (upload_item (running ! j))" for cid
    using upload_step_frame [OF ok step] that by simp
  show "upload_ok cfg ctx objs w' u" if "u \<in> set (take j running @ drop (Suc j) running)" for u
  proof -
    have "pi_id (upload_item u) \<in> running_ids (take j running @ drop (Suc j) running)"
      using that by (auto simp: running_ids_def)
    then have "pi_id (upload_item u) \<noteq> pi_id (upload_item (running ! j))"
      using in_flight_remove(2) [OF j] inv running_ids_in_flight
      by (metis subsetD uploads_inv_def)
    moreover have "u \<in> set running"
      using that by (auto dest: in_set_takeD in_set_dropD)
    ultimately show ?thesis
      using inv frame upload_ok_cong [of objs cfg u w' w] by (auto simp: uploads_inv_def)
  qed
  show "entry_ok V cfg objs w' cid e = entry_ok V cfg objs w cid e"
    if "cid \<noteq> pi_id (upload_item (running ! j))" for cid e
    using frame [OF that] by (simp add: entry_ok_def)
qed

lemma uploads_inv_step:
  assumes inv: "uploads_inv V cfg ctx objs queue running s w" and j: "j < length running"
    and step: "upload_step V cfg ctx (running ! j) w = (Inr nx, w')"
  shows "case nx of
      Inl u \<Rightarrow> uploads_inv V cfg ctx objs queue (running[j := u]) s w'
    | Inr r \<Rightarrow> uploads_inv V cfg ctx objs queue (take j running @ drop (Suc j) running)
        (take_result (pi_id (upload_item (running ! j))) r s) w'"
proof -
  let ?d = "pi_id (upload_item (running ! j))"
  have ok: "upload_ok cfg ctx objs w (running ! j)" and dist: "distinct (in_flight queue running)"
    using inv j by (auto simp: uploads_inv_def)
  note others = upload_step_others [OF inv j step]
  note new = upload_step_ok [OF ok step]
  have d: "?d \<in> running_ids running"
    using j by (auto simp: running_ids_def)
  show ?thesis
  proof (cases nx)
    case (Inl u)
    with new have item: "upload_item u = upload_item (running ! j)" and u: "upload_ok cfg ctx objs w' u"
      by auto
    have entries: "entry_ok V cfg objs w' cid e"
      if "im_failed s = 0" "map_of (ci_entries (im_index s)) cid = Some e" "cid \<notin> running_ids running"
      for cid e
    proof -
      have "cid \<noteq> ?d" using that(3) d by blast
      moreover have "entry_ok V cfg objs w cid e"
        using inv that by (simp add: uploads_inv_def)
      ultimately show ?thesis using others(2) by simp
    qed
    have tasks: "upload_ok cfg ctx objs w' v" if "v \<in> set (running[j := u])" for v
      using that others(1) u j by (auto simp: upd_conv_take_nth_drop)
    show ?thesis
      unfolding Inl sum.case uploads_inv_def running_ids_update [OF item j] in_flight_update [OF item j]
      by (intro conjI ballI impI allI dist tasks entries)
  next
    case (Inr r)
    then show ?thesis
      using new inv others in_flight_remove(1) [OF j dist] running_ids_remove [OF j]
      by (cases r) (auto simp: uploads_inv_def take_result_def insert_entry_def update_conv')
  qed
qed

lemma run_uploads_inv:
  assumes "0 < n"
  shows "uploads_inv V cfg ctx objs queue running s w \<Longrightarrow>
    run_uploads V cfg ctx n schedule queue running s w = (Inr s', w') \<Longrightarrow>
    uploads_inv V cfg ctx objs [] [] s' w'"
proof (induction schedule arbitrary: queue running s w)
  case Nil
  then show ?case by (auto elim!: io_elims split: if_splits)
next
  case (Cons i schedule)
  show ?case
  proof (cases "queue = [] \<and> running = []")
    case True
    with Cons.prems show ?thesis by (auto elim!: io_elims)
  next
    case False
    obtain q r where re: "refill n queue running = (q, r)" by fastforce
    let ?j = "i mod length r"
    have j: "?j < length r"
      using refill_running [OF re assms] False by (cases r) auto
    have inv: "uploads_inv V cfg ctx objs q r s w"
      by (rule uploads_inv_refill [OF Cons.prems(1) re])
    from Cons.prems(2) False re obtain nx w1 where
      step: "upload_step V cfg ctx (r ! ?j) w = (Inr nx, w1)" and
      rest: "(case nx of
            Inl u \<Rightarrow> run_uploads V cfg ctx n schedule q (r[?j := u]) s
          | Inr x \<Rightarrow> run_uploads V cfg ctx n schedule q (take ?j r @ drop (Suc ?j) r)
                (take_result (pi_id (upload_item (r ! ?j))) x s)) w1 = (Inr s', w')"
      by (auto simp: Let_def elim!: and_then_InrE)
    show ?thesis
      using uploads_inv_step [OF inv j step] rest Cons.IH by (cases nx) auto
  qed
qed

lemma import_upload_archive_ok:
  assumes keys: "age_key_pair (ve_crypto V) (wx_identity ctx) (wx_recipient ctx)"
    and serde: "\<And>i. serde_ok (ve_index_serde V) i"
    and n: "0 < n" and ids: "distinct (map pi_id (sn_pending sc))"
    and idx: "index_ok V cfg objs index w"
    and ok: "import_upload V cfg ctx n schedule sc index tag w = (Inr out, w')"
  shows "archive_ok V cfg (wx_identity ctx) objs w'"
proof -
  from ok obtain s w1 where
    up: "run_uploads V cfg ctx n schedule (sn_pending sc) []
        \<lparr>im_index = index, im_imported = 0, im_failed = 0\<rparr> w = (Inr s, w1)"
    and saved: "save_index V cfg ctx (im_index s) tag w1 = (Inr (), w')" and f: "im_failed s = 0"
    unfolding import_upload_def by (auto elim!: io_elims split: if_splits)
  have "uploads_inv V cfg ctx objs (sn_pending sc) []
      \<lparr>im_index = index, im_imported = 0, im_failed = 0\<rparr> w"
    using ids idx by (simp add: uploads_inv_def in_flight_def running_ids_def index_ok_def)
  from run_uploads_inv [OF n this up] f have "index_ok V cfg objs (im_index s) w1"
    by (simp add: uploads_inv_def running_ids_def index_ok_def)
  then have "index_ok V cfg objs (im_index s) w'"
    using index_ok_cong [of objs cfg w' w1] keepsD [OF save_index_frame saved] by simp
  then show ?thesis
    using save_index_ok(2) [OF keys serde saved] by (auto simp: archive_ok_def index_ok_def)
qed

end

section \<open>The uploads end\<close>

text \<open>How many steps an upload still takes, at most, with \<open>m\<close> mirrors.\<close>

fun steps_left :: "nat \<Rightarrow> 'w upload \<Rightarrow> nat" where
  "steps_left m (UpQueued item) = m + 3"
| "steps_left m (UpEncoded item c) = m + 2"
| "steps_left m (UpFanout item c ms) = length ms + 1"

definition work_left :: "nat \<Rightarrow> pending_item list \<Rightarrow> 'w upload list \<Rightarrow> nat" where
  "work_left m queue running = sum_list (map (steps_left m) (running @ map UpQueued queue))"

lemma upload_step_less:
  assumes "upload_step V cfg ctx u w = (Inr (Inl u'), w')"
  shows "steps_left (length (wx_mirrors ctx)) u' < steps_left (length (wx_mirrors ctx)) u"
proof (cases u)
  case (UpQueued item)
  with assms obtain r where
    "Inl u' = (case r of Inl e \<Rightarrow> upload_failed item e | Inr c \<Rightarrow> Inl (UpEncoded item c))"
    by (auto elim!: io_elims)
  with UpQueued show ?thesis by (cases r) (auto simp: upload_failed_def)
next
  case (UpEncoded item c)
  with assms obtain r :: "put_result res" where
    "Inl u' = (case r of Inl e \<Rightarrow> upload_failed item e | Inr _ \<Rightarrow> Inl (UpFanout item c (wx_mirrors ctx)))"
    by (auto simp: Let_def elim!: io_elims)
  with UpEncoded show ?thesis by (cases r) (auto simp: upload_failed_def)
next
  case (UpFanout item c ms)
  with assms show ?thesis by (cases ms) (auto elim!: io_elims)
qed

lemma work_left_refill:
  assumes "refill n queue running = (q, r)"
  shows "work_left m q r = work_left m queue running"
proof -
  have "r @ map UpQueued q = running @ map UpQueued (take (n - length running) queue @
      drop (n - length running) queue)"
    using assms by (auto simp: refill_def Let_def simp del: append_take_drop_id)
  then show ?thesis
    by (simp add: work_left_def)
qed

lemma work_left_split:
  assumes "j < length running"
  shows "work_left m queue running = steps_left m (running ! j) +
      work_left m queue (take j running @ drop (Suc j) running)"
    and "work_left m queue (running[j := u]) = steps_left m u +
      work_left m queue (take j running @ drop (Suc j) running)"
proof -
  have "map (steps_left m) running = map (steps_left m) (take j running @ running ! j # drop (Suc j) running)"
    using take_drop_nth [OF assms] by simp
  then show "work_left m queue running = steps_left m (running ! j) +
      work_left m queue (take j running @ drop (Suc j) running)"
    unfolding work_left_def by simp
  show "work_left m queue (running[j := u]) = steps_left m u +
      work_left m queue (take j running @ drop (Suc j) running)"
    using assms by (simp add: work_left_def upd_conv_take_nth_drop)
qed

lemma steps_left_pos: "0 < steps_left m u"
  by (cases u) auto

lemma steps_left_nonzero [simp]: "steps_left m u \<noteq> 0"
  by (cases u) auto

lemma work_left_0: "work_left m queue running = 0 \<Longrightarrow> queue = [] \<and> running = []"
  by (cases running; cases queue) (auto simp: work_left_def)

lemma run_uploads_ends:
  assumes "0 < n"
  shows "work_left (length (wx_mirrors ctx)) queue running \<le> length schedule \<Longrightarrow>
    \<exists>s'. fst (run_uploads V cfg ctx n schedule queue running s w) = Inr s'"
proof (induction schedule arbitrary: queue running s w)
  case Nil
  then have "queue = [] \<and> running = []"
    using work_left_0 by auto
  then show ?case by (simp add: ret_def)
next
  case (Cons i schedule)
  let ?m = "length (wx_mirrors ctx)"
  show ?case
  proof (cases "queue = [] \<and> running = []")
    case True
    then show ?thesis by (simp add: ret_def)
  next
    case False
    obtain q r where re: "refill n queue running = (q, r)" by fastforce
    let ?j = "i mod length r"
    have j: "?j < length r"
      using refill_running [OF re assms] False by (cases r) auto
    obtain nx w1 where step: "upload_step V cfg ctx (r ! ?j) w = (Inr nx, w1)"
      by (metis sleep_free_step prod.collapse)
    have less: "work_left ?m q r \<le> Suc (length schedule)"
      using Cons.prems work_left_refill [OF re] by simp
    show ?thesis
    proof (cases nx)
      case (Inl u)
      with step have "steps_left ?m u < steps_left ?m (r ! ?j)"
        by (simp add: upload_step_less)
      then have "work_left ?m q (r[?j := u]) \<le> length schedule"
        using less work_left_split [OF j, of ?m] by simp
      with Cons.IH Inl False re step show ?thesis
        by (auto simp: and_then_def Let_def)
    next
      case (Inr x)
      have "work_left ?m q (take ?j r @ drop (Suc ?j) r) \<le> length schedule"
        using less work_left_split(1) [OF j, of ?m] steps_left_pos [of ?m "r ! ?j"] by simp
      with Cons.IH Inr False re step show ?thesis
        by (auto simp: and_then_def Let_def)
    qed
  qed
qed

section \<open>One upload at a time\<close>

text \<open>The reference: the loop that stores each conversation in turn.\<close>

fun import_each ::
    "'w chats_env \<Rightarrow> chats_cfg \<Rightarrow> 'w workload_ctx \<Rightarrow> pending_item list \<Rightarrow> import_state \<Rightarrow>
      ('w, import_state) io" where
  "import_each V cfg ctx [] s = ret s"
| "import_each V cfg ctx (item # rest) s =
    and_then (attempt (with_context (''store '' @ pi_id item)
      (store_conversation V cfg ctx (pi_id item) (pi_title item) (pi_update_time item) (pi_value item))))
      (\<lambda>r. import_each V cfg ctx rest (take_result (pi_id item) r s))"

lemma refill_one [simp]:
  "refill (Suc 0) q [u] = (q, [u])" "refill (Suc 0) (i # q) [] = (q, [UpQueued i])"
  by (simp_all add: refill_def)

lemma run_one_step:
  "run_uploads V cfg ctx (Suc 0) (i # sch) q [u] s =
    and_then (upload_step V cfg ctx u) (\<lambda>nx. case nx of
        Inl u' \<Rightarrow> run_uploads V cfg ctx (Suc 0) sch q [u'] s
      | Inr r \<Rightarrow> run_uploads V cfg ctx (Suc 0) sch q [] (take_result (pi_id (upload_item u)) r s))"
  by (simp add: Let_def)

lemma run_one_start:
  "run_uploads V cfg ctx (Suc 0) (i # sch) (item # q) [] s =
    run_uploads V cfg ctx (Suc 0) (i # sch) q [UpQueued item] s"
  by (simp add: Let_def)

lemma run_one_fanout:
  "length ms < length sch \<Longrightarrow>
    run_uploads V cfg ctx (Suc 0) sch q [UpFanout item c ms] s w =
    (case fanout ms (conv_key cfg (pi_id item)) c w of (_ :: unit res, w1) \<Rightarrow>
     case utc_now (ve_chrono V) w1 of (now, w2) \<Rightarrow>
       run_uploads V cfg ctx (Suc 0) (drop (Suc (length ms)) sch) q []
         (take_result (pi_id item) (Inr \<lparr>ce_update_time = pi_update_time item,
           ce_title = pi_title item, ce_object_key = conv_key cfg (pi_id item),
           ce_sha256 = sha256_hex (ve_crypto V) c, ce_bytes = length c, ce_stored_at = now\<rparr>) s) w2)"
proof (induction ms arbitrary: sch w)
  case Nil
  then show ?case
    by (cases sch)
      (simp_all add: run_one_step and_then_def effect_def ret_def split: prod.splits del: run_uploads.simps)
next
  case (Cons m ms)
  then obtain i sch' where sch: "sch = i # sch'" "length ms < length sch'"
    by (cases sch) auto
  obtain r w1 where "st_put m (conv_key cfg (pi_id item)) c w = (r, w1)" by fastforce
  then show ?case
    using Cons.IH [OF sch(2), of w1] sch
    by (simp add: run_one_step and_then_def attempt_def ret_def del: run_uploads.simps)
qed

lemma import_sequential_aux:
  fixes ctx :: "'w workload_ctx"
  shows "work_left (length (wx_mirrors ctx)) items ([] :: 'w upload list) \<le> length sch \<Longrightarrow>
    run_uploads V cfg ctx (Suc 0) sch items [] s w = import_each V cfg ctx items s w"
proof (induction items arbitrary: sch s w)
  case Nil
  then show ?case by (cases sch) auto
next
  case (Cons item rest)
  let ?m = "length (wx_mirrors ctx)" and ?k = "conv_key cfg (pi_id item)"
  have work: "?m + 3 + work_left ?m rest ([] :: 'w upload list) \<le> length sch"
    using Cons.prems by (simp add: work_left_def)
  then obtain i j sch' where sch: "sch = i # j # sch'"
    by (cases sch; cases "tl sch") auto
  have len: "?m + 1 + work_left ?m rest ([] :: 'w upload list) \<le> length sch'"
    using work sch by simp
  have IH: "run_uploads V cfg ctx (Suc 0) sc rest [] s' w' = import_each V cfg ctx rest s' w'"
    if "work_left ?m rest ([] :: 'w upload list) \<le> length sc" for sc s' w'
    by (rule Cons.IH [OF that])
  obtain r1 w1 where enc: "encode_conversation V cfg (pi_value item) (wx_recipient ctx) w = (r1, w1)"
    by fastforce
  show ?case
  proof (cases r1)
    case (Inl e)
    then show ?thesis
      using enc len sch
      by (simp add: run_one_start run_one_step IH store_conversation_def and_then_def attempt_def
          ret_def with_context_def map_err_def upload_failed_def del: run_uploads.simps)
  next
    case c: (Inr c)
    obtain r2 w2 where put: "st_put (wx_primary ctx) ?k c w1 = (r2, w2)" by fastforce
    show ?thesis
    proof (cases r2)
      case (Inl e)
      then show ?thesis
        using enc c put len sch
        by (simp add: run_one_start run_one_step IH store_conversation_def and_then_def attempt_def
            ret_def with_context_def map_err_def upload_failed_def Let_def del: run_uploads.simps)
    next
      case (Inr p)
      have "?m < length sch'" using len by simp
      from run_one_fanout [OF this, of V cfg ctx rest item c s w2] show ?thesis
        using enc c put Inr len sch
        by (simp add: run_one_start run_one_step IH store_conversation_def and_then_def attempt_def
            ret_def with_context_def map_err_def Let_def effect_def fanout_fold
            split: prod.splits del: run_uploads.simps)
    qed
  qed
qed

end
