(* ===== verification/Import_Run.thy ===== *)
theory Import_Run
  imports Import_Facts
begin

text \<open>
  The properties of the import, on the contract of theory \<open>Chats_Archive\<close>, and an export of two
  conversations on the bench of theory \<open>Chats_Run\<close> that meets their hypotheses.
\<close>

section \<open>An export on the bench\<close>

definition export_value :: "string \<Rightarrow> json" where
  "export_value cid = JObject [(''id'', JString cid)]"

definition bench_archive_api :: "bench archive_api" where
  "bench_archive_api =
    \<lparr>rd_read_dir = (\<lambda>dir. ret [Inr (dir @ ''/user.json''), Inr (dir @ ''/conversations-0.json'')]),
     rd_read = (\<lambda>path. ret path),
     rd_array_from_slice = (\<lambda>b. Inr [export_value ''a'', export_value ''b''])\<rparr>"

definition import_bodies :: "(bytes \<times> json) list" where
  "import_bodies = [(''C'', export_value ''a''), (''D'', export_value ''b'')]"

definition import_env :: "chats_index serde \<Rightarrow> bench chats_env" where
  "import_env J = bench_chats_env (bench_answer ''C'') import_bodies (\<lambda>_. Inr []) J"

definition export_item :: "string \<Rightarrow> pending_item" where
  "export_item cid =
    \<lparr>pi_id = cid, pi_title = None, pi_update_time = None, pi_value = export_value cid\<rparr>"

definition import_scan :: scan_state where
  "import_scan = \<lparr>sn_pending = [export_item ''a'', export_item ''b''], sn_skipped = 0, sn_malformed = 0\<rparr>"

abbreviation empty_index :: "datetime \<Rightarrow> chats_index" where
  "empty_index u \<equiv> \<lparr>ci_schema_version = 1, ci_updated_at = u, ci_entries = []\<rparr>"

definition import_sched :: "nat list" where
  "import_sched = [0, 1, 1, 0, 1, 0, 1, 0]"

text \<open>The loop as one case analysis per step, for evaluation.\<close>

lemma run_uploads_eval:
  "run_uploads V cfg ctx n (i # sch) queue running s w =
    (if queue = [] \<and> running = [] then (Inr s, w)
     else
       (case refill n queue running of (q, r) \<Rightarrow>
       (case upload_step V cfg ctx (r ! (i mod length r)) w of
          (Inl e, w1) \<Rightarrow> (Inl e, w1)
        | (Inr nx, w1) \<Rightarrow>
       (case nx of
          Inl u \<Rightarrow> run_uploads V cfg ctx n sch q (r[i mod length r := u]) s w1
        | Inr x \<Rightarrow>
            run_uploads V cfg ctx n sch q (take (i mod length r) r @ drop (Suc (i mod length r)) r)
              (take_result (pi_id (upload_item (r ! (i mod length r)))) x s) w1))))"
  by (auto simp: Let_def and_then_def ret_def split: prod.splits sum.splits)

lemmas import_eval =
  bench_chats_env_def bench_ctx_def and_then_def on_part_def effect_def attempt_def
  lift_res_def res_context_def bench_json_def import_bodies_def export_value_def import_env_def
  ok_or_def bench_crypto_def with_context_def map_err_def encrypt_def ret_def conv_key_def
  encode_conversation_def sha256_hex_def 
  bench_primary_def bench_mirror_def mem_store_def mem_put_def bench_start_def mem_new_def
  bench_chrono_def bench_env_def Let_def


lemma export_item_simps [simp]:
  "pi_id (export_item cid) = cid" "pi_update_time (export_item cid) = None"
  "pi_title (export_item cid) = None" "pi_value (export_item cid) = export_value cid"
  by (simp_all add: export_item_def)

lemma export_steps:
  "upload_step (import_env J) bench_chats_cfg bench_ctx (UpQueued (export_item ''a'')) w =
    (Inr (Inl (UpEncoded (export_item ''a'') ''SC'')), w)"
  "upload_step (import_env J) bench_chats_cfg bench_ctx (UpQueued (export_item ''b'')) w =
    (Inr (Inl (UpEncoded (export_item ''b'') ''SD'')), w)"
  "upload_step (import_env J) bench_chats_cfg bench_ctx (UpEncoded (export_item cid) c)
      \<lparr>bn_primary = \<lparr>inner = P, counter = n\<rparr>, bn_mirror = M, bn_clock = t\<rparr> =
    (Inr (Inl (UpFanout (export_item cid) c [bench_mirror])),
      \<lparr>bn_primary = \<lparr>inner = AList.update (''chats/conv/'' @ cid @ ''.json.zst.age'') (c, n + 1) P,
         counter = n + 1\<rparr>, bn_mirror = M, bn_clock = t\<rparr>)"
  "upload_step (import_env J) bench_chats_cfg bench_ctx (UpFanout (export_item cid) c [bench_mirror])
      \<lparr>bn_primary = Q, bn_mirror = \<lparr>inner = P, counter = n\<rparr>, bn_clock = t\<rparr> =
    (Inr (Inl (UpFanout (export_item cid) c [])),
      \<lparr>bn_primary = Q, bn_mirror = \<lparr>inner = AList.update (''chats/conv/'' @ cid @ ''.json.zst.age'') (c, n + 1) P,
         counter = n + 1\<rparr>, bn_clock = t\<rparr>)"
  "upload_step (import_env J) bench_chats_cfg bench_ctx (UpFanout (export_item cid) c [])
      \<lparr>bn_primary = Q, bn_mirror = M, bn_clock = t\<rparr> =
    (Inr (Inr (Inr \<lparr>ce_update_time = None, ce_title = None,
      ce_object_key = ''chats/conv/'' @ cid @ ''.json.zst.age'', ce_sha256 = bench_hex_encode c,
      ce_bytes = length c, ce_stored_at = t\<rparr>)),
      \<lparr>bn_primary = Q, bn_mirror = M, bn_clock = t + 10 ^ 9\<rparr>)"
  by (simp_all add: import_eval)


definition export_entry :: "string \<Rightarrow> string \<Rightarrow> datetime \<Rightarrow> chats_index_entry" where
  "export_entry cid hex t =
    \<lparr>ce_update_time = None, ce_title = None,
     ce_object_key = ''chats/conv/'' @ cid @ ''.json.zst.age'', ce_sha256 = hex, ce_bytes = 2,
     ce_stored_at = t\<rparr>"

definition import_index :: "datetime \<Rightarrow> chats_index" where
  "import_index u =
    \<lparr>ci_schema_version = 1, ci_updated_at = u,
     ci_entries = [(''b'', export_entry ''b'' ''5344'' 1000000000),
                   (''a'', export_entry ''a'' ''5343'' 2000000000)]\<rparr>"

abbreviation import_V :: "bench chats_env" where
  "import_V \<equiv> import_env (table_serde [(import_index 3000000000, ''I'')])"

definition import_bodies_stored :: mem where
  "import_bodies_stored =
    \<lparr>inner = [(''chats/conv/b.json.zst.age'', ''SD'', 1), (''chats/conv/a.json.zst.age'', ''SC'', 2)],
     counter = 2\<rparr>"

definition import_stored :: mem where
  "import_stored =
    \<lparr>inner = [(''chats/conv/b.json.zst.age'', ''SD'', 1), (''chats/conv/a.json.zst.age'', ''SC'', 2),
       (''chats/index.json.age'', ''SI'', 3)], counter = 3\<rparr>"

lemma bench_hex_export [simp]:
  "bench_hex_encode ''SC'' = ''5343''" "bench_hex_encode ''SD'' = ''5344''"
  by (simp_all add: bench_hex_encode_def byte_def hex_nibbles)

lemma export_uploads:
  "run_uploads (import_env J) bench_chats_cfg bench_ctx 2 import_sched (sn_pending import_scan) []
     \<lparr>im_index = empty_index u, im_imported = 0, im_failed = 0\<rparr>
     ((bench_start 0)\<lparr>bn_clock := 1000000000\<rparr>) =
   (Inr \<lparr>im_index = import_index u, im_imported = 2, im_failed = 0\<rparr>,
    \<lparr>bn_primary = import_bodies_stored, bn_mirror = import_bodies_stored, bn_clock = 3000000000\<rparr>)"
  by (simp add: import_sched_def import_scan_def refill_def run_uploads_eval export_steps bench_start_def mem_new_def
      take_result_def insert_entry_def import_index_def export_entry_def import_bodies_stored_def
      ret_def run_uploads.simps(1) numeral_2_eq_2 del: run_uploads.simps(2) upload_step.simps)

lemma export_save:
  "save_index import_V bench_chats_cfg bench_ctx (import_index u) None
     \<lparr>bn_primary = import_bodies_stored, bn_mirror = import_bodies_stored, bn_clock = 3000000000\<rparr> =
   (Inr (), \<lparr>bn_primary = import_stored, bn_mirror = import_stored, bn_clock = 4000000000\<rparr>)"
proof -
  have "(import_index u)\<lparr>ci_updated_at := 3000000000\<rparr> = import_index 3000000000"
    by (simp add: import_index_def)
  then show ?thesis
    by (simp add: save_index_def import_eval encode_index_def index_key_def mem_put_if_unmodified_def
        import_bodies_stored_def import_stored_def eval_nat_numeral)
qed

lemma export_load:
  "load_index import_V bench_chats_cfg bench_primary ''AGE-SECRET-KEY-1'' (bench_start 0) =
    (Inr (empty_index 0, None), (bench_start 0)\<lparr>bn_clock := 1000000000\<rparr>)"
  by (simp add: load_index_def index_empty_def import_env_def bench_chats_env_def bench_chrono_def
      bench_primary_def mem_store_def mem_head_def on_part_def and_then_def effect_def ret_def
      bench_start_def mem_new_def Let_def)

lemma export_names:
  "\<not> archive_path ''d/user.json''" "archive_path ''d/conversations-0.json''"
  by code_simp+

lemma export_listing:
  "list_archive_files bench_archive_api ''d'' w = (Inr [''d/conversations-0.json''], w)"
  by (simp add: list_archive_files_def bench_archive_api_def and_then_def with_context_def map_err_def
      ret_def lift_res_def export_names)

lemma export_scan:
  "scan_files bench_archive_api (ae_json (ve_api import_V)) (empty_index u)
     \<lparr>sn_pending = [], sn_skipped = 0, sn_malformed = 0\<rparr> [''d/conversations-0.json''] w =
   (Inr import_scan, w)"
  by (simp add: bench_archive_api_def and_then_def with_context_def map_err_def ret_def lift_res_def
      res_context_def scan_value_def conversation_id_def export_value_def json_get_def json_str_def already_current_def pending_of_def
      import_scan_def export_item_def)

lemma export_imported:
  "import_upload import_V bench_chats_cfg bench_ctx 2 import_sched import_scan (empty_index 0) None
     ((bench_start 0)\<lparr>bn_clock := 1000000000\<rparr>) =
   (Inr ''imported 2 new/updated, skipped 0 already-current, 0 failed, 0 malformed; index size now 2'',
    \<lparr>bn_primary = import_stored, bn_mirror = import_stored, bn_clock = 4000000000\<rparr>)"
  unfolding import_upload_def and_then_Inr [where m = "run_uploads _ _ _ _ _ _ _ _", OF export_uploads]
    import_state.simps and_then_Inr [where m = "save_index _ _ _ _ _", OF export_save]
  by (simp add: ret_def import_summary_def import_scan_def import_index_def bench_numerals
      flip: numeral_2_eq_2)

lemma import_site: "chats_site bench_primary bench_objects (import_env J) bench_ctx"
  unfolding import_env_def by (rule bench_chats_site)

lemma export_import_run:
  "import_run bench_archive_api import_V bench_chats_cfg bench_ctx ''d'' 2 import_sched False (bench_start 0) =
   (Inr ''imported 2 new/updated, skipped 0 already-current, 0 failed, 0 malformed; index size now 2'',
    \<lparr>bn_primary = import_stored, bn_mirror = import_stored, bn_clock = 4000000000\<rparr>)"
proof -
  have ctx: "wx_primary bench_ctx = bench_primary" "wx_identity bench_ctx = ''AGE-SECRET-KEY-1''"
    by (simp_all add: bench_ctx_def)
  show ?thesis
    unfolding import_run_def ctx and_then_Inr [where m = "list_archive_files _ _", OF export_listing]
    by (simp add: and_then_def export_load export_scan export_imported del: scan_files.simps)
qed

section \<open>Properties\<close>

text \<open>How the results are counted.\<close>

lemma run_uploads_counts:
  "0 < n \<Longrightarrow> run_uploads V cfg ctx n schedule queue running s w = (Inr s', w') \<Longrightarrow>
    im_imported s' + im_failed s' =
      im_imported s + im_failed s + (length queue + length running)"
proof (induction schedule arbitrary: queue running s w)
  case Nil
  then show ?case by (auto elim!: io_elims split: if_splits)
next
  case (Cons i schedule)
  show ?case
  proof (cases "queue = [] \<and> running = []")
    case True
    with Cons.prems show ?thesis by (auto elim!: io_elims)
  next
    case False
    obtain q r where re: "refill n queue running = (q, r)" by fastforce
    let ?j = "i mod length r"
    have j: "?j < length r"
      using refill_running [OF re Cons.prems(1)] False by (cases r) auto
    have size: "length q + length r = length queue + length running"
      using refill_in_flight [OF re] by (metis in_flight_def length_append length_map add.commute)
    from Cons.prems(2) False re obtain nx w1 where
      rest: "(case nx of
            Inl u \<Rightarrow> run_uploads V cfg ctx n schedule q (r[?j := u]) s
          | Inr x \<Rightarrow> run_uploads V cfg ctx n schedule q (take ?j r @ drop (Suc ?j) r)
                (take_result (pi_id (upload_item (r ! ?j))) x s)) w1 = (Inr s', w')"
      by (auto simp: Let_def elim!: and_then_InrE)
    show ?thesis
    proof (cases nx)
      case (Inl u)
      with rest Cons.IH [OF Cons.prems(1)] size show ?thesis by fastforce
    next
      case (Inr x)
      have "length (take ?j r @ drop (Suc ?j) r) = length r - 1"
        using j by simp
      with Inr rest Cons.IH [OF Cons.prems(1)] size j show ?thesis
        by (cases x) (fastforce simp: take_result_def)+
    qed
  qed
qed



text \<open>
  C27: The uploads end: whatever the number in flight, and in whatever order the requests are
  answered, every upload of the scan is done after at most its four kinds of requests each, that is
  one to encode, one to the primary, one per mirror and one for the clock; and each of them is
  counted once, as imported or as failed.
\<close>

theorem import_uploads_end:
  assumes "0 < n"
    and "(length (wx_mirrors ctx) + 3) * length (sn_pending sc) \<le> length schedule"
  shows "\<exists>s w'. run_uploads V cfg ctx n schedule (sn_pending sc) []
      \<lparr>im_index = idx, im_imported = 0, im_failed = 0\<rparr> w = (Inr s, w') \<and>
    im_imported s + im_failed s = length (sn_pending sc)"
proof -
  have "work_left (length (wx_mirrors ctx)) (sn_pending sc) ([] :: 'a upload list) \<le> length schedule"
    using assms(2) by (simp add: work_left_def comp_def sum_list_triv mult.commute)
  from run_uploads_ends [OF assms(1) this] obtain s w' where
    "run_uploads V cfg ctx n schedule (sn_pending sc) []
      \<lparr>im_index = idx, im_imported = 0, im_failed = 0\<rparr> w = (Inr s, w')"
    by (metis prod.collapse)
  with run_uploads_counts [OF assms(1) this] show ?thesis by auto
qed

theorem import_uploads_end_witness:
  "\<exists>s w'. run_uploads import_V bench_chats_cfg bench_ctx 2 import_sched (sn_pending import_scan) []
      \<lparr>im_index = empty_index 0, im_imported = 0, im_failed = 0\<rparr> (bench_start 0) = (Inr s, w') \<and>
    im_imported s + im_failed s = length (sn_pending import_scan)"
  by (rule import_uploads_end) (simp_all add: bench_ctx_def import_scan_def import_sched_def)

text \<open>
  C28: With one upload in flight the stream of futures is the plain loop that stores each
  conversation of the scan in turn, with the same results, effects and errors, for every schedule
  long enough.
\<close>

theorem import_one_in_flight:
  assumes "(length (wx_mirrors ctx) + 3) * length items \<le> length schedule"
  shows "run_uploads V cfg ctx 1 schedule items [] s w = import_each V cfg ctx items s w"
  using import_sequential_aux [of ctx items schedule V cfg s w] assms
  by (simp add: work_left_def comp_def sum_list_triv mult.commute)

theorem import_one_in_flight_witness:
  "run_uploads import_V bench_chats_cfg bench_ctx 1 import_sched (sn_pending import_scan) []
      \<lparr>im_index = empty_index 0, im_imported = 0, im_failed = 0\<rparr> (bench_start 0) =
    import_each import_V bench_chats_cfg bench_ctx (sn_pending import_scan)
      \<lparr>im_index = empty_index 0, im_imported = 0, im_failed = 0\<rparr> (bench_start 0)"
  by (rule import_one_in_flight) (simp add: bench_ctx_def import_scan_def import_sched_def)

lemma scan_files_keeps:
  "(\<And>p. keeps v (rd_read D p)) \<Longrightarrow> keeps v (scan_files D JS idx s files)"
  by (induction files arbitrary: s) (auto intro!: keeps_intros)

text \<open>
  A dry run writes nothing: whatever it answers, every object of the store is as it was.
\<close>

theorem import_dry_run:
  assumes "chats_site st objs V ctx"
    and "\<And>p. keeps objs (rd_read D p)" and "keeps objs (rd_read_dir D dir)"
  shows "objs (snd (import_run D V cfg ctx dir n schedule True w)) = objs w"
proof -
  have "keeps objs (import_run D V cfg ctx dir n schedule True)"
    unfolding import_run_def list_archive_files_def
    by (auto intro!: keeps_intros assms scan_files_keeps chats_site.load_index_keeps [OF assms(1)])
  then show ?thesis by (rule keeps_snd)
qed

theorem import_dry_run_witness:
  "bench_objects (snd (import_run bench_archive_api import_V bench_chats_cfg bench_ctx ''d'' 2
      import_sched True (bench_start 0))) = bench_objects (bench_start 0)"
  by (rule import_dry_run [OF import_site]) (simp_all add: bench_archive_api_def keeps_ret)

text \<open>
  The files of an export are exactly the entries of the directory named
  \<open>conversations*.json\<close>, in path order; one entry that cannot be read fails the listing.
\<close>

theorem list_archive_files_sorted:
  assumes "rd_read_dir D dir w = (Inr entries, w1)"
    and "list_archive_files D dir w = (Inr files, w2)"
  shows "sorted_wrt path_le files \<and> set files = {p. Inr p \<in> set entries \<and> archive_path p} \<and>
    (\<forall>e. Inl e \<notin> set entries)"
proof -
  from assms obtain out where out: "archive_entries entries [] = Inr out" "files = sort_by path_le out"
    by (auto simp: list_archive_files_def elim!: io_elims)
  have "Inl e \<notin> set es" if "archive_entries es acc = Inr out" for e es acc
    using that by (induction es acc rule: archive_entries.induct) auto
  with out archive_entries_Inr [of entries "[]" out] show ?thesis
    using sorted_sort_by [of path_le, OF path_le_total path_le_trans] by auto
qed

theorem list_archive_files_sorted_witness:
  "sorted_wrt path_le [''d/conversations-0.json''] \<and> archive_path ''d/conversations-0.json''"
proof -
  have "rd_read_dir bench_archive_api ''d'' w =
      (Inr [Inr ''d/user.json'', Inr ''d/conversations-0.json''], w)" for w
    by (simp add: bench_archive_api_def ret_def)
  from list_archive_files_sorted [OF this export_listing] show ?thesis by auto
qed

end
