(* ===== verification/Git_Branch.thy ===== *)
theory Git_Branch
  imports Stores
begin

text \<open>
  \<open>src/stores/git_branch.rs\<close>: a store on a branch of a git repository, over the \<open>git\<close> program and
  the file system as parameters.  The etag of every key is the commit at the head of the branch.

  The work directory is made once per store (a \<open>OnceCell\<close>); the cell is a part of the world that
  the store record selects and sets.  Removing the temporary directory when the store is dropped is
  not modelled.
\<close>

section \<open>What the store calls\<close>

record command_output =
  co_success :: bool
  co_stdout :: bytes
  co_stderr :: bytes

text \<open>
  \<open>gt_output d args\<close> is \<open>Command::new("git").args(args).output()\<close> in the directory \<open>d\<close>; the others are
  \<open>tempfile::tempdir\<close>, \<open>std::fs\<close>, \<open>Path::exists\<close> and \<open>String::from_utf8_lossy\<close>.
\<close>

record 'w git_api =
  gt_output :: "string option \<Rightarrow> string list \<Rightarrow> ('w, command_output) io"
  gt_tempdir :: "('w, string) io"
  gt_create_dir_all :: "string \<Rightarrow> ('w, unit) io"
  gt_exists :: "string \<Rightarrow> 'w \<Rightarrow> bool \<times> 'w"
  gt_write :: "string \<Rightarrow> bytes \<Rightarrow> ('w, unit) io"
  gt_read :: "string \<Rightarrow> ('w, bytes) io"
  gt_lossy :: "bytes \<Rightarrow> string"

record 'w git_branch_store =
  gb_name :: string
  gb_repo_url :: string
  gb_branch :: string
  gb_token :: string
  gb_workdir_cell :: "'w \<Rightarrow> string option"
  gb_set_workdir :: "string \<Rightarrow> 'w \<Rightarrow> 'w"

text \<open>\<open>GitBranchStore::new\<close>; the cell is the fresh \<open>OnceCell\<close>.\<close>

definition git_store_new ::
    "('w \<Rightarrow> string option) \<Rightarrow> (string \<Rightarrow> 'w \<Rightarrow> 'w) \<Rightarrow> string \<Rightarrow> string \<Rightarrow> string \<Rightarrow> string \<Rightarrow>
      'w git_branch_store res" where
  "git_store_new cell setc name repo_url branch token =
    Inr \<lparr>gb_name = name, gb_repo_url = repo_url, gb_branch = branch, gb_token = token,
         gb_workdir_cell = cell, gb_set_workdir = setc\<rparr>"

section \<open>Running git\<close>

definition unsigned_args :: "string list" where
  "unsigned_args = [''-c'', ''commit.gpgsign=false'', ''-c'', ''tag.gpgsign=false'']"

definition git_command :: "'w git_api \<Rightarrow> string \<Rightarrow> string list \<Rightarrow> ('w, command_output) io" where
  "git_command G dir args = gt_output G (Some dir) (unsigned_args @ args)"

definition run_git :: "'w git_api \<Rightarrow> string \<Rightarrow> string list \<Rightarrow> ('w, unit) io" where
  "run_git G dir args =
    and_then (with_context (''spawn git '' @ debug_strs args) (git_command G dir args)) (\<lambda>out.
    if \<not> co_success out then
      fail (Msg (''git '' @ debug_strs args @ '' failed: '' @ trim (gt_lossy G (co_stderr out))))
    else ret ())"

section \<open>The work directory\<close>

definition auth_url :: "'w git_branch_store \<Rightarrow> string" where
  "auth_url s =
    (let token = gb_token s in
     case strip_prefix (gb_repo_url s) ''https://'' of
       Some rest \<Rightarrow> ''https://x-access-token:'' @ token @ ''@'' @ rest
     | None \<Rightarrow> gb_repo_url s)"

definition configure_identity :: "'w git_api \<Rightarrow> string \<Rightarrow> ('w, unit) io" where
  "configure_identity G dir =
    and_then (run_git G dir [''config'', ''user.email'', ''repossess@invalid'']) (\<lambda>_.
    and_then (run_git G dir [''config'', ''user.name'', ''repossess'']) (\<lambda>_. ret ()))"

definition try_clone :: "'w git_api \<Rightarrow> 'w git_branch_store \<Rightarrow> string \<Rightarrow> ('w, unit) io" where
  "try_clone G s dir =
    (let url = auth_url s in
     and_then (lift_res (ok_or (Msg ''workdir not utf-8'') (from_utf8 dir))) (\<lambda>dir_str.
     and_then (with_context ''spawn git clone''
        (gt_output G None (unsigned_args @ [''clone'', ''--branch'', gb_branch s, ''--single-branch'',
          ''--depth'', ''1'', url, dir_str]))) (\<lambda>out.
     if \<not> co_success out then
       fail (Msg (''git clone failed: '' @ trim (gt_lossy G (co_stderr out))))
     else and_then (configure_identity G dir) (\<lambda>_. ret ()))))"

definition init_orphan :: "'w git_api \<Rightarrow> 'w git_branch_store \<Rightarrow> string \<Rightarrow> ('w, unit) io" where
  "init_orphan G s dir =
    and_then (gt_create_dir_all G dir) (\<lambda>_.
    and_then (run_git G dir [''init'', ''--initial-branch'', gb_branch s]) (\<lambda>_.
    and_then (run_git G dir [''remote'', ''add'', ''origin'', auth_url s]) (\<lambda>_.
    and_then (configure_identity G dir) (\<lambda>_. ret ()))))"

definition init_workdir :: "'w git_api \<Rightarrow> 'w git_branch_store \<Rightarrow> ('w, string) io" where
  "init_workdir G s =
    and_then (with_context ''create tempdir for git_branch workdir'' (gt_tempdir G)) (\<lambda>td.
    and_then (attempt (try_clone G s td)) (\<lambda>r.
    (case r of
       Inr _ \<Rightarrow> ret td
     | Inl e \<Rightarrow> and_then (init_orphan G s td) (\<lambda>_. ret td))))"

definition workdir :: "'w git_api \<Rightarrow> 'w git_branch_store \<Rightarrow> ('w, string) io" where
  "workdir G s w =
    (case gb_workdir_cell s w of
       Some d \<Rightarrow> ret d w
     | None \<Rightarrow> and_then (init_workdir G s) (\<lambda>d. effect (\<lambda>w. (d, gb_set_workdir s d w))) w)"

section \<open>Commits\<close>

text \<open>Whether the remote branch exists; if it does, the work directory is reset to it.\<close>

definition fetch_and_reset :: "'w git_api \<Rightarrow> 'w git_branch_store \<Rightarrow> string \<Rightarrow> ('w, bool) io" where
  "fetch_and_reset G s dir =
    and_then (with_context ''git fetch'' (git_command G dir [''fetch'', ''origin'', gb_branch s])) (\<lambda>fetch.
    if \<not> co_success fetch then ret False
    else and_then (run_git G dir [''reset'', ''--hard'', ''origin/'' @ gb_branch s]) (\<lambda>_. ret True))"

definition current_sha :: "'w git_api \<Rightarrow> string \<Rightarrow> ('w, string option) io" where
  "current_sha G dir =
    and_then (with_context ''git rev-parse HEAD'' (git_command G dir [''rev-parse'', ''HEAD''])) (\<lambda>out.
    if \<not> co_success out then ret None
    else and_then (lift_res (ok_or (Msg ''invalid utf-8 sequence'') (from_utf8 (co_stdout out))))
      (\<lambda>text. ret (Some (trim text))))"

definition push_args :: "'w git_branch_store \<Rightarrow> string option \<Rightarrow> string list" where
  "push_args s force_with_lease =
    ''push'' #
    (case force_with_lease of
       Some prev_sha \<Rightarrow>
         [''--force-with-lease='' @ gb_branch s @ '':'' @ prev_sha, ''origin'', gb_branch s]
     | None \<Rightarrow> [''--set-upstream'', ''origin'', gb_branch s])"

definition commit_and_push ::
    "'w git_api \<Rightarrow> 'w git_branch_store \<Rightarrow> string \<Rightarrow> string \<Rightarrow> string option \<Rightarrow> ('w, string) io" where
  "commit_and_push G s dir message force_with_lease =
    and_then (run_git G dir [''add'', ''-A'']) (\<lambda>_.
    and_then (git_command G dir [''status'', ''--porcelain'']) (\<lambda>st.
    if co_stdout st = [] then
      and_then (current_sha G dir) (\<lambda>sha. lift_res (ok_or (Msg ''no changes and no HEAD'') sha))
    else
      and_then (run_git G dir [''commit'', ''-m'', message]) (\<lambda>_.
      and_then (with_context ''git push'' (git_command G dir (push_args s force_with_lease))) (\<lambda>push.
      if \<not> co_success push then
        fail (Msg (''git push failed (CAS or auth): '' @ trim (gt_lossy G (co_stderr push))))
      else
        and_then (current_sha G dir) (\<lambda>sha. lift_res (ok_or (Msg ''post-push HEAD missing'') sha))))))"

definition safe_path :: "string \<Rightarrow> string \<Rightarrow> string res" where
  "safe_path dir key =
    (if contains key ''..'' \<or> starts_with key ''/'' then Inl (Msg (''git_branch: invalid key '' @ key))
     else Inr (path_join dir key))"

text \<open>\<open>if let Some(parent) = target.parent() { create_dir_all(parent)?; }\<close> and the write after it.\<close>

definition write_target :: "'w git_api \<Rightarrow> string \<Rightarrow> bytes \<Rightarrow> ('w, unit) io" where
  "write_target G target body =
    and_then (case path_parent target of
        Some parent \<Rightarrow> gt_create_dir_all G parent
      | None \<Rightarrow> ret ()) (\<lambda>_.
    gt_write G target body)"

section \<open>impl SnapshotStore for GitBranchStore\<close>

definition git_precondition :: "string \<Rightarrow> string option \<Rightarrow> string option \<Rightarrow> bool \<Rightarrow> unit res" where
  "git_precondition key expected_etag current present =
    (case (expected_etag, current, present) of
       (None, _, True) \<Rightarrow> Inl (Msg (''git_branch: create-only on existing key '' @ key))
     | (Some _, None, _) \<Rightarrow> Inl (Msg ''git_branch: branch is empty, no etag to match'')
     | (Some etag, Some cur, _) \<Rightarrow>
         if etag \<noteq> cur then
           Inl (Msg (''git_branch: etag mismatch (expected '' @ etag @ '', current '' @ cur @ '')''))
         else Inr ()
     | _ \<Rightarrow> Inr ())"

definition git_put_if_unmodified ::
    "'w git_api \<Rightarrow> 'w git_branch_store \<Rightarrow> string \<Rightarrow> bytes \<Rightarrow> string option \<Rightarrow> ('w, put_result) io" where
  "git_put_if_unmodified G s key body expected_etag =
    and_then (workdir G s) (\<lambda>dir.
    and_then (fetch_and_reset G s dir) (\<lambda>_.
    and_then (current_sha G dir) (\<lambda>current.
    and_then (lift_res (safe_path dir key)) (\<lambda>target.
    and_then (effect (gt_exists G target)) (\<lambda>present.
    and_then (lift_res (git_precondition key expected_etag current present)) (\<lambda>_.
    and_then (write_target G target body) (\<lambda>_.
    and_then (commit_and_push G s dir
        (''repossess: '' @ (if expected_etag \<noteq> None then ''update'' else ''create'') @ '' '' @ key)
        current) (\<lambda>new_sha.
    ret \<lparr>pr_etag = new_sha\<rparr>))))))))"

definition git_put ::
    "'w git_api \<Rightarrow> 'w git_branch_store \<Rightarrow> string \<Rightarrow> bytes \<Rightarrow> ('w, put_result) io" where
  "git_put G s key body =
    and_then (workdir G s) (\<lambda>dir.
    and_then (fetch_and_reset G s dir) (\<lambda>_.
    and_then (lift_res (safe_path dir key)) (\<lambda>target.
    and_then (write_target G target body) (\<lambda>_.
    and_then (current_sha G dir) (\<lambda>prev.
    and_then (commit_and_push G s dir (''repossess: put '' @ key) prev) (\<lambda>new_sha.
    ret \<lparr>pr_etag = new_sha\<rparr>))))))"

definition git_get :: "'w git_api \<Rightarrow> 'w git_branch_store \<Rightarrow> string \<Rightarrow> ('w, bytes \<times> string) io" where
  "git_get G s key =
    and_then (workdir G s) (\<lambda>dir.
    and_then (fetch_and_reset G s dir) (\<lambda>_.
    and_then (lift_res (safe_path dir key)) (\<lambda>target.
    and_then (with_context (''git_branch get '' @ key @ '': file missing'') (gt_read G target)) (\<lambda>b.
    and_then (current_sha G dir) (\<lambda>sha.
    and_then (lift_res (ok_or (Msg (''git_branch get '' @ key @ '': no HEAD'')) sha)) (\<lambda>sha.
    ret (b, sha)))))))"

definition git_head :: "'w git_api \<Rightarrow> 'w git_branch_store \<Rightarrow> string \<Rightarrow> ('w, string option) io" where
  "git_head G s key =
    and_then (workdir G s) (\<lambda>dir.
    and_then (fetch_and_reset G s dir) (\<lambda>on_remote.
    if \<not> on_remote then ret None
    else
      and_then (lift_res (safe_path dir key)) (\<lambda>target.
      and_then (effect (gt_exists G target)) (\<lambda>present.
      if \<not> present then ret None else current_sha G dir))))"

text \<open>One line of \<open>git ls-tree -r --long\<close>.\<close>

definition ls_tree_meta :: "string \<Rightarrow> string \<Rightarrow> object_meta" where
  "ls_tree_meta sha line =
    (let (meta_part, path) = (case split_once line (CHR 0x09) of Some p \<Rightarrow> p | None \<Rightarrow> (line, []));
         cols = split_whitespace meta_part;
         size = (case (if 3 < length cols then parse_unsigned 64 (cols ! 3) else None) of
                   Some n \<Rightarrow> n | None \<Rightarrow> 0)
     in \<lparr>om_key = path, om_etag = sha, om_size = size\<rparr>)"

definition git_list :: "'w git_api \<Rightarrow> 'w git_branch_store \<Rightarrow> string \<Rightarrow> ('w, object_meta list) io" where
  "git_list G s prefx =
    and_then (workdir G s) (\<lambda>dir.
    and_then (fetch_and_reset G s dir) (\<lambda>on_remote.
    if \<not> on_remote then ret []
    else
      and_then (current_sha G dir) (\<lambda>head_sha.
      let sha = (case head_sha of Some h \<Rightarrow> h | None \<Rightarrow> []) in
      and_then (git_command G dir [''ls-tree'', ''-r'', ''--long'', ''HEAD'', prefx]) (\<lambda>out.
      if \<not> co_success out then ret []
      else
        and_then (lift_res (ok_or (Msg ''invalid utf-8 sequence'') (from_utf8 (co_stdout out))))
          (\<lambda>text. ret (map (ls_tree_meta sha) (str_lines text)))))))"

definition git_delete_if_match ::
    "'w git_api \<Rightarrow> 'w git_branch_store \<Rightarrow> string \<Rightarrow> string \<Rightarrow> ('w, unit) io" where
  "git_delete_if_match G s key etag =
    and_then (workdir G s) (\<lambda>dir.
    and_then (fetch_and_reset G s dir) (\<lambda>_.
    and_then (current_sha G dir) (\<lambda>head_sha.
    and_then (lift_res (ok_or (Msg ''git_branch delete: no HEAD'') head_sha)) (\<lambda>current.
    if current \<noteq> etag then
      fail (Msg (''git_branch delete: etag mismatch (expected '' @ etag @ '', current '' @ current @ '')''))
    else
      and_then (lift_res (safe_path dir key)) (\<lambda>target.
      and_then (effect (gt_exists G target)) (\<lambda>present.
      if \<not> present then ret ()
      else
        and_then (run_git G dir [''rm'', key]) (\<lambda>_.
        and_then (commit_and_push G s dir (''repossess: delete '' @ key) (Some current)) (\<lambda>_. ret ()))))))))"

definition git_snapshot_store :: "'w git_api \<Rightarrow> 'w git_branch_store \<Rightarrow> 'w store" where
  "git_snapshot_store G s =
    \<lparr>st_name = gb_name s,
     st_put_if_unmodified = git_put_if_unmodified G s,
     st_put = git_put G s,
     st_get = git_get G s,
     st_head = git_head G s,
     st_list = git_list G s,
     st_delete_if_match = git_delete_if_match G s\<rparr>"

end
