(* ===== verification/Git_Facts.thy ===== *)
theory Git_Facts
  imports Git_Branch "HOL-Library.AList"
begin

text \<open>
  What the git store promises, from what git promises: a push with a lease is a test-and-set of the
  branch, and nothing else moves the branch on the remote.
\<close>

section \<open>What git promises\<close>

text \<open>Every call but a push leaves \<open>v\<close> as it is.\<close>

definition is_push :: "string list \<Rightarrow> bool" where
  "is_push args \<longleftrightarrow> (case drop 4 args of c # _ \<Rightarrow> c = ''push'' | [] \<Rightarrow> False)"

definition git_frame :: "'w git_api \<Rightarrow> 'w git_branch_store \<Rightarrow> ('w \<Rightarrow> 'v) \<Rightarrow> bool" where
  "git_frame G s v \<longleftrightarrow>
    (\<forall>d args. \<not> is_push args \<longrightarrow> keeps v (gt_output G d args)) \<and>
    keeps v (gt_tempdir G) \<and> (\<forall>d. keeps v (gt_create_dir_all G d)) \<and>
    (\<forall>p. keeps v (gt_exists G p)) \<and> (\<forall>p b. keeps v (gt_write G p b)) \<and>
    (\<forall>p. keeps v (gt_read G p)) \<and> (\<forall>d w. v (gb_set_workdir s d w) = v w)"

text \<open>A push with \<open>--force-with-lease=branch:sha\<close> moves the branch from \<open>sha\<close> only.\<close>

definition push_is_cas ::
    "'w git_api \<Rightarrow> 'w git_branch_store \<Rightarrow> ('w \<Rightarrow> string option) \<Rightarrow> bool" where
  "push_is_cas G s tip \<longleftrightarrow>
    (\<forall>d sha w. tip (snd (gt_output G (Some d) (unsigned_args @ push_args s (Some sha)) w)) \<noteq> tip w \<longrightarrow>
      tip w = Some sha)"

text \<open>
  Fetching sets the remote-tracking branch to the tip, a hard reset sets \<open>HEAD\<close> to it, and
  \<open>rev-parse HEAD\<close> prints \<open>HEAD\<close>; looking whether a file exists moves nothing.
\<close>

definition git_heads ::
    "'w git_api \<Rightarrow> 'w git_branch_store \<Rightarrow> ('w \<Rightarrow> string option) \<Rightarrow> (string \<Rightarrow> 'w \<Rightarrow> string option) \<Rightarrow>
      (string \<Rightarrow> 'w \<Rightarrow> string option) \<Rightarrow> bool" where
  "git_heads G s tip tracking head \<longleftrightarrow>
    (\<forall>d w out w'. gt_output G (Some d) (unsigned_args @ [''fetch'', ''origin'', gb_branch s]) w =
        (Inr out, w') \<longrightarrow> co_success out \<longrightarrow> tracking d w' = tip w') \<and>
    (\<forall>d w out w'. gt_output G (Some d) (unsigned_args @ [''reset'', ''--hard'', ''origin/'' @ gb_branch s]) w =
        (Inr out, w') \<longrightarrow> co_success out \<longrightarrow> head d w' = tracking d w) \<and>
    (\<forall>d w out w' t. gt_output G (Some d) (unsigned_args @ [''rev-parse'', ''HEAD'']) w = (Inr out, w') \<longrightarrow>
        co_success out \<longrightarrow> from_utf8 (co_stdout out) = Some t \<longrightarrow> head d w = Some (trim t)) \<and>
    (\<forall>d p. keeps (head d) (gt_exists G p))"

section \<open>Operations that move a view from one value only\<close>

definition moves_from :: "('w \<Rightarrow> 'v) \<Rightarrow> 'v \<Rightarrow> ('w, 'e, 'a) eio \<Rightarrow> bool" where
  "moves_from v x m \<longleftrightarrow> (\<forall>w. v (snd (m w)) \<noteq> v w \<longrightarrow> v w = x)"

named_theorems moves_intros \<open>composition rules for \<open>moves_from\<close>\<close>

lemma moves_fromD: "moves_from v x m \<Longrightarrow> v (snd (m w)) \<noteq> v w \<Longrightarrow> v w = x"
  by (simp add: moves_from_def)

lemma keeps_moves: "keeps v m \<Longrightarrow> moves_from v x m"
  by (simp add: keeps_def moves_from_def)

lemma moves_after_keeps [moves_intros]:
  "keeps v m \<Longrightarrow> (\<And>y. moves_from v x (f y)) \<Longrightarrow> moves_from v x (and_then m f)"
  by (auto simp: keeps_def moves_from_def and_then_def split: prod.splits sum.splits)
    (metis snd_conv)+

lemma moves_before_keeps:
  "moves_from v x m \<Longrightarrow> (\<And>y. keeps v (f y)) \<Longrightarrow> moves_from v x (and_then m f)"
  by (auto simp: keeps_def moves_from_def and_then_def split: prod.splits sum.splits)

lemma moves_lift_res [moves_intros]:
  "(\<And>y. r = Inr y \<Longrightarrow> moves_from v x (f y)) \<Longrightarrow> moves_from v x (and_then (lift_res r) f)"
  by (cases r) (auto simp: moves_from_def and_then_def lift_res_def fail_def)

lemma moves_if [moves_intros]:
  "(c \<Longrightarrow> moves_from v x a) \<Longrightarrow> (\<not> c \<Longrightarrow> moves_from v x b) \<Longrightarrow> moves_from v x (if c then a else b)"
  by simp

section \<open>The store\<close>

lemma git_frameD:
  assumes "git_frame G s v"
  shows "\<not> is_push args \<Longrightarrow> keeps v (gt_output G d args)" "keeps v (gt_tempdir G)"
    "keeps v (gt_create_dir_all G p)" "keeps v (gt_exists G p)" "keeps v (gt_write G p b)"
    "keeps v (gt_read G p)" "keeps v (\<lambda>w. (x, gb_set_workdir s p w))"
  using assms by (auto simp: git_frame_def keeps_def)

lemma is_push_unsigned [simp]:
  "is_push (unsigned_args @ args) \<longleftrightarrow> (case args of c # _ \<Rightarrow> c = ''push'' | [] \<Rightarrow> False)"
  by (simp add: is_push_def unsigned_args_def)

lemma keeps_git_command:
  "git_frame G s v \<Longrightarrow> (case args of c # _ \<Rightarrow> c \<noteq> ''push'' | [] \<Rightarrow> True) \<Longrightarrow>
    keeps v (git_command G d args)"
  unfolding git_command_def by (rule git_frameD) (auto split: list.splits)

lemma keeps_run_git:
  "git_frame G s v \<Longrightarrow> (case args of c # _ \<Rightarrow> c \<noteq> ''push'' | [] \<Rightarrow> True) \<Longrightarrow>
    keeps v (run_git G d args)"
  unfolding run_git_def by (intro keeps_intros keeps_git_command)

lemma keeps_configure: "git_frame G s v \<Longrightarrow> keeps v (configure_identity G d)"
  unfolding configure_identity_def by (intro keeps_intros keeps_run_git) auto

lemma keeps_try_clone: "git_frame G s v \<Longrightarrow> keeps v (try_clone G s d)"
  unfolding try_clone_def by (intro keeps_intros keeps_configure git_frameD(1)) auto

lemma keeps_init_orphan: "git_frame G s v \<Longrightarrow> keeps v (init_orphan G s d)"
  unfolding init_orphan_def by (intro keeps_intros keeps_run_git keeps_configure git_frameD(3)) auto

lemma keeps_workdir: "git_frame G s v \<Longrightarrow> keeps v (workdir G s)"
  unfolding workdir_def init_workdir_def keeps_def
proof
  fix w
  assume frame: "git_frame G s v"
  let ?init = "and_then (and_then (with_context ''create tempdir for git_branch workdir'' (gt_tempdir G)) (\<lambda>td.
    and_then (attempt (try_clone G s td)) (\<lambda>r.
    (case r of Inr _ \<Rightarrow> ret td | Inl e \<Rightarrow> and_then (init_orphan G s td) (\<lambda>_. ret td)))))
    (\<lambda>d. effect (\<lambda>w. (d, gb_set_workdir s d w)))"
  have "keeps v ?init"
    by (intro keeps_intros keeps_try_clone [OF frame] keeps_init_orphan [OF frame] git_frameD [OF frame])
  then show "v (snd ((case gb_workdir_cell s w of Some d \<Rightarrow> ret d w | None \<Rightarrow> ?init w))) = v w"
    by (auto simp: keeps_def ret_def split: option.splits)
qed

lemma keeps_fetch: "git_frame G s v \<Longrightarrow> keeps v (fetch_and_reset G s d)"
  unfolding fetch_and_reset_def by (intro keeps_intros keeps_git_command keeps_run_git) auto

lemma keeps_current_sha: "git_frame G s v \<Longrightarrow> keeps v (current_sha G d)"
  unfolding current_sha_def by (intro keeps_intros keeps_git_command) auto

lemma keeps_write_target: "git_frame G s v \<Longrightarrow> keeps v (write_target G p b)"
  unfolding write_target_def by (intro keeps_intros git_frameD)

lemmas git_keeps =
  keeps_workdir keeps_fetch keeps_current_sha keeps_write_target keeps_git_command keeps_run_git
  git_frameD(4,6)

lemma push_moves:
  assumes "push_is_cas G s tip"
  shows "moves_from tip (Some sha) (git_command G d (push_args s (Some sha)))"
  using assms by (auto simp: push_is_cas_def moves_from_def git_command_def)

lemma commit_and_push_moves:
  assumes "git_frame G s tip" and "push_is_cas G s tip"
  shows "moves_from tip (Some sha) (commit_and_push G s d m (Some sha))"
proof -
  have push: "moves_from tip (Some sha) (and_then (with_context ''git push''
      (git_command G d (push_args s (Some sha)))) f)" if "\<And>y. keeps tip (f y)" for f
    using push_moves [OF assms(2), of sha d] that
    by (intro moves_before_keeps) (auto simp: moves_from_def)
  show ?thesis
    unfolding commit_and_push_def
    by (intro moves_intros git_keeps [OF assms(1)] push keeps_intros keeps_moves)
      (auto intro!: keeps_intros git_keeps [OF assms(1)])
qed

lemma put_if_unmodified_moves:
  assumes frame: "git_frame G s tip" and cas: "push_is_cas G s tip"
  shows "moves_from tip (Some etag) (git_put_if_unmodified G s key b (Some etag))"
proof -
  have "moves_from tip (Some etag) (and_then (commit_and_push G s d m current) (\<lambda>sha. ret \<lparr>pr_etag = sha\<rparr>))"
    if "git_precondition key (Some etag) current present = Inr ()" for d m current present
  proof -
    have "current = Some etag"
      using that by (auto simp: git_precondition_def split: option.splits bool.splits if_splits)
    then show ?thesis
      by (auto intro!: moves_before_keeps commit_and_push_moves assms keeps_intros)
  qed
  note tail = this
  show ?thesis
    unfolding git_put_if_unmodified_def
    by (rule moves_after_keeps [OF keeps_workdir [OF frame]],
        rule moves_after_keeps [OF keeps_fetch [OF frame]],
        rule moves_after_keeps [OF keeps_current_sha [OF frame]], rule moves_lift_res,
        rule moves_after_keeps [OF keeps_effect [OF git_frameD(4) [OF frame]]], rule moves_lift_res,
        rule moves_after_keeps [OF keeps_write_target [OF frame]], rule tail) simp
qed

lemma delete_if_match_moves:
  assumes frame: "git_frame G s tip" and cas: "push_is_cas G s tip"
  shows "moves_from tip (Some etag) (git_delete_if_match G s key etag)"
proof -
  have "moves_from tip (Some etag) (and_then (run_git G d [''rm'', key]) (\<lambda>_.
      and_then (commit_and_push G s d m (Some etag)) (\<lambda>_. ret ())))" for d m
    by (rule moves_after_keeps [OF keeps_run_git [OF frame]])
      (auto intro!: moves_before_keeps commit_and_push_moves assms keeps_intros)
  note tail = this
  show ?thesis
    unfolding git_delete_if_match_def
    by (rule moves_after_keeps [OF keeps_workdir [OF frame]],
        rule moves_after_keeps [OF keeps_fetch [OF frame]],
        rule moves_after_keeps [OF keeps_current_sha [OF frame]], rule moves_lift_res,
        rule moves_if, rule keeps_moves [OF keeps_fail], rule moves_lift_res,
        rule moves_after_keeps [OF keeps_effect [OF git_frameD(4) [OF frame]]],
        rule moves_if, rule keeps_moves [OF keeps_ret], simp add: tail)
qed

text \<open>The etag of a key is the tip of the branch.\<close>

lemma fetch_reset_head:
  assumes frame: "git_frame G s tip" and heads: "git_heads G s tip tracking head"
    and "fetch_and_reset G s d w = (Inr True, w')"
  shows "head d w' = tip w"
proof -
  from assms(3) obtain out w1 where
    fetch: "git_command G d [''fetch'', ''origin'', gb_branch s] w = (Inr out, w1)" "co_success out" and
    reset: "run_git G d [''reset'', ''--hard'', ''origin/'' @ gb_branch s] w1 = (Inr (), w')"
    by (auto simp: fetch_and_reset_def elim!: io_elims split: if_splits)
  from reset obtain out' where
    "git_command G d [''reset'', ''--hard'', ''origin/'' @ gb_branch s] w1 = (Inr out', w')"
    "co_success out'"
    by (auto simp: run_git_def elim!: io_elims split: if_splits)
  with heads have "head d w' = tracking d w1"
    by (auto simp: git_heads_def git_command_def)
  moreover have "tracking d w1 = tip w1"
    using heads fetch by (auto simp: git_heads_def git_command_def)
  moreover have "tip w1 = tip w"
    using keepsD [OF keeps_git_command [OF frame] fetch(1)] by simp
  ultimately show ?thesis by simp
qed

lemma git_head_tip:
  assumes frame: "git_frame G s tip" and heads: "git_heads G s tip tracking head"
    and "git_head G s key w = (Inr (Some etag), w')"
  shows "tip w = Some etag"
proof -
  from assms(3) obtain d w1 w2 target present w3 where
    wd: "workdir G s w = (Inr d, w1)" and fr: "fetch_and_reset G s d w1 = (Inr True, w2)" and
    ex: "gt_exists G target w2 = (present, w3)" and sha: "current_sha G d w3 = (Inr (Some etag), w')"
    unfolding git_head_def by (auto elim!: io_elims split: if_splits)
  from sha obtain out t where
    "git_command G d [''rev-parse'', ''HEAD''] w3 = (Inr out, w')" "co_success out"
    "from_utf8 (co_stdout out) = Some t" "etag = trim t"
    by (auto simp: current_sha_def ok_or_def elim!: io_elims split: if_splits option.splits)
  with heads have "head d w3 = Some etag"
    by (auto simp: git_heads_def git_command_def)
  moreover have "keeps (head d) (gt_exists G target)"
    using heads by (simp add: git_heads_def)
  then have "head d w3 = head d w2"
    using ex by (rule keepsD)
  moreover have "tip w1 = tip w"
    by (rule keepsD [OF keeps_workdir [OF frame] wd])
  ultimately show ?thesis
    using fetch_reset_head [OF frame heads fr] by simp
qed

section \<open>A small git\<close>

text \<open>A remote and one clone of it: the tip, \<open>HEAD\<close>, the work directory and the files in it.\<close>

record small_git =
  sg_tip :: string
  sg_head :: string
  sg_cell :: "string option"
  sg_files :: "(string \<times> bytes) list"

definition git_says :: "bytes \<Rightarrow> command_output res" where
  "git_says out = Inr \<lparr>co_success = True, co_stdout = out, co_stderr = []\<rparr>"

definition small_git_output ::
    "string option \<Rightarrow> string list \<Rightarrow> (small_git, command_output) io" where
  "small_git_output d args w =
    (case drop 4 args of
       [] \<Rightarrow> (git_says [], w)
     | c # rest \<Rightarrow>
         if c = ''reset'' then (git_says [], w\<lparr>sg_head := sg_tip w\<rparr>)
         else if c = ''rev-parse'' then (git_says (sg_head w), w)
         else if c = ''status'' then (git_says ''M'', w)
         else if c = ''commit'' then (git_says [], w\<lparr>sg_head := sg_head w @ ''+''\<rparr>)
         else if c = ''push'' then
           (if rest = [''--force-with-lease=state:'' @ trim (sg_tip w), ''origin'', ''state'']
            then (git_says [], w\<lparr>sg_tip := sg_head w\<rparr>)
            else (Inr \<lparr>co_success = False, co_stdout = [], co_stderr = ''stale info''\<rparr>, w))
         else (git_says [], w))"

definition small_git_api :: "small_git git_api" where
  "small_git_api =
    \<lparr>gt_output = small_git_output, gt_tempdir = ret ''/tmp/w'', gt_create_dir_all = (\<lambda>p. ret ()),
     gt_exists = (\<lambda>p w. (map_of (sg_files w) p \<noteq> None, w)),
     gt_write = (\<lambda>p b w. (Inr (), w\<lparr>sg_files := AList.update p b (sg_files w)\<rparr>)),
     gt_read = (\<lambda>p w. (ok_or (Msg ''No such file'') (map_of (sg_files w) p), w)),
     gt_lossy = (\<lambda>b. b)\<rparr>"

definition small_git_store :: "small_git git_branch_store" where
  "small_git_store =
    \<lparr>gb_name = ''git'', gb_repo_url = ''https://h/r'', gb_branch = ''state'', gb_token = ''t'',
     gb_workdir_cell = sg_cell, gb_set_workdir = (\<lambda>d w. w\<lparr>sg_cell := Some d\<rparr>)\<rparr>"

abbreviation small_tip :: "small_git \<Rightarrow> string option" where
  "small_tip w \<equiv> Some (trim (sg_tip w))"

abbreviation small_head :: "string \<Rightarrow> small_git \<Rightarrow> string option" where
  "small_head d w \<equiv> Some (trim (sg_head w))"

definition small_start :: small_git where
  "small_start = \<lparr>sg_tip = ''c'', sg_head = ''c'', sg_cell = None,
     sg_files = [(''/tmp/w/latest.json'', ''L'')]\<rparr>"

lemma small_frame: "git_frame small_git_api small_git_store small_tip"
  by (auto simp: git_frame_def small_git_api_def small_git_store_def small_git_output_def keeps_def
      is_push_def ret_def split: list.splits)

lemma small_push: "push_is_cas small_git_api small_git_store small_tip"
  by (auto simp: push_is_cas_def small_git_api_def small_git_store_def small_git_output_def
      push_args_def unsigned_args_def)

lemma small_heads:
  "git_heads small_git_api small_git_store small_tip (\<lambda>d. small_tip) small_head"
  by (auto simp: git_heads_def small_git_api_def small_git_store_def small_git_output_def keeps_def
      unsigned_args_def git_says_def from_utf8_def split: if_splits)

lemma small_trim: "trim ''c'' = ''c''" "trim ''c+'' = ''c+''" "trim ''c++'' = ''c++''"
  by code_simp+

lemma small_utf8:
  "from_utf8 ''c'' = Some ''c''" "from_utf8 ''c+'' = Some ''c+''" "from_utf8 ''c++'' = Some ''c++''"
  "from_utf8 ''/tmp/w'' = Some ''/tmp/w''"
  by code_simp+

lemma small_paths:
  "safe_path ''/tmp/w'' ''latest.json'' = Inr ''/tmp/w/latest.json''"
  "safe_path ''/tmp/w'' ''lock.json'' = Inr ''/tmp/w/lock.json''"
  "path_parent ''/tmp/w/latest.json'' = Some ''/tmp/w''"
  "path_parent ''/tmp/w/lock.json'' = Some ''/tmp/w''"
  by code_simp+

lemmas small_eval =
  small_git_api_def small_git_store_def small_git_output_def unsigned_args_def git_says_def
  small_start_def small_trim small_utf8 small_paths and_then_def with_context_def map_err_def
  effect_def attempt_def lift_res_def ok_or_def ret_def git_command_def run_git_def
  configure_identity_def try_clone_def init_workdir_def workdir_def fetch_and_reset_def
  current_sha_def push_args_def commit_and_push_def write_target_def

lemma small_put:
  "git_put small_git_api small_git_store ''lock.json'' ''K'' small_start =
    (Inr \<lparr>pr_etag = ''c+''\<rparr>, \<lparr>sg_tip = ''c+'', sg_head = ''c+'', sg_cell = Some ''/tmp/w'',
      sg_files = [(''/tmp/w/latest.json'', ''L''), (''/tmp/w/lock.json'', ''K'')]\<rparr>)"
  by (simp add: git_put_def small_eval)

lemma small_cas:
  "git_put_if_unmodified small_git_api small_git_store ''latest.json'' ''N'' (Some ''c'') small_start =
    (Inr \<lparr>pr_etag = ''c+''\<rparr>, \<lparr>sg_tip = ''c+'', sg_head = ''c+'', sg_cell = Some ''/tmp/w'',
      sg_files = [(''/tmp/w/latest.json'', ''N'')]\<rparr>)"
  by (simp add: git_put_if_unmodified_def git_precondition_def small_eval)

lemma small_head_etag:
  "git_head small_git_api small_git_store ''latest.json'' small_start =
    (Inr (Some ''c''), small_start\<lparr>sg_cell := Some ''/tmp/w''\<rparr>)"
  by (simp add: git_head_def small_eval)

section \<open>Properties\<close>

text \<open>
  C12: On a git branch a conditional write and a conditional delete are a test-and-set of the whole
  branch: whatever their result, they move the branch on the remote only if its tip was the etag
  the caller gave.
\<close>

theorem git_conditional_write:
  assumes "git_frame G s tip" and "push_is_cas G s tip"
    and "w' = snd (st_put_if_unmodified (git_snapshot_store G s) key b (Some etag) w) \<or>
      w' = snd (st_delete_if_match (git_snapshot_store G s) key etag w)"
    and "tip w' \<noteq> tip w"
  shows "tip w = Some etag"
  using assms(3,4) moves_fromD [OF put_if_unmodified_moves [OF assms(1,2), of etag key b], of w]
    moves_fromD [OF delete_if_match_moves [OF assms(1,2), of etag key], of w]
  by (auto simp: git_snapshot_store_def)

theorem git_conditional_write_witness:
  "small_tip small_start = Some ''c''"
  by (rule git_conditional_write [OF small_frame small_push disjI1, OF refl,
        where key = "''latest.json''" and b = "''N''"])
    (simp add: git_snapshot_store_def small_cas small_trim, simp add: small_start_def small_trim)

text \<open>
  C32: The etag of a key is the tip of the whole branch, so an etag that was read before another key
  was written is spent: the conditional write that uses it leaves the branch as it is.  In
  particular a session saved on a git branch, which writes the snapshot and its signature before
  \<open>latest.json\<close>, cannot update \<open>latest.json\<close> with the etag it restored.
\<close>

theorem git_etag_spent_by_other_keys:
  assumes "git_frame G s tip" and "push_is_cas G s tip" and "git_heads G s tip tracking head"
    and "st_head (git_snapshot_store G s) key w = (Inr (Some etag), w1)"
    and "st_put (git_snapshot_store G s) other b w1 = (r, w2)" and "tip w2 \<noteq> tip w1"
  shows "tip (snd (st_put_if_unmodified (git_snapshot_store G s) key b' (Some etag) w2)) = tip w2"
proof -
  have head: "git_head G s key w = (Inr (Some etag), w1)"
    using assms(4) by (simp add: git_snapshot_store_def)
  have "tip w = Some etag"
    by (rule git_head_tip [OF assms(1,3) head])
  moreover have "tip w1 = tip w"
    using head unfolding git_head_def
    by (rule keepsD [rotated]) (intro keeps_intros git_keeps [OF assms(1)])
  ultimately have "tip w2 \<noteq> Some etag"
    using assms(6) by simp
  with moves_fromD [OF put_if_unmodified_moves [OF assms(1,2), of etag key b'], of w2] show ?thesis
    by (auto simp: git_snapshot_store_def)
qed

theorem git_etag_spent_witness:
  "small_tip (snd (st_put_if_unmodified (git_snapshot_store small_git_api small_git_store)
      ''latest.json'' ''N'' (Some ''c'')
      \<lparr>sg_tip = ''c+'', sg_head = ''c+'', sg_cell = Some ''/tmp/w'',
        sg_files = [(''/tmp/w/latest.json'', ''L''), (''/tmp/w/lock.json'', ''K'')]\<rparr>)) = Some ''c+''"
proof -
  let ?S = "git_snapshot_store small_git_api small_git_store"
    and ?w1 = "small_start\<lparr>sg_cell := Some ''/tmp/w''\<rparr>"
    and ?w2 = "\<lparr>sg_tip = ''c+'', sg_head = ''c+'', sg_cell = Some ''/tmp/w'',
      sg_files = [(''/tmp/w/latest.json'', ''L''), (''/tmp/w/lock.json'', ''K'')]\<rparr>"
  have "st_head ?S ''latest.json'' small_start = (Inr (Some ''c''), ?w1)"
    by (simp add: git_snapshot_store_def small_head_etag)
  moreover have "st_put ?S ''lock.json'' ''K'' ?w1 = (Inr \<lparr>pr_etag = ''c+''\<rparr>, ?w2)"
    by (simp add: git_snapshot_store_def git_put_def small_eval)
  moreover have "small_tip ?w2 \<noteq> small_tip ?w1"
    by (simp add: small_trim small_start_def)
  ultimately show ?thesis
    using git_etag_spent_by_other_keys [OF small_frame small_push small_heads] by (simp add: small_trim)
qed

end
