(* ===== verification/Github_Release.thy ===== *)
theory Github_Release
  imports Stores Http
begin

text \<open>
  \<open>src/stores/github_release.rs\<close>: a store on the assets of a few GitHub releases, over HTTP.

  The paging loop of \<open>list_assets\<close> ends when the server sends a short page; its fuel is the number of
  pages asked for.  The page number is a \<open>u32\<close>.
\<close>

record gh_release =
  re_id :: nat

record gh_asset =
  as_id :: nat
  as_name :: string
  as_size :: nat

text \<open>
  The calls: \<open>reqwest\<close>'s GET (in \<open>http_api\<close>), POST with a body and DELETE; the parsers \<open>serde\<close>
  derives; \<open>urlencoding::encode\<close>; and the \<open>Display\<close> of a \<open>StatusCode\<close>.
\<close>

record 'w github_api =
  gh_http :: "'w http_api"
  gh_post :: "http_client \<Rightarrow> http_request \<Rightarrow> bytes \<Rightarrow> ('w, http_response) io"
  gh_delete :: "http_client \<Rightarrow> http_request \<Rightarrow> ('w, http_response) io"
  gh_json_to_vec :: "json \<Rightarrow> bytes res"
  gh_release_from_slice :: "bytes \<Rightarrow> gh_release res"
  gh_asset_from_slice :: "bytes \<Rightarrow> gh_asset res"
  gh_assets_from_slice :: "bytes \<Rightarrow> gh_asset list res"
  gh_urlencode :: "string \<Rightarrow> string"
  gh_status_text :: "nat \<Rightarrow> string"

record github_store =
  gs_name :: string
  gs_owner :: string
  gs_repo :: string
  gs_token :: string
  gs_client :: http_client

definition GH_ACCEPT :: string where
  "GH_ACCEPT = ''application/vnd.github+json''"

definition API_VERSION :: string where
  "API_VERSION = ''2022-11-28''"

definition USER_AGENT :: string where
  "USER_AGENT = ''repossess/0.1 (+https://github.com)''"

definition github_store_new ::
    "'w github_api \<Rightarrow> string \<Rightarrow> string \<Rightarrow> string \<Rightarrow> github_store res" where
  "github_store_new G name repo token =
    res_bind (ok_or (Msg (''expected owner/name, got '' @ repo)) (split_once repo (CHR ''/'')))
      (\<lambda>(owner, repo_name).
    res_bind (res_context ''build http client''
        (http_build (gh_http G) \<lparr>hc_jar = [], hc_user_agent = Some USER_AGENT, hc_headers = []\<rparr>))
      (\<lambda>http.
    Inr \<lparr>gs_name = name, gs_owner = owner, gs_repo = repo_name, gs_token = token, gs_client = http\<rparr>))"

text \<open>The release and the asset a key is kept in.\<close>

definition route :: "string \<Rightarrow> string \<times> string" where
  "route key =
    (if key = ''latest.json'' then (''repossess-latest'', ''latest.json'')
     else (case strip_prefix key ''snapshots/'' of
       Some rest \<Rightarrow> (''repossess-snapshots'', rest)
     | None \<Rightarrow>
        (case strip_prefix key ''health/'' of
           Some rest \<Rightarrow> (''repossess-health'', rest)
         | None \<Rightarrow> (''repossess-misc'', replace_str key ''/'' ''_''))))"

definition gh_auth_header :: "github_store \<Rightarrow> string" where
  "gh_auth_header s = ''Bearer '' @ gs_token s"

definition gh_headers :: "github_store \<Rightarrow> string \<Rightarrow> (string \<times> string) list" where
  "gh_headers s accepted =
    [(''Accept'', accepted), (''X-GitHub-Api-Version'', API_VERSION),
     (''Authorization'', gh_auth_header s)]"

definition gh_repo_url :: "string \<Rightarrow> github_store \<Rightarrow> string" where
  "gh_repo_url host s = ''https://'' @ host @ ''/repos/'' @ gs_owner s @ ''/'' @ gs_repo s @ ''/releases''"

section \<open>Requests\<close>

definition text_or_default :: "'w github_api \<Rightarrow> http_response \<Rightarrow> ('w, string) io" where
  "text_or_default G resp =
    and_then (attempt (http_text (gh_http G) resp)) (\<lambda>r.
    ret (case r of Inr b \<Rightarrow> b | Inl _ \<Rightarrow> []))"

definition release_by_tag ::
    "'w github_api \<Rightarrow> github_store \<Rightarrow> string \<Rightarrow> ('w, gh_release option) io" where
  "release_by_tag G s tag =
    (let url = gh_repo_url ''api.github.com'' s @ ''/tags/'' @ tag in
     and_then (with_context ''GET release by tag'' (http_send (gh_http G) (gs_client s)
        \<lparr>rq_url = url, rq_headers = gh_headers s GH_ACCEPT\<rparr>)) (\<lambda>resp.
     if rs_status resp = 200 then
       and_then (http_bytes (gh_http G) resp) (\<lambda>raw.
       and_then (lift_res (gh_release_from_slice G raw)) (\<lambda>r. ret (Some r)))
     else if rs_status resp = 404 then ret None
     else
       and_then (text_or_default G resp) (\<lambda>body.
       fail (Msg (''release by tag '' @ tag @ '': status '' @ show_nat (rs_status resp) @ '' body '' @ body)))))"

text \<open>\<open>json!\<close> builds a map ordered by key.\<close>

definition release_json :: "string \<Rightarrow> json" where
  "release_json tag = JObject
    [(''draft'', JBool False), (''make_latest'', JString ''false''), (''name'', JString tag),
     (''prerelease'', JBool True), (''tag_name'', JString tag)]"

definition ensure_release :: "'w github_api \<Rightarrow> github_store \<Rightarrow> string \<Rightarrow> ('w, gh_release) io" where
  "ensure_release G s tag =
    and_then (release_by_tag G s tag) (\<lambda>found.
    (case found of
       Some r \<Rightarrow> ret r
     | None \<Rightarrow>
        (let url = gh_repo_url ''api.github.com'' s in
         and_then (with_context ''POST create release''
            (and_then (lift_res (gh_json_to_vec G (release_json tag))) (\<lambda>b.
             gh_post G (gs_client s)
              \<lparr>rq_url = url,
               rq_headers = gh_headers s GH_ACCEPT @ [(''content-type'', ''application/json'')]\<rparr> b)))
         (\<lambda>resp.
         if \<not> is_success (rs_status resp) then
           and_then (text_or_default G resp) (\<lambda>body.
           fail (Msg (''create release '' @ tag @ '': status '' @ gh_status_text G (rs_status resp) @
             '' body '' @ body)))
         else
           and_then (http_bytes (gh_http G) resp) (\<lambda>raw. lift_res (gh_release_from_slice G raw))))))"

definition assets_url :: "github_store \<Rightarrow> nat \<Rightarrow> 32 word \<Rightarrow> string" where
  "assets_url s release_id page =
    gh_repo_url ''api.github.com'' s @ ''/'' @ show_nat release_id @
    ''/assets?per_page=100&page='' @ show_nat (unat page)"

fun list_assets_loop ::
    "'w github_api \<Rightarrow> github_store \<Rightarrow> nat \<Rightarrow> nat \<Rightarrow> 32 word \<Rightarrow> gh_asset list \<Rightarrow> ('w, gh_asset list) io" where
  "list_assets_loop G s release_id 0 page all_assets = fail OutOfFuel"
| "list_assets_loop G s release_id (Suc pages) page all_assets =
    and_then (with_context ''GET assets'' (http_send (gh_http G) (gs_client s)
        \<lparr>rq_url = assets_url s release_id page, rq_headers = gh_headers s GH_ACCEPT\<rparr>)) (\<lambda>resp.
    if \<not> is_success (rs_status resp) then
      fail (Msg (''list assets: status '' @ gh_status_text G (rs_status resp)))
    else
      and_then (http_bytes (gh_http G) resp) (\<lambda>raw.
      and_then (lift_res (gh_assets_from_slice G raw)) (\<lambda>batch.
      let len = length batch;
          all_assets' = all_assets @ batch in
      if len < 100 then ret all_assets'
      else list_assets_loop G s release_id pages (page + 1) all_assets')))"

definition list_assets ::
    "'w github_api \<Rightarrow> nat \<Rightarrow> github_store \<Rightarrow> nat \<Rightarrow> ('w, gh_asset list) io" where
  "list_assets G pages s release_id = list_assets_loop G s release_id pages 1 []"

definition asset_url :: "github_store \<Rightarrow> nat \<Rightarrow> string" where
  "asset_url s asset_id = gh_repo_url ''api.github.com'' s @ ''/assets/'' @ show_nat asset_id"

definition delete_asset :: "'w github_api \<Rightarrow> github_store \<Rightarrow> nat \<Rightarrow> ('w, unit) io" where
  "delete_asset G s asset_id =
    and_then (with_context ''DELETE asset'' (gh_delete G (gs_client s)
        \<lparr>rq_url = asset_url s asset_id, rq_headers = gh_headers s GH_ACCEPT\<rparr>)) (\<lambda>resp.
    if \<not> is_success (rs_status resp) then
      fail (Msg (''delete asset '' @ show_nat asset_id @ '': status '' @ gh_status_text G (rs_status resp)))
    else ret ())"

definition upload_url :: "'w github_api \<Rightarrow> github_store \<Rightarrow> nat \<Rightarrow> string \<Rightarrow> string" where
  "upload_url G s release_id name =
    gh_repo_url ''uploads.github.com'' s @ ''/'' @ show_nat release_id @ ''/assets?name='' @
    gh_urlencode G name"

definition upload_asset ::
    "'w github_api \<Rightarrow> github_store \<Rightarrow> nat \<Rightarrow> string \<Rightarrow> bytes \<Rightarrow> ('w, gh_asset) io" where
  "upload_asset G s release_id name body =
    and_then (with_context ''POST upload asset'' (gh_post G (gs_client s)
        \<lparr>rq_url = upload_url G s release_id name,
         rq_headers = gh_headers s GH_ACCEPT @ [(''Content-Type'', ''application/octet-stream'')]\<rparr>
        body)) (\<lambda>resp.
    if \<not> is_success (rs_status resp) then
      and_then (text_or_default G resp) (\<lambda>t.
      fail (Msg (''upload asset '' @ name @ '': status '' @ gh_status_text G (rs_status resp) @
        '' body '' @ t)))
    else and_then (http_bytes (gh_http G) resp) (\<lambda>raw. lift_res (gh_asset_from_slice G raw)))"

definition download_asset :: "'w github_api \<Rightarrow> github_store \<Rightarrow> nat \<Rightarrow> ('w, bytes) io" where
  "download_asset G s asset_id =
    and_then (with_context ''GET asset bytes'' (http_send (gh_http G) (gs_client s)
        \<lparr>rq_url = asset_url s asset_id,
         rq_headers = gh_headers s ''application/octet-stream''\<rparr>)) (\<lambda>resp.
    if \<not> is_success (rs_status resp) then
      fail (Msg (''download asset '' @ show_nat asset_id @ '': status '' @
        gh_status_text G (rs_status resp)))
    else http_bytes (gh_http G) resp)"

section \<open>impl SnapshotStore for GithubReleaseStore\<close>

definition github_put_if_unmodified ::
    "string \<Rightarrow> bytes \<Rightarrow> string option \<Rightarrow> ('w, put_result) io" where
  "github_put_if_unmodified key body expected_etag =
    fail (Msg ''github_release: CAS writes not supported; configure as mirror only'')"

definition find_asset :: "string \<Rightarrow> gh_asset list \<Rightarrow> gh_asset option" where
  "find_asset name = find (\<lambda>a. as_name a = name)"

fun delete_named :: "'w github_api \<Rightarrow> github_store \<Rightarrow> string \<Rightarrow> gh_asset list \<Rightarrow> ('w, unit) io" where
  "delete_named G s name [] = ret ()"
| "delete_named G s name (a # rest) =
    and_then (if as_name a = name then delete_asset G s (as_id a) else ret ()) (\<lambda>_.
    delete_named G s name rest)"

definition github_put ::
    "'w github_api \<Rightarrow> nat \<Rightarrow> github_store \<Rightarrow> string \<Rightarrow> bytes \<Rightarrow> ('w, put_result) io" where
  "github_put G pages s key body =
    (let (tag, asset_name) = route key in
     and_then (ensure_release G s tag) (\<lambda>rel.
     and_then (list_assets G pages s (re_id rel)) (\<lambda>present.
     and_then (delete_named G s asset_name present) (\<lambda>_.
     and_then (upload_asset G s (re_id rel) asset_name body) (\<lambda>a.
     ret \<lparr>pr_etag = show_nat (as_id a)\<rparr>)))))"

definition github_get ::
    "'w github_api \<Rightarrow> nat \<Rightarrow> github_store \<Rightarrow> string \<Rightarrow> ('w, bytes \<times> string) io" where
  "github_get G pages s key =
    (let (tag, asset_name) = route key in
     and_then (release_by_tag G s tag) (\<lambda>found.
     and_then (lift_res (ok_or (Msg (''github_release: release '' @ tag @ '' not found'')) found)) (\<lambda>rel.
     and_then (list_assets G pages s (re_id rel)) (\<lambda>present.
     and_then (lift_res (ok_or
        (Msg (''github_release: asset '' @ asset_name @ '' not found in '' @ tag))
        (find_asset asset_name present))) (\<lambda>a.
     and_then (download_asset G s (as_id a)) (\<lambda>b.
     ret (b, show_nat (as_id a))))))))"

definition github_head ::
    "'w github_api \<Rightarrow> nat \<Rightarrow> github_store \<Rightarrow> string \<Rightarrow> ('w, string option) io" where
  "github_head G pages s key =
    (let (tag, asset_name) = route key in
     and_then (release_by_tag G s tag) (\<lambda>found.
     (case found of
        None \<Rightarrow> ret None
      | Some rel \<Rightarrow>
          and_then (list_assets G pages s (re_id rel)) (\<lambda>present.
          ret (map_option (\<lambda>a. show_nat (as_id a)) (find_asset asset_name present))))))"

definition github_list ::
    "'w github_api \<Rightarrow> nat \<Rightarrow> github_store \<Rightarrow> string \<Rightarrow> ('w, object_meta list) io" where
  "github_list G pages s prefx =
    (let (tag, name_prefix) = route prefx in
     and_then (release_by_tag G s tag) (\<lambda>found.
     (case found of
        None \<Rightarrow> ret []
      | Some rel \<Rightarrow>
          and_then (list_assets G pages s (re_id rel)) (\<lambda>present.
          ret (map (\<lambda>a. \<lparr>om_key = as_name a, om_etag = show_nat (as_id a), om_size = as_size a\<rparr>)
                (filter (\<lambda>a. starts_with (as_name a) name_prefix) present))))))"

definition github_delete_if_match ::
    "'w github_api \<Rightarrow> nat \<Rightarrow> github_store \<Rightarrow> string \<Rightarrow> string \<Rightarrow> ('w, unit) io" where
  "github_delete_if_match G pages s key etag =
    (let (tag, asset_name) = route key in
     and_then (release_by_tag G s tag) (\<lambda>found.
     (case found of
        None \<Rightarrow> ret ()
      | Some rel \<Rightarrow>
          and_then (list_assets G pages s (re_id rel)) (\<lambda>present.
          (case find_asset asset_name present of
             None \<Rightarrow> ret ()
           | Some a \<Rightarrow>
               if show_nat (as_id a) \<noteq> etag then
                 fail (Msg (''github_release delete: etag mismatch ('' @ etag @ '' vs '' @
                   show_nat (as_id a) @ '')''))
               else delete_asset G s (as_id a))))))"

definition github_snapshot_store :: "'w github_api \<Rightarrow> nat \<Rightarrow> github_store \<Rightarrow> 'w store" where
  "github_snapshot_store G pages s =
    \<lparr>st_name = gs_name s,
     st_put_if_unmodified = github_put_if_unmodified,
     st_put = github_put G pages s,
     st_get = github_get G pages s,
     st_head = github_head G pages s,
     st_list = github_list G pages s,
     st_delete_if_match = github_delete_if_match G pages s\<rparr>"

end
