(* ===== verification/Health.thy ===== *)
theory Health
  imports Bench
begin

text \<open>
  \<open>src/health.rs\<close>: one record per run, written best-effort under \<open>health/\<close> on the primary.
\<close>

datatype health_status = HealthOk | HealthCanaryFailed | HealthError

record health_record =
  hr_run_id :: string
  hr_started_at :: datetime
  hr_ended_at :: datetime
  hr_status :: health_status
  hr_snapshot_version :: "string option"
  hr_canary_status :: "nat option"
  hr_canary_observed :: "string option"
  hr_error :: "string option"

definition is_ascii_alphanumeric :: "char \<Rightarrow> bool" where
  "is_ascii_alphanumeric c \<longleftrightarrow> byte_in 48 57 c \<or> byte_in 65 90 c \<or> byte_in 97 122 c"

text \<open>
  \<open>id.chars().map(..)\<close> visits scalar values; each one starts at the one byte of its encoding that
  is not a continuation byte, and every non-ASCII one becomes a hyphen.
\<close>

definition sanitize_run_id :: "string \<Rightarrow> string" where
  "sanitize_run_id s =
    map (\<lambda>c. if is_ascii_alphanumeric c \<or> c = CHR ''-'' then c else CHR ''-'')
      (filter (\<lambda>c. \<not> is_cont c) s)"

definition health_key :: "'w chrono \<Rightarrow> health_record \<Rightarrow> string" where
  "health_key K r =
    ''health/'' @ format_compact K (hr_started_at r) @ ''-'' @ sanitize_run_id (hr_run_id r) @ ''.json''"

definition health_write ::
    "'w chrono \<Rightarrow> health_record serde \<Rightarrow> 'w store \<Rightarrow> health_record \<Rightarrow> ('w, 'e, unit) eio" where
  "health_write K J st r =
    (case to_vec_pretty J r of
       Inl e \<Rightarrow> ret ()
     | Inr body \<Rightarrow> and_then (attempt (st_put st (health_key K r) body)) (\<lambda>_. ret ()))"

definition health_ok ::
    "'w chrono \<Rightarrow> string \<Rightarrow> datetime \<Rightarrow> string \<Rightarrow> ('w, 'e, health_record) eio" where
  "health_ok K run_id started snapshot_version =
    and_then (effect (utc_now K)) (\<lambda>now. ret
      \<lparr>hr_run_id = run_id, hr_started_at = started, hr_ended_at = now, hr_status = HealthOk,
       hr_snapshot_version = Some snapshot_version, hr_canary_status = None,
       hr_canary_observed = None, hr_error = None\<rparr>)"

definition health_canary_failed ::
    "'w chrono \<Rightarrow> string \<Rightarrow> datetime \<Rightarrow> nat \<Rightarrow> string option \<Rightarrow> ('w, 'e, health_record) eio" where
  "health_canary_failed K run_id started canary_status canary_observed =
    and_then (effect (utc_now K)) (\<lambda>now. ret
      \<lparr>hr_run_id = run_id, hr_started_at = started, hr_ended_at = now,
       hr_status = HealthCanaryFailed, hr_snapshot_version = None,
       hr_canary_status = Some canary_status, hr_canary_observed = canary_observed,
       hr_error = None\<rparr>)"

definition health_error ::
    "'w chrono \<Rightarrow> string \<Rightarrow> datetime \<Rightarrow> string \<Rightarrow> ('w, 'e, health_record) eio" where
  "health_error K run_id started err =
    and_then (effect (utc_now K)) (\<lambda>now. ret
      \<lparr>hr_run_id = run_id, hr_started_at = started, hr_ended_at = now, hr_status = HealthError,
       hr_snapshot_version = None, hr_canary_status = None, hr_canary_observed = None,
       hr_error = Some err\<rparr>)"

lemma health_write_total: "fst (health_write K J st r w) = Inr ()"
  by (auto simp: health_write_def and_then_def attempt_def ret_def split: sum.splits prod.splits)

lemma health_key_prefix: "prefix ''health/'' (health_key K r)"
  by (simp add: health_key_def)

lemma health_write_keeps:
  assumes "\<And>b. keeps v (st_put st (health_key K r) b)"
  shows "keeps v (health_write K J st r)"
  unfolding health_write_def using assms by (intro keeps_intros)

lemma sanitize_run_id_chars:
  "c \<in> set (sanitize_run_id s) \<Longrightarrow> is_ascii_alphanumeric c \<or> c = CHR ''-''"
  by (auto simp: sanitize_run_id_def split: if_splits)

lemma sanitize_run_id_id:
  "\<forall>c \<in> set s. is_ascii_alphanumeric c \<or> c = CHR ''-'' \<Longrightarrow> sanitize_run_id s = s"
  by (induction s)
    (auto simp: sanitize_run_id_def is_ascii_alphanumeric_def byte_in_def is_cont_def byte_def)

end
