(* ===== verification/Session.thy ===== *)
theory Session
  imports Chats_Archive Lock Health Config
begin

text \<open>
  \<open>src/commands/run.rs\<close>: restore a session from the pointer, run the workloads, save a new
  snapshot and move the pointer; and the same steps as the commands \<open>verify\<close> and \<open>seed\<close> have
  them.  The secrets and the stores a command starts with are arguments here.
\<close>

section \<open>What a command calls\<close>

record 'w session_env =
  se_crypto :: "'w crypto_api"
  se_chrono :: "'w chrono"
  se_api :: "'w api_env"
  se_chromium :: "'w chromium_api"
  se_pointer_serde :: "latest_pointer serde"
  se_state_serde :: "storage_state serde"
  se_lock_serde :: "lock serde"
  se_health_serde :: "health_record serde"
  se_index_serde :: "chats_index serde"

definition se_chats :: "'w session_env \<Rightarrow> 'w chats_env" where
  "se_chats E =
    \<lparr>ve_api = se_api E, ve_chrono = se_chrono E, ve_crypto = se_crypto E,
     ve_index_serde = se_index_serde E\<rparr>"

text \<open>
  A panic unwinds through a caller that matches on a result; so does, in the model, a loop that was
  cut off.
\<close>

fun unwinds :: "report \<Rightarrow> bool" where
  "unwinds (Msg m) = False"
| "unwinds (Ctx c r) = unwinds r"
| "unwinds (Panic m) = True"
| "unwinds OutOfFuel = True"

definition match_result :: "('w, 'a) io \<Rightarrow> ('w, 'a res) io" where
  "match_result m =
    and_then (attempt m) (\<lambda>r.
    (case r of Inl e \<Rightarrow> if unwinds e then fail e else ret r | Inr x \<Rightarrow> ret r))"

section \<open>restore and save\<close>

record restored =
  rd_pointer :: latest_pointer
  rd_pointer_etag :: string
  rd_state :: storage_state

definition restore ::
    "'w session_env \<Rightarrow> 'w store \<Rightarrow> identity \<Rightarrow> verifying_key \<Rightarrow> ('w, restored) io" where
  "restore E primary ident verify_pubkey =
    and_then (with_context ''get latest.json'' (st_get primary LATEST_KEY))
      (\<lambda>(pointer_bytes, pointer_etag).
    and_then (lift_res (res_context ''parse latest.json''
        (from_slice (se_pointer_serde E) pointer_bytes))) (\<lambda>pointer.
    and_then (with_context (''get snapshot '' @ lp_object pointer)
        (st_get primary (lp_object pointer))) (\<lambda>(ciphertext, _).
    and_then (lift_res (verify_digest (se_crypto E) (lp_object_sha256 pointer) ciphertext)) (\<lambda>_.
    and_then (with_context (''get signature '' @ lp_signature_object pointer)
        (st_get primary (lp_signature_object pointer))) (\<lambda>(sig_bytes, _).
    and_then (lift_res (res_context ''signature is not utf-8''
        (ok_or (Msg ''invalid utf-8 sequence'') (from_utf8 sig_bytes)))) (\<lambda>sig_text.
    let sig_hex = trim sig_text in
    and_then (lift_res (res_context ''decode signature hex'' (hex_decode (se_crypto E) sig_hex)))
      (\<lambda>sig.
    and_then (lift_res (verify (se_crypto E) verify_pubkey ciphertext sig)) (\<lambda>_.
    and_then (lift_res (decrypt (se_crypto E) ciphertext ident)) (\<lambda>plaintext.
    and_then (lift_res (decompress (se_crypto E) (se_state_serde E) plaintext)) (\<lambda>state.
    ret \<lparr>rd_pointer = pointer, rd_pointer_etag = pointer_etag, rd_state = state\<rparr>))))))))))"

definition snapshot_key :: "string \<Rightarrow> string" where
  "snapshot_key ts = ''snapshots/'' @ ts @ ''.zst.age''"

definition snapshot_sig_key :: "string \<Rightarrow> string" where
  "snapshot_sig_key ts = ''snapshots/'' @ ts @ ''.zst.age.sig''"

definition save ::
    "'w session_env \<Rightarrow> 'w store \<Rightarrow> 'w store list \<Rightarrow> recipient \<Rightarrow> signing_key \<Rightarrow> storage_state \<Rightarrow>
      latest_pointer \<Rightarrow> string \<Rightarrow> ('w, string) io" where
  "save E primary mirrors recip sk new_state prev_pointer prev_pointer_etag =
    and_then (lift_res (compress (se_crypto E) (se_state_serde E) new_state)) (\<lambda>new_plaintext.
    and_then (encrypt (se_crypto E) new_plaintext recip) (\<lambda>new_ciphertext.
    let new_sig = sign (se_crypto E) sk new_ciphertext in
    and_then (effect (utc_now (se_chrono E))) (\<lambda>now.
    let ts = format_compact (se_chrono E) now;
        new_object_key = snapshot_key ts;
        new_sig_key = snapshot_sig_key ts;
        new_sha = sha256_hex (se_crypto E) new_ciphertext;
        new_pointer = \<lparr>lp_version = ts, lp_object = new_object_key, lp_object_sha256 = new_sha,
          lp_signature_object = new_sig_key, lp_created_at = now, lp_format = StorageStateV1\<rparr> in
    and_then (lift_res (ensure_monotonic (se_chrono E) (Some prev_pointer) new_pointer)) (\<lambda>_.
    let sig_payload = hex_encode (se_crypto E) new_sig in
    and_then (st_put primary new_object_key new_ciphertext) (\<lambda>_.
    and_then (st_put primary new_sig_key sig_payload) (\<lambda>_.
    and_then (lift_res (to_vec_pretty (se_pointer_serde E) new_pointer)) (\<lambda>new_pointer_bytes.
    and_then (with_context ''CAS update of latest.json (someone else wrote concurrently?)''
        (st_put_if_unmodified primary LATEST_KEY new_pointer_bytes (Some prev_pointer_etag))) (\<lambda>_.
    and_then (fanout mirrors new_object_key new_ciphertext) (\<lambda>_.
    and_then (fanout mirrors new_sig_key sig_payload) (\<lambda>_.
    and_then (fanout mirrors LATEST_KEY new_pointer_bytes) (\<lambda>_.
    ret ts)))))))))))"

section \<open>The locked part of a run\<close>

datatype outcome = Saved string | CanaryFailed nat "string option"

text \<open>\<open>workload::build_workload\<close> and the trait method \<open>run\<close> of what it returns.\<close>

definition build_workload ::
    "'w session_env \<Rightarrow> nat \<Rightarrow> workload_cfg \<Rightarrow> (string \<times> ('w workload_ctx \<Rightarrow> ('w, unit) io)) res" where
  "build_workload E pages wcfg =
    (case wcfg of ChatgptChats c \<Rightarrow> Inr (cf_name c, chats_run (se_chats E) c pages))"

fun run_workloads ::
    "'w session_env \<Rightarrow> nat \<Rightarrow> 'w workload_ctx \<Rightarrow> workload_cfg list \<Rightarrow> ('w, unit) io" where
  "run_workloads E pages ctx [] = ret ()"
| "run_workloads E pages ctx (wcfg # rest) =
    and_then (lift_res (build_workload E pages wcfg)) (\<lambda>(name, workload).
    and_then (with_context (''workload '' @ name) (workload ctx)) (\<lambda>_.
    run_workloads E pages ctx rest))"

definition run_locked ::
    "'w session_env \<Rightarrow> config \<Rightarrow> nat \<Rightarrow> 'w store \<Rightarrow> 'w store list \<Rightarrow> identity \<Rightarrow> recipient \<Rightarrow>
      signing_key \<Rightarrow> verifying_key \<Rightarrow> ('w, outcome) io" where
  "run_locked E cfg pages primary mirrors ident recip sk vk =
    (let CH = se_chromium E; H = ae_http (se_api E); JS = ae_json (se_api E) in
    and_then (restore E primary ident vk) (\<lambda>prev.
    and_then (launch CH (bw_chromium_bin (cg_browser cfg)) (bw_user_data_dir (cg_browser cfg))
        (bw_headless (cg_browser cfg))) (\<lambda>session.
    and_then (import_storage_state CH session (rd_state prev)) (\<lambda>_.
    let jar = cookies_to_reqwest_jar H (ss_cookies (rd_state prev)) in
    and_then (lift_res (build_client H jar (cg_canary cfg))) (\<lambda>http.
    and_then (check H JS http (cn_url (cg_canary cfg)) (cn_expected_status (cg_canary cfg))
        (cn_field (cg_canary cfg)) (cn_expected_value (cg_canary cfg))) (\<lambda>canary_result.
    if \<not> cr_ok canary_result then
      and_then (attempt (close_session CH session)) (\<lambda>_.
      ret (CanaryFailed (cr_status canary_result) (cr_observed canary_result)))
    else
      and_then (run_workloads E pages
          \<lparr>wx_http = http, wx_primary = primary, wx_mirrors = mirrors, wx_recipient = recip,
           wx_identity = ident\<rparr> (cg_workloads cfg)) (\<lambda>_.
      and_then (export_storage_state CH session) (\<lambda>new_state.
      and_then (close_session CH session) (\<lambda>_.
      if ss_cookies new_state = [] then fail (Msg ''post-run cookies empty; refusing to save'')
      else
        and_then (save E primary mirrors recip sk new_state (rd_pointer prev) (rd_pointer_etag prev))
          (\<lambda>new_version. ret (Saved new_version)))))))))))"

section \<open>The run under its lock\<close>

text \<open>What follows the locked part: release, record, report.\<close>

definition conclude_run ::
    "'w session_env \<Rightarrow> string \<Rightarrow> 'w store \<Rightarrow> datetime \<Rightarrow> 'w lock_guard \<Rightarrow> outcome res \<Rightarrow> ('w, unit) io" where
  "conclude_run E run_id primary started guard result =
    and_then (attempt (release guard)) (\<lambda>_.
    and_then
      (case result of
         Inr (Saved version) \<Rightarrow> health_ok (se_chrono E) run_id started version
       | Inr (CanaryFailed status observed) \<Rightarrow>
           health_canary_failed (se_chrono E) run_id started status observed
       | Inl e \<Rightarrow> health_error (se_chrono E) run_id started (report_chain e)) (\<lambda>record.
    and_then (health_write (se_chrono E) (se_health_serde E) primary record) (\<lambda>_.
    (case result of
       Inr (Saved version) \<Rightarrow> ret ()
     | Inr (CanaryFailed status observed) \<Rightarrow>
         fail (Msg (''canary failed: status='' @ show_nat status @ '', observed='' @
           debug_opt_str observed @ ''; refusing to overwrite snapshot''))
     | Inl e \<Rightarrow> fail e))))"

text \<open>\<open>run\<close> from the start of the clock on.\<close>

definition run_session ::
    "'w session_env \<Rightarrow> config \<Rightarrow> nat \<Rightarrow> string \<Rightarrow> 'w store \<Rightarrow> 'w store list \<Rightarrow> identity \<Rightarrow> recipient \<Rightarrow>
      signing_key \<Rightarrow> verifying_key \<Rightarrow> ('w, unit) io" where
  "run_session E cfg pages run_id primary mirrors ident recip sk vk =
    and_then (effect (utc_now (se_chrono E))) (\<lambda>started.
    and_then (acquire (se_chrono E) (se_lock_serde E) primary run_id (cg_lock_ttl_seconds cfg))
      (\<lambda>guard.
    and_then (match_result (run_locked E cfg pages primary mirrors ident recip sk vk)) (\<lambda>result.
    conclude_run E run_id primary started guard result)))"

section \<open>verify\<close>

text \<open>\<open>commands/verify.rs\<close>: the line it prints is its result.\<close>

definition verify_snapshot ::
    "'w session_env \<Rightarrow> (datetime \<Rightarrow> string) \<Rightarrow> 'w store \<Rightarrow> identity \<Rightarrow> verifying_key \<Rightarrow> ('w, string) io" where
  "verify_snapshot E rfc3339 primary ident verify_pubkey =
    and_then (with_context ''get latest.json'' (st_get primary LATEST_KEY)) (\<lambda>(pointer_bytes, _).
    and_then (lift_res (res_context ''parse latest.json''
        (from_slice (se_pointer_serde E) pointer_bytes))) (\<lambda>pointer.
    and_then (with_context (''get snapshot '' @ lp_object pointer)
        (st_get primary (lp_object pointer))) (\<lambda>(ciphertext, _).
    and_then (lift_res (verify_digest (se_crypto E) (lp_object_sha256 pointer) ciphertext)) (\<lambda>_.
    and_then (with_context (''get signature '' @ lp_signature_object pointer)
        (st_get primary (lp_signature_object pointer))) (\<lambda>(sig_bytes, _).
    and_then (lift_res (res_context ''signature is not utf-8''
        (ok_or (Msg ''invalid utf-8 sequence'') (from_utf8 sig_bytes)))) (\<lambda>sig_text.
    let sig_hex = trim sig_text in
    and_then (lift_res (res_context ''decode signature hex'' (hex_decode (se_crypto E) sig_hex)))
      (\<lambda>sig.
    and_then (lift_res (verify (se_crypto E) verify_pubkey ciphertext sig)) (\<lambda>_.
    and_then (lift_res (decrypt (se_crypto E) ciphertext ident)) (\<lambda>plaintext.
    and_then (lift_res (decompress (se_crypto E) (se_state_serde E) plaintext)) (\<lambda>state.
    ret (''OK version='' @ lp_version pointer @ '' cookies='' @
      show_nat (length (ss_cookies state)) @ '' created_at='' @ rfc3339 (lp_created_at pointer))))))))))))"

section \<open>seed\<close>

text \<open>\<open>commands/seed.rs\<close> from the captured state on: the first snapshot and its pointer.\<close>

definition seed_upload ::
    "'w session_env \<Rightarrow> 'w store \<Rightarrow> 'w store list \<Rightarrow> recipient \<Rightarrow> signing_key \<Rightarrow> storage_state \<Rightarrow>
      ('w, unit) io" where
  "seed_upload E primary mirrors recip sk state =
    (if ss_cookies state = [] then fail (Msg (''no cookies captured '' @ em_dash @ '' was the login successful?''))
     else
    and_then (lift_res (compress (se_crypto E) (se_state_serde E) state)) (\<lambda>plaintext.
    and_then (encrypt (se_crypto E) plaintext recip) (\<lambda>ciphertext.
    let sig_bytes = sign (se_crypto E) sk ciphertext;
        sig_payload = hex_encode (se_crypto E) sig_bytes in
    and_then (effect (utc_now (se_chrono E))) (\<lambda>now.
    let ts = format_compact (se_chrono E) now;
        object_key = snapshot_key ts;
        sig_key = snapshot_sig_key ts;
        sha = sha256_hex (se_crypto E) ciphertext in
    and_then (with_context ''put snapshot'' (st_put primary object_key ciphertext)) (\<lambda>_.
    and_then (with_context ''put signature'' (st_put primary sig_key sig_payload)) (\<lambda>_.
    let pointer = \<lparr>lp_version = ts, lp_object = object_key, lp_object_sha256 = sha,
      lp_signature_object = sig_key, lp_created_at = now, lp_format = StorageStateV1\<rparr> in
    and_then (lift_res (to_vec_pretty (se_pointer_serde E) pointer)) (\<lambda>pointer_bytes.
    and_then (st_head primary LATEST_KEY) (\<lambda>existing_etag.
    and_then (with_context ''put latest.json''
        (case existing_etag of
           None \<Rightarrow> st_put_if_unmodified primary LATEST_KEY pointer_bytes None
         | Some etag \<Rightarrow> st_put_if_unmodified primary LATEST_KEY pointer_bytes (Some etag))) (\<lambda>_.
    and_then (fanout mirrors object_key ciphertext) (\<lambda>_.
    and_then (fanout mirrors sig_key sig_payload) (\<lambda>_.
    and_then (fanout mirrors LATEST_KEY pointer_bytes) (\<lambda>_. ret ()))))))))))))"

definition seed_session ::
    "'w session_env \<Rightarrow> config \<Rightarrow> wait_event list \<Rightarrow> 'w store \<Rightarrow> 'w store list \<Rightarrow> recipient \<Rightarrow>
      signing_key \<Rightarrow> ('w, unit) io" where
  "seed_session E cfg events primary mirrors recip sk =
    (let CH = se_chromium E in
    and_then (launch CH (bw_chromium_bin (cg_browser cfg)) (bw_user_data_dir (cg_browser cfg)) False)
      (\<lambda>session.
    and_then (open_page CH session (cg_login_url cfg)) (\<lambda>_.
    and_then (wait_and_capture CH session events) (\<lambda>(state, session').
    and_then (close_session CH session') (\<lambda>_.
    seed_upload E primary mirrors recip sk state)))))"

end
