(* ===== verification/Github_Facts.thy ===== *)
theory Github_Facts
  imports Github_Release Session
begin

text \<open>
  Properties of the store on GitHub releases: which keys share an asset, that it cannot be the
  primary store, and that listing the assets of a release gets all of them.
\<close>

section \<open>Routing\<close>

text \<open>The keys that go to the release \<open>repossess-misc\<close>.\<close>

definition misc_key :: "string \<Rightarrow> bool" where
  "misc_key key \<longleftrightarrow> fst (route key) = ''repossess-misc''"

lemma strip_prefix_Some: "strip_prefix s p = Some r \<Longrightarrow> s = p @ r"
  by (auto simp: strip_prefix_def prefix_def split: if_splits)

lemma route_cases:
  obtains "key = ''latest.json''" "route key = (''repossess-latest'', ''latest.json'')"
  | rest where "key = ''snapshots/'' @ rest" "route key = (''repossess-snapshots'', rest)"
  | rest where "key = ''health/'' @ rest" "route key = (''repossess-health'', rest)"
  | "misc_key key" "route key = (''repossess-misc'', replace_str key ''/'' ''_'')"
proof -
  consider "key = ''latest.json''" | rest where "key \<noteq> ''latest.json''" "strip_prefix key ''snapshots/'' = Some rest"
    | rest where "key \<noteq> ''latest.json''" "strip_prefix key ''snapshots/'' = None" "strip_prefix key ''health/'' = Some rest"
    | "key \<noteq> ''latest.json''" "strip_prefix key ''snapshots/'' = None" "strip_prefix key ''health/'' = None"
    by (cases "strip_prefix key ''snapshots/''"; cases "strip_prefix key ''health/''") blast+
  then show thesis
  proof cases
    case 1
    then show ?thesis using that(1) by (simp add: route_def)
  next
    case 2
    then show ?thesis using that(2) strip_prefix_Some [OF 2(2)] by (simp add: route_def)
  next
    case 3
    then show ?thesis using that(3) strip_prefix_Some [OF 3(3)] by (simp add: route_def)
  next
    case 4
    then show ?thesis using that(4) by (simp add: route_def misc_key_def)
  qed
qed

text \<open>
  C39: Two keys are kept in the same asset of the same release exactly when they are equal, or both
  go to \<open>repossess-misc\<close> and differ at most in slashes and underscores.
\<close>

theorem route_collision:
  "route k = route k' \<longleftrightarrow>
    k = k' \<or> misc_key k \<and> misc_key k' \<and> replace_str k ''/'' ''_'' = replace_str k' ''/'' ''_''"
  by (cases k rule: route_cases; cases k' rule: route_cases) (auto simp: misc_key_def)

section \<open>No test-and-set\<close>

text \<open>
  C34: A store on GitHub releases cannot be the primary: on it the lock is never acquired, and a
  session is never saved, whatever the server answers.
\<close>

theorem github_never_primary:
  "fst (acquire K J (github_snapshot_store G pages s) run_id ttl w) \<noteq> Inr g \<and>
    fst (save E (github_snapshot_store G pages s) mirrors recip sk st ptr tag w) \<noteq> Inr ts"
proof -
  have "\<not> acquire K J (github_snapshot_store G pages s) run_id ttl w = (Inr g, w')" for w'
    unfolding acquire_def github_snapshot_store_def github_put_if_unmodified_def
    by (auto simp: Let_def elim!: io_elims split: option.splits)
  moreover have "\<not> save E (github_snapshot_store G pages s) mirrors recip sk st ptr tag w = (Inr ts, w')" for w'
    unfolding save_def github_snapshot_store_def github_put_if_unmodified_def
    by (auto simp: Let_def elim!: io_elims)
  ultimately show ?thesis
    by (metis prod.collapse)
qed

section \<open>Listing the assets\<close>

text \<open>The server: page \<open>p\<close> of the listing of a release is the \<open>p\<close>th hundred of its assets.\<close>

definition serves_assets ::
    "'w github_api \<Rightarrow> github_store \<Rightarrow> nat \<Rightarrow> gh_asset list \<Rightarrow> bool" where
  "serves_assets G s rid xs \<longleftrightarrow>
    (\<forall>page w. 0 < unat page \<longrightarrow> (\<exists>resp w1 raw w2.
      http_send (gh_http G) (gs_client s)
        \<lparr>rq_url = assets_url s rid page, rq_headers = gh_headers s GH_ACCEPT\<rparr> w = (Inr resp, w1) \<and>
      is_success (rs_status resp) \<and> http_bytes (gh_http G) resp w1 = (Inr raw, w2) \<and>
      gh_assets_from_slice G raw = Inr (take 100 (drop (100 * (unat page - 1)) xs))))"

lemma list_assets_loop_all:
  assumes served: "serves_assets G s rid xs" and small: "length xs div 100 + 2 < 2 ^ 32"
  shows "0 < unat page \<Longrightarrow> unat page \<le> length xs div 100 + 1 \<Longrightarrow>
    length xs div 100 + 1 < unat page + pages \<Longrightarrow>
    \<exists>w'. list_assets_loop G s rid pages page (take (100 * (unat page - 1)) xs) w = (Inr xs, w')"
proof (induction pages arbitrary: page w)
  case 0
  then show ?case by simp
next
  case (Suc pages)
  let ?n = "100 * (unat page - 1)"
  let ?batch = "take 100 (drop ?n xs)"
  from served Suc.prems(1) obtain resp w1 raw w2 where
    "http_send (gh_http G) (gs_client s)
      \<lparr>rq_url = assets_url s rid page, rq_headers = gh_headers s GH_ACCEPT\<rparr> w = (Inr resp, w1)"
    "is_success (rs_status resp)" "http_bytes (gh_http G) resp w1 = (Inr raw, w2)"
    "gh_assets_from_slice G raw = Inr ?batch"
    unfolding serves_assets_def by meson
  then have step: "list_assets_loop G s rid (Suc pages) page (take ?n xs) w =
      (if length ?batch < 100 then (Inr (take ?n xs @ ?batch), w2)
       else list_assets_loop G s rid pages (page + 1) (take ?n xs @ ?batch) w2)"
    by (simp add: and_then_def with_context_def map_err_def lift_res_def ret_def)
  have all: "take ?n xs @ ?batch = take (100 * unat page) xs"
    using Suc.prems(1) take_add [of ?n 100 xs] by (simp add: mult_eq_if [of 100 "unat page"] algebra_simps)
  show ?case
  proof (cases "length ?batch < 100")
    case True
    then have "length xs \<le> 100 * unat page"
      using Suc.prems(1) by (simp add: min_def split: if_splits)
    then show ?thesis using step True all by simp
  next
    case False
    then have len: "100 * unat page \<le> length xs"
      using Suc.prems(1) by (simp add: min_def split: if_splits)
    then have "unat page \<le> length xs div 100" by simp
    moreover from this small have "unat (page + 1) = unat page + 1"
      by (simp add: unat_word_ariths)
    ultimately show ?thesis
      using Suc.IH [of "page + 1" w2] Suc.prems step False all by simp
  qed
qed

text \<open>A server with the assets \<open>xs\<close>, whose responses quote the URL that was asked for.\<close>

definition github_url_page :: "github_store \<Rightarrow> nat \<Rightarrow> gh_asset list \<Rightarrow> string \<Rightarrow> gh_asset list res" where
  "github_url_page s rid xs url =
    Inr (case find (\<lambda>n. assets_url s rid (word_of_nat (n + 1)) = url) [0..<length xs div 100 + 1] of
           Some n \<Rightarrow> take 100 (drop (100 * n) xs) | None \<Rightarrow> [])"

definition small_github_http :: "unit http_api" where
  "small_github_http =
    \<lparr>http_send = (\<lambda>c rq. ret \<lparr>rs_status = 200, rs_headers = [], rs_body = rq_url rq\<rparr>),
     http_bytes = (\<lambda>rs. ret (rs_body rs)), http_text = (\<lambda>rs. ret (rs_body rs)),
     http_build = Inr, header_name = Inr, header_value = Inr, url_parse = Some\<rparr>"

definition small_github :: "github_store \<Rightarrow> nat \<Rightarrow> gh_asset list \<Rightarrow> unit github_api" where
  "small_github s rid xs =
    \<lparr>gh_http = small_github_http,
     gh_post = (\<lambda>c rq b. fail (Msg ''read only'')), gh_delete = (\<lambda>c rq. fail (Msg ''read only'')),
     gh_json_to_vec = (\<lambda>v. Inl (Msg ''JSON'')), gh_release_from_slice = (\<lambda>b. Inl (Msg ''JSON'')),
     gh_asset_from_slice = (\<lambda>b. Inl (Msg ''JSON'')), gh_assets_from_slice = github_url_page s rid xs,
     gh_urlencode = (\<lambda>x. x), gh_status_text = show_nat\<rparr>"

definition small_github_store :: github_store where
  "small_github_store =
    \<lparr>gs_name = ''gh'', gs_owner = ''o'', gs_repo = ''r'', gs_token = ''t'',
     gs_client = \<lparr>hc_jar = [], hc_user_agent = None, hc_headers = []\<rparr>\<rparr>"

lemma assets_url_inject [simp]: "assets_url s rid p = assets_url s rid q \<longleftrightarrow> p = q"
  by (simp add: assets_url_def word_unat_eq_iff)

lemma github_url_page_at:
  assumes "length xs div 100 + 2 < 2 ^ 32" and "0 < unat page"
  shows "github_url_page s rid xs (assets_url s rid page) = Inr (take 100 (drop (100 * (unat page - 1)) xs))"
proof -
  have inj: "word_of_nat (n + 1) = page \<longleftrightarrow> n = unat page - 1" if "n < length xs div 100 + 1" for n
  proof -
    have "unat (word_of_nat (n + 1) :: 32 word) = n + 1"
      using that assms(1) by (subst unsigned_of_nat) (simp add: take_bit_nat_eq_self del: of_nat_Suc)
    then show ?thesis
      using assms(2) by (auto simp: word_unat_eq_iff)
  qed
  define k where "k = length xs div 100 + 1"
  note inj = inj [folded k_def]
  show ?thesis
  proof (cases "unat page - 1 < k")
    case True
    then have "find (\<lambda>n. word_of_nat (n + 1) = page) [0..<k] = Some (unat page - 1)"
      using inj by (intro find_Some_iff [THEN iffD2] exI [of _ "unat page - 1"]) (auto simp del: of_nat_Suc)
    then show ?thesis by (simp add: github_url_page_def k_def del: upt_Suc)
  next
    case False
    then have "find (\<lambda>n. word_of_nat (n + 1) = page) [0..<k] = None"
      using inj by (auto simp: find_None_iff simp del: of_nat_Suc)
    moreover have "length xs \<le> 100 * (unat page - 1)"
      using False by (simp add: k_def)
    ultimately show ?thesis by (simp add: github_url_page_def k_def del: upt_Suc)
  qed
qed

lemma small_github_serves:
  "length xs div 100 + 2 < 2 ^ 32 \<Longrightarrow> serves_assets (small_github s rid xs) s rid xs"
  by (simp add: serves_assets_def small_github_def small_github_http_def ret_def is_success_def
      github_url_page_at)

text \<open>
  C40: The listing of a release is complete: when the server pages it by the hundred, asking for at
  most one page more than there are full ones returns every asset, in order, and the loop ends.
\<close>

theorem list_assets_complete:
  assumes "serves_assets G s rid xs" and "length xs div 100 + 2 < 2 ^ 32"
    and "length xs div 100 < pages"
  shows "\<exists>w'. list_assets G pages s rid w = (Inr xs, w')"
  using list_assets_loop_all [OF assms(1,2), of 1 pages w] assms(3)
  by (simp add: list_assets_def)

theorem list_assets_complete_witness:
  "\<exists>w'. list_assets (small_github small_github_store 7 (replicate 250 \<lparr>as_id = 1, as_name = ''a'', as_size = 0\<rparr>))
      3 small_github_store 7 () = (Inr (replicate 250 \<lparr>as_id = 1, as_name = ''a'', as_size = 0\<rparr>), w')"
  by (rule list_assets_complete [OF small_github_serves]) simp_all

end
