(* ===== verification/Github_Mirror.thy ===== *)
theory Github_Mirror
  imports Github_Facts
begin

text \<open>
  What the store on GitHub releases is for: as a mirror.  From what the REST API documents of
  releases and assets it follows that a write stores the object under its key, that a read returns
  what is stored, and that keys of other assets are left alone.
\<close>

section \<open>What GitHub documents\<close>

text \<open>The releases of a repository by their tags, the assets of each, and the bytes of every asset.\<close>

record hub =
  hub_releases :: "string \<Rightarrow> nat option"
  hub_assets :: "nat \<Rightarrow> gh_asset list"
  hub_content :: "nat \<Rightarrow> bytes option"

text \<open>Ids are unique, and a release has at most a thousand assets.\<close>

definition hub_ok :: "hub \<Rightarrow> bool" where
  "hub_ok h \<longleftrightarrow>
    (\<forall>t t' i. hub_releases h t = Some i \<longrightarrow> hub_releases h t' = Some i \<longrightarrow> t = t') \<and>
    (\<forall>i j. \<forall>a \<in> set (hub_assets h i). \<forall>b \<in> set (hub_assets h j). as_id a = as_id b \<longrightarrow> i = j \<and> a = b) \<and>
    (\<forall>i. length (hub_assets h i) \<le> 1000)"

definition hub_create :: "string \<Rightarrow> nat \<Rightarrow> hub \<Rightarrow> hub" where
  "hub_create tag i h = h\<lparr>hub_releases := (hub_releases h)(tag \<mapsto> i)\<rparr>"

definition hub_remove :: "nat \<Rightarrow> hub \<Rightarrow> hub" where
  "hub_remove i h = h\<lparr>hub_assets := \<lambda>r. filter (\<lambda>a. as_id a \<noteq> i) (hub_assets h r),
     hub_content := (hub_content h)(i := None)\<rparr>"

definition hub_add :: "nat \<Rightarrow> gh_asset \<Rightarrow> bytes \<Rightarrow> hub \<Rightarrow> hub" where
  "hub_add i a b h = h\<lparr>hub_assets := (hub_assets h)(i := hub_assets h i @ [a]),
     hub_content := (hub_content h)(as_id a \<mapsto> b)\<rparr>"

text \<open>A name GitHub keeps as it is: letters, digits, hyphens, underscores, and periods but at its ends.\<close>

definition plain_name :: "string \<Rightarrow> bool" where
  "plain_name n \<longleftrightarrow> n \<noteq> [] \<and> hd n \<noteq> CHR ''.'' \<and> last n \<noteq> CHR ''.'' \<and>
    (\<forall>c \<in> set n. c \<in> set ''abcdefghijklmnopqrstuvwxyzABCDEFGHIJKLMNOPQRSTUVWXYZ0123456789-_.'')"

text \<open>A request of the store.\<close>

definition gh_request :: "github_store \<Rightarrow> string \<Rightarrow> string \<Rightarrow> (string \<times> string) list \<Rightarrow> http_request" where
  "gh_request s url accepted extra = \<lparr>rq_url = url, rq_headers = gh_headers s accepted @ extra\<rparr>"

lemma gh_request_fold:
  "\<lparr>rq_url = url, rq_headers = gh_headers s accepted @ extra\<rparr> = gh_request s url accepted extra"
  "\<lparr>rq_url = url, rq_headers = gh_headers s accepted\<rparr> = gh_request s url accepted []"
  by (simp_all add: gh_request_def)

definition tag_url :: "github_store \<Rightarrow> string \<Rightarrow> string" where
  "tag_url s tag = gh_repo_url ''api.github.com'' s @ ''/tags/'' @ tag"

abbreviation json_content :: "(string \<times> string) list" where
  "json_content \<equiv> [(''content-type'', ''application/json'')]"

abbreviation octet_content :: "(string \<times> string) list" where
  "octet_content \<equiv> [(''Content-Type'', ''application/octet-stream'')]"

text \<open>
  The requests of the store at this repository: a GET changes nothing and reports the state; a
  successful POST or DELETE changes it as documented.  Nothing is said of requests that fail.
\<close>

locale github_service =
  fixes G :: "'w github_api" and s :: github_store and hub :: "'w \<Rightarrow> hub"
  assumes send_keeps: "keeps hub (http_send (gh_http G) c rq)"
    and bytes_keeps: "keeps hub (http_bytes (gh_http G) resp)"
    and text_keeps: "keeps hub (http_text (gh_http G) resp)"
    and release_found:
      "http_send (gh_http G) (gs_client s) (gh_request s (tag_url s tag) GH_ACCEPT []) w = (Inr resp, w1) \<Longrightarrow>
        rs_status resp = 200 \<Longrightarrow> http_bytes (gh_http G) resp w1 = (Inr raw, w2) \<Longrightarrow>
        gh_release_from_slice G raw = Inr r \<Longrightarrow> hub_releases (hub w) tag = Some (re_id r)"
    and assets_page:
      "http_send (gh_http G) (gs_client s) (gh_request s (assets_url s i page) GH_ACCEPT []) w = (Inr resp, w1) \<Longrightarrow>
        is_success (rs_status resp) \<Longrightarrow> http_bytes (gh_http G) resp w1 = (Inr raw, w2) \<Longrightarrow>
        gh_assets_from_slice G raw = Inr batch \<Longrightarrow> 0 < unat page \<Longrightarrow>
        batch = take 100 (drop (100 * (unat page - 1)) (hub_assets (hub w) i))"
    and asset_bytes:
      "http_send (gh_http G) (gs_client s) (gh_request s (asset_url s n) ''application/octet-stream'' []) w =
          (Inr resp, w1) \<Longrightarrow>
        is_success (rs_status resp) \<Longrightarrow> http_bytes (gh_http G) resp w1 = (Inr b, w2) \<Longrightarrow>
        hub_content (hub w) n = Some b"
    and created:
      "gh_json_to_vec G (release_json tag) = Inr doc \<Longrightarrow>
        gh_post G (gs_client s) (gh_request s (gh_repo_url ''api.github.com'' s) GH_ACCEPT json_content) doc w =
          (Inr resp, w1) \<Longrightarrow>
        is_success (rs_status resp) \<Longrightarrow> http_bytes (gh_http G) resp w1 = (Inr raw, w2) \<Longrightarrow>
        gh_release_from_slice G raw = Inr r \<Longrightarrow>
        hub_releases (hub w) tag = None \<and> re_id r \<notin> ran (hub_releases (hub w)) \<and>
        hub_assets (hub w) (re_id r) = [] \<and> hub w1 = hub_create tag (re_id r) (hub w)"
    and deleted:
      "gh_delete G (gs_client s) (gh_request s (asset_url s n) GH_ACCEPT []) w = (Inr resp, w1) \<Longrightarrow>
        is_success (rs_status resp) \<Longrightarrow> hub w1 = hub_remove n (hub w)"
    and uploaded:
      "gh_post G (gs_client s) (gh_request s (upload_url G s i name) GH_ACCEPT octet_content) b w = (Inr resp, w1) \<Longrightarrow>
        is_success (rs_status resp) \<Longrightarrow> http_bytes (gh_http G) resp w1 = (Inr raw, w2) \<Longrightarrow>
        gh_asset_from_slice G raw = Inr a \<Longrightarrow>
        (\<forall>j. as_id a \<notin> as_id ` set (hub_assets (hub w) j)) \<and> length (hub_assets (hub w) i) < 1000 \<and>
        (plain_name name \<longrightarrow> as_name a = name) \<and> hub w1 = hub_add i a b (hub w)"

section \<open>The objects of the store\<close>

definition hub_object :: "hub \<Rightarrow> string \<times> string \<Rightarrow> (bytes \<times> string) option" where
  "hub_object h place =
    Option.bind (hub_releases h (fst place)) (\<lambda>i.
    Option.bind (find_asset (snd place) (hub_assets h i)) (\<lambda>a.
    map_option (\<lambda>b. (b, show_nat (as_id a))) (hub_content h (as_id a))))"

definition gh_objects :: "('w \<Rightarrow> hub) \<Rightarrow> 'w objects" where
  "gh_objects hub w key = hub_object (hub w) (route key)"

lemma find_filter:
  "(\<And>x. x \<in> set xs \<Longrightarrow> P x \<Longrightarrow> Q x) \<Longrightarrow> find P (filter Q xs) = find P xs"
  by (induction xs) auto

lemma find_append_none: "\<not> P x \<Longrightarrow> find P (xs @ [x]) = find P xs"
  by (induction xs) auto

lemma find_holds: "find P xs = Some x \<Longrightarrow> P x \<and> x \<in> set xs"
  by (auto simp: find_Some_iff)

lemma find_last: "(\<And>x. x \<in> set xs \<Longrightarrow> \<not> P x) \<Longrightarrow> P y \<Longrightarrow> find P (xs @ [y]) = Some y"
  by (induction xs) auto

text \<open>Removing the assets with the ids \<open>I\<close>; a write removes those of the name it writes, then adds one.\<close>

definition hub_clear :: "nat set \<Rightarrow> hub \<Rightarrow> hub" where
  "hub_clear I h = h\<lparr>hub_assets := \<lambda>r. filter (\<lambda>a. as_id a \<notin> I) (hub_assets h r),
     hub_content := \<lambda>i. if i \<in> I then None else hub_content h i\<rparr>"

lemma hub_ok_clear: "hub_ok h \<Longrightarrow> hub_ok (hub_clear I h)"
  unfolding hub_ok_def hub_clear_def by (auto intro: order_trans [OF length_filter_le])

lemma hub_ok_add:
  assumes "hub_ok h" and "\<forall>j. as_id a \<notin> as_id ` set (hub_assets h j)" and "length (hub_assets h i) < 1000"
  shows "hub_ok (hub_add i a b h)"
  using assms unfolding hub_ok_def hub_add_def by (auto simp: image_iff) metis+

lemma find_asset_name: "find_asset n xs = Some a \<Longrightarrow> a \<in> set xs \<and> as_name a = n"
  by (auto simp: find_asset_def find_Some_iff)

text \<open>Clearing one name of one release leaves the objects at other places as they are.\<close>

lemma hub_clear_other:
  assumes ok: "hub_ok h" and rel: "hub_releases h tag = Some i" and other: "p \<noteq> (tag, name)"
  shows "hub_object (hub_clear (as_id ` {a \<in> set (hub_assets h i). as_name a = name}) h) p = hub_object h p"
proof (cases "hub_releases h (fst p)")
  case None
  then show ?thesis by (simp add: hub_object_def hub_clear_def)
next
  case (Some j)
  let ?I = "as_id ` {a \<in> set (hub_assets h i). as_name a = name}"
  have kept: "as_id a \<notin> ?I" if "a \<in> set (hub_assets h j)" "as_name a = snd p" for a
  proof
    assume "as_id a \<in> ?I"
    then obtain b where "b \<in> set (hub_assets h i)" "as_name b = name" "as_id a = as_id b" by auto
    with ok that(1) have "j = i" "a = b" unfolding hub_ok_def by blast+
    moreover from this(1) ok rel Some have "fst p = tag" unfolding hub_ok_def by blast
    ultimately show False
      using other that(2) \<open>as_name b = name\<close> by (metis prod.collapse)
  qed
  then have "find_asset (snd p) (filter (\<lambda>a. as_id a \<notin> ?I) (hub_assets h j)) =
      find_asset (snd p) (hub_assets h j)"
    unfolding find_asset_def by (intro find_filter) simp
  then show ?thesis
    using Some kept by (auto simp: hub_object_def hub_clear_def dest!: find_asset_name
        intro!: Option.bind_cong)
qed

lemma hub_add_other:
  assumes ok: "hub_ok h" and rel: "hub_releases h tag = Some i" and other: "p \<noteq> (tag, as_name a)"
    and fresh: "\<forall>j. as_id a \<notin> as_id ` set (hub_assets h j)"
  shows "hub_object (hub_add i a b h) p = hub_object h p"
proof (cases "hub_releases h (fst p)")
  case None
  then show ?thesis by (simp add: hub_object_def hub_add_def)
next
  case (Some j)
  have "find_asset (snd p) (hub_assets (hub_add i a b h) j) = find_asset (snd p) (hub_assets h j)"
  proof (cases "j = i")
    case True
    then have "fst p = tag" using ok rel Some unfolding hub_ok_def by blast
    then have "as_name a \<noteq> snd p" using other by (metis prod.collapse)
    then show ?thesis using True by (simp add: hub_add_def find_asset_def find_append_none)
  qed (simp add: hub_add_def)
  moreover have "as_id x \<noteq> as_id a" if "x \<in> set (hub_assets h j)" for x
    using fresh that by (metis imageI)
  ultimately show ?thesis
    using Some by (auto simp: hub_object_def hub_add_def dest!: find_asset_name
        intro!: Option.bind_cong)
qed

lemma hub_add_here:
  assumes "hub_releases h tag = Some i" and "\<And>x. x \<in> set (hub_assets h i) \<Longrightarrow> as_name x \<noteq> as_name a"
  shows "hub_object (hub_add i a b h) (tag, as_name a) = Some (b, show_nat (as_id a))"
  using assms by (simp add: hub_object_def hub_add_def find_asset_def find_last)

context github_service begin

lemmas get_keeps = send_keeps bytes_keeps text_keeps

lemma text_or_default_keeps: "keeps hub (text_or_default G resp)"
  unfolding text_or_default_def by (intro keeps_intros get_keeps)

lemma by_tag_keeps: "keeps hub (release_by_tag G s tag)"
  unfolding release_by_tag_def Let_def by (intro keeps_intros get_keeps text_or_default_keeps)

lemma by_tag_ok:
  "release_by_tag G s tag w = (Inr (Some r), w') \<Longrightarrow> hub_releases (hub w) tag = Some (re_id r)"
  unfolding release_by_tag_def Let_def gh_request_fold tag_url_def [symmetric]
  by (auto elim!: io_elims split: if_splits dest: release_found)

lemma list_assets_loop_keeps: "keeps hub (list_assets_loop G s i pages page acc)"
  by (induction pages arbitrary: page acc) (auto simp: Let_def intro!: keeps_intros get_keeps)

lemma list_assets_loop_ok:
  assumes "list_assets_loop G s i pages page (take (100 * (unat page - 1)) (hub_assets (hub w) i)) w = (Inr xs, w')"
    and "length (hub_assets (hub w) i) \<le> 1000" and "0 < unat page" and "unat page \<le> 11"
  shows "xs = hub_assets (hub w) i"
  using assms
proof (induction pages arbitrary: page w)
  case 0
  then show ?case by (auto elim: io_elims)
next
  case (Suc pages)
  let ?as = "hub_assets (hub w) i" and ?n = "100 * (unat page - 1)"
  from Suc.prems(1) obtain resp w1 raw w2 batch where
    sent: "http_send (gh_http G) (gs_client s) (gh_request s (assets_url s i page) GH_ACCEPT []) w = (Inr resp, w1)"
      "is_success (rs_status resp)" "http_bytes (gh_http G) resp w1 = (Inr raw, w2)"
      "gh_assets_from_slice G raw = Inr batch"
    and rest: "(if length batch < 100 then ret (take ?n ?as @ batch)
       else list_assets_loop G s i pages (page + 1) (take ?n ?as @ batch)) w2 = (Inr xs, w')"
    unfolding list_assets_loop.simps gh_request_fold by (auto simp: Let_def elim!: io_elims split: if_splits)
  have batch: "batch = take 100 (drop ?n ?as)"
    using assets_page [OF sent] Suc.prems(3) .
  have same: "hub w2 = hub w"
    using keepsD [OF send_keeps sent(1)] keepsD [OF bytes_keeps sent(3)] by simp
  have all: "take ?n ?as @ batch = take (100 * unat page) ?as"
    using Suc.prems(3) take_add [of ?n 100 ?as] by (simp add: batch mult_eq_if [of 100 "unat page"] algebra_simps)
  show ?case
  proof (cases "length batch < 100")
    case True
    then have "length ?as \<le> 100 * unat page"
      using Suc.prems(3) by (simp add: batch min_def split: if_splits)
    then show ?thesis using rest True all by (simp add: ret_def)
  next
    case False
    then have "100 * unat page \<le> length ?as"
      using Suc.prems(3) by (simp add: batch min_def split: if_splits)
    then have "unat page \<le> 10" using Suc.prems(2) by simp
    moreover from this have "unat (page + 1) = unat page + 1"
      by (simp add: unat_word_ariths)
    ultimately show ?thesis
      using Suc.IH [of "page + 1" w2] Suc.prems(2) rest False all same by simp
  qed
qed

lemma list_assets_ok:
  "list_assets G pages s i w = (Inr xs, w') \<Longrightarrow> hub_ok (hub w) \<Longrightarrow> xs = hub_assets (hub w) i"
  using list_assets_loop_ok [of i pages 1 w xs w'] by (simp add: list_assets_def hub_ok_def)

lemma list_assets_keeps: "keeps hub (list_assets G pages s i)"
  unfolding list_assets_def by (rule list_assets_loop_keeps)

lemma ensure_release_ok:
  assumes "ensure_release G s tag w = (Inr r, w')" and "hub_ok (hub w)"
  shows "hub_releases (hub w') tag = Some (re_id r) \<and> hub_ok (hub w') \<and>
    hub_object (hub w') = hub_object (hub w)"
proof -
  consider (found) "release_by_tag G s tag w = (Inr (Some r), w')"
    | (made) w1 doc resp w2 raw where "release_by_tag G s tag w = (Inr None, w1)"
      and "gh_json_to_vec G (release_json tag) = Inr doc"
      and "gh_post G (gs_client s) (gh_request s (gh_repo_url ''api.github.com'' s) GH_ACCEPT json_content) doc w1 =
        (Inr resp, w2)"
      and "is_success (rs_status resp)" and "http_bytes (gh_http G) resp w2 = (Inr raw, w')"
      and "gh_release_from_slice G raw = Inr r"
    using assms(1) unfolding ensure_release_def gh_request_fold
    by (auto simp: Let_def elim!: io_elims split: if_splits option.splits)
  then show ?thesis
  proof cases
    case found
    then show ?thesis
      using by_tag_ok [OF found] keepsD [OF by_tag_keeps found] assms(2) by simp
  next
    case made
    let ?h = "hub w" and ?i = "re_id r"
    have same: "hub w1 = ?h" by (rule keepsD [OF by_tag_keeps made(1)])
    have new: "hub_releases ?h tag = None" "?i \<notin> ran (hub_releases ?h)" "hub_assets ?h ?i = []"
      and eq: "hub w' = hub_create tag ?i ?h"
      using created [OF made(2-6)] keepsD [OF bytes_keeps made(5)] by (simp_all add: same)
    have "hub_object (hub w') p = hub_object ?h p" for p
      using new by (cases "fst p = tag") (simp_all add: eq hub_create_def hub_object_def find_asset_def)
    moreover have "hub_ok (hub w')"
      using assms(2) new(2) by (auto simp: eq hub_create_def hub_ok_def ran_def)
    ultimately show ?thesis by (auto simp: eq hub_create_def)
  qed
qed

lemma delete_asset_ok: "delete_asset G s n w = (Inr (), w') \<Longrightarrow> hub w' = hub_remove n (hub w)"
  unfolding delete_asset_def gh_request_fold by (auto elim!: io_elims split: if_splits dest: deleted)

lemma delete_named_ok:
  assumes "delete_named G s name xs w = (Inr (), w')"
  shows "hub w' = hub_clear (as_id ` {x \<in> set xs. as_name x = name}) (hub w)"
  using assms
proof (induction xs arbitrary: w)
  case Nil
  then show ?case by (auto simp: hub_clear_def elim!: io_elims)
next
  case (Cons x xs)
  from Cons.prems obtain w1 where
    one: "(if as_name x = name then delete_asset G s (as_id x) else ret ()) w = (Inr (), w1)"
    and rest: "delete_named G s name xs w1 = (Inr (), w')"
    by (auto elim!: io_elims)
  have "hub w1 = (if as_name x = name then hub_remove (as_id x) (hub w) else hub w)"
    using one by (auto dest: delete_asset_ok elim!: io_elims split: if_splits)
  moreover have "{y \<in> set (x # xs). as_name y = name} =
      (if as_name x = name then insert x {y \<in> set xs. as_name y = name} else {y \<in> set xs. as_name y = name})"
    by auto
  ultimately show ?case
    using Cons.IH [OF rest] by (simp add: hub_remove_def hub_clear_def fun_eq_iff conj_commute)
qed

lemma upload_asset_ok:
  assumes "upload_asset G s i name b w = (Inr a, w')"
  shows "\<forall>j. as_id a \<notin> as_id ` set (hub_assets (hub w) j)" and "length (hub_assets (hub w) i) < 1000"
    and "plain_name name \<Longrightarrow> as_name a = name" and "hub w' = hub_add i a b (hub w)"
proof -
  from assms obtain resp w1 raw where up:
    "gh_post G (gs_client s) (gh_request s (upload_url G s i name) GH_ACCEPT octet_content) b w = (Inr resp, w1)"
    "is_success (rs_status resp)" "http_bytes (gh_http G) resp w1 = (Inr raw, w')"
    "gh_asset_from_slice G raw = Inr a"
    unfolding upload_asset_def gh_request_fold by (auto elim!: io_elims split: if_splits)
  from uploaded [OF up] keepsD [OF bytes_keeps up(3)]
  show "\<forall>j. as_id a \<notin> as_id ` set (hub_assets (hub w) j)" "length (hub_assets (hub w) i) < 1000"
    "plain_name name \<Longrightarrow> as_name a = name" "hub w' = hub_add i a b (hub w)" by auto
qed

text \<open>A write that succeeded.\<close>

lemma put_ok:
  assumes ok: "hub_ok (hub w)" and plain: "plain_name (snd (route key))"
    and put: "github_put G pages s key b w = (Inr r, w')"
  shows "hub_ok (hub w')" and "gh_objects hub w' key = Some (b, pr_etag r)"
    and "route k \<noteq> route key \<Longrightarrow> gh_objects hub w' k = gh_objects hub w k"
proof -
  obtain tag name where route: "route key = (tag, name)" by fastforce
  from put obtain rel w1 xs w2 w3 a where
    ens: "ensure_release G s tag w = (Inr rel, w1)"
    and lst: "list_assets G pages s (re_id rel) w1 = (Inr xs, w2)"
    and del: "delete_named G s name xs w2 = (Inr (), w3)"
    and up: "upload_asset G s (re_id rel) name b w3 = (Inr a, w')" and r: "pr_etag r = show_nat (as_id a)"
    unfolding github_put_def route by (auto elim!: io_elims)
  let ?i = "re_id rel"
  let ?I = "as_id ` {x \<in> set (hub_assets (hub w1) ?i). as_name x = name}"
  note ens' = ensure_release_ok [OF ens ok]
  then have w1: "hub_releases (hub w1) tag = Some ?i" "hub_ok (hub w1)" "hub_object (hub w1) = hub_object (hub w)"
    by auto
  have "xs = hub_assets (hub w1) ?i" by (rule list_assets_ok [OF lst w1(2)])
  then have w3: "hub w3 = hub_clear ?I (hub w1)"
    using delete_named_ok [OF del] keepsD [OF list_assets_keeps lst] by simp
  note ok3 = hub_ok_clear [OF w1(2), of ?I, folded w3]
  have rel3: "hub_releases (hub w3) tag = Some ?i" using w1(1) by (simp add: w3 hub_clear_def)
  note up' = upload_asset_ok [OF up]
  have nm: "as_name a = name" using up'(3) plain route by simp
  show "hub_ok (hub w')"
    unfolding up'(4) by (rule hub_ok_add [OF ok3 up'(1,2)])
  have "as_name x \<noteq> as_name a" if "x \<in> set (hub_assets (hub w3) ?i)" for x
    using that nm by (auto simp: w3 hub_clear_def)
  from hub_add_here [OF rel3 this] show "gh_objects hub w' key = Some (b, pr_etag r)"
    by (simp add: gh_objects_def route up'(4) nm r)
  show "gh_objects hub w' k = gh_objects hub w k" if "route k \<noteq> route key"
  proof -
    have other: "route k \<noteq> (tag, as_name a)" using that route nm by simp
    have "hub_object (hub w') (route k) = hub_object (hub w3) (route k)"
      unfolding up'(4) by (rule hub_add_other [OF ok3 rel3 other up'(1)])
    also have "\<dots> = hub_object (hub w1) (route k)"
      unfolding w3 using hub_clear_other [OF w1(2,1) other] nm by simp
    finally show ?thesis by (simp add: gh_objects_def w1(3))
  qed
qed

lemma get_ok:
  assumes "github_get G pages s key w = (Inr (b, e), w')" and "hub_ok (hub w)"
  shows "gh_objects hub w key = Some (b, e)"
proof -
  obtain tag name where route: "route key = (tag, name)" by fastforce
  from assms(1) obtain rel w1 xs w2 a where
    tag: "release_by_tag G s tag w = (Inr (Some rel), w1)"
    and lst: "list_assets G pages s (re_id rel) w1 = (Inr xs, w2)" and a: "find_asset name xs = Some a"
    and down: "download_asset G s (as_id a) w2 = (Inr b, w')" and e: "e = show_nat (as_id a)"
    unfolding github_get_def route ok_or_def by (auto elim!: io_elims split: option.splits)
  have same: "hub w1 = hub w" "hub w2 = hub w"
    using keepsD [OF by_tag_keeps tag] keepsD [OF list_assets_keeps lst] by simp_all
  have "hub_content (hub w2) (as_id a) = Some b"
    using down unfolding download_asset_def gh_request_fold
    by (auto elim!: io_elims split: if_splits dest: asset_bytes)
  moreover have "xs = hub_assets (hub w) (re_id rel)"
    using list_assets_ok [OF lst] assms(2) same by simp
  ultimately show ?thesis
    using by_tag_ok [OF tag] a e same by (simp add: gh_objects_def route hub_object_def)
qed

end

end
