(* ===== verification/Unary_Text.thy ===== *)
theory Unary_Text
  imports Main
begin

text \<open>
  Plain texts for the data of the concrete worlds: numbers in unary, strings after their lengths,
  each with a reader that takes it off the front of a text.
\<close>

definition unary :: "nat \<Rightarrow> string" where
  "unary n = replicate n (CHR ''1'') @ ''0''"

definition take_unary :: "string \<Rightarrow> nat \<times> string" where
  "take_unary t = (length (takeWhile (\<lambda>c. c = CHR ''1'') t), drop 1 (dropWhile (\<lambda>c. c = CHR ''1'') t))"

lemma take_unary [simp]: "take_unary (unary n @ t) = (n, t)"
  by (simp add: take_unary_def unary_def takeWhile_append dropWhile_append)

lemma take_unary_alone [simp]: "take_unary (unary n) = (n, [])"
  using take_unary [of n "[]"] by simp

definition string_text :: "string \<Rightarrow> string" where
  "string_text s = unary (length s) @ s"

definition take_string :: "string \<Rightarrow> string \<times> string" where
  "take_string t = (let (n, t) = take_unary t in (take n t, drop n t))"

lemma take_string [simp]: "take_string (string_text s @ t) = (s, t)" "take_string (string_text s) = (s, [])"
  by (simp_all add: take_string_def string_text_def)

definition int_text :: "int \<Rightarrow> string" where
  "int_text i = unary (nat i) @ unary (nat (- i))"

definition take_int :: "string \<Rightarrow> int \<times> string" where
  "take_int t = (let (a, t) = take_unary t; (b, t) = take_unary t in (int a - int b, t))"

lemma take_int [simp]: "take_int (int_text i @ t) = (i, t)"
  by (simp add: take_int_def int_text_def)

definition option_text :: "('a \<Rightarrow> string) \<Rightarrow> 'a option \<Rightarrow> string" where
  "option_text f x = (case x of None \<Rightarrow> unary 0 | Some y \<Rightarrow> unary 1 @ f y)"

definition take_option :: "(string \<Rightarrow> 'a \<times> string) \<Rightarrow> string \<Rightarrow> 'a option \<times> string" where
  "take_option g t =
    (let (n, t) = take_unary t in if n = 0 then (None, t) else (let (y, t) = g t in (Some y, t)))"

lemma take_option:
  assumes "\<And>y t. g (f y @ t) = (y, t)"
  shows "take_option g (option_text f x @ t) = (x, t)"
  by (cases x) (simp_all add: take_option_def option_text_def assms)

fun take_times :: "(string \<Rightarrow> 'a \<times> string) \<Rightarrow> nat \<Rightarrow> string \<Rightarrow> 'a list \<times> string" where
  "take_times g 0 t = ([], t)"
| "take_times g (Suc n) t = (let (y, t) = g t; (ys, t) = take_times g n t in (y # ys, t))"

definition list_text :: "('a \<Rightarrow> string) \<Rightarrow> 'a list \<Rightarrow> string" where
  "list_text f xs = unary (length xs) @ concat (map f xs)"

definition take_list :: "(string \<Rightarrow> 'a \<times> string) \<Rightarrow> string \<Rightarrow> 'a list \<times> string" where
  "take_list g t = (let (n, t) = take_unary t in take_times g n t)"

lemma take_list:
  assumes "\<And>y t. g (f y @ t) = (y, t)"
  shows "take_list g (list_text f xs @ t) = (xs, t)"
proof -
  have "take_times g (length xs) (concat (map f xs) @ t) = (xs, t)"
    by (induction xs) (simp_all add: assms)
  then show ?thesis by (simp add: take_list_def list_text_def)
qed

end
