(* ===== verification/Github_Run.thy ===== *)
theory Github_Run
  imports Github_Mirror Unary_Text
begin

text \<open>
  A small GitHub that meets what \<open>Github_Mirror\<close> asks of the service, and the property of the store on
  releases as a mirror.
\<close>

section \<open>A small GitHub\<close>

text \<open>Its releases with their ids, and the assets with the release they belong to and their bytes.\<close>

record small_hub =
  sh_releases :: "(string \<times> nat) list"
  sh_items :: "(nat \<times> gh_asset \<times> bytes) list"

definition small_assets :: "small_hub \<Rightarrow> nat \<Rightarrow> gh_asset list" where
  "small_assets w i = map (\<lambda>(j, a, b). a) (filter (\<lambda>(j, a, b). j = i) (sh_items w))"

definition small_view :: "small_hub \<Rightarrow> hub" where
  "small_view w = \<lparr>hub_releases = map_of (sh_releases w), hub_assets = small_assets w,
     hub_content = map_of (map (\<lambda>(j, a, b). (as_id a, b)) (sh_items w))\<rparr>"

text \<open>The texts of its answers.\<close>

definition asset_text :: "gh_asset \<Rightarrow> string" where
  "asset_text a = unary (as_id a) @ unary (as_size a) @ string_text (as_name a)"

definition take_asset :: "string \<Rightarrow> gh_asset \<times> string" where
  "take_asset t =
    (let (i, t) = take_unary t; (z, t) = take_unary t; (n, t) = take_string t
     in (\<lparr>as_id = i, as_name = n, as_size = z\<rparr>, t))"

lemma take_asset [simp]: "take_asset (asset_text a @ t) = (a, t)"
  by (simp add: take_asset_def asset_text_def)

definition assets_text :: "gh_asset list \<Rightarrow> string" where
  "assets_text = list_text asset_text"

definition assets_parse :: "string \<Rightarrow> gh_asset list" where
  "assets_parse t = fst (take_list take_asset t)"

lemma assets_parse [simp]: "assets_parse (assets_text xs) = xs"
  using take_list [of take_asset asset_text xs "[]"] by (simp add: assets_parse_def assets_text_def)

text \<open>The URLs of one store, apart.\<close>

definition api_url :: string where
  "api_url = gh_repo_url ''api.github.com'' small_github_store"

definition page_url :: "nat \<Rightarrow> nat \<Rightarrow> string" where
  "page_url i p = api_url @ ''/'' @ show_nat i @ ''/assets?per_page=100&page='' @ show_nat p"

definition upload_base :: "nat \<Rightarrow> string" where
  "upload_base i = gh_repo_url ''uploads.github.com'' small_github_store @ ''/'' @ show_nat i @ ''/assets?name=''"

lemma show_nat_char: "c \<in> set (show_nat n) \<Longrightarrow> c \<noteq> CHR ''/'' \<and> c \<noteq> CHR ''a'' \<and> c \<noteq> CHR ''t''"
  using show_nat_digits [of c n] by (auto simp: byte_in_def byte_def)

lemma show_nat_slash:
  assumes "show_nat i @ CHR ''/'' # t = show_nat j @ CHR ''/'' # u"
  shows "i = j \<and> t = u"
proof -
  have *: "takeWhile (\<lambda>c. c \<noteq> CHR ''/'') (show_nat n @ CHR ''/'' # t) = show_nat n" for n t
    using show_nat_char by (subst takeWhile_append2) auto
  from arg_cong [OF assms, of "takeWhile (\<lambda>c. c \<noteq> CHR ''/'')"] have "i = j"
    by (simp add: *)
  with assms show ?thesis by simp
qed

lemma show_nat_Cons:
  obtains c t where "show_nat n = c # t" "c \<noteq> CHR ''a''" "c \<noteq> CHR ''t''"
proof (cases "show_nat n")
  case (Cons c t)
  with show_nat_char [of c n] show thesis by (intro that [OF Cons]) auto
qed simp

lemma page_url_inject [simp]: "page_url i p = page_url j q \<longleftrightarrow> i = j \<and> p = q"
proof
  assume "page_url i p = page_url j q"
  then have "show_nat i @ CHR ''/'' # (''assets?per_page=100&page='' @ show_nat p) =
      show_nat j @ CHR ''/'' # (''assets?per_page=100&page='' @ show_nat q)"
    by (simp add: page_url_def)
  from show_nat_slash [OF this] show "i = j \<and> p = q" by simp
qed simp

lemma urls_apart:
  "strip_prefix (page_url i p) (api_url @ ''/tags/'') = None"
  "strip_prefix (asset_url small_github_store n) (api_url @ ''/tags/'') = None"
  "asset_url small_github_store n \<noteq> page_url i p"
  "asset_url small_github_store n = asset_url small_github_store m \<longleftrightarrow> n = m"
  by (rule show_nat_Cons [of i]; auto simp: page_url_def asset_url_def api_url_def strip_prefix_def)+

definition answer :: "nat \<Rightarrow> string \<Rightarrow> http_response" where
  "answer code body = \<lparr>rs_status = code, rs_headers = [], rs_body = body\<rparr>"

definition small_get :: "small_hub \<Rightarrow> string \<Rightarrow> http_response" where
  "small_get w url =
    (case strip_prefix url (api_url @ ''/tags/'') of
       Some tag \<Rightarrow> (case map_of (sh_releases w) tag of Some i \<Rightarrow> answer 200 (unary i) | None \<Rightarrow> answer 404 [])
     | None \<Rightarrow>
        (case find (\<lambda>(j, a, b). asset_url small_github_store (as_id a) = url) (sh_items w) of
           Some (j, a, b) \<Rightarrow> answer 200 b
         | None \<Rightarrow>
            (case find (\<lambda>(i, p). page_url i p = url)
                (List.product (map snd (sh_releases w)) [1..<12]) of
               Some (i, p) \<Rightarrow> answer 200 (assets_text (take 100 (drop (100 * (p - 1)) (small_assets w i))))
             | None \<Rightarrow> answer 404 [])))"

definition small_post :: "string \<Rightarrow> bytes \<Rightarrow> (small_hub, http_response) io" where
  "small_post url body w =
    (if url = api_url then
       (if map_of (sh_releases w) body \<noteq> None then (Inr (answer 422 []), w)
        else let i = Suc (sum_list (map snd (sh_releases w)) + sum_list (map fst (sh_items w)))
             in (Inr (answer 201 (unary i)), w\<lparr>sh_releases := (body, i) # sh_releases w\<rparr>))
     else
       (case find (\<lambda>i. strip_prefix url (upload_base i) \<noteq> None) (map snd (sh_releases w)) of
          None \<Rightarrow> (Inr (answer 404 []), w)
        | Some i \<Rightarrow>
            if 1000 \<le> length (small_assets w i) then (Inr (answer 422 []), w)
            else
              let n = Suc (sum_list (map (\<lambda>(j, a, b). as_id a) (sh_items w)));
                  a = \<lparr>as_id = n, as_name = the (strip_prefix url (upload_base i)), as_size = length body\<rparr>
              in (Inr (answer 201 (asset_text a)), w\<lparr>sh_items := sh_items w @ [(i, a, body)]\<rparr>)))"

definition small_delete :: "string \<Rightarrow> (small_hub, http_response) io" where
  "small_delete url w =
    (case find (\<lambda>(j, a, b). asset_url small_github_store (as_id a) = url) (sh_items w) of
       None \<Rightarrow> (Inr (answer 404 []), w)
     | Some (j, a, b) \<Rightarrow> (Inr (answer 204 []),
         w\<lparr>sh_items := filter (\<lambda>(j, x, b). as_id x \<noteq> as_id a) (sh_items w)\<rparr>))"

definition small_hub_api :: "small_hub github_api" where
  "small_hub_api =
    \<lparr>gh_http = \<lparr>http_send = (\<lambda>c rq w. (Inr (small_get w (rq_url rq)), w)),
       http_bytes = (\<lambda>rs. ret (rs_body rs)), http_text = (\<lambda>rs. ret (rs_body rs)),
       http_build = Inr, header_name = Inr, header_value = Inr, url_parse = Some\<rparr>,
     gh_post = (\<lambda>c rq b. small_post (rq_url rq) b), gh_delete = (\<lambda>c rq. small_delete (rq_url rq)),
     gh_json_to_vec = (\<lambda>v. ok_or (Msg ''tag_name'') (Option.bind (json_get ''tag_name'' v) json_str)),
     gh_release_from_slice = (\<lambda>b. Inr \<lparr>re_id = fst (take_unary b)\<rparr>),
     gh_asset_from_slice = (\<lambda>b. Inr (fst (take_asset b))),
     gh_assets_from_slice = (\<lambda>b. Inr (assets_parse b)),
     gh_urlencode = (\<lambda>x. x), gh_status_text = show_nat\<rparr>"

lemma take_asset_alone [simp]: "take_asset (asset_text a) = (a, [])"
  using take_asset [of a "[]"] by simp

lemma small_get_page:
  assumes "is_success (rs_status (small_get w (page_url i p)))"
  shows "rs_body (small_get w (page_url i p)) = assets_text (take 100 (drop (100 * (p - 1)) (small_assets w i)))"
proof -
  let ?f = "find (\<lambda>(j, q). page_url j q = page_url i p) (List.product (map snd (sh_releases w)) [1..<12])"
  have "find (\<lambda>(j, a, b). asset_url small_github_store (as_id a) = page_url i p) (sh_items w) = None"
    by (auto simp: find_None_iff urls_apart)
  then have get: "small_get w (page_url i p) = (case ?f of
      Some (i, p) \<Rightarrow> answer 200 (assets_text (take 100 (drop (100 * (p - 1)) (small_assets w i))))
    | None \<Rightarrow> answer 404 [])"
    by (simp add: small_get_def urls_apart del: upt.simps)
  with assms obtain jq where jq: "?f = Some jq"
    by (auto simp: answer_def is_success_def split: option.splits)
  moreover from find_holds [OF jq] have "jq = (i, p)" by auto
  ultimately show ?thesis unfolding get by (simp add: answer_def)
qed

lemma small_get_asset:
  "small_get w (asset_url small_github_store n) =
    (case map_of (map (\<lambda>(j, a, b). (as_id a, b)) (sh_items w)) n of
       Some b \<Rightarrow> answer 200 b | None \<Rightarrow> answer 404 [])"
proof -
  have "map_of (map (\<lambda>(j, a, b). (as_id a, b)) xs) n =
      map_option (\<lambda>(j, a, b). b) (find (\<lambda>(j, a, b). as_id a = n) xs)" for xs :: "(nat \<times> gh_asset \<times> bytes) list"
    by (induction xs) auto
  moreover have "find (\<lambda>(i, p). page_url i p = asset_url small_github_store n) xs = None" for xs
    by (auto simp: find_None_iff urls_apart urls_apart(3) [symmetric])
  ultimately show ?thesis
    by (auto simp: small_get_def urls_apart split: option.splits simp del: upt.simps)
qed

lemma fresh_id: "n \<in> set ns \<Longrightarrow> n < Suc (sum_list ns)" for n :: nat
  by (induction ns) auto

lemma small_post_create:
  assumes "small_post api_url tag w = (Inr resp, w1)" and "is_success (rs_status resp)"
  shows "\<exists>i. rs_body resp = unary i \<and> hub_releases (small_view w) tag = None \<and>
    i \<notin> ran (hub_releases (small_view w)) \<and> hub_assets (small_view w) i = [] \<and>
    small_view w1 = hub_create tag i (small_view w)"
proof -
  let ?i = "Suc (sum_list (map snd (sh_releases w)) + sum_list (map fst (sh_items w)))"
  from assms have new: "map_of (sh_releases w) tag = None" and resp: "rs_body resp = unary ?i"
    and w1: "w1 = w\<lparr>sh_releases := (tag, ?i) # sh_releases w\<rparr>"
    by (auto simp: small_post_def answer_def is_success_def Let_def split: if_splits)
  have "j \<noteq> ?i" if "j \<in> snd ` set (sh_releases w) \<union> fst ` set (sh_items w)" for j
    using fresh_id [of j "map snd (sh_releases w)"] fresh_id [of j "map fst (sh_items w)"] that by auto
  then have "?i \<notin> snd ` set (sh_releases w)" "?i \<notin> fst ` set (sh_items w)" by blast+
  then show ?thesis
    using new resp by (intro exI [of _ ?i])
      (auto simp: small_view_def hub_create_def w1 small_assets_def filter_empty_conv ran_def
        dest: map_of_SomeD intro: rev_image_eqI)
qed

lemma upload_base_inject:
  assumes "strip_prefix url (upload_base i) = Some n" and "strip_prefix url (upload_base j) = Some m"
  shows "i = j"
proof -
  have "upload_base i @ n = upload_base j @ m"
    using assms strip_prefix_Some by metis
  then have "show_nat i @ CHR ''/'' # (''assets?name='' @ n) = show_nat j @ CHR ''/'' # (''assets?name='' @ m)"
    by (simp add: upload_base_def)
  from show_nat_slash [OF this] show ?thesis by simp
qed

lemma small_post_upload:
  assumes "small_post (upload_base i @ name) b w = (Inr resp, w1)" and "is_success (rs_status resp)"
  shows "\<exists>a. rs_body resp = asset_text a \<and> (\<forall>j. as_id a \<notin> as_id ` set (hub_assets (small_view w) j)) \<and>
    length (hub_assets (small_view w) i) < 1000 \<and> as_name a = name \<and>
    small_view w1 = hub_add i a b (small_view w)"
proof -
  let ?url = "upload_base i @ name" and ?ids = "map (\<lambda>(j, a, b). as_id a) (sh_items w)"
  have here: "strip_prefix ?url (upload_base i) = Some name"
    by (simp add: strip_prefix_def)
  have apart: "?url \<noteq> api_url"
    by (auto simp: upload_base_def api_url_def gh_repo_url_def)
  let ?a = "\<lparr>as_id = Suc (sum_list ?ids), as_name = name, as_size = length b\<rparr>"
  from assms apart obtain j where
    "find (\<lambda>i. strip_prefix ?url (upload_base i) \<noteq> None) (map snd (sh_releases w)) = Some j"
    by (auto simp: small_post_def answer_def is_success_def split: option.splits)
  moreover from find_holds [OF this] here have "j = i"
    using upload_base_inject by blast
  ultimately have room: "length (small_assets w i) < 1000" and resp: "rs_body resp = asset_text ?a"
    and w1: "w1 = w\<lparr>sh_items := sh_items w @ [(i, ?a, b)]\<rparr>"
    using assms apart here
    by (auto simp: small_post_def answer_def is_success_def Let_def split: if_splits)
  have fresh: "as_id ?a \<notin> set ?ids"
    using fresh_id [of "Suc (sum_list ?ids)" ?ids] by (auto simp del: set_map)
  moreover have "fst ` set (map (\<lambda>(j, a, b). (as_id a, b)) (sh_items w)) = set ?ids"
    by (force simp: image_image)
  ultimately have "map_of (map (\<lambda>(j, a, b). (as_id a, b)) (sh_items w)) (as_id ?a) = None"
    unfolding map_of_eq_None_iff by simp
  then have "small_view w1 = hub_add i ?a b (small_view w)"
    by (auto simp: small_view_def hub_add_def w1 small_assets_def fun_eq_iff map_add_def split: option.splits)
  moreover have "as_id ` set (small_assets w j) \<subseteq> set ?ids" for j
    by (force simp: small_assets_def)
  then have "\<forall>j. as_id ?a \<notin> as_id ` set (small_assets w j)"
    using fresh by blast
  ultimately show ?thesis
    using room resp by (intro exI [of _ ?a]) (simp add: small_view_def)
qed

lemma small_delete_removes:
  assumes "small_delete (asset_url small_github_store n) w = (Inr resp, w1)" and "is_success (rs_status resp)"
  shows "small_view w1 = hub_remove n (small_view w)"
proof -
  from assms obtain j a b where
    found: "find (\<lambda>(j, a, b). asset_url small_github_store (as_id a) = asset_url small_github_store n) (sh_items w) =
      Some (j, a, b)"
    and w1: "w1 = w\<lparr>sh_items := filter (\<lambda>(j, x, b). as_id x \<noteq> as_id a) (sh_items w)\<rparr>"
    by (auto simp: small_delete_def answer_def is_success_def split: option.splits)
  have n: "as_id a = n" using find_holds [OF found] by (simp add: urls_apart)
  have "map_of (map (\<lambda>(j, a, b). (as_id a, b)) (filter (\<lambda>(j, x, b). as_id x \<noteq> n) xs)) =
      (map_of (map (\<lambda>(j, a, b). (as_id a, b)) xs))(n := None)" for xs :: "(nat \<times> gh_asset \<times> bytes) list"
    by (induction xs) (auto simp: fun_eq_iff)
  moreover have "small_assets w1 r = filter (\<lambda>a. as_id a \<noteq> n) (small_assets w r)" for r
    by (simp add: small_assets_def w1 n filter_map comp_def case_prod_unfold conj_commute)
  ultimately show ?thesis
    by (simp add: small_view_def hub_remove_def w1 n fun_eq_iff)
qed

lemma upload_url_base: "upload_url small_hub_api small_github_store i name = upload_base i @ name"
  by (simp add: upload_url_def upload_base_def small_hub_api_def)

interpretation small_service: github_service small_hub_api small_github_store small_view
proof
  note defs = small_hub_api_def gh_request_def ret_def answer_def is_success_def
  show "keeps small_view (http_send (gh_http small_hub_api) c rq)"
    "keeps small_view (http_bytes (gh_http small_hub_api) resp)"
    "keeps small_view (http_text (gh_http small_hub_api) resp)" for c rq resp
    by (simp_all add: keeps_def small_hub_api_def ret_def)
  fix w w1 w2 resp raw
  show "hub_releases (small_view w) tag = Some (re_id r)"
    if "http_send (gh_http small_hub_api) (gs_client small_github_store)
        (gh_request small_github_store (tag_url small_github_store tag) GH_ACCEPT []) w = (Inr resp, w1)"
      "rs_status resp = 200" "http_bytes (gh_http small_hub_api) resp w1 = (Inr raw, w2)"
      "gh_release_from_slice small_hub_api raw = Inr r" for tag r
    using that by (auto simp: defs tag_url_def small_get_def api_url_def strip_prefix_def small_view_def
        split: option.splits)
  show "batch = take 100 (drop (100 * (unat page - 1)) (hub_assets (small_view w) i))"
    if "http_send (gh_http small_hub_api) (gs_client small_github_store)
        (gh_request small_github_store (assets_url small_github_store i page) GH_ACCEPT []) w = (Inr resp, w1)"
      "is_success (rs_status resp)" "http_bytes (gh_http small_hub_api) resp w1 = (Inr raw, w2)"
      "gh_assets_from_slice small_hub_api raw = Inr batch" "0 < unat page" for i page batch
  proof -
    have "assets_url small_github_store i page = page_url i (unat page)"
      by (simp add: assets_url_def page_url_def api_url_def)
    with that small_get_page [of w i "unat page"] show ?thesis
      by (auto simp: small_hub_api_def gh_request_def ret_def small_view_def)
  qed
  show "hub_content (small_view w) n = Some b"
    if "http_send (gh_http small_hub_api) (gs_client small_github_store)
        (gh_request small_github_store (asset_url small_github_store n) ''application/octet-stream'' []) w =
          (Inr resp, w1)"
      "is_success (rs_status resp)" "http_bytes (gh_http small_hub_api) resp w1 = (Inr b, w2)" for n b
    using that by (auto simp: small_get_asset defs small_view_def split: option.splits)
  show "hub_releases (small_view w) tag = None \<and> re_id r \<notin> ran (hub_releases (small_view w)) \<and>
      hub_assets (small_view w) (re_id r) = [] \<and> small_view w1 = hub_create tag (re_id r) (small_view w)"
    if "gh_json_to_vec small_hub_api (release_json tag) = Inr doc"
      "gh_post small_hub_api (gs_client small_github_store)
        (gh_request small_github_store (gh_repo_url ''api.github.com'' small_github_store) GH_ACCEPT json_content)
        doc w = (Inr resp, w1)"
      "is_success (rs_status resp)" "http_bytes (gh_http small_hub_api) resp w1 = (Inr raw, w2)"
      "gh_release_from_slice small_hub_api raw = Inr r" for tag doc r
  proof -
    have "doc = tag" using that(1) by (simp add: small_hub_api_def release_json_def json_get_def json_str_def ok_or_def)
    then have "small_post api_url tag w = (Inr resp, w1)"
      using that(2) by (simp add: small_hub_api_def gh_request_def api_url_def)
    from small_post_create [OF this that(3)] that(4,5) show ?thesis
      by (auto simp: small_hub_api_def ret_def)
  qed
  show "small_view w1 = hub_remove n (small_view w)"
    if "gh_delete small_hub_api (gs_client small_github_store)
        (gh_request small_github_store (asset_url small_github_store n) GH_ACCEPT []) w = (Inr resp, w1)"
      "is_success (rs_status resp)" for n
    using that by (intro small_delete_removes) (simp_all add: small_hub_api_def gh_request_def)
  show "(\<forall>j. as_id a \<notin> as_id ` set (hub_assets (small_view w) j)) \<and>
      length (hub_assets (small_view w) i) < 1000 \<and> (plain_name name \<longrightarrow> as_name a = name) \<and>
      small_view w1 = hub_add i a b (small_view w)"
    if "gh_post small_hub_api (gs_client small_github_store)
        (gh_request small_github_store (upload_url small_hub_api small_github_store i name) GH_ACCEPT octet_content)
        b w = (Inr resp, w1)"
      "is_success (rs_status resp)" "http_bytes (gh_http small_hub_api) resp w1 = (Inr raw, w2)"
      "gh_asset_from_slice small_hub_api raw = Inr a" for i name b a
  proof -
    have "small_post (upload_base i @ name) b w = (Inr resp, w1)"
      using that(1) unfolding upload_url_base by (simp add: small_hub_api_def gh_request_def)
    from small_post_upload [OF this that(2)] obtain a' where a': "rs_body resp = asset_text a'"
      and facts: "(\<forall>j. as_id a' \<notin> as_id ` set (hub_assets (small_view w) j)) \<and>
        length (hub_assets (small_view w) i) < 1000 \<and> as_name a' = name \<and>
        small_view w1 = hub_add i a' b (small_view w)" by blast
    have "raw = asset_text a'" and "fst (take_asset raw) = a"
      using that(3,4) a' by (auto simp: small_hub_api_def ret_def)
    then have "a = a'" by simp
    with facts show ?thesis by blast
  qed
qed

section \<open>Property\<close>

text \<open>
  C24: A release store keeps what it is given: on a GitHub that does what it documents of releases and
  assets, a write that succeeds stores the object under its key - replacing the asset of that name,
  with the release made first if need be - and changes no key that is kept in another asset; a read
  that succeeds returns what was written, under the etag of the write; and the ids stay unique.
\<close>

theorem github_mirror_keeps:
  assumes "github_service G s hub" and "hub_ok (hub w)" and "plain_name (snd (route key))"
    and "st_put (github_snapshot_store G pages s) key b w = (Inr r, w1)"
  shows "hub_ok (hub w1) \<and> gh_objects hub w1 key = Some (b, pr_etag r) \<and>
    (\<forall>k. route k \<noteq> route key \<longrightarrow> gh_objects hub w1 k = gh_objects hub w k) \<and>
    (\<forall>pages' c e w2. st_get (github_snapshot_store G pages' s) key w1 = (Inr (c, e), w2) \<longrightarrow>
      c = b \<and> e = pr_etag r)"
proof -
  have put: "github_put G pages s key b w = (Inr r, w1)"
    using assms(4) by (simp add: github_snapshot_store_def)
  note ok = github_service.put_ok [OF assms(1-3) put]
  have "gh_objects hub w1 key = Some (c, e)"
    if "st_get (github_snapshot_store G pages' s) key w1 = (Inr (c, e), w2)" for pages' c e w2
    using github_service.get_ok [OF assms(1) _ ok(1)] that by (simp add: github_snapshot_store_def)
  with ok show ?thesis by fastforce
qed

text \<open>The first write to an empty repository.\<close>

definition small_hub_start :: small_hub where
  "small_hub_start = \<lparr>sh_releases = [], sh_items = []\<rparr>"

lemma small_first_put:
  "st_put (github_snapshot_store small_hub_api 1 small_github_store) ''snapshots/a'' ''B'' small_hub_start =
    (Inr \<lparr>pr_etag = ''1''\<rparr>, \<lparr>sh_releases = [(''repossess-snapshots'', 1)],
      sh_items = [(1, \<lparr>as_id = 1, as_name = ''a'', as_size = 1\<rparr>, ''B'')]\<rparr>)"
  by code_simp

theorem github_mirror_keeps_witness:
  "gh_objects small_view \<lparr>sh_releases = [(''repossess-snapshots'', 1)],
      sh_items = [(1, \<lparr>as_id = 1, as_name = ''a'', as_size = 1\<rparr>, ''B'')]\<rparr> ''snapshots/a'' =
    Some (''B'', ''1'')"
proof -
  have "hub_ok (small_view small_hub_start)"
    by (simp add: hub_ok_def small_view_def small_hub_start_def small_assets_def)
  moreover have "plain_name (snd (route ''snapshots/a''))"
    by code_simp
  ultimately show ?thesis
    using github_mirror_keeps [OF small_service.github_service_axioms _ _ small_first_put] by simp
qed

end
