(* ===== verification/Chatgpt.thy ===== *)
theory Chatgpt
  imports Chats_Api
begin

text \<open>
  \<open>src/workload/chatgpt.rs\<close>: the types of the ChatGPT web API, the client of the \<open>export\<close> command,
  and the rendering of a conversation as Markdown.

  The loop that walks from the current message to the root follows parent links of a map that comes
  from the server; it is a \<open>partial_function\<close>, and \<open>None\<close> is a walk that never returns.
\<close>

section \<open>Data\<close>

text \<open>
  \<open>deserialize_ts\<close>; the first parameter is \<open>DateTime::parse_from_rfc3339(..).timestamp()\<close>.
\<close>

definition deserialize_ts ::
    "(string \<Rightarrow> int res) \<Rightarrow> json_api \<Rightarrow> json \<Rightarrow> f64 option res" where
  "deserialize_ts rfc JS v =
    (case v of
       JNull \<Rightarrow> Inr None
     | JNumber n \<Rightarrow> Inr (js_as_f64 JS n)
     | JString s \<Rightarrow>
         (case rfc s of
            Inr t \<Rightarrow> Inr (Some (i64_as_f64 t))
          | Inl e \<Rightarrow> Inl (Msg (report_chain e)))
     | other \<Rightarrow> Inl (Msg (''expected timestamp, got '' @ js_display JS other)))"

record author =
  au_role :: string

record content =
  co_content_type :: string
  co_parts :: "json list option"

record chat_message =
  ms_id :: string
  ms_author :: author
  ms_create_time :: "f64 option"
  ms_content :: content
  ms_status :: "string option"

record mapping_node =
  mn_id :: string
  mn_message :: "chat_message option"
  mn_parent :: "string option"
  mn_children :: "string list"

record conversation_detail =
  cd_id :: string
  cd_title :: "string option"
  cd_create_time :: "f64 option"
  cd_update_time :: "f64 option"
  cd_mapping :: "(string \<times> mapping_node) list option"
  cd_current_node :: "string option"

text \<open>
  What is called besides the calls of \<open>api_env\<close>: the parser and printer derived for a conversation,
  \<open>Utc.timestamp_opt(..).single()\<close>, \<open>to_rfc3339\<close> and \<open>Display\<close> of an \<open>f64\<close>; and whether the log level
  enables \<open>debug!\<close>, whose arguments are only evaluated then.
\<close>

record 'w gpt_env =
  gv_api :: "'w api_env"
  gv_debug_log :: bool
  gv_detail_from_value :: "json \<Rightarrow> conversation_detail res"
  gv_detail_to_vec_pretty :: "conversation_detail \<Rightarrow> bytes res"
  gv_timestamp_opt :: "int \<Rightarrow> datetime option"
  gv_rfc3339 :: "datetime \<Rightarrow> string"
  gv_f64_display :: "f64 \<Rightarrow> string"

section \<open>The client\<close>

text \<open>Durations are in milliseconds.\<close>

record gpt_client =
  gp_http :: http_client
  gp_base_url :: string
  gp_access_token :: string
  gp_rate_delay :: nat
  gp_max_retries :: "32 word"

definition gpt_new ::
    "'w gpt_env \<Rightarrow> http_client \<Rightarrow> string \<Rightarrow> nat \<Rightarrow> 32 word \<Rightarrow> ('w, gpt_client) io" where
  "gpt_new V http base_url rate_delay max_retries =
    (let H = ae_http (gv_api V);
         url = base_url @ ''/api/auth/session'' in
     and_then (with_context ''fetch /api/auth/session'' (http_get H http url)) (\<lambda>resp.
     if \<not> is_success (rs_status resp) then
       fail (Msg (''/api/auth/session returned '' @ show_nat (rs_status resp) @ '' '' @ em_dash @
         '' session may have expired; re-run `repossess seed`''))
     else
       and_then (with_context ''parse /api/auth/session JSON''
         (and_then (http_bytes H resp) (\<lambda>raw. lift_res (ae_session_from_slice (gv_api V) raw))))
       (\<lambda>access_token.
       and_then (lift_res (ok_or
         (Msg (''no accessToken in session response '' @ em_dash @
           '' session may be invalid or expired; re-run `repossess seed`''))
         (case access_token of Some t \<Rightarrow> (if t \<noteq> [] then Some t else None) | None \<Rightarrow> None)))
       (\<lambda>token.
       if is_char_boundary token (min 20 (length token)) then
         ret \<lparr>gp_http = http, gp_base_url = base_url, gp_access_token = token,
              gp_rate_delay = rate_delay, gp_max_retries = max_retries\<rparr>
       else fail (Panic ''byte index 20 is not a char boundary'')))))"

definition gpt_headers :: "gpt_client \<Rightarrow> (string \<times> string) list" where
  "gpt_headers c =
    [(''Authorization'', ''Bearer '' @ gp_access_token c), (''Accept'', ''application/json''),
     (''Accept-Language'', ''en-US,en;q=0.9''), (''Referer'', ''https://chatgpt.com/''),
     (''sec-fetch-dest'', ''empty''), (''sec-fetch-mode'', ''cors''),
     (''sec-fetch-site'', ''same-origin'')]"

text \<open>\<open>30 * 2u64.pow(attempt.min(4))\<close> seconds.\<close>

definition gpt_backoff :: "32 word \<Rightarrow> nat" where
  "gpt_backoff att = 1000 * (30 * 2 ^ unat (min att 4))"

definition gpt_api_err :: "json \<Rightarrow> string option" where
  "gpt_api_err body =
    Option.bind (json_get ''detail'' body) (\<lambda>d.
      (case d of
         JString s \<Rightarrow> Some s
       | JObject _ \<Rightarrow>
           (let code = (case Option.bind (json_get ''code'' d) json_str of
                          Some c \<Rightarrow> c | None \<Rightarrow> ''api_error'');
                msg = (case Option.bind (json_get ''message'' d) json_str of
                          Some m \<Rightarrow> m | None \<Rightarrow> [])
            in Some (code @ '': '' @ msg))
       | _ \<Rightarrow> None))"

text \<open>The answer of a request that succeeded: its text, parsed, checked and deserialized.\<close>

definition gpt_parse_body ::
    "'w gpt_env \<Rightarrow> (json \<Rightarrow> 'a res) \<Rightarrow> string \<Rightarrow> string \<Rightarrow> 'a res" where
  "gpt_parse_body V from_value url raw =
    (if gv_debug_log V \<and> \<not> is_char_boundary raw (min (length raw) 500) then
       Inl (Panic ''byte index 500 is not a char boundary'')
     else
       res_bind (res_context (''parse JSON from '' @ url) (js_from_slice (ae_json (gv_api V)) raw))
         (\<lambda>body.
       (case gpt_api_err body of
          Some e \<Rightarrow> Inl (Msg (''API error from '' @ url @ '': '' @ e))
        | None \<Rightarrow> res_context (''deserialize response from '' @ url) (from_value body))))"

text \<open>The fuel is the number of requests allowed.\<close>

fun gpt_get_json_loop ::
    "'w gpt_env \<Rightarrow> gpt_client \<Rightarrow> (json \<Rightarrow> 'a res) \<Rightarrow> string \<Rightarrow> nat \<Rightarrow> 32 word \<Rightarrow> ('w, 'a) io" where
  "gpt_get_json_loop V c from_value url 0 att = fail OutOfFuel"
| "gpt_get_json_loop V c from_value url (Suc fuel) att =
    and_then (effect (ae_sleep (gv_api V) (gp_rate_delay c))) (\<lambda>_.
    and_then (with_context (''GET '' @ url) (http_send (ae_http (gv_api V)) (gp_http c)
        \<lparr>rq_url = url, rq_headers = gpt_headers c\<rparr>)) (\<lambda>resp.
    let status = rs_status resp in
    if status = 429 then
      (let att' = att + 1 in
       if att' > gp_max_retries c then
         fail (Msg (''GET '' @ url @ '': rate limited after '' @
           show_nat (unat (gp_max_retries c)) @ '' retries''))
       else
         (let backoff = (case retry_after resp of Some d \<Rightarrow> d | None \<Rightarrow> gpt_backoff att') in
          and_then (effect (ae_sleep (gv_api V) backoff)) (\<lambda>_.
          gpt_get_json_loop V c from_value url fuel att')))
    else if status = 401 then
      fail (Msg (''GET '' @ url @ '': 401 '' @ em_dash @ '' session expired; re-run `repossess seed`''))
    else if \<not> is_success status then
      and_then (attempt (http_text (ae_http (gv_api V)) resp)) (\<lambda>r.
      let body = (case r of Inr b \<Rightarrow> b | Inl _ \<Rightarrow> []) in
      fail (Msg (''GET '' @ url @ '': status '' @ show_nat status @ '' body: '' @ body)))
    else
      and_then (with_context (''read body from '' @ url) (http_text (ae_http (gv_api V)) resp)) (\<lambda>raw.
      lift_res (gpt_parse_body V from_value url raw))))"

text \<open>One request, and one more for every retry the configuration allows.\<close>

definition gpt_get_json ::
    "'w gpt_env \<Rightarrow> gpt_client \<Rightarrow> (json \<Rightarrow> 'a res) \<Rightarrow> string \<Rightarrow> ('w, 'a) io" where
  "gpt_get_json V c from_value url =
    gpt_get_json_loop V c from_value url (unat (gp_max_retries c) + 1) 0"

definition list_conversations ::
    "'w gpt_env \<Rightarrow> gpt_client \<Rightarrow> 32 word \<Rightarrow> 32 word \<Rightarrow> ('w, conversation_summary list) io" where
  "list_conversations V c offset limit =
    gpt_get_json V c (ae_list_from_value (gv_api V))
      (gp_base_url c @ ''/backend-api/conversations?offset='' @ show_nat (unat offset) @
       ''&limit='' @ show_nat (unat limit))"

definition get_conversation ::
    "'w gpt_env \<Rightarrow> gpt_client \<Rightarrow> string \<Rightarrow> ('w, conversation_detail) io" where
  "get_conversation V c cid =
    gpt_get_json V c (gv_detail_from_value V) (gp_base_url c @ ''/backend-api/conversation/'' @ cid)"

section \<open>Markdown\<close>

partial_function (option) walk_up ::
    "(string \<times> mapping_node) list \<Rightarrow> string \<Rightarrow> mapping_node list \<Rightarrow> mapping_node list option" where
  "walk_up mapping nid path =
    (case map_of mapping nid of
       None \<Rightarrow> Some path
     | Some node \<Rightarrow>
        (case mn_parent node of
           Some p \<Rightarrow> walk_up mapping p (path @ [node])
         | None \<Rightarrow> Some (path @ [node])))"

definition walk_to_current ::
    "(string \<times> mapping_node) list \<Rightarrow> string \<Rightarrow> mapping_node list option" where
  "walk_to_current mapping current = map_option rev (walk_up mapping current [])"

definition ts_fmt :: "'w gpt_env \<Rightarrow> f64 \<Rightarrow> string" where
  "ts_fmt V ts =
    (case map_option (gv_rfc3339 V) (gv_timestamp_opt V (f64_as_i64 ts)) of
       Some s \<Rightarrow> s
     | None \<Rightarrow> gv_f64_display V ts)"

definition nl :: string where
  "nl = [CHR 0x0A]"

definition role_label :: "string \<Rightarrow> string" where
  "role_label role =
    (if role = ''user'' then ''You''
     else if role = ''assistant'' then ''ChatGPT''
     else if role = ''system'' then ''System''
     else if role = ''tool'' then ''Tool''
     else role)"

definition message_text :: "chat_message \<Rightarrow> string" where
  "message_text msg =
    (case map_option (\<lambda>parts. join_str nl (List.map_filter json_str parts)) (co_parts (ms_content msg)) of
       Some t \<Rightarrow> if t \<noteq> [] then t else ''[non-text content]''
     | None \<Rightarrow> ''[non-text content]'')"

text \<open>What the loop appends for one node; a \<open>continue\<close> appends nothing.\<close>

definition render_node :: "'w gpt_env \<Rightarrow> mapping_node \<Rightarrow> string" where
  "render_node V node =
    (case mn_message node of
       None \<Rightarrow> []
     | Some msg \<Rightarrow>
        if ms_status msg = Some ''finished_partially'' then []
        else
          (let role = role_label (au_role (ms_author msg));
               txt = message_text msg in
           if trim txt = [] then []
           else
             (case ms_create_time msg of
                Some ct \<Rightarrow> ''<!-- '' @ ts_fmt V ct @ '' | '' @ ms_id msg @ '' -->'' @ nl
              | None \<Rightarrow> []) @
             ''**'' @ role @ '':**'' @ nl @ nl @ txt @ nl @ nl @ ''---'' @ nl @ nl))"

definition markdown_head :: "'w gpt_env \<Rightarrow> conversation_detail \<Rightarrow> string" where
  "markdown_head V conv =
    ''# '' @ (case cd_title conv of Some t \<Rightarrow> t | None \<Rightarrow> ''Untitled'') @ nl @ nl @
    (case cd_create_time conv of Some ct \<Rightarrow> ''*Created: '' @ ts_fmt V ct @ ''*'' @ nl @ nl | None \<Rightarrow> []) @
    (case cd_update_time conv of Some ut \<Rightarrow> ''*Updated: '' @ ts_fmt V ut @ ''*'' @ nl @ nl | None \<Rightarrow> [])"

definition to_markdown :: "'w gpt_env \<Rightarrow> conversation_detail \<Rightarrow> string option" where
  "to_markdown V conv =
    (case (cd_mapping conv, cd_current_node conv) of
       (Some mapping, Some current) \<Rightarrow>
         map_option (\<lambda>path. markdown_head V conv @ concat (map (render_node V) path))
           (walk_to_current mapping current)
     | _ \<Rightarrow> Some (markdown_head V conv @ ''_No messages._'' @ nl))"

end
