(* ===== verification/Chatgpt_Facts.thy ===== *)
theory Chatgpt_Facts
  imports Chatgpt
begin

text \<open>
  When the walk from the current message to the root returns: exactly when the parent links from it
  leave the mapping or reach a node with no parent, which they do within one step more than the
  mapping has entries, or never.
\<close>

section \<open>Parent links\<close>

definition parent_link :: "(string \<times> mapping_node) list \<Rightarrow> string \<Rightarrow> string option" where
  "parent_link mapping nid = Option.bind (map_of mapping nid) mn_parent"

fun ancestor :: "(string \<times> mapping_node) list \<Rightarrow> string \<Rightarrow> nat \<Rightarrow> string option" where
  "ancestor mapping nid 0 = Some nid"
| "ancestor mapping nid (Suc n) = Option.bind (ancestor mapping nid n) (parent_link mapping)"

lemma ancestor_Suc: "ancestor mapping nid (Suc n) =
    Option.bind (parent_link mapping nid) (\<lambda>p. ancestor mapping p n)"
  by (induction n) (auto simp: Option.bind_assoc split: bind_split)

lemma ancestor_None_mono: "ancestor mapping nid n = None \<Longrightarrow> n \<le> m \<Longrightarrow> ancestor mapping nid m = None"
  by (induction m) (auto simp: le_Suc_eq)

lemma ancestor_add:
  "ancestor mapping nid i = ancestor mapping nid j \<Longrightarrow>
    ancestor mapping nid (i + n) = ancestor mapping nid (j + n)"
  by (induction n) auto

text \<open>The first step at which the links end is at most one more than the size of the mapping.\<close>

lemma ancestor_bound:
  assumes "ancestor mapping nid n = None"
  shows "ancestor mapping nid (length mapping + 1) = None"
proof -
  define m where "m = (LEAST n. ancestor mapping nid n = None)"
  have end_m: "ancestor mapping nid m = None"
    unfolding m_def using assms by (rule LeastI)
  have before: "ancestor mapping nid i \<noteq> None" if "i < m" for i
    using not_less_Least that unfolding m_def by blast
  have inj: "inj_on (ancestor mapping nid) {..<m}"
  proof (rule inj_onI, rule ccontr)
    fix i j
    assume ij: "i \<in> {..<m}" "j \<in> {..<m}" "ancestor mapping nid i = ancestor mapping nid j" "i \<noteq> j"
    define a b where "a = min i j" and "b = max i j"
    have "a < b" "b < m" "ancestor mapping nid a = ancestor mapping nid b"
      using ij unfolding a_def b_def by (auto simp: min_def max_def)
    then have "ancestor mapping nid (a + (m - b)) = None"
      using ancestor_add [of mapping nid a b "m - b"] end_m by simp
    moreover have "a + (m - b) < m"
      using \<open>a < b\<close> \<open>b < m\<close> by simp
    ultimately show False using before by blast
  qed
  have "ancestor mapping nid i \<in> Some ` set (map fst mapping)" if "i < m - 1" for i
  proof -
    from that have "ancestor mapping nid (Suc i) \<noteq> None"
      by (intro before) simp
    then obtain x y where "ancestor mapping nid i = Some x" "parent_link mapping x = Some y"
      by (auto split: bind_splits)
    then show ?thesis
      by (force simp: parent_link_def split: bind_splits dest: map_of_SomeD)
  qed
  then have "ancestor mapping nid ` {..<m - 1} \<subseteq> Some ` set (map fst mapping)" by auto
  then have "card (ancestor mapping nid ` {..<m - 1}) \<le> card (Some ` set (map fst mapping))"
    by (intro card_mono) auto
  moreover have "card (ancestor mapping nid ` {..<m - 1}) = m - 1"
    using card_image [OF inj_on_subset [OF inj, of "{..<m - 1}"]] by auto
  moreover have "card (Some ` set (map fst mapping)) \<le> length mapping"
    using card_length [of "map fst mapping"] by (simp add: card_image)
  ultimately have "m \<le> length mapping + 1" by simp
  with end_m show ?thesis by (rule ancestor_None_mono)
qed

section \<open>The walk\<close>

lemma walk_up_ends:
  "ancestor mapping nid n = None \<Longrightarrow> \<exists>r. walk_up mapping nid path = Some r"
proof (induction n arbitrary: nid path)
  case (Suc n)
  then show ?case
    by (subst walk_up.simps)
      (auto simp: ancestor_Suc parent_link_def simp del: ancestor.simps(2) split: option.splits bind_splits)
qed simp

text \<open>The node of an ancestor, if the mapping has it.\<close>

definition ancestor_node ::
    "(string \<times> mapping_node) list \<Rightarrow> string \<Rightarrow> nat \<Rightarrow> mapping_node option" where
  "ancestor_node mapping nid i = Option.bind (ancestor mapping nid i) (map_of mapping)"

lemma ancestor_node_simps [simp]:
  "ancestor_node mapping nid 0 = map_of mapping nid"
  "parent_link mapping nid = Some p \<Longrightarrow> ancestor_node mapping nid (Suc i) = ancestor_node mapping p i"
  "parent_link mapping nid = None \<Longrightarrow> ancestor_node mapping nid (Suc i) = None"
  by (simp_all add: ancestor_node_def ancestor_Suc del: ancestor.simps(2))

text \<open>What a walk that returns has collected.\<close>

definition walked :: "(string \<times> mapping_node) list \<Rightarrow> string \<Rightarrow> mapping_node list \<Rightarrow> bool" where
  "walked mapping nid nodes \<longleftrightarrow>
    map Some nodes = map (ancestor_node mapping nid) [0..<length nodes] \<and>
    ancestor_node mapping nid (length nodes) = None \<and>
    ancestor mapping nid (length nodes + 1) = None"

lemma walked_Nil: "map_of mapping nid = None \<Longrightarrow> walked mapping nid []"
  by (simp add: walked_def parent_link_def)

lemma walked_single:
  "map_of mapping nid = Some node \<Longrightarrow> mn_parent node = None \<Longrightarrow> walked mapping nid [node]"
  by (simp add: walked_def parent_link_def)

lemma walked_Cons:
  assumes "map_of mapping nid = Some node" and "mn_parent node = Some p" and "walked mapping p nodes"
  shows "walked mapping nid (node # nodes)"
proof -
  have link: "parent_link mapping nid = Some p"
    using assms(1,2) by (simp add: parent_link_def)
  have "map (ancestor_node mapping nid) [0..<Suc (length nodes)] =
      map_of mapping nid # map (ancestor_node mapping p) [0..<length nodes]"
    using link by (simp add: upt_conv_Cons map_Suc_upt [symmetric] del: upt_Suc)
  with assms link show ?thesis
    by (simp add: walked_def ancestor_Suc del: ancestor.simps(2) upt_Suc)
qed

lemma walk_up_walked:
  "walk_up mapping nid path = Some r \<Longrightarrow> \<exists>nodes. r = path @ nodes \<and> walked mapping nid nodes"
proof (induction rule: walk_up.raw_induct [rotated 1, consumes 1])
  case (1 rec mapping nid path r)
  show ?case
  proof (cases "map_of mapping nid")
    case None
    with 1 show ?thesis by (auto intro: walked_Nil)
  next
    case (Some node)
    show ?thesis
    proof (cases "mn_parent node")
      case None
      with 1 Some show ?thesis by (auto intro: walked_single)
    next
      case parent: (Some p)
      with 1(2) Some have "rec mapping p (path @ [node]) = Some r" by simp
      from 1(1) [OF this] obtain nodes where "r = path @ node # nodes" "walked mapping p nodes" by auto
      with walked_Cons [OF Some parent] show ?thesis by blast
    qed
  qed
qed

text \<open>
  C25: The path of a conversation: the walk from the current message returns exactly when its
  parent links, followed once more than the mapping has entries, have ended; and then its
  result lists, from the root to the current message, the node of every ancestor.  When the links
  never end, because they run into a cycle, the walk never returns.
\<close>

theorem walk_to_current_spec:
  "case walk_to_current mapping cur of
     None \<Rightarrow> ancestor mapping cur (length mapping + 1) \<noteq> None
   | Some path \<Rightarrow> ancestor mapping cur (length mapping + 1) = None \<and> walked mapping cur (rev path)"
proof (cases "walk_up mapping cur []")
  case None
  then show ?thesis
    using walk_up_ends [of mapping cur "length mapping + 1" "[]"] by (auto simp: walk_to_current_def)
next
  case (Some r)
  then show ?thesis
    using walk_up_walked [OF Some] ancestor_bound [of mapping cur "length r + 1"]
    by (auto simp: walk_to_current_def walked_def simp del: ancestor.simps(2) One_nat_def)
qed

end
