(* ===== verification/Export.thy ===== *)
theory Export
  imports Chatgpt Session
begin

text \<open>
  \<open>src/commands/export.rs\<close> from the built store on: restore the session, fetch the first of the five
  most recent conversations that is accessible, and store it as JSON and as Markdown.  What the
  command prints is its result.
\<close>

text \<open>The loop over the summaries, left at the first conversation that could be fetched.\<close>

fun first_accessible ::
    "'w gpt_env \<Rightarrow> gpt_client \<Rightarrow> conversation_summary list \<Rightarrow>
      ('w, conversation_detail option) io" where
  "first_accessible V client [] = ret None"
| "first_accessible V client (sm # rest) =
    and_then (match_result (get_conversation V client (sm_id sm))) (\<lambda>r.
    (case r of
       Inr d \<Rightarrow> ret (Some d)
     | Inl _ \<Rightarrow> first_accessible V client rest))"

definition export_json_key :: "export_cfg \<Rightarrow> conversation_detail \<Rightarrow> string" where
  "export_json_key cfg detail = ex_prefix cfg @ cd_id detail @ ''.json''"

definition export_md_key :: "export_cfg \<Rightarrow> conversation_detail \<Rightarrow> string" where
  "export_md_key cfg detail = ex_prefix cfg @ cd_id detail @ ''.md''"

definition export_detail ::
    "'w gpt_env \<Rightarrow> export_cfg \<Rightarrow> 'w store \<Rightarrow> conversation_detail \<Rightarrow> ('w, string) io" where
  "export_detail V cfg primary detail =
    (let json_key = export_json_key cfg detail in
     and_then (lift_res (gv_detail_to_vec_pretty V detail)) (\<lambda>json_bytes.
     and_then (with_context (''put '' @ json_key) (st_put primary json_key json_bytes)) (\<lambda>_.
     and_then (lift_res (ok_or OutOfFuel (to_markdown V detail))) (\<lambda>md.
     let md_key = export_md_key cfg detail in
     and_then (with_context (''put '' @ md_key) (st_put primary md_key md)) (\<lambda>_.
     ret (''Exported: '' @ cd_id detail @ '' '' @ em_dash @ '' '' @
       (case cd_title detail of Some t \<Rightarrow> t | None \<Rightarrow> ''Untitled'')))))))"

text \<open>The restore part of the command; it ends with the session state.\<close>

definition export_restore ::
    "'w session_env \<Rightarrow> 'w store \<Rightarrow> identity \<Rightarrow> verifying_key \<Rightarrow> ('w, storage_state) io" where
  "export_restore E primary ident verify_pubkey =
    and_then (with_context ''get latest.json'' (st_get primary LATEST_KEY)) (\<lambda>(pointer_bytes, _).
    and_then (lift_res (res_context ''parse latest.json''
        (from_slice (se_pointer_serde E) pointer_bytes))) (\<lambda>pointer.
    and_then (with_context (''get snapshot '' @ lp_object pointer)
        (st_get primary (lp_object pointer))) (\<lambda>(ciphertext, _).
    and_then (lift_res (verify_digest (se_crypto E) (lp_object_sha256 pointer) ciphertext)) (\<lambda>_.
    and_then (with_context (''get signature '' @ lp_signature_object pointer)
        (st_get primary (lp_signature_object pointer))) (\<lambda>(sig_bytes, _).
    and_then (lift_res (res_context ''signature not utf-8''
        (ok_or (Msg ''invalid utf-8 sequence'') (from_utf8 sig_bytes)))) (\<lambda>sig_text.
    let sig_hex = trim sig_text in
    and_then (lift_res (res_context ''decode signature hex'' (hex_decode (se_crypto E) sig_hex)))
      (\<lambda>sig.
    and_then (lift_res (verify (se_crypto E) verify_pubkey ciphertext sig)) (\<lambda>_.
    and_then (lift_res (decrypt (se_crypto E) ciphertext ident)) (\<lambda>plaintext.
    lift_res (decompress (se_crypto E) (se_state_serde E) plaintext))))))))))"

definition export_session ::
    "'w session_env \<Rightarrow> 'w gpt_env \<Rightarrow> config \<Rightarrow> 'w store \<Rightarrow> identity \<Rightarrow> verifying_key \<Rightarrow> ('w, string) io" where
  "export_session E V cfg primary ident verify_pubkey =
    (let H = ae_http (gv_api V) in
     and_then (export_restore E primary ident verify_pubkey) (\<lambda>state.
     let jar = cookies_to_reqwest_jar H (ss_cookies state) in
     and_then (lift_res (res_context ''build http client'' (http_build H
        \<lparr>hc_jar = jar, hc_user_agent = Some (cn_user_agent (cg_canary cfg)), hc_headers = []\<rparr>)))
      (\<lambda>http.
     let export_cfg = cg_export cfg in
     and_then (gpt_new V http (ex_chatgpt_base_url export_cfg) (ex_rate_limit_delay_ms export_cfg)
        (ex_max_retries export_cfg)) (\<lambda>client.
     and_then (list_conversations V client 0 5) (\<lambda>items.
     if items = [] then ret ''No conversations found.''
     else
       and_then (first_accessible V client items) (\<lambda>detail.
       (case detail of
          None \<Rightarrow> ret ''No accessible conversations found in the first 5.''
        | Some d \<Rightarrow> export_detail V export_cfg primary d)))))))"

end
