(* ===== verification/Session_Facts.thy ===== *)
theory Session_Facts
  imports Session
begin

text \<open>
  What the commands promise, stated once: \<open>published\<close> says that \<open>latest.json\<close> names a snapshot
  that passes every check and opens to a given state.  Restoring and verifying succeed exactly on
  such a store, saving and seeding establish it, and only the closing compare-and-swap of a run
  moves the pointer.
\<close>

section \<open>The specification\<close>

definition published ::
    "'w session_env \<Rightarrow> 'w objects \<Rightarrow> identity \<Rightarrow> verifying_key \<Rightarrow> 'w \<Rightarrow> restored \<Rightarrow> bool" where
  "published E objs ident vk w rd \<longleftrightarrow>
    (\<exists>pb ct sb sig_text sig z.
      objs w LATEST_KEY = Some (pb, rd_pointer_etag rd) \<and>
      from_slice (se_pointer_serde E) pb = Inr (rd_pointer rd) \<and>
      body_at objs (lp_object (rd_pointer rd)) w = Some ct \<and>
      sha256_hex (se_crypto E) ct = lp_object_sha256 (rd_pointer rd) \<and>
      body_at objs (lp_signature_object (rd_pointer rd)) w = Some sb \<and>
      from_utf8 sb = Some sig_text \<and> hex_decode (se_crypto E) (trim sig_text) = Inr sig \<and>
      verify (se_crypto E) vk ct sig = Inr () \<and>
      decrypt (se_crypto E) ct ident = Inr z \<and>
      decompress (se_crypto E) (se_state_serde E) z = Inr (rd_state rd))"

text \<open>A store whose reads of existing objects are answered.\<close>

definition readable :: "'w store \<Rightarrow> 'w objects \<Rightarrow> bool" where
  "readable st objs \<longleftrightarrow>
    (\<forall>k w b e. objs w k = Some (b, e) \<longrightarrow> fst (st_get st k w) = Inr (b, e))"

locale session_site = snapshot_store st objs for st :: "'w store" and objs :: "'w objects" +
  fixes E :: "'w session_env" and mirrors :: "'w store list"
  assumes mirrors_keep: "m \<in> set mirrors \<Longrightarrow> keeps objs (st_put m k b)"
    and clock: "keeps objs (utc_now (se_chrono E))"
    and sealing: "keeps objs (age_wrap_output (se_crypto E) x)"
    and network: "api_env_keeps (se_api E) objs"
    and chromium: "chromium_keeps (se_chromium E) objs"

context session_site begin

lemma site_of_ctx:
  "chats_site st objs (se_chats E)
    \<lparr>wx_http = http, wx_primary = st, wx_mirrors = mirrors, wx_recipient = r, wx_identity = i\<rparr>"
  by unfold_locales
    (auto simp: se_chats_def intro: mirrors_keep clock sealing network)

lemma fanout_keeps: "keeps objs (fanout mirrors k b)"
  by (intro keeps_intros mirrors_keep)

lemma chromium_rules:
  "keeps objs (ch_create_dir_all (se_chromium E) d)" "keeps objs (ch_launch (se_chromium E) c)"
  "keeps objs (ch_get_cookies (se_chromium E) b)" "keeps objs (ch_clear_cookies (se_chromium E) b)"
  "keeps objs (ch_set_cookies (se_chromium E) b ps)" "keeps objs (ch_get_targets (se_chromium E) b)"
  "keeps objs (ch_listen (se_chromium E) b ev)" "keeps objs (ch_new_page (se_chromium E) b u)"
  "keeps objs (ch_add_script (se_chromium E) p s)" "keeps objs (ch_goto (se_chromium E) p u)"
  "keeps objs (ch_close (se_chromium E) b)" "keeps objs (ch_wait (se_chromium E) b)"
  using chromium by (auto simp: chromium_keeps_def)

lemma launch_keeps: "keeps objs (launch (se_chromium E) bin dir hl)"
  unfolding launch_def Let_def by (intro keeps_intros chromium_rules)

lemma import_keeps: "keeps objs (import_storage_state (se_chromium E) s state)"
  unfolding import_storage_state_def Let_def by (intro keeps_intros chromium_rules)

lemma export_keeps: "keeps objs (export_storage_state (se_chromium E) s)"
  unfolding export_storage_state_def export_cookies_def by (intro keeps_intros chromium_rules)

lemma close_keeps: "keeps objs (close_session (se_chromium E) s)"
  unfolding close_session_def by (intro keeps_intros chromium_rules)

lemma http_keeps: "http_keeps (ae_http (se_api E)) objs"
  using network by (simp add: api_env_keeps_def)

lemma encrypt_keeps: "keeps objs (encrypt (se_crypto E) p r)"
  by (rule keeps_encrypt) (rule sealing)

end

section \<open>restore\<close>

context snapshot_store begin

lemma restore_keeps: "keeps objs (restore E st ident vk)"
  unfolding restore_def Let_def by (intro keeps_intros get_keeps)

lemma verify_keeps: "keeps objs (verify_snapshot E fmt st ident vk)"
  unfolding verify_snapshot_def Let_def by (intro keeps_intros get_keeps)

lemma restore_sound:
  assumes "restore E st ident vk w = (Inr rd, w')"
  shows "published E objs ident vk w rd"
proof -
  from assms obtain pb pe w1 ct ce w2 sb se w3 sig_text sig z where
    g1: "st_get st LATEST_KEY w = (Inr (pb, pe), w1)"
    and p: "from_slice (se_pointer_serde E) pb = Inr (rd_pointer rd)" "rd_pointer_etag rd = pe"
    and g2: "st_get st (lp_object (rd_pointer rd)) w1 = (Inr (ct, ce), w2)"
    and d: "sha256_hex (se_crypto E) ct = lp_object_sha256 (rd_pointer rd)"
    and g3: "st_get st (lp_signature_object (rd_pointer rd)) w2 = (Inr (sb, se), w3)"
    and s: "from_utf8 sb = Some sig_text" "hex_decode (se_crypto E) (trim sig_text) = Inr sig"
      "verify (se_crypto E) vk ct sig = Inr ()"
    and z: "decrypt (se_crypto E) ct ident = Inr z"
      "decompress (se_crypto E) (se_state_serde E) z = Inr (rd_state rd)"
    unfolding restore_def Let_def by (auto elim!: io_elims split: prod.splits)
  have "objs w1 = objs w" "objs w2 = objs w"
    using keepsD [OF get_keeps g1] keepsD [OF get_keeps g2] by simp_all
  with get_ok [OF g1] get_ok [OF g2] get_ok [OF g3] p d s z show ?thesis
    by (auto simp: published_def body_at_def)
qed

lemma restore_complete:
  assumes "readable st objs" and "published E objs ident vk w rd"
  shows "\<exists>w'. restore E st ident vk w = (Inr rd, w')"
proof -
  let ?p = "rd_pointer rd"
  from assms(2) obtain pb ct ce sb se sig_text sig z where
    o: "objs w LATEST_KEY = Some (pb, rd_pointer_etag rd)" "objs w (lp_object ?p) = Some (ct, ce)"
      "objs w (lp_signature_object ?p) = Some (sb, se)"
    and c: "from_slice (se_pointer_serde E) pb = Inr ?p"
      "sha256_hex (se_crypto E) ct = lp_object_sha256 ?p" "from_utf8 sb = Some sig_text"
      "hex_decode (se_crypto E) (trim sig_text) = Inr sig" "verify (se_crypto E) vk ct sig = Inr ()"
      "decrypt (se_crypto E) ct ident = Inr z"
      "decompress (se_crypto E) (se_state_serde E) z = Inr (rd_state rd)"
    unfolding published_def body_at_def by auto
  have read: "\<exists>v'. st_get st k v = (Inr (b, e), v') \<and> objs v' = objs v"
    if "objs v k = Some (b, e)" for v k b e
    using assms(1) that keeps_snd [OF get_keeps, of k v] unfolding readable_def
    by (metis prod.collapse)
  obtain w1 where w1: "st_get st LATEST_KEY w = (Inr (pb, rd_pointer_etag rd), w1)" "objs w1 = objs w"
    using read o(1) by blast
  obtain w2 where w2: "st_get st (lp_object ?p) w1 = (Inr (ct, ce), w2)" "objs w2 = objs w"
    using read [of w1] o(2) w1(2) by metis
  obtain w3 where w3: "st_get st (lp_signature_object ?p) w2 = (Inr (sb, se), w3)"
    using read [of w2] o(3) w2(2) by metis
  note step = and_then_with_context [where m = "st_get st _"]
  show ?thesis
    by (simp add: restore_def Let_def step [OF w1(1)] step [OF w2(1)] step [OF w3]
        verify_digest_def ensure_def res_context_def ok_or_def c ret_def)
qed

end

section \<open>save\<close>

definition CAS_context :: string where
  "CAS_context = ''CAS update of latest.json (someone else wrote concurrently?)''"

lemma snapshot_keys_differ [simp]:
  "snapshot_sig_key a \<noteq> snapshot_key a"
  "snapshot_key a \<noteq> snapshot_sig_key a"
  "snapshot_key a \<noteq> LATEST_KEY" "LATEST_KEY \<noteq> snapshot_key a"
  "snapshot_sig_key a \<noteq> LATEST_KEY" "LATEST_KEY \<noteq> snapshot_sig_key a"
  "snapshot_key a \<noteq> LOCK_KEY" "LOCK_KEY \<noteq> snapshot_key a"
  "snapshot_sig_key a \<noteq> LOCK_KEY" "LOCK_KEY \<noteq> snapshot_sig_key a"
  by (auto simp: snapshot_key_def snapshot_sig_key_def LATEST_KEY_def LOCK_KEY_def)

text \<open>The keys and codecs of a deployment fit together.\<close>

definition codecs_ok ::
    "'w session_env \<Rightarrow> identity \<Rightarrow> recipient \<Rightarrow> signing_key \<Rightarrow> verifying_key \<Rightarrow> bool" where
  "codecs_ok E ident recip sk vk \<longleftrightarrow>
    age_key_pair (se_crypto E) ident recip \<and> ed_key_pair (se_crypto E) sk vk \<and>
    hex_codec (se_crypto E) \<and> zstd_codec (se_crypto E) \<and>
    (\<forall>p. serde_ok (se_pointer_serde E) p) \<and> (\<forall>s. serde_ok (se_state_serde E) s)"

text \<open>What the last steps of \<open>save\<close> and of \<open>seed\<close> leave behind.\<close>

lemma publishedI:
  assumes codecs: "codecs_ok E ident recip sk vk"
    and z: "compress (se_crypto E) (se_state_serde E) state = Inr z"
    and enc: "encrypt (se_crypto E) z recip w = (Inr ct, w1)"
    and p: "to_vec_pretty (se_pointer_serde E) p = Inr pb"
      "lp_object_sha256 p = sha256_hex (se_crypto E) ct"
    and o: "objs v LATEST_KEY = Some (pb, tag)" "body_at objs (lp_object p) v = Some ct"
      "body_at objs (lp_signature_object p) v =
        Some (hex_encode (se_crypto E) (sign (se_crypto E) sk ct))"
  shows "published E objs ident vk v \<lparr>rd_pointer = p, rd_pointer_etag = tag, rd_state = state\<rparr>"
proof -
  have "from_slice (se_pointer_serde E) pb = Inr p"
    using codecs p(1) by (auto simp: codecs_ok_def intro: serde_to_vec_pretty)
  moreover have "decrypt (se_crypto E) ct ident = Inr z"
    using codecs enc by (auto simp: codecs_ok_def intro: decrypt_encrypt)
  moreover have "decompress (se_crypto E) (se_state_serde E) z = Inr state"
    using codecs z by (auto simp: codecs_ok_def intro: decompress_compress)
  moreover have "verify (se_crypto E) vk ct (sign (se_crypto E) sk ct) = Inr ()"
    using codecs by (auto simp: codecs_ok_def intro: verify_sign)
  ultimately show ?thesis
    using p(2) o hex_text_roundtrip [of "se_crypto E"] codecs
    by (auto simp: published_def codecs_ok_def)
qed

lemma published_cong:
  assumes "published E objs ident vk w rd"
    and "body_at objs LATEST_KEY w' = body_at objs LATEST_KEY w"
    and "body_at objs (lp_object (rd_pointer rd)) w' = body_at objs (lp_object (rd_pointer rd)) w"
    and "body_at objs (lp_signature_object (rd_pointer rd)) w' =
      body_at objs (lp_signature_object (rd_pointer rd)) w"
  shows "\<exists>tag. published E objs ident vk w' (rd\<lparr>rd_pointer_etag := tag\<rparr>)"
proof -
  from assms(1) obtain pb where "objs w LATEST_KEY = Some (pb, rd_pointer_etag rd)"
    by (auto simp: published_def)
  with assms(2) obtain tag where "objs w' LATEST_KEY = Some (pb, tag)"
    by (cases "objs w' LATEST_KEY") (auto simp: body_at_def)
  with assms \<open>objs w LATEST_KEY = _\<close> show ?thesis
    by (intro exI [of _ tag]) (auto simp: published_def)
qed

text \<open>The pointer \<open>save\<close> writes, and the steps of a save that returned.\<close>

definition snapshot_pointer ::
    "'w session_env \<Rightarrow> string \<Rightarrow> bytes \<Rightarrow> datetime \<Rightarrow> latest_pointer" where
  "snapshot_pointer E ts ct now =
    \<lparr>lp_version = ts, lp_object = snapshot_key ts, lp_object_sha256 = sha256_hex (se_crypto E) ct,
     lp_signature_object = snapshot_sig_key ts, lp_created_at = now, lp_format = StorageStateV1\<rparr>"

lemma snapshot_pointer_simps [simp]:
  "lp_version (snapshot_pointer E ts ct now) = ts"
  "lp_object (snapshot_pointer E ts ct now) = snapshot_key ts"
  "lp_object_sha256 (snapshot_pointer E ts ct now) = sha256_hex (se_crypto E) ct"
  "lp_signature_object (snapshot_pointer E ts ct now) = snapshot_sig_key ts"
  "lp_created_at (snapshot_pointer E ts ct now) = now"
  by (simp_all add: snapshot_pointer_def)

lemma save_steps:
  assumes "save E st mirrors recip sk state prev tag w = (Inr ts, w')"
  obtains z ct w1 now w2 r1 w3 r2 w4 pb r3 w5 w6 w7 where
    "compress (se_crypto E) (se_state_serde E) state = Inr z"
    and "encrypt (se_crypto E) z recip w = (Inr ct, w1)"
    and "utc_now (se_chrono E) w1 = (now, w2)" and "ts = format_compact (se_chrono E) now"
    and "lp_created_at prev < now"
    and "st_put st (snapshot_key ts) ct w2 = (Inr r1, w3)"
    and "st_put st (snapshot_sig_key ts)
      (hex_encode (se_crypto E) (sign (se_crypto E) sk ct)) w3 = (Inr r2, w4)"
    and "to_vec_pretty (se_pointer_serde E) (snapshot_pointer E ts ct now) = Inr pb"
    and "st_put_if_unmodified st LATEST_KEY pb (Some tag) w4 = (Inr r3, w5)"
    and "fanout mirrors (snapshot_key ts) ct w5 = (Inr () :: unit res, w6)"
    and "fanout mirrors (snapshot_sig_key ts) (hex_encode (se_crypto E) (sign (se_crypto E) sk ct)) w6 =
        (Inr () :: unit res, w7)"
    and "fanout mirrors LATEST_KEY pb w7 = (Inr () :: unit res, w')"
  using assms unfolding save_def Let_def snapshot_pointer_def [symmetric]
  by (auto elim!: io_elims)

context session_site begin

lemma save_published:
  assumes codecs: "codecs_ok E ident recip sk vk"
    and z: "compress (se_crypto E) (se_state_serde E) state = Inr z"
    and enc: "encrypt (se_crypto E) z recip w = (Inr ct, w1)"
    and put1: "st_put st (snapshot_key ts) ct w2 = (Inr r1, w3)"
    and put2: "st_put st (snapshot_sig_key ts)
      (hex_encode (se_crypto E) (sign (se_crypto E) sk ct)) w3 = (Inr r2, w4)"
    and pb: "to_vec_pretty (se_pointer_serde E) (snapshot_pointer E ts ct now) = Inr pb"
    and same: "objs v4 = objs w4"
    and cas: "st_put_if_unmodified st LATEST_KEY pb x v4 = (Inr r3, w5)"
    and fan: "fanout mirrors (snapshot_key ts) ct w5 = (Inr () :: unit res, w6)"
      "fanout mirrors (snapshot_sig_key ts) (hex_encode (se_crypto E) (sign (se_crypto E) sk ct)) w6 =
        (Inr () :: unit res, w7)"
      "fanout mirrors LATEST_KEY pb w7 = (Inr () :: unit res, w')"
  shows "published E objs ident vk w'
    \<lparr>rd_pointer = snapshot_pointer E ts ct now, rd_pointer_etag = pr_etag r3, rd_state = state\<rparr>"
proof -
  have objs: "objs w' = objs w5"
    using keepsD [OF fanout_keeps fan(1)] keepsD [OF fanout_keeps fan(2)]
      keepsD [OF fanout_keeps fan(3)] by simp
  have "body_at objs (snapshot_key ts) w5 = Some ct"
    using keepsD [OF cas_frame cas, of "snapshot_key ts"]
      keepsD [OF put_frame put2, of "snapshot_key ts"] put_ok [OF put1] same
    by (simp add: body_at_def)
  moreover have "body_at objs (snapshot_sig_key ts) w5 =
      Some (hex_encode (se_crypto E) (sign (se_crypto E) sk ct))"
    using keepsD [OF cas_frame cas, of "snapshot_sig_key ts"] put_ok [OF put2] same
    by (simp add: body_at_def)
  moreover have "objs w' LATEST_KEY = Some (pb, pr_etag r3)"
    using cas_ok [OF cas] objs by simp
  ultimately show ?thesis
    using objs by (intro publishedI [OF codecs z enc pb]) (simp_all add: body_at_def)
qed

lemma save_ok:
  assumes codecs: "codecs_ok E ident recip sk vk"
    and ok: "save E st mirrors recip sk state prev tag w = (Inr ts, w')"
  shows "\<exists>rd. published E objs ident vk w' rd \<and> rd_state rd = state \<and>
    lp_version (rd_pointer rd) = ts \<and> lp_object (rd_pointer rd) = snapshot_key ts \<and>
    lp_signature_object (rd_pointer rd) = snapshot_sig_key ts \<and>
    lp_created_at prev < lp_created_at (rd_pointer rd)"
proof -
  from ok obtain z ct w1 now w2 r1 w3 r2 w4 pb r3 w5 w6 w7 where
    mono: "lp_created_at prev < now"
    and z: "compress (se_crypto E) (se_state_serde E) state = Inr z"
    and enc: "encrypt (se_crypto E) z recip w = (Inr ct, w1)"
    and put1: "st_put st (snapshot_key ts) ct w2 = (Inr r1, w3)"
    and put2: "st_put st (snapshot_sig_key ts)
      (hex_encode (se_crypto E) (sign (se_crypto E) sk ct)) w3 = (Inr r2, w4)"
    and pb: "to_vec_pretty (se_pointer_serde E) (snapshot_pointer E ts ct now) = Inr pb"
    and cas: "st_put_if_unmodified st LATEST_KEY pb (Some tag) w4 = (Inr r3, w5)"
    and fan: "fanout mirrors (snapshot_key ts) ct w5 = (Inr () :: unit res, w6)"
      "fanout mirrors (snapshot_sig_key ts) (hex_encode (se_crypto E) (sign (se_crypto E) sk ct)) w6 =
        (Inr () :: unit res, w7)"
      "fanout mirrors LATEST_KEY pb w7 = (Inr () :: unit res, w')"
    by (rule save_steps)
  from save_published [OF codecs z enc put1 put2 pb refl cas fan] mono show ?thesis
    by (intro exI) (rule conjI, assumption, simp)
qed

lemma save_moves_pointer:
  "moves_only (body_at objs LATEST_KEY)
    (\<lambda>r. (\<exists>ts. r = Inr ts) \<or> (\<exists>e. r = Inl (Ctx CAS_context e)))
    (save E st mirrors recip sk state prev tag)"
  unfolding save_def Let_def CAS_context_def [symmetric]
  by (intro moves_only_bind moves_only_last keeps_intros keeps_body [OF encrypt_keeps]
      keeps_body [OF clock] put_frame)
    (auto simp: and_then_def ret_def fanout_fold)

end

section \<open>The locked part\<close>

context session_site begin

lemma build_workload_keeps:
  assumes "build_workload E pages wcfg = Inr (nm, workload)" and "\<And>c. k \<notin> chats_keys c"
  shows "keeps (body_at objs k) (workload \<lparr>wx_http = http, wx_primary = st, wx_mirrors = mirrors,
    wx_recipient = r, wx_identity = i\<rparr>)"
  using assms
  by (auto simp: build_workload_def split: workload_cfg.splits
      intro!: chats_site.chats_run_frame [OF site_of_ctx])

lemma run_workloads_keeps:
  assumes "\<And>c. k \<notin> chats_keys c"
  shows "keeps (body_at objs k) (run_workloads E pages \<lparr>wx_http = http, wx_primary = st,
    wx_mirrors = mirrors, wx_recipient = r, wx_identity = i\<rparr> ws)"
proof (induction ws)
  case Nil
  then show ?case by (simp add: keeps_ret)
next
  case (Cons wcfg ws)
  have "keeps (body_at objs k) (and_then (with_context (''workload '' @ fst b)
      (snd b \<lparr>wx_http = http, wx_primary = st, wx_mirrors = mirrors, wx_recipient = r,
        wx_identity = i\<rparr>)) (\<lambda>_. run_workloads E pages \<lparr>wx_http = http, wx_primary = st,
        wx_mirrors = mirrors, wx_recipient = r, wx_identity = i\<rparr> ws))"
    if "build_workload E pages wcfg = Inr b" for b
    using that build_workload_keeps [OF _ assms] Cons.IH
    by (cases b) (auto intro!: keeps_intros)
  then show ?case
    by (cases "build_workload E pages wcfg") (auto simp: keeps_fail split: prod.splits)
qed

text \<open>
  The pointer moves only together with a saved outcome, or with the error of the compare-and-swap
  itself, whose request may have been carried out.
\<close>

lemma run_locked_moves_pointer:
  "moves_only (body_at objs LATEST_KEY)
    (\<lambda>r. (\<exists>ts. r = Inr (Saved ts)) \<or> (\<exists>e. r = Inl (Ctx CAS_context e)))
    (run_locked E cfg pages st mirrors ident recip sk vk)"
proof -
  have "moves_only (body_at objs LATEST_KEY)
      (\<lambda>r. (\<exists>ts. r = Inr (Saved ts)) \<or> (\<exists>e. r = Inl (Ctx CAS_context e)))
      (and_then (save E st mirrors recip sk state prev tag) (\<lambda>v. ret (Saved v)))" for state prev tag
    by (rule moves_only_result [OF save_moves_pointer]) auto
  note saving = this
  have work: "keeps (body_at objs LATEST_KEY)
      (run_workloads E pages \<lparr>wx_http = http, wx_primary = st, wx_mirrors = mirrors,
        wx_recipient = recip, wx_identity = ident\<rparr> ws)" for http ws
    by (rule run_workloads_keeps) (rule LATEST_not_chats)
  show ?thesis
    unfolding run_locked_def Let_def
    by (intro saving moves_only_bind moves_only_if keeps_body [OF restore_keeps] work
        keeps_body [OF launch_keeps] keeps_body [OF import_keeps] keeps_lift_res
        keeps_body [OF keeps_check [OF http_keeps]] keeps_body [OF export_keeps]
        keeps_body [OF close_keeps] moves_only_keeps [OF keeps_fail] moves_only_keeps [OF keeps_ret]
        keeps_attempt)
qed

lemma run_locked_saved:
  assumes codecs: "codecs_ok E ident recip sk vk"
    and ok: "run_locked E cfg pages st mirrors ident recip sk vk w = (Inr (Saved ts), w')"
  shows "\<exists>old new. published E objs ident vk w old \<and> published E objs ident vk w' new \<and>
    lp_created_at (rd_pointer old) < lp_created_at (rd_pointer new) \<and>
    lp_version (rd_pointer new) = ts \<and> ss_cookies (rd_state new) \<noteq> [] \<and>
    lp_object (rd_pointer new) = snapshot_key ts \<and>
    lp_signature_object (rd_pointer new) = snapshot_sig_key ts"
proof -
  from ok obtain prev w1 v state where
    "restore E st ident vk w = (Inr prev, w1)" and "ss_cookies state \<noteq> []"
    and "save E st mirrors recip sk state (rd_pointer prev) (rd_pointer_etag prev) v = (Inr ts, w')"
    unfolding run_locked_def Let_def by (auto elim!: io_elims split: if_splits)
  with restore_sound save_ok [OF codecs] show ?thesis
    by metis
qed

end

section \<open>The run under its lock\<close>

lemma match_result_cases:
  assumes "match_result m w = (r, w')"
  shows "(\<exists>e. r = Inl e \<and> m w = (Inl e, w') \<and> unwinds e) \<or> (\<exists>x. r = Inr x \<and> m w = (x, w'))"
  using assms
  by (auto simp: match_result_def and_then_def attempt_def ret_def fail_def
      split: prod.splits sum.splits if_splits)

lemma health_key_other:
  "health_key K r \<noteq> LATEST_KEY" "health_key K r \<noteq> LOCK_KEY" "health_key K r \<noteq> snapshot_key ts"
  "health_key K r \<noteq> snapshot_sig_key ts"
  by (simp_all add: health_key_def LATEST_KEY_def LOCK_KEY_def snapshot_key_def snapshot_sig_key_def)

definition outcome_reported :: "outcome res \<Rightarrow> unit res \<Rightarrow> bool" where
  "outcome_reported res r \<longleftrightarrow>
    (case res of
       Inr (Saved ts) \<Rightarrow> r = Inr ()
     | Inr (CanaryFailed c obs) \<Rightarrow> (\<exists>e. r = Inl (Msg e))
     | Inl e \<Rightarrow> r = Inl e)"

lemma outcome_reported_Inr: "outcome_reported res (Inr u) \<Longrightarrow> \<exists>ts. res = Inr (Saved ts)"
  by (auto simp: outcome_reported_def split: sum.splits outcome.splits)

lemma and_then_total:
  assumes "\<And>w. \<exists>x. fst (m w) = Inr x" and "\<And>x w. Q (fst (f x w))"
  shows "Q (fst (and_then m f w))"
proof -
  obtain x w' where "m w = (Inr x, w')"
    using assms(1) by (metis prod.collapse)
  with assms(2) show ?thesis
    by (simp add: and_then_def)
qed

lemma conclude_run_reports: "outcome_reported res (fst (conclude_run E run_id st started g res w))"
  unfolding conclude_run_def
  by (intro and_then_total [where Q = "outcome_reported res"])
    (auto simp: attempt_result health_write_total outcome_reported_def ret_def fail_def effect_def
      health_ok_def health_canary_failed_def health_error_def and_then_def
      split: sum.splits outcome.splits prod.splits)

text \<open>The world in which a run holds its lock and starts its locked part.\<close>

definition lock_taken :: "'w session_env \<Rightarrow> config \<Rightarrow> 'w store \<Rightarrow> string \<Rightarrow> 'w \<Rightarrow> 'w option" where
  "lock_taken E cfg st run_id w =
    (case acquire (se_chrono E) (se_lock_serde E) st run_id (cg_lock_ttl_seconds cfg)
        (snd (utc_now (se_chrono E) w)) of
       (Inr g, v) \<Rightarrow> Some v
     | (Inl e, v) \<Rightarrow> None)"

context session_site begin

lemma conclude_run_body:
  assumes "lg_store g = st" and "k \<noteq> LOCK_KEY" and "\<not> prefix ''health/'' k"
  shows "keeps (body_at objs k) (conclude_run E run_id st started g res)"
proof -
  have "keeps (body_at objs k) (health_write (se_chrono E) J st rc)" for J rc
    using assms(3) health_key_prefix [of "se_chrono E" rc]
    by (intro health_write_keeps put_frame) auto
  then show ?thesis
    unfolding conclude_run_def health_ok_def health_canary_failed_def health_error_def
    using assms(1,2)
    by (auto intro!: keeps_intros keeps_body [OF clock] release_frame
        split: sum.splits outcome.splits)
qed

text \<open>A run is the locked part between steps that touch the lock and the health log only.\<close>

lemma run_session_split:
  assumes "run_session E cfg pages run_id st mirrors ident recip sk vk w = (r, w')"
  obtains (early) e where "r = Inl e" and "\<And>k. k \<noteq> LOCK_KEY \<Longrightarrow> body_at objs k w' = body_at objs k w"
  | (unwound) e v where "r = Inl e" and "\<And>k. k \<noteq> LOCK_KEY \<Longrightarrow> body_at objs k v = body_at objs k w"
      and "run_locked E cfg pages st mirrors ident recip sk vk v = (Inl e, w')"
      and "lock_taken E cfg st run_id w = Some v"
  | (locked) res v v' where
      "\<And>k. k \<noteq> LOCK_KEY \<Longrightarrow> body_at objs k v = body_at objs k w"
      and "run_locked E cfg pages st mirrors ident recip sk vk v = (res, v')"
      and "\<And>k. k \<noteq> LOCK_KEY \<Longrightarrow> \<not> prefix ''health/'' k \<Longrightarrow> body_at objs k w' = body_at objs k v'"
      and "outcome_reported res r"
      and "lock_taken E cfg st run_id w = Some v"
proof -
  let ?K = "se_chrono E"
  obtain started w1 where now: "utc_now ?K w = (started, w1)" by fastforce
  obtain a w2 where acq:
    "acquire ?K (se_lock_serde E) st run_id (cg_lock_ttl_seconds cfg) w1 = (a, w2)" by fastforce
  have before: "body_at objs k w2 = body_at objs k w" if "k \<noteq> LOCK_KEY" for k
    using keepsD [OF keeps_body [OF clock] now, of k]
      keepsD [OF acquire_frame [OF clock that] acq] by simp
  have start: "and_then (effect (utc_now ?K)) f w = f started w1"
    for f :: "datetime \<Rightarrow> ('w, unit) io"
    by (simp add: and_then_def effect_def now)
  show thesis
  proof (cases a)
    case (Inl e)
    with assms have "r = Inl e" "w' = w2"
      unfolding run_session_def
      by (simp_all add: start and_then_Inl [where m = "acquire _ _ _ _ _", OF acq [unfolded Inl]])
    with early before show thesis by blast
  next
    case (Inr guard)
    note acq = acq [unfolded Inr]
    have own: "lg_store guard = st"
      using acquire_taken [OF clock acq] by blast
    have taken: "lock_taken E cfg st run_id w = Some w2"
      by (simp add: lock_taken_def now acq)
    obtain m w3 where m: "match_result (run_locked E cfg pages st mirrors ident recip sk vk) w2 =
        (m, w3)" by fastforce
    from match_result_cases [OF m] show thesis
    proof (elim disjE exE conjE)
      fix e
      assume e: "m = Inl e" and "run_locked E cfg pages st mirrors ident recip sk vk w2 = (Inl e, w3)"
      moreover have "r = Inl e" "w' = w3"
        using assms unfolding run_session_def
        by (simp_all add: start and_then_Inr [where m = "acquire _ _ _ _ _", OF acq]
            and_then_Inl [where m = "match_result _", OF m [unfolded e]])
      ultimately show thesis
        using unwound before taken by blast
    next
      fix res
      assume x: "m = Inr res" and run: "run_locked E cfg pages st mirrors ident recip sk vk w2 = (res, w3)"
      have end_: "conclude_run E run_id st started guard res w3 = (r, w')"
        using assms unfolding run_session_def
        by (simp add: start and_then_Inr [where m = "acquire _ _ _ _ _", OF acq]
            and_then_Inr [where m = "match_result _", OF m [unfolded x]])
      have "outcome_reported res r"
        using conclude_run_reports [of res E run_id st started guard w3] end_ by simp
      with before run keepsD [OF conclude_run_body [OF own] end_] taken show thesis
        using locked by blast
    qed
  qed
qed

text \<open>
  A run that returned \<open>Ok\<close> restored a session that passed every check, and left one behind that
  does, newer and with cookies.
\<close>

lemma run_session_ok:
  assumes codecs: "codecs_ok E ident recip sk vk"
    and ok: "run_session E cfg pages run_id st mirrors ident recip sk vk w = (Inr (), w')"
  shows "\<exists>pb p new. body_at objs LATEST_KEY w = Some pb \<and> from_slice (se_pointer_serde E) pb = Inr p \<and>
    published E objs ident vk w' new \<and> lp_created_at p < lp_created_at (rd_pointer new) \<and>
    ss_cookies (rd_state new) \<noteq> []"
  using ok
proof (cases rule: run_session_split)
  case (locked res v v')
  from outcome_reported_Inr [OF locked(4)] obtain ts where "res = Inr (Saved ts)" ..
  with run_locked_saved [OF codecs] locked(2) obtain old new where
    old: "published E objs ident vk v old" and new: "published E objs ident vk v' new"
    and facts: "lp_created_at (rd_pointer old) < lp_created_at (rd_pointer new)"
      "ss_cookies (rd_state new) \<noteq> []"
    and keys: "lp_object (rd_pointer new) = snapshot_key ts"
      "lp_signature_object (rd_pointer new) = snapshot_sig_key ts" by blast
  have "\<not> prefix ''health/'' (snapshot_key ts)" "\<not> prefix ''health/'' (snapshot_sig_key ts)"
    "\<not> prefix ''health/'' LATEST_KEY"
    by (simp_all add: snapshot_key_def snapshot_sig_key_def LATEST_KEY_def)
  then obtain tag where "published E objs ident vk w' (new\<lparr>rd_pointer_etag := tag\<rparr>)"
    using published_cong [OF new, of w'] locked(3) keys by auto
  moreover from old obtain pb where "body_at objs LATEST_KEY v = Some pb"
    "from_slice (se_pointer_serde E) pb = Inr (rd_pointer old)"
    by (auto simp: published_def body_at_def)
  ultimately show ?thesis
    using facts locked(1) [of LATEST_KEY] by auto
qed auto

text \<open>A run that returned an error has not moved the pointer, unless the error is the compare-and-swap's.\<close>

lemma run_session_pointer:
  assumes "run_session E cfg pages run_id st mirrors ident recip sk vk w = (r, w')"
  shows "body_at objs LATEST_KEY w' = body_at objs LATEST_KEY w \<or> r = Inr () \<or>
    (\<exists>e. r = Inl (Ctx CAS_context e))"
  using assms
proof (cases rule: run_session_split)
  case (unwound e v)
  with moves_onlyD [OF run_locked_moves_pointer unwound(3)] show ?thesis by auto
next
  case (locked res v v')
  have "\<not> prefix ''health/'' LATEST_KEY"
    by (simp add: LATEST_KEY_def)
  with locked moves_onlyD [OF run_locked_moves_pointer locked(2)] show ?thesis
    by (auto simp: outcome_reported_def)
qed auto

end

section \<open>verify and seed\<close>

lemma verify_restore:
  "verify_snapshot E fmt st ident vk =
    and_then (restore E st ident vk) (\<lambda>rd. ret (''OK version='' @ lp_version (rd_pointer rd) @
      '' cookies='' @ show_nat (length (ss_cookies (rd_state rd))) @ '' created_at='' @
      fmt (lp_created_at (rd_pointer rd))))"
  by (simp add: verify_snapshot_def restore_def Let_def and_then_assoc case_prod_unfold)

context session_site begin

lemma seed_upload_ok:
  assumes codecs: "codecs_ok E ident recip sk vk"
    and ok: "seed_upload E st mirrors recip sk state w = (Inr (), w')"
  shows "ss_cookies state \<noteq> [] \<and> (\<exists>rd. published E objs ident vk w' rd \<and> rd_state rd = state \<and>
    lp_version (rd_pointer rd) = format_compact (se_chrono E) (lp_created_at (rd_pointer rd)) \<and>
    lp_object (rd_pointer rd) = snapshot_key (lp_version (rd_pointer rd)) \<and>
    lp_signature_object (rd_pointer rd) = snapshot_sig_key (lp_version (rd_pointer rd)))"
proof -
  from ok obtain z ct w1 now w2 r1 w3 r2 w4 pb h w5 r3 w6 w7 w8 where
    cookies: "ss_cookies state \<noteq> []"
    and z: "compress (se_crypto E) (se_state_serde E) state = Inr z"
    and enc: "encrypt (se_crypto E) z recip w = (Inr ct, w1)"
    and put1: "st_put st (snapshot_key (format_compact (se_chrono E) now)) ct w2 = (Inr r1, w3)"
    and put2: "st_put st (snapshot_sig_key (format_compact (se_chrono E) now))
      (hex_encode (se_crypto E) (sign (se_crypto E) sk ct)) w3 = (Inr r2, w4)"
    and pb: "to_vec_pretty (se_pointer_serde E)
      (snapshot_pointer E (format_compact (se_chrono E) now) ct now) = Inr pb"
    and head: "st_head st LATEST_KEY w4 = (Inr h, w5)"
    and cas: "st_put_if_unmodified st LATEST_KEY pb h w5 = (Inr r3, w6)"
    and fan: "fanout mirrors (snapshot_key (format_compact (se_chrono E) now)) ct w6 =
        (Inr () :: unit res, w7)"
      "fanout mirrors (snapshot_sig_key (format_compact (se_chrono E) now))
        (hex_encode (se_crypto E) (sign (se_crypto E) sk ct)) w7 = (Inr () :: unit res, w8)"
      "fanout mirrors LATEST_KEY pb w8 = (Inr () :: unit res, w')"
    unfolding seed_upload_def Let_def snapshot_pointer_def [symmetric]
    by (auto elim!: io_elims split: if_splits option.splits)
  from save_published [OF codecs z enc put1 put2 pb keepsD [OF head_keeps head] cas fan] cookies
  show ?thesis
    by (intro conjI exI) (assumption, assumption, simp_all)
qed

end

section \<open>Checks before decryption\<close>

text \<open>A snapshot that passes the digest and the signature check, whoever can open it.\<close>

definition authentic :: "'w session_env \<Rightarrow> 'w objects \<Rightarrow> verifying_key \<Rightarrow> 'w \<Rightarrow> bool" where
  "authentic E objs vk w \<longleftrightarrow>
    (\<exists>pb p ct sb sig_text sig.
      body_at objs LATEST_KEY w = Some pb \<and> from_slice (se_pointer_serde E) pb = Inr p \<and>
      body_at objs (lp_object p) w = Some ct \<and>
      sha256_hex (se_crypto E) ct = lp_object_sha256 p \<and>
      body_at objs (lp_signature_object p) w = Some sb \<and>
      from_utf8 sb = Some sig_text \<and> hex_decode (se_crypto E) (trim sig_text) = Inr sig \<and>
      verify (se_crypto E) vk ct sig = Inr ())"

text \<open>The same deployment with other code for opening a snapshot.\<close>

definition with_opener ::
    "(bytes \<Rightarrow> string res) \<Rightarrow> (string \<Rightarrow> identity list \<Rightarrow> string res) \<Rightarrow> (string \<Rightarrow> bytes res) \<Rightarrow>
      (bytes \<Rightarrow> bytes res) \<Rightarrow> (bytes \<Rightarrow> storage_state res) \<Rightarrow> 'w session_env \<Rightarrow> 'w session_env" where
  "with_opener new dec rd unz parse E =
    E\<lparr>se_crypto := (se_crypto E)\<lparr>age_decryptor_new := new, age_decryptor_decrypt := dec,
        age_read_to_end := rd, zstd_decode_all := unz\<rparr>,
      se_state_serde := (se_state_serde E)\<lparr>from_slice := parse\<rparr>\<rparr>"

text \<open>The part of \<open>restore\<close> before the decryption.\<close>

definition restore_checks ::
    "'w session_env \<Rightarrow> 'w store \<Rightarrow> verifying_key \<Rightarrow> ('w, latest_pointer \<times> string \<times> bytes) io" where
  "restore_checks E primary verify_pubkey =
    and_then (with_context ''get latest.json'' (st_get primary LATEST_KEY)) (\<lambda>r.
    and_then (lift_res (res_context ''parse latest.json''
        (from_slice (se_pointer_serde E) (fst r)))) (\<lambda>pointer.
    and_then (with_context (''get snapshot '' @ lp_object pointer)
        (st_get primary (lp_object pointer))) (\<lambda>ct.
    and_then (lift_res (verify_digest (se_crypto E) (lp_object_sha256 pointer) (fst ct))) (\<lambda>_.
    and_then (with_context (''get signature '' @ lp_signature_object pointer)
        (st_get primary (lp_signature_object pointer))) (\<lambda>sb.
    and_then (lift_res (res_context ''signature is not utf-8''
        (ok_or (Msg ''invalid utf-8 sequence'') (from_utf8 (fst sb))))) (\<lambda>sig_text.
    and_then (lift_res (res_context ''decode signature hex''
        (hex_decode (se_crypto E) (trim sig_text)))) (\<lambda>sig.
    and_then (lift_res (verify (se_crypto E) verify_pubkey (fst ct) sig)) (\<lambda>_.
    ret (pointer, snd r, fst ct)))))))))"

lemma restore_split:
  "restore E st ident vk =
    and_then (restore_checks E st vk) (\<lambda>(pointer, tag, ct).
    and_then (lift_res (decrypt (se_crypto E) ct ident)) (\<lambda>plaintext.
    and_then (lift_res (decompress (se_crypto E) (se_state_serde E) plaintext)) (\<lambda>state.
    ret \<lparr>rd_pointer = pointer, rd_pointer_etag = tag, rd_state = state\<rparr>)))"
  by (simp add: restore_def restore_checks_def Let_def and_then_assoc case_prod_unfold)

lemma verify_digest_opener [simp]:
  "verify_digest (se_crypto (with_opener new dec rd unz parse E)) d b = verify_digest (se_crypto E) d b"
  "verify (se_crypto (with_opener new dec rd unz parse E)) vk b s = verify (se_crypto E) vk b s"
  "hex_decode (se_crypto (with_opener new dec rd unz parse E)) = hex_decode (se_crypto E)"
  "se_pointer_serde (with_opener new dec rd unz parse E) = se_pointer_serde E"
  by (simp_all add: with_opener_def verify_digest_def verify_def sha256_hex_def)

lemma restore_checks_opener [simp]:
  "restore_checks (with_opener new dec rd unz parse E) st vk = restore_checks E st vk"
  by (simp add: restore_checks_def)

context session_site begin

lemma restore_checks_authentic:
  assumes "restore_checks E st vk w = (Inr x, w')"
  shows "authentic E objs vk w"
proof -
  from assms obtain pb pe w1 p ct ce w2 sb se w3 sig_text sig where
    g1: "st_get st LATEST_KEY w = (Inr (pb, pe), w1)"
    and p: "from_slice (se_pointer_serde E) pb = Inr p"
    and g2: "st_get st (lp_object p) w1 = (Inr (ct, ce), w2)"
    and d: "sha256_hex (se_crypto E) ct = lp_object_sha256 p"
    and g3: "st_get st (lp_signature_object p) w2 = (Inr (sb, se), w3)"
    and s: "from_utf8 sb = Some sig_text" "hex_decode (se_crypto E) (trim sig_text) = Inr sig"
      "verify (se_crypto E) vk ct sig = Inr ()"
    unfolding restore_checks_def by (auto elim!: io_elims)
  have "objs w1 = objs w" "objs w2 = objs w"
    using keepsD [OF get_keeps g1] keepsD [OF get_keeps g2] by simp_all
  with get_ok [OF g1] get_ok [OF g2] get_ok [OF g3] p d s show ?thesis
    by (auto simp: authentic_def body_at_def)
qed

text \<open>On anything else, the code that opens snapshots is not reached.\<close>

lemma restore_opener:
  assumes "\<not> authentic E objs vk w"
  shows "restore (with_opener new dec rd unz parse E) st ident' vk w = restore E st ident vk w \<and>
    (\<exists>e. fst (restore E st ident vk w) = Inl e)"
proof (cases "restore_checks E st vk w")
  case (Pair r w')
  with assms restore_checks_authentic obtain e where "r = Inl e"
    by (cases r) auto
  with Pair show ?thesis
    by (simp add: restore_split and_then_Inl)
qed

end

end
