(* ===== verification/Session_Run.thy ===== *)
theory Session_Run
  imports Session_Facts Chats_Run
begin

text \<open>
  The properties of the commands, and a bench on which a session is seeded, restored and run.
\<close>

section \<open>A bench for the commands\<close>

definition bench_chromium :: "cdp_cookie list \<Rightarrow> 'w chromium_api" where
  "bench_chromium cs =
    \<lparr>ch_create_dir_all = (\<lambda>d. ret ()), ch_build = Inr, ch_launch = (\<lambda>c. ret ''b''),
     ch_get_cookies = (\<lambda>b. ret cs), ch_clear_cookies = (\<lambda>b. ret ()),
     ch_set_cookies = (\<lambda>b ps. ret ()), ch_get_targets = (\<lambda>b. ret []),
     ch_listen = (\<lambda>b e. ret ()), ch_new_page = (\<lambda>b u. ret ''p''),
     ch_add_script = (\<lambda>p s. ret ()), ch_goto = (\<lambda>p u. ret ()), ch_close = (\<lambda>b. ret ()),
     ch_wait = (\<lambda>b. ret ())\<rparr>"

definition bench_cookie :: cdp_cookie where
  "bench_cookie =
    \<lparr>cc_name = ''sid'', cc_value = ''1'', cc_domain = ''c'', cc_path = ''/'', cc_expires = 0,
     cc_http_only = True, cc_secure = True, cc_same_site = Some SameSiteLax\<rparr>"

definition bench_state :: storage_state where
  "bench_state = \<lparr>ss_cookies = [stored_of_cdp bench_cookie], ss_origins = []\<rparr>"

definition bench_pointer :: "string \<Rightarrow> datetime \<Rightarrow> latest_pointer" where
  "bench_pointer ts t =
    \<lparr>lp_version = ts, lp_object = ''snapshots/'' @ ts @ ''.zst.age'', lp_object_sha256 = ''535354'',
     lp_signature_object = ''snapshots/'' @ ts @ ''.zst.age.sig'', lp_created_at = t,
     lp_format = StorageStateV1\<rparr>"

definition bench_lock :: lock where
  "bench_lock =
    \<lparr>lk_run_id = ''run-1'', lk_created_at = 2 * 10 ^ 9, lk_expires_at = 302 * 10 ^ 9\<rparr>"

definition refuses :: "'a serde" where
  "refuses = table_serde []"

text \<open>A serializer that writes one text for everything; health records are never read back.\<close>

definition writes :: "bytes \<Rightarrow> 'a serde" where
  "writes b = \<lparr>to_vec = (\<lambda>x. Inr b), to_vec_pretty = (\<lambda>x. Inr b), from_slice = (\<lambda>x. Inl (Msg ''deserialize''))\<rparr>"

definition bench_E :: "bench session_env" where
  "bench_E =
    \<lparr>se_crypto = bench_crypto, se_chrono = bench_chrono,
     se_api = bench_env (\<lambda>_. \<lparr>rs_status = 200, rs_headers = [], rs_body = ''ME''\<rparr>)
       [(''ME'', JObject [(''id'', JString ''me'')])] (\<lambda>_. Inr []),
     se_chromium = bench_chromium [bench_cookie],
     se_pointer_serde = table_serde [(bench_pointer ''0'' 0, ''P0''), (bench_pointer ''3'' 3000000000, ''P3'')],
     se_state_serde = table_serde [(bench_state, ''ST'')],
     se_lock_serde = table_serde [(bench_lock, ''LK'')], se_health_serde = writes ''HR'',
     se_index_serde = refuses\<rparr>"

definition bench_cfg :: config where
  "bench_cfg = bench_config\<lparr>cg_workloads := []\<rparr>"

definition mem_of :: "(string \<times> bytes \<times> nat) list \<Rightarrow> nat \<Rightarrow> mem" where
  "mem_of xs n = \<lparr>inner = xs, counter = n\<rparr>"

definition bench_seeded :: bench where
  "bench_seeded =
    (let m = mem_of [(''snapshots/0.zst.age'', ''SST'', 1), (''snapshots/0.zst.age.sig'', ''6b535354'', 2),
       (''latest.json'', ''P0'', 3)] 3
     in \<lparr>bn_primary = m, bn_mirror = m, bn_clock = 10 ^ 9\<rparr>)"

definition bench_ran :: bench where
  "bench_ran =
    (let old = [(''snapshots/0.zst.age'', ''SST'', 1), (''snapshots/0.zst.age.sig'', ''6b535354'', 2)];
         new = [(''snapshots/3.zst.age'', ''SST''), (''snapshots/3.zst.age.sig'', ''6b535354'')]
     in \<lparr>bn_primary = mem_of (old @ [(''latest.json'', ''P3'', 7)] @
           [(''snapshots/3.zst.age'', ''SST'', 5), (''snapshots/3.zst.age.sig'', ''6b535354'', 6),
            (''health/1-run-1.json'', ''HR'', 8)]) 8,
         bn_mirror = mem_of (old @ [(''latest.json'', ''P3'', 6)] @
           [(''snapshots/3.zst.age'', ''SST'', 4), (''snapshots/3.zst.age.sig'', ''6b535354'', 5)]) 6,
         bn_clock = 5 * 10 ^ 9\<rparr>)"

lemma bench_one: "show_nat 1 = ''1''"
  by (subst show_nat.simps) (simp add: digit_char_def char_of_def bit_iff_odd)

lemma bench_texts:
  "bench_hex_encode ''SST'' = ''535354''" "bench_hex_encode ''kSST'' = ''6b535354''"
  "show_nat 0 = ''0''" "show_nat 3 = ''3''"
  by (simp_all add: bench_hex_encode_def byte_def hex_nibbles bench_numerals)

lemma bench_site:
  assumes "se_crypto E = bench_crypto" and "se_chrono E = bench_chrono"
    and "se_api E = bench_env f tbl parse" and "se_chromium E = bench_chromium cs"
  shows "session_site bench_primary bench_objects E [bench_mirror]"
proof
  fix m :: "bench store" and k b
  assume "m \<in> set [bench_mirror]"
  then show "keeps bench_objects (st_put m k b)"
    by (simp add: bench_mirror_keeps)
next
  fix x
  show "keeps bench_objects (age_wrap_output (se_crypto E) x)"
    by (simp add: assms bench_crypto_def keeps_ret)
next
  show "chromium_keeps (se_chromium E) bench_objects"
    by (simp add: assms bench_chromium_def chromium_keeps_def keeps_ret)
qed (simp_all add: assms bench_clock_keeps bench_network)

interpretation bench_session: session_site bench_primary bench_objects bench_E "[bench_mirror]"
  by (rule bench_site) (simp_all add: bench_E_def)

lemma bench_codecs: "codecs_ok bench_E ''AGE'' ''age1'' ''k'' ''k''"
  by (auto simp: codecs_ok_def bench_E_def bench_age bench_ed bench_hex_codec bench_zstd serde_ok_def
      bench_pointer_def)

lemma bench_readable: "readable bench_primary bench_objects"
  by (auto simp: readable_def bench_primary_def mem_store_def mem_get_def on_part_def
      bench_objects_def mem_objects_def split: option.splits)

text \<open>Evaluation rules for the bench.\<close>

lemma bench_E_simps [simp]:
  "se_crypto bench_E = bench_crypto" "se_chrono bench_E = bench_chrono"
  "se_chromium bench_E = bench_chromium [bench_cookie]"
  "ae_http (se_api bench_E) = bench_http (\<lambda>_. \<lparr>rs_status = 200, rs_headers = [], rs_body = ''ME''\<rparr>)"
  "ae_json (se_api bench_E) = bench_json [(''ME'', JObject [(''id'', JString ''me'')])]"
  "se_state_serde bench_E = table_serde [(bench_state, ''ST'')]"
  "se_lock_serde bench_E = table_serde [(bench_lock, ''LK'')]"
  "se_health_serde bench_E = writes ''HR''"
  by (simp_all add: bench_E_def)

lemma bench_pointer_serde:
  "to_vec_pretty (se_pointer_serde bench_E) (bench_pointer ''0'' 0) = Inr ''P0''"
  "to_vec_pretty (se_pointer_serde bench_E) (bench_pointer ''3'' 3000000000) = Inr ''P3''"
  "from_slice (se_pointer_serde bench_E) ''P0'' = Inr (bench_pointer ''0'' 0)"
  by (simp_all add: bench_E_def bench_pointer_def ok_or_def)

lemma bench_crypto_simps:
  "compress bench_crypto (table_serde [(s, txt)]) s = Inr txt"
  "decompress bench_crypto (table_serde [(s, txt)]) txt = Inr s"
  "encrypt bench_crypto x r = ret (CHR ''S'' # x)"
  "decrypt bench_crypto (CHR ''S'' # x) i = Inr x"
  "sign bench_crypto k x = k @ x"
  "verify bench_crypto k x (k @ x) = Inr ()"
  "sha256_hex bench_crypto b = bench_hex_encode b"
  "hex_encode bench_crypto b = bench_hex_encode b"
  by (rule ext | simp add: compress_def decompress_def encrypt_def decrypt_def sign_def verify_def
      sha256_hex_def bench_crypto_def res_bind_def res_context_def ok_or_def map_err_def
      lift_res_def and_then_def ret_def)+

lemma bench_ts: "format_compact bench_chrono t = show_nat (nat (t div 10 ^ 9))"
  by (simp add: bench_chrono_def)

text \<open>One step of a chain on the bench; \<open>bench_write\<close> is what a write does to a store.\<close>

definition bench_write :: "string \<Rightarrow> bytes \<Rightarrow> mem \<Rightarrow> mem" where
  "bench_write k b m =
    m\<lparr>inner := AList.update k (b, Suc (counter m)) (inner m), counter := Suc (counter m)\<rparr>"

lemma bench_step_clock:
  "and_then (effect (utc_now bench_chrono)) f w =
    f (bn_clock w) (w\<lparr>bn_clock := bn_clock w + 10 ^ 9\<rparr>)"
  by (simp add: and_then_def effect_def bench_chrono_def)

lemma bench_step_put:
  "and_then (st_put bench_primary k b) f w =
    f \<lparr>pr_etag = show_nat (Suc (counter (bn_primary w)))\<rparr> (w\<lparr>bn_primary := bench_write k b (bn_primary w)\<rparr>)"
  "and_then (with_context c (st_put bench_primary k b)) f w =
    f \<lparr>pr_etag = show_nat (Suc (counter (bn_primary w)))\<rparr> (w\<lparr>bn_primary := bench_write k b (bn_primary w)\<rparr>)"
  by (simp_all add: bench_primary_def mem_store_def on_part_def and_then_def mem_put_def Let_def
      bench_write_def with_context_def map_err_def)

lemma bench_step_fanout:
  "and_then (fanout [bench_mirror] k b) f w = f () (w\<lparr>bn_mirror := bench_write k b (bn_mirror w)\<rparr>)"
  by (simp add: bench_mirror_def mem_store_def on_part_def and_then_def mem_put_def Let_def
      bench_write_def attempt_def ret_def)

lemma bench_step_head:
  "and_then (st_head bench_primary k) f w =
    f (map_option (\<lambda>x. show_nat (snd x)) (map_of (inner (bn_primary w)) k)) w"
  by (auto simp: bench_primary_def mem_store_def on_part_def and_then_def mem_head_def
      split: option.splits)

lemma bench_step_get:
  "map_of (inner (bn_primary w)) k = Some (b, e) \<Longrightarrow>
    and_then (with_context c (st_get bench_primary k)) f w = f (b, show_nat e) w"
  by (simp add: bench_primary_def mem_store_def on_part_def and_then_def mem_get_def
      with_context_def map_err_def)

lemma bench_step_create:
  "map_of (inner (bn_primary w)) k = None \<Longrightarrow>
    and_then (with_context c (st_put_if_unmodified bench_primary k b None)) f w =
      f \<lparr>pr_etag = show_nat (Suc (counter (bn_primary w)))\<rparr> (w\<lparr>bn_primary := bench_write k b (bn_primary w)\<rparr>)"
  "map_of (inner (bn_primary w)) k = None \<Longrightarrow>
    and_then (st_put_if_unmodified bench_primary k b None) f w =
      f \<lparr>pr_etag = show_nat (Suc (counter (bn_primary w)))\<rparr> (w\<lparr>bn_primary := bench_write k b (bn_primary w)\<rparr>)"
  by (simp_all add: bench_primary_def mem_store_def on_part_def and_then_def mem_put_def Let_def
      bench_write_def with_context_def map_err_def mem_put_if_unmodified_def)

lemma bench_step_update:
  "map_of (inner (bn_primary w)) k = Some (x, e) \<Longrightarrow> show_nat e = tag \<Longrightarrow>
    and_then (with_context c (st_put_if_unmodified bench_primary k b (Some tag))) f w =
      f \<lparr>pr_etag = show_nat (Suc (counter (bn_primary w)))\<rparr> (w\<lparr>bn_primary := bench_write k b (bn_primary w)\<rparr>)"
  by (simp add: bench_primary_def mem_store_def on_part_def and_then_def mem_put_def Let_def
      bench_write_def with_context_def map_err_def mem_put_if_unmodified_def)

lemmas bench_steps = bench_step_clock bench_step_put bench_step_fanout bench_step_head
  bench_step_get bench_step_create bench_step_update bench_crypto_simps bench_ts bench_texts

lemma bench_seed:
  "seed_upload bench_E bench_primary [bench_mirror] ''age1'' ''k'' bench_state (bench_start 0) =
    (Inr (), bench_seeded)"
proof -
  have st: "ss_cookies bench_state \<noteq> []"
    by (simp add: bench_state_def)
  have p: "\<lparr>lp_version = ''0'', lp_object = ''snapshots/0.zst.age'', lp_object_sha256 = ''535354'',
     lp_signature_object = ''snapshots/0.zst.age.sig'', lp_created_at = 0, lp_format = StorageStateV1\<rparr> =
     bench_pointer ''0'' 0"
    by (simp add: bench_pointer_def)
  show ?thesis
    by (simp add: seed_upload_def st Let_def bench_steps p bench_pointer_serde
        bench_start_def mem_new_def snapshot_key_def snapshot_sig_key_def LATEST_KEY_def
        ret_apply bench_write_def bench_seeded_def mem_of_def del: fanout.simps)
qed

text \<open>The run of the bench, in the order of its steps.\<close>

definition bench_locked_world :: "(string \<times> bytes \<times> nat) list \<Rightarrow> nat \<Rightarrow> datetime \<Rightarrow> bench" where
  "bench_locked_world xs n t =
    bench_seeded\<lparr>bn_primary := mem_of (inner (bn_primary bench_seeded) @ (LOCK_KEY, ''LK'', 4) # xs) n,
      bn_clock := t\<rparr>"

lemma bench_acquire:
  "acquire bench_chrono (table_serde [(bench_lock, ''LK'')]) bench_primary ''run-1'' 300
      (bench_seeded\<lparr>bn_clock := 2 * 10 ^ 9\<rparr>) =
    (Inr \<lparr>lg_store = bench_primary, lg_etag = show_nat 4\<rparr>, bench_locked_world [] 4 3000000000)"
proof -
  have l: "\<lparr>lk_run_id = ''run-1'', lk_created_at = 2000000000, lk_expires_at = 302000000000\<rparr> = bench_lock"
    by (simp add: bench_lock_def)
  show ?thesis
    by (simp add: acquire_def bench_steps Let_def bench_chrono_def [THEN arg_cong, of add_std_duration]
        l ok_or_def LOCK_KEY_def bench_seeded_def mem_of_def ret_apply bench_write_def
        bench_locked_world_def)
qed

lemma bench_restore:
  "restore bench_E bench_primary ''AGE'' ''k'' (bench_locked_world xs n t) =
    (Inr \<lparr>rd_pointer = bench_pointer ''0'' 0, rd_pointer_etag = show_nat 3, rd_state = bench_state\<rparr>,
     bench_locked_world xs n t)"
proof -
  have utf8: "from_utf8 ''6b535354'' = Some ''6b535354''"
    using hex_text_roundtrip(1) [OF bench_hex_codec, of "''kSST''"]
    by (simp add: bench_crypto_simps bench_texts)
  have hex: "hex_decode bench_crypto (trim ''6b535354'') = Inr ''kSST''"
    using hex_text_roundtrip(2) [OF bench_hex_codec, of "''kSST''"]
    by (simp add: bench_crypto_simps bench_texts)
  have ver: "verify bench_crypto ''k'' ''SST'' ''kSST'' = Inr ()"
    using bench_crypto_simps(6) [of "''k''" "''SST''"] by simp
  show ?thesis
    by (simp add: restore_def bench_steps Let_def bench_locked_world_def bench_seeded_def mem_of_def
        LATEST_KEY_def bench_pointer_serde bench_pointer_def [of "''0''" 0] verify_digest_def
        ensure_def ok_or_def utf8 hex ver ret_apply res_context_def)
qed

lemma bench_session_save:
  "save bench_E bench_primary [bench_mirror] ''age1'' ''k'' bench_state (bench_pointer ''0'' 0)
      (show_nat 3) (bench_locked_world [] 4 3000000000) =
    (Inr ''3'', bench_ran\<lparr>bn_clock := 4 * 10 ^ 9,
      bn_primary := mem_of [(''snapshots/0.zst.age'', ''SST'', 1),
        (''snapshots/0.zst.age.sig'', ''6b535354'', 2), (''latest.json'', ''P3'', 7), (LOCK_KEY, ''LK'', 4),
        (''snapshots/3.zst.age'', ''SST'', 5), (''snapshots/3.zst.age.sig'', ''6b535354'', 6)] 7\<rparr>)"
proof -
  have p: "\<lparr>lp_version = ''3'', lp_object = ''snapshots/3.zst.age'', lp_object_sha256 = ''535354'',
     lp_signature_object = ''snapshots/3.zst.age.sig'', lp_created_at = 3000000000,
     lp_format = StorageStateV1\<rparr> = bench_pointer ''3'' 3000000000"
    by (simp add: bench_pointer_def)
  have mono: "ensure_monotonic bench_chrono (Some (bench_pointer ''0'' 0))
      (bench_pointer ''3'' 3000000000) = Inr ()"
    by (simp add: bench_pointer_def)
  show ?thesis
    by (simp add: save_def bench_steps Let_def bench_locked_world_def bench_seeded_def mem_of_def
        snapshot_key_def snapshot_sig_key_def p mono bench_pointer_serde LATEST_KEY_def LOCK_KEY_def
        ret_apply bench_write_def bench_ran_def del: fanout.simps)
qed

text \<open>
  Between the restore and the save of a run, with the scripted browser and a server that answers the
  canary, nothing of the world changes.
\<close>

abbreviation canary_http :: "'w http_api" where
  "canary_http \<equiv> bench_http (\<lambda>_. \<lparr>rs_status = 200, rs_headers = [], rs_body = ''ME''\<rparr>)"

abbreviation canary_json :: "(bytes \<times> json) list \<Rightarrow> json_api" where
  "canary_json tbl \<equiv> bench_json ((''ME'', JObject [(''id'', JString ''me'')]) # tbl)"

lemma scripted_browser:
  "launch (bench_chromium cs) bin dir h =
    ret \<lparr>bs_browser = ''b'', bs_user_data_dir = dir, bs_browser_closed = False\<rparr>"
  "import_storage_state (bench_chromium cs) b bench_state = ret ()"
  "export_storage_state (bench_chromium [bench_cookie]) b = ret bench_state"
  "bs_browser_closed b = False \<Longrightarrow> close_session (bench_chromium cs) b = ret ()"
  by (rule ext; simp add: launch_def import_storage_state_def export_storage_state_def
      export_cookies_def close_session_def bench_chromium_def map_err_def lift_res_def and_then_def
      with_context_def attempt_def ret_def Let_def bench_state_def)+

lemma scripted_canary:
  "check canary_http (canary_json tbl) cl url 200 ''/id'' ''me'' =
    ret \<lparr>cr_ok = True, cr_status = 200, cr_observed = Some ''me''\<rparr>"
  by (rule ext) (simp add: check_def http_get_def bench_http_def with_context_def map_err_def
      and_then_def Let_def lift_res_def bench_json_def ok_or_def json_get_def json_str_def ret_def)

lemma scripted_run_locked:
  assumes E: "se_chromium E = bench_chromium [bench_cookie]" "ae_http (se_api E) = canary_http"
      "ae_json (se_api E) = canary_json tbl"
    and cfg: "cg_workloads cfg = []" "cn_headers (cg_canary cfg) = []"
      "cn_expected_status (cg_canary cfg) = 200" "cn_field (cg_canary cfg) = ''/id''"
      "cn_expected_value (cg_canary cfg) = ''me''"
    and r: "restore E st ident vk w = (Inr rd, w1)" "rd_state rd = bench_state"
    and s: "save E st ms recip sk bench_state (rd_pointer rd) (rd_pointer_etag rd) w1 = (Inr ts, w2)"
  shows "run_locked E cfg pages st ms ident recip sk vk w = (Inr (Saved ts), w2)"
proof -
  have client: "build_client canary_http jar (cg_canary cfg) = Inr \<lparr>hc_jar = jar,
      hc_user_agent = Some (cn_user_agent (cg_canary cfg)),
      hc_headers = [(''accept'', ''application/json, text/plain, */*'')]\<rparr>" for jar
    by (simp add: build_client_def cfg res_bind_def bench_http_def res_context_def)
  have cookies: "ss_cookies bench_state \<noteq> []"
    by (simp add: bench_state_def)
  show ?thesis
    unfolding run_locked_def Let_def E
    by (simp add: and_then_Inr [where m = "restore _ _ _ _", OF r(1)] r(2) cfg scripted_browser client
        scripted_canary cookies and_then_Inr [where m = "save _ _ _ _ _ _ _ _", OF s]
        ret_apply del: table_serde_simps)
qed

lemma bench_run_locked:
  "run_locked bench_E bench_cfg 0 bench_primary [bench_mirror] ''AGE'' ''age1'' ''k'' ''k''
      (bench_locked_world [] 4 3000000000) =
    (Inr (Saved ''3''), bench_ran\<lparr>bn_clock := 4 * 10 ^ 9,
      bn_primary := mem_of [(''snapshots/0.zst.age'', ''SST'', 1),
        (''snapshots/0.zst.age.sig'', ''6b535354'', 2), (''latest.json'', ''P3'', 7), (LOCK_KEY, ''LK'', 4),
        (''snapshots/3.zst.age'', ''SST'', 5), (''snapshots/3.zst.age.sig'', ''6b535354'', 6)] 7\<rparr>)"
  by (rule scripted_run_locked [OF _ _ _ _ _ _ _ _ bench_restore])
    (simp_all add: bench_cfg_def bench_config_def bench_session_save del: table_serde_simps)

lemma bench_run:
  "run_session bench_E bench_cfg 0 ''run-1'' bench_primary [bench_mirror] ''AGE'' ''age1'' ''k'' ''k''
      bench_seeded = (Inr (), bench_ran)"
proof -
  have clock: "bn_clock bench_seeded = 1000000000"
    by (simp add: bench_seeded_def Let_def)
  have ttl: "cg_lock_ttl_seconds bench_cfg = 300"
    by (simp add: bench_cfg_def bench_config_def)
  have m: "match_result (run_locked bench_E bench_cfg 0 bench_primary [bench_mirror] ''AGE'' ''age1''
      ''k'' ''k'') (bench_locked_world [] 4 3000000000) =
    (Inr (Inr (Saved ''3'')), snd (run_locked bench_E bench_cfg 0 bench_primary [bench_mirror] ''AGE''
      ''age1'' ''k'' ''k'' (bench_locked_world [] 4 3000000000)))"
    by (simp add: match_result_def and_then_def attempt_def bench_run_locked ret_def)
  have key: "health_key bench_chrono rc = ''health/1-run-1.json''"
    if "hr_started_at rc = 1000000000" "hr_run_id rc = ''run-1''" for rc
  proof -
    have "sanitize_run_id ''run-1'' = ''run-1''"
      by code_simp
    then show ?thesis
      using bench_one by (simp add: health_key_def bench_chrono_def that)
  qed
  have conclude: "conclude_run bench_E ''run-1'' bench_primary 1000000000
      \<lparr>lg_store = bench_primary, lg_etag = show_nat 4\<rparr> (Inr (Saved ''3''))
      (snd (run_locked bench_E bench_cfg 0 bench_primary [bench_mirror] ''AGE''
        ''age1'' ''k'' ''k'' (bench_locked_world [] 4 3000000000))) = (Inr (), bench_ran)"
    unfolding bench_run_locked
    by (simp add: conclude_run_def release_def bench_primary_def mem_store_def on_part_def attempt_def
        and_then_def mem_delete_if_match_def mem_of_def LOCK_KEY_def health_ok_def health_write_def
        key writes_def mem_put_def ok_or_def effect_def ret_def bench_ran_def Let_def
        bench_chrono_def [THEN arg_cong, of utc_now])
  show ?thesis
    unfolding run_session_def bench_E_simps bench_step_clock clock ttl
    by (simp add: and_then_Inr [where m = "acquire _ _ _ _ _", OF bench_acquire [simplified]]
        and_then_Inr [where m = "match_result _", OF m] conclude del: table_serde_simps)
qed

section \<open>Properties\<close>




text \<open>A run whose lock cannot be serialized fails before it takes the lock.\<close>

lemma bench_acquire_refused:
  "acquire bench_chrono (table_serde [(bench_lock, ''LK'')]) bench_primary ''run-2'' 300 w =
    (Inl (Msg ''serialize''), w\<lparr>bn_clock := bn_clock w + 10 ^ 9\<rparr>)"
  by (simp add: acquire_def bench_step_clock Let_def
      bench_chrono_def [THEN arg_cong, of add_std_duration] bench_lock_def ok_or_def fail_apply)

lemma bench_run_refused:
  "run_session bench_E bench_cfg 0 ''run-2'' bench_primary [bench_mirror] ''AGE'' ''age1'' ''k'' ''k'' w =
    (Inl (Msg ''serialize''), w\<lparr>bn_clock := bn_clock w + 2 * 10 ^ 9\<rparr>)"
proof -
  have ttl: "cg_lock_ttl_seconds bench_cfg = 300"
    by (simp add: bench_cfg_def bench_config_def)
  show ?thesis
    unfolding run_session_def bench_E_simps bench_step_clock ttl
    by (subst and_then_Inl [OF bench_acquire_refused]) simp
qed


text \<open>
  C16: On a store that answers reads, restoring returns a session exactly when the store publishes
  it: every check of the digest, the signature and the encryption has passed on the stored bytes,
  and nothing else is required.
\<close>

theorem restore_iff_published:
  assumes "session_site st objs E mirrors" and "readable st objs"
  shows "fst (restore E st ident vk w) = Inr rd \<longleftrightarrow> published E objs ident vk w rd"
  using snapshot_store.restore_sound [OF session_site.axioms(1) [OF assms(1)]]
    snapshot_store.restore_complete [OF session_site.axioms(1) [OF assms(1)] assms(2)]
  by (metis fst_conv prod.collapse)

theorem restore_iff_published_witness:
  "published bench_E bench_objects ''AGE'' ''k'' (bench_locked_world [] 4 0)
    \<lparr>rd_pointer = bench_pointer ''0'' 0, rd_pointer_etag = show_nat 3, rd_state = bench_state\<rparr>"
  by (rule restore_iff_published [THEN iffD1, OF bench_session.session_site_axioms bench_readable])
    (simp add: bench_restore)



text \<open>
  C11: Nothing is decrypted before it is verified: on a store whose snapshot is not authentic - the
  digest or the signature does not match - restoring fails, with the same result and effects
  whatever the code for decryption, decompression and parsing would do and whatever the identity.
\<close>

theorem unverified_never_opened:
  assumes "session_site st objs E mirrors" and "\<not> authentic E objs vk w"
  shows "restore (with_opener new dec rd unz parse E) st ident' vk w = restore E st ident vk w \<and>
    (\<exists>e. fst (restore E st ident vk w) = Inl e)"
  using assms(2) by (rule session_site.restore_opener [OF assms(1)])

theorem unverified_never_opened_witness:
  "\<exists>e. fst (restore bench_E bench_primary ''AGE'' ''other key'' bench_seeded) = Inl e"
proof -
  have o: "body_at bench_objects LATEST_KEY bench_seeded = Some ''P0''"
    "body_at bench_objects ''snapshots/0.zst.age'' bench_seeded = Some ''SST''"
    "body_at bench_objects ''snapshots/0.zst.age.sig'' bench_seeded = Some ''6b535354''"
    by (simp_all add: body_at_def bench_objects_def mem_objects_def bench_seeded_def mem_of_def
        Let_def LATEST_KEY_def)
  have hex: "hex_decode (se_crypto bench_E) (trim ''6b535354'') = Inr ''kSST''"
    using hex_text_roundtrip(2) [OF bench_hex_codec, of "''kSST''"]
    by (simp add: bench_crypto_simps bench_texts)
  have "\<not> authentic bench_E bench_objects ''other key'' bench_seeded"
  proof
    assume "authentic bench_E bench_objects ''other key'' bench_seeded"
    then obtain pb p ct sb s sig where
      a: "body_at bench_objects LATEST_KEY bench_seeded = Some pb"
      "from_slice (se_pointer_serde bench_E) pb = Inr p"
      "body_at bench_objects (lp_object p) bench_seeded = Some ct"
      "body_at bench_objects (lp_signature_object p) bench_seeded = Some sb"
      "from_utf8 sb = Some s" "hex_decode (se_crypto bench_E) (trim s) = Inr sig"
      "verify (se_crypto bench_E) ''other key'' ct sig = Inr ()"
      unfolding authentic_def by blast
    have p: "p = bench_pointer ''0'' 0"
      using a(1,2) o(1) bench_pointer_serde(3) by simp
    have "ct = ''SST''" "sb = ''6b535354''"
      using a(3,4) o(2,3) by (simp_all add: p bench_pointer_def)
    moreover from this have "sig = ''kSST''"
      using a(5,6) hex by (simp add: from_utf8_def del: valid_utf8.simps split: if_splits)
    ultimately show False
      using a(7) by (simp add: verify_def bench_crypto_def res_bind_def res_context_def)
  qed
  from unverified_never_opened [OF bench_session.session_site_axioms this] show ?thesis
    by blast
qed



text \<open>
  \<open>verify\<close> accepts exactly what \<open>restore\<close> accepts, with the same effects and the same errors,
  and its line names the version, the number of cookies and the time of the restored snapshot.
\<close>

theorem verify_agrees_with_restore:
  "verify_snapshot E fmt st ident vk =
    and_then (restore E st ident vk) (\<lambda>rd. ret (''OK version='' @ lp_version (rd_pointer rd) @
      '' cookies='' @ show_nat (length (ss_cookies (rd_state rd))) @ '' created_at='' @
      fmt (lp_created_at (rd_pointer rd))))"
  by (rule verify_restore)

end
