(* ===== verification/S3_Store.thy ===== *)
theory S3_Store
  imports Stores "HOL-Library.AList"
begin

text \<open>
  \<open>src/stores/s3.rs\<close> over the operations of \<open>aws_sdk_s3::Client\<close> it sends.  The client is a
  parameter; \<open>s3_service\<close> states what the S3 API documents of conditional writes and of read
  after write.  Under it every S3 store meets \<open>per_object_store\<close>.
\<close>

section \<open>The SDK\<close>

record put_object_request =
  po_bucket :: string
  po_key :: string
  po_body :: bytes
  po_if_match :: "string option"
  po_if_none_match :: "string option"

record s3_object =
  so_key :: "string option"
  so_e_tag :: "string option"
  so_size :: "int option"

datatype head_object_error = HeadNotFound | HeadOther report

record 'w s3_client =
  put_object :: "put_object_request \<Rightarrow> ('w, string option) io"
  get_object :: "string \<Rightarrow> string \<Rightarrow> ('w, string option \<times> string) io"
  collect_body :: "string \<Rightarrow> ('w, bytes) io"
  head_object :: "string \<Rightarrow> string \<Rightarrow> ('w, head_object_error, string option) eio"
  list_objects_v2 :: "string \<Rightarrow> string \<Rightarrow> ('w, s3_object list) io"
  delete_object :: "string \<Rightarrow> string \<Rightarrow> string \<Rightarrow> ('w, unit) io"

definition unwrap_or_default :: "string option \<Rightarrow> string" where
  "unwrap_or_default v = (case v of None \<Rightarrow> [] | Some s \<Rightarrow> s)"

section \<open>s3.rs\<close>

record 'w s3_store =
  s3_name :: string
  s3_endpoint :: string
  s3_region :: string
  s3_bucket :: string
  s3_prefix :: string
  s3_the_client :: "'w s3_client"

definition full_key :: "'w s3_store \<Rightarrow> string \<Rightarrow> string" where
  "full_key s key = s3_prefix s @ key"

definition s3_place :: "'w s3_store \<Rightarrow> string" where
  "s3_place s = '' (store='' @ s3_name s @ '', endpoint='' @ s3_endpoint s @ '', region='' @
    s3_region s @ '', bucket='' @ s3_bucket s"

definition s3_put_if_unmodified ::
    "'w s3_store \<Rightarrow> string \<Rightarrow> bytes \<Rightarrow> string option \<Rightarrow> ('w, put_result) io" where
  "s3_put_if_unmodified s key body expected_etag =
    (let req = \<lparr>po_bucket = s3_bucket s, po_key = full_key s key, po_body = body,
                po_if_match = None, po_if_none_match = None\<rparr>;
         req = (case expected_etag of
                  Some e \<Rightarrow> req\<lparr>po_if_match := Some e\<rparr>
                | None \<Rightarrow> req\<lparr>po_if_none_match := Some ''*''\<rparr>)
     in and_then
          (with_context (''s3 put_if_unmodified failed'' @ s3_place s @ '', key='' @ full_key s key
              @ '', expected_etag='' @ debug_opt_str expected_etag @ '')'')
            (put_object (s3_the_client s) req))
          (\<lambda>out. ret \<lparr>pr_etag = unwrap_or_default out\<rparr>))"

definition s3_put :: "'w s3_store \<Rightarrow> string \<Rightarrow> bytes \<Rightarrow> ('w, put_result) io" where
  "s3_put s key body =
    and_then
      (with_context (''s3 put failed'' @ s3_place s @ '', key='' @ full_key s key @ '')'')
        (put_object (s3_the_client s)
          \<lparr>po_bucket = s3_bucket s, po_key = full_key s key, po_body = body,
           po_if_match = None, po_if_none_match = None\<rparr>))
      (\<lambda>out. ret \<lparr>pr_etag = unwrap_or_default out\<rparr>)"

definition s3_get :: "'w s3_store \<Rightarrow> string \<Rightarrow> ('w, bytes \<times> string) io" where
  "s3_get s key =
    and_then
      (with_context (''s3 get failed'' @ s3_place s @ '', key='' @ full_key s key @ '')'')
        (get_object (s3_the_client s) (s3_bucket s) (full_key s key)))
      (\<lambda>(e_tag, stream).
        let tag = unwrap_or_default e_tag in
        and_then (collect_body (s3_the_client s) stream) (\<lambda>body. ret (body, tag)))"

definition s3_head :: "'w s3_store \<Rightarrow> string \<Rightarrow> ('w, string option) io" where
  "s3_head s key =
    and_then (attempt (head_object (s3_the_client s) (s3_bucket s) (full_key s key))) (\<lambda>res.
    (case res of
       Inr out \<Rightarrow> ret (Some (unwrap_or_default out))
     | Inl HeadNotFound \<Rightarrow> ret None
     | Inl (HeadOther other) \<Rightarrow>
         fail (Msg (''s3 head failed'' @ s3_place s @ '', key='' @ full_key s key @ ''): '' @
           report_chain other))))"

text \<open>\<open>o.size() as u64\<close> of an \<open>i64\<close> keeps the 64 bits.\<close>

definition s3_list :: "'w s3_store \<Rightarrow> string \<Rightarrow> ('w, object_meta list) io" where
  "s3_list s prefx =
    (let full = s3_prefix s @ prefx in
     and_then
      (with_context (''s3 list failed'' @ s3_place s @ '', prefix='' @ s3_prefix s @ prefx @ '')'')
        (list_objects_v2 (s3_the_client s) (s3_bucket s) full))
      (\<lambda>contents. ret (map (\<lambda>obj.
         \<lparr>om_key = unwrap_or_default (so_key obj),
          om_etag = unwrap_or_default (so_e_tag obj),
          om_size = nat ((case so_size obj of None \<Rightarrow> 0 | Some n \<Rightarrow> n) mod 2 ^ 64)\<rparr>) contents)))"

definition s3_delete_if_match :: "'w s3_store \<Rightarrow> string \<Rightarrow> string \<Rightarrow> ('w, unit) io" where
  "s3_delete_if_match s key tag =
    (let full = full_key s key in
     and_then
      (with_context (''s3 delete failed'' @ s3_place s @ '', key='' @ full @ '', etag='' @ tag @ '')'')
        (delete_object (s3_the_client s) (s3_bucket s) full tag))
      (\<lambda>u. ret ()))"

text \<open>\<open>impl SnapshotStore for S3Store\<close>.\<close>

definition s3_snapshot_store :: "'w s3_store \<Rightarrow> 'w store" where
  "s3_snapshot_store s =
    \<lparr>st_name = s3_name s,
     st_put_if_unmodified = s3_put_if_unmodified s,
     st_put = s3_put s,
     st_get = s3_get s,
     st_head = s3_head s,
     st_list = s3_list s,
     st_delete_if_match = s3_delete_if_match s\<rparr>"

section \<open>What S3 documents\<close>

type_synonym 'w buckets = "'w \<Rightarrow> string \<Rightarrow> string \<rightharpoonup> bytes \<times> string"

definition put_precondition :: "put_object_request \<Rightarrow> (bytes \<times> string) option \<Rightarrow> bool" where
  "put_precondition rq ob \<longleftrightarrow>
    (case po_if_match rq of None \<Rightarrow> True | Some e \<Rightarrow> map_option snd ob = Some e) \<and>
    (case po_if_none_match rq of None \<Rightarrow> True | Some p \<Rightarrow> p = ''*'' \<longrightarrow> ob = None)"

definition put_documented :: "'w s3_client \<Rightarrow> 'w buckets \<Rightarrow> bool" where
  "put_documented cl bs \<longleftrightarrow>
    (\<forall>rq w.
      (\<forall>out w'. put_object cl rq w = (Inr out, w') \<longrightarrow>
        put_precondition rq (bs w (po_bucket rq) (po_key rq)) \<and>
        (\<exists>e. out = Some e \<and> bs w' (po_bucket rq) (po_key rq) = Some (po_body rq, e))) \<and>
      (\<not> put_precondition rq (bs w (po_bucket rq) (po_key rq)) \<longrightarrow>
        bs (snd (put_object cl rq w)) = bs w) \<and>
      (\<forall>b k. (b, k) \<noteq> (po_bucket rq, po_key rq) \<longrightarrow>
        bs (snd (put_object cl rq w)) b k = bs w b k))"

definition get_documented :: "'w s3_client \<Rightarrow> 'w buckets \<Rightarrow> bool" where
  "get_documented cl bs \<longleftrightarrow>
    (\<forall>b k. keeps bs (get_object cl b k)) \<and> (\<forall>s. keeps bs (collect_body cl s)) \<and>
    (\<forall>b k w out s w1 body w2. get_object cl b k w = (Inr (out, s), w1) \<longrightarrow>
      collect_body cl s w1 = (Inr body, w2) \<longrightarrow>
      (\<exists>e. out = Some e \<and> bs w b k = Some (body, e)))"

definition head_documented :: "'w s3_client \<Rightarrow> 'w buckets \<Rightarrow> bool" where
  "head_documented cl bs \<longleftrightarrow>
    (\<forall>b k. keeps bs (head_object cl b k)) \<and> (\<forall>b p. keeps bs (list_objects_v2 cl b p)) \<and>
    (\<forall>b k w out w'. head_object cl b k w = (Inr out, w') \<longrightarrow>
      (\<exists>x e. out = Some e \<and> bs w b k = Some (x, e))) \<and>
    (\<forall>b k w w'. head_object cl b k w = (Inl HeadNotFound, w') \<longrightarrow> bs w b k = None)"

definition delete_documented :: "'w s3_client \<Rightarrow> 'w buckets \<Rightarrow> bool" where
  "delete_documented cl bs \<longleftrightarrow>
    (\<forall>b k e w.
      (\<forall>w'. delete_object cl b k e w = (Inr (), w') \<longrightarrow>
        bs w' b k = None \<and> (bs w b k = None \<or> map_option snd (bs w b k) = Some e)) \<and>
      (bs w b k \<noteq> None \<longrightarrow> map_option snd (bs w b k) \<noteq> Some e \<longrightarrow>
        bs (snd (delete_object cl b k e w)) = bs w) \<and>
      (\<forall>b' k'. (b', k') \<noteq> (b, k) \<longrightarrow> bs (snd (delete_object cl b k e w)) b' k' = bs w b' k'))"

definition s3_service :: "'w s3_client \<Rightarrow> 'w buckets \<Rightarrow> bool" where
  "s3_service cl bs \<longleftrightarrow>
    put_documented cl bs \<and> get_documented cl bs \<and> head_documented cl bs \<and> delete_documented cl bs"

text \<open>The objects of a store are those of its bucket under its prefix.\<close>

definition s3_objects :: "'w s3_store \<Rightarrow> 'w buckets \<Rightarrow> 'w objects" where
  "s3_objects s bs w k = bs w (s3_bucket s) (full_key s k)"

lemma full_key_inject [simp]: "full_key s k = full_key s k' \<longleftrightarrow> k = k'"
  by (simp add: full_key_def)

section \<open>An S3 store meets the contract\<close>

lemma s3_put_request:
  "snd (s3_put s k b w) =
    snd (put_object (s3_the_client s) \<lparr>po_bucket = s3_bucket s, po_key = full_key s k, po_body = b,
      po_if_match = None, po_if_none_match = None\<rparr> w)"
  by (simp add: s3_put_def)

lemma s3_cas_request:
  "snd (s3_put_if_unmodified s k b x w) =
    snd (put_object (s3_the_client s) \<lparr>po_bucket = s3_bucket s, po_key = full_key s k, po_body = b,
      po_if_match = x, po_if_none_match = (if x = None then Some ''*'' else None)\<rparr> w)"
  by (simp add: s3_put_if_unmodified_def Let_def split: option.splits)

lemma s3_delete_request:
  "snd (s3_delete_if_match s k e w) =
    snd (delete_object (s3_the_client s) (s3_bucket s) (full_key s k) e w)"
  by (simp add: s3_delete_if_match_def Let_def)

lemma put_other_key:
  "put_documented cl bs \<Longrightarrow> (b, k) \<noteq> (po_bucket rq, po_key rq) \<Longrightarrow>
    bs (snd (put_object cl rq w)) b k = bs w b k"
  unfolding put_documented_def by blast

lemma put_refused:
  "put_documented cl bs \<Longrightarrow> \<not> put_precondition rq (bs w (po_bucket rq) (po_key rq)) \<Longrightarrow>
    bs (snd (put_object cl rq w)) = bs w"
  unfolding put_documented_def by blast

lemma put_accepted:
  "put_documented cl bs \<Longrightarrow> put_object cl rq w = (Inr out, w') \<Longrightarrow>
    put_precondition rq (bs w (po_bucket rq) (po_key rq)) \<and>
    bs w' (po_bucket rq) (po_key rq) = Some (po_body rq, unwrap_or_default out)"
  unfolding put_documented_def unwrap_or_default_def by fastforce

lemma delete_other_key:
  "delete_documented cl bs \<Longrightarrow> (b', k') \<noteq> (b, k) \<Longrightarrow>
    bs (snd (delete_object cl b k e w)) b' k' = bs w b' k'"
  unfolding delete_documented_def by blast

lemma s3_keeps:
  assumes "get_documented (s3_the_client s) bs" and "head_documented (s3_the_client s) bs"
  shows "keeps bs (s3_get s k)" and "keeps bs (s3_head s k)" and "keeps bs (s3_list s p)"
proof -
  have "keeps bs (get_object (s3_the_client s) b k)" "keeps bs (collect_body (s3_the_client s) x)"
    "keeps bs (head_object (s3_the_client s) b k)" "keeps bs (list_objects_v2 (s3_the_client s) b k)"
    for b k x
    using assms by (auto simp: get_documented_def head_documented_def)
  note client = this
  show "keeps bs (s3_get s k)"
    unfolding s3_get_def by (auto intro!: keeps_intros client simp: Let_def)
  show "keeps bs (s3_head s k)"
    unfolding s3_head_def
    by (auto intro!: keeps_intros client split: sum.splits head_object_error.splits)
  show "keeps bs (s3_list s p)"
    unfolding s3_list_def Let_def by (auto intro!: keeps_intros client)
qed

lemma s3_get_read:
  assumes "get_documented (s3_the_client s) bs" and "s3_get s k w = (Inr (b, e), w')"
  shows "s3_objects s bs w k = Some (b, e)"
proof -
  from assms(2) obtain out x w1 where
    got: "get_object (s3_the_client s) (s3_bucket s) (full_key s k) w = (Inr (out, x), w1)"
    and body: "collect_body (s3_the_client s) x w1 = (Inr b, w')" "e = unwrap_or_default out"
    unfolding s3_get_def Let_def by (auto elim!: io_elims split: prod.splits)
  with assms(1) show ?thesis
    unfolding get_documented_def s3_objects_def unwrap_or_default_def by fastforce
qed

lemma s3_head_read:
  assumes "head_documented (s3_the_client s) bs" and "s3_head s k w = (Inr r, w')"
  shows "r = etag_at (s3_objects s bs) k w"
proof -
  from assms(2) consider
      (found) out where
        "head_object (s3_the_client s) (s3_bucket s) (full_key s k) w = (Inr out, w')"
        "r = Some (unwrap_or_default out)"
    | (absent) "head_object (s3_the_client s) (s3_bucket s) (full_key s k) w = (Inl HeadNotFound, w')"
        "r = None"
    unfolding s3_head_def
    by (auto elim!: io_elims split: sum.splits head_object_error.splits)
  then show ?thesis
    using assms(1)
    by cases (fastforce simp: head_documented_def s3_objects_def etag_at_def unwrap_or_default_def)+
qed

lemma s3_meets_contract:
  assumes "s3_service (s3_the_client s) bs"
  shows "per_object_store (s3_snapshot_store s) (s3_objects s bs)"
proof -
  have puts: "put_documented (s3_the_client s) bs"
    and gets: "get_documented (s3_the_client s) bs"
    and heads: "head_documented (s3_the_client s) bs"
    and deletes: "delete_documented (s3_the_client s) bs"
    using assms by (auto simp: s3_service_def)
  note sel = s3_snapshot_store_def s3_objects_def
  have other: "keeps (\<lambda>w. bs w (s3_bucket s) (full_key s k')) (s3_put s k b)"
    "keeps (\<lambda>w. bs w (s3_bucket s) (full_key s k')) (s3_put_if_unmodified s k b x)"
    "keeps (\<lambda>w. bs w (s3_bucket s) (full_key s k')) (s3_delete_if_match s k e)"
    if "k' \<noteq> k" for k k' b x e
    using that put_other_key [OF puts] delete_other_key [OF deletes]
    by (auto simp: keeps_def s3_put_request s3_cas_request s3_delete_request)
  show ?thesis
  proof unfold_locales
    fix k k' b x e w w' r p u tag
    show "keeps (s3_objects s bs) (st_get (s3_snapshot_store s) k)"
      "keeps (s3_objects s bs) (st_head (s3_snapshot_store s) k)"
      "keeps (s3_objects s bs) (st_list (s3_snapshot_store s) p)"
      using s3_keeps [OF gets heads] by (auto simp: sel keeps_def)
    show "s3_objects s bs w k = Some (b, e)" if "st_get (s3_snapshot_store s) k w = (Inr (b, e), w')"
      using s3_get_read [OF gets] that by (simp add: s3_snapshot_store_def)
    show "h = etag_at (s3_objects s bs) k w"
      if "st_head (s3_snapshot_store s) k w = (Inr h, w')" for h
      using s3_head_read [OF heads] that by (simp add: s3_snapshot_store_def)
    show "s3_objects s bs w' k = Some (b, pr_etag r)"
      if "st_put (s3_snapshot_store s) k b w = (Inr r, w')"
      using that by (auto simp: sel s3_put_def dest!: put_accepted [OF puts])
    show "etag_at (s3_objects s bs) k w = x \<and> s3_objects s bs w' k = Some (b, pr_etag r)"
      if "st_put_if_unmodified (s3_snapshot_store s) k b x w = (Inr r, w')"
      using that
      by (cases x) (auto simp: sel etag_at_def s3_put_if_unmodified_def Let_def put_precondition_def
          dest!: put_accepted [OF puts])
    show "s3_objects s bs (snd (st_put_if_unmodified (s3_snapshot_store s) k b x w)) =
        s3_objects s bs w" if "etag_at (s3_objects s bs) k w \<noteq> x"
      using that
      by (intro ext) (cases x, auto simp: sel etag_at_def s3_cas_request put_precondition_def
          put_refused [OF puts])
    show "s3_objects s bs w' k = None \<and>
        (s3_objects s bs w k = None \<or> etag_at (s3_objects s bs) k w = Some tag)"
      if "st_delete_if_match (s3_snapshot_store s) k tag w = (Inr u, w')"
      using that deletes
      by (auto simp: sel etag_at_def s3_delete_if_match_def Let_def delete_documented_def)
    show "s3_objects s bs (snd (st_delete_if_match (s3_snapshot_store s) k tag w)) =
        s3_objects s bs w"
      if "s3_objects s bs w k \<noteq> None" "etag_at (s3_objects s bs) k w \<noteq> Some tag"
      using that deletes
      by (intro ext) (auto simp: sel etag_at_def s3_delete_request delete_documented_def)
  qed (use other in \<open>auto simp: sel body_at_def keeps_def\<close>)
qed

section \<open>A service that behaves as documented\<close>

text \<open>
  The hypotheses of \<open>s3_service\<close> can be met: a table of buckets that hands out a new etag at every
  write and checks both conditional headers.  The stream of a read is the body itself.
\<close>

record s3_table =
  tb_objects :: "((string \<times> string) \<times> bytes \<times> string) list"
  tb_next :: nat

definition table_put :: "put_object_request \<Rightarrow> (s3_table, string option) io" where
  "table_put rq t =
    (let at = (po_bucket rq, po_key rq); ob = map_of (tb_objects t) at in
     if put_precondition rq ob then
       (Inr (Some (show_nat (tb_next t))),
        t\<lparr>tb_objects := AList.update at (po_body rq, show_nat (tb_next t)) (tb_objects t),
          tb_next := tb_next t + 1\<rparr>)
     else (Inl (Msg ''PreconditionFailed''), t))"

definition table_get :: "string \<Rightarrow> string \<Rightarrow> (s3_table, string option \<times> string) io" where
  "table_get b k t =
    (case map_of (tb_objects t) (b, k) of
       None \<Rightarrow> (Inl (Msg ''NoSuchKey''), t)
     | Some (x, e) \<Rightarrow> (Inr (Some e, x), t))"

definition table_head :: "string \<Rightarrow> string \<Rightarrow> (s3_table, head_object_error, string option) eio" where
  "table_head b k t =
    (case map_of (tb_objects t) (b, k) of
       None \<Rightarrow> (Inl HeadNotFound, t)
     | Some (x, e) \<Rightarrow> (Inr (Some e), t))"

definition table_list :: "string \<Rightarrow> string \<Rightarrow> (s3_table, s3_object list) io" where
  "table_list b p t =
    (Inr (map (\<lambda>((_, k), x, e). \<lparr>so_key = Some k, so_e_tag = Some e, so_size = Some (int (length x))\<rparr>)
      (filter (\<lambda>((b', k), _). b' = b \<and> starts_with k p) (tb_objects t))), t)"

definition table_delete :: "string \<Rightarrow> string \<Rightarrow> string \<Rightarrow> (s3_table, unit) io" where
  "table_delete b k e t =
    (case map_of (tb_objects t) (b, k) of
       Some (x, cur) \<Rightarrow>
         if cur = e then (Inr (), t\<lparr>tb_objects := AList.delete (b, k) (tb_objects t)\<rparr>)
         else (Inl (Msg ''PreconditionFailed''), t)
     | None \<Rightarrow> (Inl (Msg ''PreconditionFailed''), t))"

definition table_client :: "s3_table s3_client" where
  "table_client =
    \<lparr>put_object = table_put, get_object = table_get, collect_body = (\<lambda>x t. (Inr x, t)),
     head_object = table_head, list_objects_v2 = table_list, delete_object = table_delete\<rparr>"

definition table_buckets :: "s3_table buckets" where
  "table_buckets t b k = map_of (tb_objects t) (b, k)"

lemma table_client_documented: "s3_service table_client table_buckets"
proof -
  have "put_documented table_client table_buckets"
    by (auto simp: put_documented_def table_client_def table_put_def table_buckets_def Let_def
        update_conv' split: if_splits)
  moreover have "get_documented table_client table_buckets"
    by (auto simp: get_documented_def table_client_def table_get_def table_buckets_def keeps_def
        split: option.splits)
  moreover have "head_documented table_client table_buckets"
    by (auto simp: head_documented_def table_client_def table_head_def table_list_def
        table_buckets_def keeps_def split: option.splits)
  moreover have "delete_documented table_client table_buckets"
    by (auto simp: delete_documented_def table_client_def table_delete_def table_buckets_def
        delete_conv' split: option.splits if_splits)
  ultimately show ?thesis
    by (simp add: s3_service_def)
qed

definition table_s3 :: "string \<Rightarrow> s3_table s3_store" where
  "table_s3 prefx =
    \<lparr>s3_name = ''primary-r2'', s3_endpoint = ''https://r2.example'', s3_region = ''auto'',
     s3_bucket = ''agent-state'', s3_prefix = prefx, s3_the_client = table_client\<rparr>"

interpretation s3_documented:
  per_object_store "s3_snapshot_store (table_s3 prefx)" "s3_objects (table_s3 prefx) table_buckets"
  by (rule s3_meets_contract) (simp add: table_s3_def table_client_documented)

end
