(* ===== verification/Export_Facts.thy ===== *)
theory Export_Facts
  imports Export Session_Run S3_Store
begin

text \<open>
  Properties of the export: it opens exactly the snapshots that \<open>run\<close> would, and it writes nothing
  but the two objects of the conversation it exports; and the contract of the trait on S3.
\<close>

section \<open>Agreement up to the text of errors\<close>

definition agrees :: "('a \<Rightarrow> 'b) \<Rightarrow> ('w, 'a) io \<Rightarrow> ('w, 'b) io \<Rightarrow> bool" where
  "agrees f m m' \<longleftrightarrow>
    (\<forall>w. snd (m' w) = snd (m w) \<and>
      (case fst (m w) of Inr x \<Rightarrow> fst (m' w) = Inr (f x) | Inl e \<Rightarrow> isl (fst (m' w))))"

named_theorems agrees_intros \<open>composition rules for \<open>agrees\<close>\<close>

lemma agrees_ret [agrees_intros]: "f x = y \<Longrightarrow> agrees f (ret x) (ret y)"
  by (simp add: agrees_def ret_def)

lemma agrees_same [agrees_intros]:
  assumes "\<And>x. agrees f (g x) (h x)"
  shows "agrees f (and_then m g) (and_then m h)"
  unfolding agrees_def
proof
  fix w
  show "snd (and_then m h w) = snd (and_then m g w) \<and>
      (case fst (and_then m g w) of Inr x \<Rightarrow> fst (and_then m h w) = Inr (f x)
       | Inl e \<Rightarrow> isl (fst (and_then m h w)))"
  proof (cases "m w" rule: prod.exhaust)
    case (Pair r w1)
    show ?thesis
    proof (cases r)
      case (Inl e)
      with Pair show ?thesis by (simp add: and_then_def)
    next
      case (Inr x)
      with Pair have step: "and_then m g w = g x w1" "and_then m h w = h x w1"
        by (simp_all add: and_then_def)
      show ?thesis
        using assms [of x] unfolding agrees_def step by blast
    qed
  qed
qed

lemma agrees_case_prod [agrees_intros]:
  "(\<And>x y. agrees f (g x y) (h x y)) \<Longrightarrow> agrees f (case p of (x, y) \<Rightarrow> g x y) (case p of (x, y) \<Rightarrow> h x y)"
  by (cases p) auto

text \<open>Two texts for the same error.\<close>

lemma agrees_context:
  "(\<And>x. agrees f (g x) (h x)) \<Longrightarrow>
    agrees f (and_then (lift_res (res_context a r)) g) (and_then (lift_res (res_context b r)) h)"
  by (cases r) (auto simp: agrees_def and_then_def lift_res_def res_context_def fail_def ret_def)

text \<open>
  \<open>export\<close> restores the session by the same checks as \<open>run\<close>: from every store and in every
  state the two read the same objects, and the one succeeds exactly when the other does, with the
  same session.
\<close>

theorem export_restores_the_same:
  "snd (export_restore E st ident vk w) = snd (restore E st ident vk w) \<and>
    (case fst (restore E st ident vk w) of
       Inr rd \<Rightarrow> fst (export_restore E st ident vk w) = Inr (rd_state rd)
     | Inl e \<Rightarrow> isl (fst (export_restore E st ident vk w)))"
proof -
  have tail: "agrees rd_state (and_then (lift_res r) (\<lambda>s. ret \<lparr>rd_pointer = p, rd_pointer_etag = t, rd_state = s\<rparr>))
      (lift_res r)" for r p t
    by (cases r) (auto simp: agrees_def and_then_def lift_res_def ret_def fail_def)
  have "agrees rd_state (restore E st ident vk) (export_restore E st ident vk)"
    unfolding restore_def export_restore_def Let_def
    by (intro agrees_context agrees_intros tail)
  then show ?thesis
    by (simp add: agrees_def)
qed

section \<open>What is written\<close>

lemma keeps_gpt_get_json_loop:
  assumes "api_env_keeps (gv_api V) v"
  shows "keeps v (gpt_get_json_loop V c from_value url fuel att)"
proof -
  have http: "http_keeps (ae_http (gv_api V)) v" and sl: "keeps v (ae_sleep (gv_api V) n)" for n
    using assms by (auto simp: api_env_keeps_def)
  show ?thesis
    by (induction fuel arbitrary: att)
      (auto simp: Let_def intro!: keeps_intros http_keeps_rules [OF http] sl)
qed

lemma keeps_gpt_client:
  assumes "api_env_keeps (gv_api V) v"
  shows "keeps v (gpt_new V http url d n)" and "keeps v (list_conversations V c off lim)"
    and "keeps v (get_conversation V c cid)" and "keeps v (first_accessible V c xs)"
proof -
  have http: "http_keeps (ae_http (gv_api V)) v"
    using assms by (auto simp: api_env_keeps_def)
  show "keeps v (gpt_new V http url d n)"
    unfolding gpt_new_def Let_def by (intro keeps_intros http_keeps_rules [OF http])
  show "keeps v (list_conversations V c off lim)"
    unfolding list_conversations_def gpt_get_json_def by (rule keeps_gpt_get_json_loop [OF assms])
  show get: "keeps v (get_conversation V c cid)" for cid
    unfolding get_conversation_def gpt_get_json_def by (rule keeps_gpt_get_json_loop [OF assms])
  show "keeps v (first_accessible V c xs)"
    by (induction xs) (auto simp: match_result_def intro!: keeps_intros get split: sum.splits)
qed

context snapshot_store begin

lemma export_session_frame:
  assumes net: "api_env_keeps (gv_api V) objs"
    and "\<And>d. k \<noteq> export_json_key (cg_export cfg) d" and "\<And>d. k \<noteq> export_md_key (cg_export cfg) d"
  shows "keeps (body_at objs k) (export_session E V cfg st ident vk)"
proof -
  have restore: "keeps (body_at objs k) (export_restore E st ident vk)"
    unfolding export_restore_def Let_def by (intro keeps_intros get_body_keeps)
  have detail: "keeps (body_at objs k) (export_detail V (cg_export cfg) st d)" for d
    unfolding export_detail_def Let_def by (intro keeps_intros put_frame assms)
  show ?thesis
    unfolding export_session_def Let_def
    by (intro keeps_intros restore detail keeps_gpt_client [OF net, THEN keeps_body])
qed

end

text \<open>
  C33: The export writes, whether it succeeds or not, no object of the primary store but the JSON and
  the Markdown of a conversation under the prefix of its configuration: the snapshots,
  \<open>latest.json\<close>, the lock and the archive of the workloads keep their bodies.
\<close>

theorem export_writes_own_keys:
  assumes "snapshot_store st objs" and "api_env_keeps (gv_api V) objs"
    and "\<And>d. k \<noteq> export_json_key (cg_export cfg) d" and "\<And>d. k \<noteq> export_md_key (cg_export cfg) d"
  shows "body_at objs k (snd (export_session E V cfg st ident vk w)) = body_at objs k w"
  by (rule keeps_snd [OF snapshot_store.export_session_frame [OF assms]])

definition bench_gpt :: "bench gpt_env" where
  "bench_gpt =
    \<lparr>gv_api = se_api bench_E, gv_debug_log = False, gv_detail_from_value = (\<lambda>v. Inl (Msg ''JSON'')),
     gv_detail_to_vec_pretty = (\<lambda>d. Inl (Msg ''JSON'')), gv_timestamp_opt = (\<lambda>t. None),
     gv_rfc3339 = (\<lambda>t. []), gv_f64_display = (\<lambda>f. [])\<rparr>"

theorem export_writes_own_keys_witness:
  "body_at bench_objects LATEST_KEY (snd (export_session bench_E bench_gpt bench_config bench_primary
      ''AGE'' ''k'' bench_seeded)) = body_at bench_objects LATEST_KEY bench_seeded"
  by (rule export_writes_own_keys [OF bench.snapshot_store_axioms])
    (simp_all add: bench_gpt_def bench_E_def bench_network bench_config_def default_export_def
      LATEST_KEY_def export_json_key_def export_md_key_def)

section \<open>The contract of the trait on S3\<close>

text \<open>
  C22: A store on S3, over a service that does what S3 documents of conditional writes, of deletes
  and of reads after writes, implements the contract of the trait: every operation acts on one key
  of one map of objects, and a conditional one is refused, without effect, on any other etag.
\<close>

theorem s3_implements_store:
  assumes "s3_service (s3_the_client s) bs"
  shows "per_object_store (s3_snapshot_store s) (s3_objects s bs)"
  by (rule s3_meets_contract [OF assms])

theorem s3_implements_store_witness:
  "per_object_store (s3_snapshot_store (table_s3 ''p/'')) (s3_objects (table_s3 ''p/'') table_buckets)"
  by (rule s3_implements_store) (simp add: table_s3_def table_client_documented)

end
