(* ===== verification/Secrets.thy ===== *)
theory Secrets
  imports Git_Branch Github_Release S3_Store Config
begin

text \<open>
  \<open>src/secrets.rs\<close> and \<open>build_store\<close> of \<open>src/stores/mod.rs\<close>: secrets are read from the environment of
  the process and removed from it at once, so that no child process inherits them, and the stores of
  the configuration are built with them.

  The environment is a part of the world, a map from names to bytes; \<open>std::env::var\<close> gives the value
  of a variable that is set and valid UTF-8.
\<close>

record 'w env_part =
  ev_vars :: "'w \<Rightarrow> string \<rightharpoonup> bytes"
  ev_update :: "(string \<rightharpoonup> bytes) \<Rightarrow> 'w \<Rightarrow> 'w"

definition env_var :: "'w env_part \<Rightarrow> string \<Rightarrow> 'w \<Rightarrow> string option \<times> 'w" where
  "env_var P var w = (Option.bind (ev_vars P w var) from_utf8, w)"

definition remove_var :: "'w env_part \<Rightarrow> string \<Rightarrow> 'w \<Rightarrow> unit \<times> 'w" where
  "remove_var P var w = ((), ev_update P ((ev_vars P w)(var := None)) w)"

definition env_ok :: "'w env_part \<Rightarrow> bool" where
  "env_ok P \<longleftrightarrow> (\<forall>m w. ev_vars P (ev_update P m w) = m)"

section \<open>secrets.rs\<close>

definition read_env :: "'w env_part \<Rightarrow> string \<Rightarrow> ('w, string) io" where
  "read_env P var =
    and_then (effect (env_var P var)) (\<lambda>v.
    lift_res (ok_or (Msg (''env var '' @ var @ '' is not set'')) v))"

definition age_take_from_env :: "'w env_part \<Rightarrow> string \<Rightarrow> ('w, string) io" where
  "age_take_from_env P var =
    and_then (read_env P var) (\<lambda>raw.
    and_then (effect (remove_var P var)) (\<lambda>_. ret raw))"

definition age_key_line :: "string \<Rightarrow> string" where
  "age_key_line raw =
    (case find (\<lambda>l. starts_with l ''AGE-SECRET-KEY-'') (str_lines raw) of
       Some l \<Rightarrow> l
     | None \<Rightarrow> trim raw)"

definition age_parse :: "'w crypto_api \<Rightarrow> string \<Rightarrow> identity res" where
  "age_parse C raw =
    (case age_identity_from_str C (age_key_line raw) of
       Inl e \<Rightarrow> Inl (Msg (''invalid age identity: '' @ report_chain e))
     | Inr i \<Rightarrow> Inr i)"

definition minisign_take_from_env :: "'w env_part \<Rightarrow> string \<Rightarrow> ('w, string) io" where
  "minisign_take_from_env P var =
    and_then (read_env P var) (\<lambda>raw.
    and_then (effect (remove_var P var)) (\<lambda>_. ret raw))"

record store_credential =
  sc_access_key :: string
  sc_secret_key :: string

definition credential_take_from_env ::
    "'w env_part \<Rightarrow> string \<Rightarrow> string \<Rightarrow> ('w, store_credential) io" where
  "credential_take_from_env P access_var secret_var =
    and_then (read_env P access_var) (\<lambda>ak.
    and_then (read_env P secret_var) (\<lambda>sk.
    and_then (effect (remove_var P access_var)) (\<lambda>_.
    and_then (effect (remove_var P secret_var)) (\<lambda>_.
    ret \<lparr>sc_access_key = ak, sc_secret_key = sk\<rparr>))))"

section \<open>Building the stores\<close>

text \<open>
  What the constructors call.  \<open>bk_aws endpoint region access secret path_style\<close> loads the AWS
  configuration and makes the client of an S3 store.  A git branch store has a work directory cell of
  its own; cells are told apart by the position of the store in the configuration.
\<close>

record 'w backends =
  bk_env :: "'w env_part"
  bk_aws :: "string \<Rightarrow> string \<Rightarrow> string \<Rightarrow> string \<Rightarrow> bool \<Rightarrow> 'w \<Rightarrow> 'w s3_client \<times> 'w"
  bk_github :: "'w github_api"
  bk_asset_pages :: nat
  bk_git :: "'w git_api"
  bk_git_cell :: "nat \<Rightarrow> 'w \<Rightarrow> string option"
  bk_git_set_cell :: "nat \<Rightarrow> string \<Rightarrow> 'w \<Rightarrow> 'w"

definition s3_store_new ::
    "'w backends \<Rightarrow> string \<Rightarrow> string \<Rightarrow> string \<Rightarrow> string \<Rightarrow> string \<Rightarrow> store_credential \<Rightarrow>
      ('w, 'w s3_store) io" where
  "s3_store_new B name endpoint region bucket prefx creds =
    and_then (effect (bk_aws B endpoint region (sc_access_key creds) (sc_secret_key creds) True))
      (\<lambda>client.
    ret \<lparr>s3_name = name, s3_endpoint = endpoint, s3_region = region, s3_bucket = bucket,
         s3_prefix = prefx, s3_the_client = client\<rparr>)"

text \<open>\<open>std::env::var(token_env).map_err(..)?; std::env::remove_var(token_env)\<close>.\<close>

definition take_token :: "'w env_part \<Rightarrow> string \<Rightarrow> string \<Rightarrow> ('w, string) io" where
  "take_token P name token_env =
    and_then (effect (env_var P token_env)) (\<lambda>v.
    and_then (lift_res (ok_or (Msg (''store '' @ name @ '': env var '' @ token_env @ '' is not set'')) v))
      (\<lambda>raw.
    and_then (effect (remove_var P token_env)) (\<lambda>_. ret raw)))"

definition build_store :: "'w backends \<Rightarrow> nat \<Rightarrow> store_cfg \<Rightarrow> ('w, 'w store) io" where
  "build_store B slot cfg =
    (case cfg of
       StoreS3 name endpoint region bucket prefx access_key_env secret_key_env \<Rightarrow>
         and_then (with_context (''store '' @ name @ '': read credentials'')
            (credential_take_from_env (bk_env B) access_key_env secret_key_env)) (\<lambda>creds.
         and_then (s3_store_new B name endpoint region bucket prefx creds) (\<lambda>store.
         ret (s3_snapshot_store store)))
     | StoreGithubRelease name repo token_env \<Rightarrow>
         and_then (take_token (bk_env B) name token_env) (\<lambda>raw.
         and_then (lift_res (github_store_new (bk_github B) name repo raw)) (\<lambda>store.
         ret (github_snapshot_store (bk_github B) (bk_asset_pages B) store)))
     | StoreGitBranch name repo_url branch token_env \<Rightarrow>
         and_then (take_token (bk_env B) name token_env) (\<lambda>raw.
         and_then (lift_res (git_store_new (bk_git_cell B slot) (bk_git_set_cell B slot)
            name repo_url branch raw)) (\<lambda>store.
         ret (git_snapshot_store (bk_git B) store))))"

text \<open>The loop of the commands over the mirrors: one that cannot be built is left out.\<close>

fun build_mirrors :: "'w backends \<Rightarrow> nat \<Rightarrow> store_cfg list \<Rightarrow> ('w, 'w store list) io" where
  "build_mirrors B slot [] = ret []"
| "build_mirrors B slot (cfg # rest) =
    and_then (attempt (build_store B slot cfg)) (\<lambda>r.
    and_then (build_mirrors B (slot + 1) rest) (\<lambda>stores.
    ret (case r of Inr s \<Rightarrow> s # stores | Inl _ \<Rightarrow> stores)))"

end
