(* ===== verification/Commands.thy ===== *)
theory Commands
  imports Secrets Export Import Session_Run
begin

text \<open>
  The commands from the start of the process: \<open>src/main.rs\<close> and the first parts of the files under
  \<open>src/commands/\<close>, which take the secrets out of the environment, read the key files and build the
  stores.  The parser of the command line, which \<open>clap\<close> derives from the types \<open>Cli\<close> and \<open>Cmd\<close>, is an
  argument of \<open>main_process\<close>.  The result of a command is what it prints on the standard output.
\<close>

section \<open>What the process is given\<close>

text \<open>
  The last fields stand for what is outside the program: how often the listing may be asked for a
  page, the browser events, and the order in which uploads are answered.
\<close>

record 'w command_env =
  cm_session :: "'w session_env"
  cm_gpt :: "'w gpt_env"
  cm_backends :: "'w backends"
  cm_loader :: loader
  cm_archive :: "'w archive_api"
  cm_rfc3339 :: "datetime \<Rightarrow> string"
  cm_generate :: "'w \<Rightarrow> (bytes \<times> bytes) \<times> 'w"
  cm_pages :: nat
  cm_events :: "wait_event list"
  cm_schedule :: "nat list"

definition CONFIG :: string where
  "CONFIG = ''REPOSSESS_CONFIG''"

definition AGE_IDENTITY :: string where
  "AGE_IDENTITY = ''REPOSSESS_AGE_IDENTITY''"

definition SIGN_SECRET :: string where
  "SIGN_SECRET = ''REPOSSESS_SIGN_SECRET''"

definition cm_env :: "'w command_env \<Rightarrow> 'w env_part" where
  "cm_env M = bk_env (cm_backends M)"

definition cm_crypto :: "'w command_env \<Rightarrow> 'w crypto_api" where
  "cm_crypto M = se_crypto (cm_session M)"

definition cm_files :: "'w command_env \<Rightarrow> file_system" where
  "cm_files M = ld_files (cm_loader M)"

section \<open>The first lines of the commands\<close>

definition take_identity :: "'w command_env \<Rightarrow> ('w, identity) io" where
  "take_identity M =
    and_then (age_take_from_env (cm_env M) AGE_IDENTITY) (\<lambda>raw. lift_res (age_parse (cm_crypto M) raw))"

definition take_signing_key :: "'w command_env \<Rightarrow> ('w, signing_key) io" where
  "take_signing_key M =
    and_then (minisign_take_from_env (cm_env M) SIGN_SECRET) (\<lambda>raw.
    lift_res (parse_signing_key (cm_crypto M) raw))"

definition config_recipient :: "'w command_env \<Rightarrow> config \<Rightarrow> recipient res" where
  "config_recipient M cfg =
    read_recipient (cm_crypto M) (cm_files M) (cy_recipient_file (cg_crypto cfg))"

definition pubkey_text :: "'w command_env \<Rightarrow> config \<Rightarrow> string res" where
  "pubkey_text M cfg =
    (let path = cy_verify_pubkey_file (cg_crypto cfg) in
     res_context (''read verify pubkey '' @ path) (read_to_string (cm_files M) path))"

definition build_primary :: "'w command_env \<Rightarrow> config \<Rightarrow> ('w, 'w store) io" where
  "build_primary M cfg =
    and_then (lift_res (primary_cfg cfg)) (\<lambda>c. build_store (cm_backends M) 0 c)"

definition build_all :: "'w command_env \<Rightarrow> config \<Rightarrow> ('w, 'w store \<times> 'w store list) io" where
  "build_all M cfg =
    and_then (build_primary M cfg) (\<lambda>primary.
    and_then (lift_res (mirrors_cfg cfg)) (\<lambda>cs.
    and_then (build_mirrors (cm_backends M) 1 cs) (\<lambda>mirrors. ret (primary, mirrors))))"

section \<open>The commands\<close>

record 'w run_args =
  ra_identity :: identity
  ra_recipient :: recipient
  ra_signing_key :: signing_key
  ra_verify_pubkey :: verifying_key
  ra_primary :: "'w store"
  ra_mirrors :: "'w store list"
  ra_run_id :: string

definition show_int :: "int \<Rightarrow> string" where
  "show_int n = (if n < 0 then ''-'' @ show_nat (nat (- n)) else show_nat (nat n))"

definition pick_run_id :: "'w command_env \<Rightarrow> ('w, string) io" where
  "pick_run_id M =
    and_then (effect (env_var (cm_env M) ''GITHUB_RUN_ID'')) (\<lambda>v.
    (case v of
       Some r \<Rightarrow> ret r
     | None \<Rightarrow>
         and_then (effect (utc_now (se_chrono (cm_session M)))) (\<lambda>now.
         ret (''local-'' @ show_int (timestamp_secs (se_chrono (cm_session M)) now)))))"

definition run_prepare :: "'w command_env \<Rightarrow> config \<Rightarrow> ('w, 'w run_args) io" where
  "run_prepare M cfg =
    and_then (take_identity M) (\<lambda>ident.
    and_then (lift_res (config_recipient M cfg)) (\<lambda>recip.
    and_then (take_signing_key M) (\<lambda>sk.
    and_then (lift_res (pubkey_text M cfg)) (\<lambda>hex.
    and_then (lift_res (parse_verifying_key (cm_crypto M) hex)) (\<lambda>vk.
    and_then (build_all M cfg) (\<lambda>(primary, mirrors).
    and_then (pick_run_id M) (\<lambda>run_id.
    ret \<lparr>ra_identity = ident, ra_recipient = recip, ra_signing_key = sk, ra_verify_pubkey = vk,
         ra_primary = primary, ra_mirrors = mirrors, ra_run_id = run_id\<rparr>)))))))"

definition run_command :: "'w command_env \<Rightarrow> config \<Rightarrow> ('w, string) io" where
  "run_command M cfg =
    and_then (run_prepare M cfg) (\<lambda>a.
    and_then (run_session (cm_session M) cfg (cm_pages M) (ra_run_id a) (ra_primary a) (ra_mirrors a)
        (ra_identity a) (ra_recipient a) (ra_signing_key a) (ra_verify_pubkey a)) (\<lambda>_. ret []))"

definition verify_command :: "'w command_env \<Rightarrow> config \<Rightarrow> ('w, string) io" where
  "verify_command M cfg =
    and_then (take_identity M) (\<lambda>ident.
    and_then (lift_res (pubkey_text M cfg)) (\<lambda>hex.
    and_then (lift_res (parse_verifying_key (cm_crypto M) hex)) (\<lambda>vk.
    and_then (build_primary M cfg) (\<lambda>primary.
    verify_snapshot (cm_session M) (cm_rfc3339 M) primary ident vk))))"

definition seed_command :: "'w command_env \<Rightarrow> config \<Rightarrow> ('w, string) io" where
  "seed_command M cfg =
    and_then (lift_res (config_recipient M cfg)) (\<lambda>recip.
    and_then (take_signing_key M) (\<lambda>sk.
    and_then (build_all M cfg) (\<lambda>(primary, mirrors).
    and_then (seed_session (cm_session M) cfg (cm_events M) primary mirrors recip sk) (\<lambda>_. ret []))))"

definition export_command :: "'w command_env \<Rightarrow> config \<Rightarrow> ('w, string) io" where
  "export_command M cfg =
    and_then (take_identity M) (\<lambda>ident.
    and_then (lift_res (pubkey_text M cfg)) (\<lambda>hex.
    and_then (lift_res (parse_verifying_key (cm_crypto M) (trim hex))) (\<lambda>vk.
    and_then (build_primary M cfg) (\<lambda>primary.
    export_session (cm_session M) (cm_gpt M) cfg primary ident vk))))"

definition first_chats_cfg :: "config \<Rightarrow> chats_cfg res" where
  "first_chats_cfg cfg =
    ok_or (Msg (''no [[workloads]] entry of kind = '' @ debug_str ''chatgpt_chats'' @
        '' found in config; add one before importing''))
      (case map (\<lambda>w. case w of ChatgptChats c \<Rightarrow> c) (cg_workloads cfg) of
         [] \<Rightarrow> None | c # _ \<Rightarrow> Some c)"

definition import_command ::
    "'w command_env \<Rightarrow> config \<Rightarrow> string \<Rightarrow> nat \<Rightarrow> bool \<Rightarrow> ('w, string) io" where
  "import_command M cfg dir concurrency dry_run =
    and_then (lift_res (first_chats_cfg cfg)) (\<lambda>wcfg.
    if concurrency = 0 then fail (Msg ''--concurrency must be >= 1'')
    else
      and_then (take_identity M) (\<lambda>ident.
      and_then (lift_res (config_recipient M cfg)) (\<lambda>recip.
      and_then (build_all M cfg) (\<lambda>(primary, mirrors).
      import_run (cm_archive M) (se_chats (cm_session M)) wcfg
        \<lparr>wx_http = \<lparr>hc_jar = [], hc_user_agent = None, hc_headers = []\<rparr>, wx_primary = primary,
         wx_mirrors = mirrors, wx_recipient = recip, wx_identity = ident\<rparr>
        dir concurrency (cm_schedule M) dry_run))))"

text \<open>\<open>gen_keys\<close>: the human-readable form prints the secret on the standard error.\<close>

definition gen_keys :: "'w command_env \<Rightarrow> bool \<Rightarrow> ('w, string) io" where
  "gen_keys M json =
    and_then (effect (cm_generate M)) (\<lambda>(signing_key, verifying_key).
    let secret_hex = hex_encode (cm_crypto M) signing_key;
        pubkey_hex = hex_encode (cm_crypto M) verifying_key in
    if json then
      lift_res (js_to_vec (ae_json (se_api (cm_session M)))
        (JObject [(''pubkey'', JString pubkey_hex), (''secret'', JString secret_hex)]))
    else ret pubkey_hex)"

section \<open>main\<close>

datatype cmd =
    GenKeys bool
  | Seed
  | Run
  | Verify
  | ExportCmd
  | ImportChatgpt string nat bool

record cli =
  cl_config :: string
  cl_cmd :: cmd

definition load_here :: "'w command_env \<Rightarrow> string \<Rightarrow> ('w, config) io" where
  "load_here M path w =
    (load_config ((cm_loader M)\<lparr>ld_env := (\<lambda>v. fst (env_var (cm_env M) v w))\<rparr>) path, w)"

definition main_dispatch :: "'w command_env \<Rightarrow> string \<Rightarrow> cmd \<Rightarrow> ('w, string) io" where
  "main_dispatch M config_path c =
    (case c of
       GenKeys json \<Rightarrow> gen_keys M json
     | Seed \<Rightarrow> and_then (load_here M config_path) (seed_command M)
     | Run \<Rightarrow> and_then (load_here M config_path) (run_command M)
     | Verify \<Rightarrow> and_then (load_here M config_path) (verify_command M)
     | ExportCmd \<Rightarrow> and_then (load_here M config_path) (export_command M)
     | ImportChatgpt dir concurrency dry_run \<Rightarrow>
         and_then (load_here M config_path) (\<lambda>cfg. import_command M cfg dir concurrency dry_run))"

text \<open>
  \<open>main\<close>: \<open>Cli::parse\<close> reads the words of the command line and \<open>REPOSSESS_CONFIG\<close>, and ends the process
  when it refuses them.
\<close>

definition main_process :: "'w command_env \<Rightarrow> ('w, cli) io \<Rightarrow> ('w, string) io" where
  "main_process M parse =
    and_then parse (\<lambda>cli. main_dispatch M (cl_config cli) (cl_cmd cli))"

end
