(* ===== verification/Secrets_Facts.thy ===== *)
theory Secrets_Facts
  imports Commands
begin

text \<open>
  While a command prepares, the environment only shrinks, and what was taken from it stays away.
\<close>

section \<open>Operations under which the environment shrinks\<close>

definition shrinks :: "'w env_part \<Rightarrow> ('w \<Rightarrow> 'a \<times> 'w) \<Rightarrow> bool" where
  "shrinks P m \<longleftrightarrow> (\<forall>w. ev_vars P (snd (m w)) \<subseteq>\<^sub>m ev_vars P w)"

named_theorems shrinks_intros \<open>composition rules for \<open>shrinks\<close>\<close>

lemma shrinksD: "shrinks P m \<Longrightarrow> m w = (r, w') \<Longrightarrow> ev_vars P w' \<subseteq>\<^sub>m ev_vars P w"
  unfolding shrinks_def by (metis snd_conv)

lemma shrinks_keeps: "keeps (ev_vars P) m \<Longrightarrow> shrinks P m"
  by (simp add: keeps_def shrinks_def)

lemma shrinks_and_then [shrinks_intros]:
  "shrinks P m \<Longrightarrow> (\<And>x. shrinks P (f x)) \<Longrightarrow> shrinks P (and_then m f)"
  by (auto simp: shrinks_def and_then_def split: prod.splits sum.splits)
    (metis map_le_trans snd_conv)+

lemma shrinks_attempt [shrinks_intros]: "shrinks P m \<Longrightarrow> shrinks P (attempt m)"
  by (auto simp: shrinks_def attempt_def split: prod.splits) (metis snd_conv)

lemma shrinks_effect [shrinks_intros]: "shrinks P m \<Longrightarrow> shrinks P (effect m)"
  by (auto simp: shrinks_def effect_def split: prod.splits) (metis snd_conv)

lemma shrinks_context [shrinks_intros]: "shrinks P m \<Longrightarrow> shrinks P (with_context c m)"
  by (simp add: shrinks_def)

lemma shrinks_ret [shrinks_intros]: "shrinks P (ret x)" "shrinks P (fail e)" "shrinks P (lift_res r)"
  by (auto intro!: shrinks_keeps keeps_intros)

lemma shrinks_case [shrinks_intros]:
  "(\<And>x y. p = (x, y) \<Longrightarrow> shrinks P (f x y)) \<Longrightarrow> shrinks P (case p of (x, y) \<Rightarrow> f x y)"
  by (cases p) auto

lemma gone_stays:
  "shrinks P m \<Longrightarrow> m w = (r, w') \<Longrightarrow> ev_vars P w v = None \<Longrightarrow> ev_vars P w' v = None"
  by (drule (1) shrinksD) (metis domIff map_le_def)

section \<open>Taking secrets\<close>

lemma shrinks_env_var [shrinks_intros]: "shrinks P (env_var P v)"
  by (simp add: shrinks_def env_var_def)

lemma shrinks_remove_var:
  "env_ok P \<Longrightarrow> shrinks P (remove_var P v)"
  by (auto simp: shrinks_def remove_var_def env_ok_def map_le_def)

lemma removed: "env_ok P \<Longrightarrow> remove_var P v w = (u, w') \<Longrightarrow> ev_vars P w' v = None"
  by (auto simp: remove_var_def env_ok_def)

lemma shrinks_read_env [shrinks_intros]: "shrinks P (read_env P v)"
  unfolding read_env_def by (intro shrinks_intros)

lemma shrinks_take:
  assumes "env_ok P"
  shows "shrinks P (age_take_from_env P v)" and "shrinks P (minisign_take_from_env P v)"
    and "shrinks P (credential_take_from_env P a s)" and "shrinks P (take_token P n v)"
  unfolding age_take_from_env_def minisign_take_from_env_def credential_take_from_env_def take_token_def
  by (intro shrinks_intros shrinks_remove_var assms)+

lemma taken:
  assumes "env_ok P"
  shows "age_take_from_env P v w = (Inr x, w') \<Longrightarrow> ev_vars P w' v = None"
    and "minisign_take_from_env P v w = (Inr x, w') \<Longrightarrow> ev_vars P w' v = None"
    and "take_token P n v w = (Inr x, w') \<Longrightarrow> ev_vars P w' v = None"
  unfolding age_take_from_env_def minisign_take_from_env_def take_token_def
  by (auto elim!: io_elims dest: removed [OF assms])

lemma credential_taken:
  assumes "env_ok P" and "credential_take_from_env P a s w = (Inr x, w')"
  shows "ev_vars P w' a = None \<and> ev_vars P w' s = None"
proof -
  from assms(2) obtain w1 w2 u u' where
    "remove_var P a w1 = (u, w2)" and s: "remove_var P s w2 = (u', w')"
    unfolding credential_take_from_env_def by (auto elim!: io_elims)
  then have "ev_vars P w2 a = None" using removed [OF assms(1)] by blast
  with s show ?thesis
    using removed [OF assms(1) s] gone_stays [OF shrinks_remove_var [OF assms(1)] s] by blast
qed

text \<open>The variables that hold the secrets of a store.\<close>

definition secret_vars :: "store_cfg \<Rightarrow> string list" where
  "secret_vars c =
    (case c of
       StoreS3 name endpoint region bucket prefx ak sk \<Rightarrow> [ak, sk]
     | StoreGithubRelease name repo token \<Rightarrow> [token]
     | StoreGitBranch name url branch token \<Rightarrow> [token])"

definition aws_keeps_env :: "'w backends \<Rightarrow> bool" where
  "aws_keeps_env B \<longleftrightarrow> (\<forall>e r a s p. keeps (ev_vars (bk_env B)) (bk_aws B e r a s p))"

lemma shrinks_s3_new:
  "aws_keeps_env B \<Longrightarrow> shrinks (bk_env B) (s3_store_new B n e r b p c)"
  unfolding s3_store_new_def by (intro shrinks_intros shrinks_keeps) (simp add: aws_keeps_env_def)

lemma shrinks_build_store:
  assumes "env_ok (bk_env B)" and "aws_keeps_env B"
  shows "shrinks (bk_env B) (build_store B slot c)"
  unfolding build_store_def
  by (cases c) (auto intro!: shrinks_intros shrinks_take assms shrinks_s3_new)

lemma built_store_secrets:
  assumes "env_ok (bk_env B)" and "aws_keeps_env B" and "build_store B slot c w = (Inr st, w')"
  shows "list_all (\<lambda>v. ev_vars (bk_env B) w' v = None) (secret_vars c)"
proof (cases c)
  case (StoreS3 n e r b p a s)
  with assms(3) obtain cr w1 st' where
    cr: "credential_take_from_env (bk_env B) a s w = (Inr cr, w1)" and
    st: "s3_store_new B n e r b p cr w1 = (Inr st', w')"
    unfolding build_store_def by (auto elim!: io_elims)
  show ?thesis
    using credential_taken [OF assms(1) cr] gone_stays [OF shrinks_s3_new [OF assms(2)] st] StoreS3
    by (auto simp: secret_vars_def)
next
  case (StoreGithubRelease n r t)
  with assms(3) show ?thesis
    by (auto simp: secret_vars_def build_store_def elim!: io_elims dest: taken(3) [OF assms(1)])
next
  case (StoreGitBranch n u b t)
  with assms(3) show ?thesis
    by (auto simp: secret_vars_def build_store_def elim!: io_elims dest: taken(3) [OF assms(1)])
qed

lemma shrinks_build_mirrors:
  "env_ok (bk_env B) \<Longrightarrow> aws_keeps_env B \<Longrightarrow> shrinks (bk_env B) (build_mirrors B slot cs)"
  by (induction cs arbitrary: slot) (auto intro!: shrinks_intros shrinks_build_store)

section \<open>The preparation of a run\<close>

lemma shrinks_prepare_parts:
  assumes env: "env_ok (cm_env M)" and aws: "aws_keeps_env (cm_backends M)"
    and clock: "keeps (ev_vars (cm_env M)) (utc_now (se_chrono (cm_session M)))"
  shows "shrinks (cm_env M) (take_identity M)" and "shrinks (cm_env M) (take_signing_key M)"
    and "shrinks (cm_env M) (build_primary M cfg)" and "shrinks (cm_env M) (build_all M cfg)"
    and "shrinks (cm_env M) (pick_run_id M)"
proof -
  have P: "cm_env M = bk_env (cm_backends M)" by (simp add: cm_env_def)
  note env' = env [unfolded P]
  show "shrinks (cm_env M) (take_identity M)" "shrinks (cm_env M) (take_signing_key M)"
    unfolding take_identity_def take_signing_key_def by (intro shrinks_intros shrinks_take env)+
  show primary: "shrinks (cm_env M) (build_primary M cfg)"
    unfolding P build_primary_def by (intro shrinks_intros shrinks_build_store env' aws)
  then show "shrinks (cm_env M) (build_all M cfg)"
    unfolding P build_all_def by (intro shrinks_intros shrinks_build_mirrors env' aws)
  have "shrinks (cm_env M) (case v of Some r \<Rightarrow> ret r
      | None \<Rightarrow> and_then (effect (utc_now (se_chrono (cm_session M)))) (\<lambda>now.
         ret (''local-'' @ show_int (timestamp_secs (se_chrono (cm_session M)) now))))" for v
    by (cases v) (auto intro!: shrinks_intros shrinks_keeps [OF clock])
  then show "shrinks (cm_env M) (pick_run_id M)"
    unfolding pick_run_id_def by (intro shrinks_intros)
qed

lemma run_prepare_steps:
  assumes "run_prepare M cfg w = (Inr a, w')"
  obtains c w1 w2 w3 w4 id sk st where
    "take_identity M w = (Inr id, w1)" "take_signing_key M w1 = (Inr sk, w2)"
    "primary_cfg cfg = Inr c" "build_store (cm_backends M) 0 c w2 = (Inr st, w3)"
    "\<And>v. env_ok (cm_env M) \<Longrightarrow> aws_keeps_env (cm_backends M) \<Longrightarrow>
      keeps (ev_vars (cm_env M)) (utc_now (se_chrono (cm_session M))) \<Longrightarrow>
      ev_vars (cm_env M) w3 v = None \<Longrightarrow> ev_vars (cm_env M) w' v = None"
proof -
  from assms obtain id sk w1 w2 w4 x st c w3 cs ms rid where
    steps: "take_identity M w = (Inr id, w1)" "take_signing_key M w1 = (Inr sk, w2)"
    "primary_cfg cfg = Inr c" "build_store (cm_backends M) 0 c w2 = (Inr st, w3)" and
    mirrors: "build_mirrors (cm_backends M) 1 cs w3 = (Inr ms, w4)" and
    rid: "pick_run_id M w4 = (Inr rid, w')"
    unfolding run_prepare_def build_all_def build_primary_def
    by (auto elim!: io_elims split: prod.splits)
  show thesis
  proof (rule that [OF steps])
    fix v
    assume env: "env_ok (cm_env M)" and aws: "aws_keeps_env (cm_backends M)"
      and clock: "keeps (ev_vars (cm_env M)) (utc_now (se_chrono (cm_session M)))"
      and gone: "ev_vars (cm_env M) w3 v = None"
    have "ev_vars (cm_env M) w4 v = None"
      using gone_stays [OF shrinks_build_mirrors mirrors] env aws gone by (simp add: cm_env_def)
    then show "ev_vars (cm_env M) w' v = None"
      by (rule gone_stays [OF shrinks_prepare_parts(5) [OF env aws clock] rid])
  qed
qed

end
