(* ===== verification/Commands_Run.thy ===== *)
theory Commands_Run
  imports Secrets_Facts
begin

text \<open>
  The properties of what the process is given and what it prints, secrets and keys, on a small
  process that meets their hypotheses.
\<close>

section \<open>A process for the witnesses\<close>

text \<open>
  The world is the environment of the process and the buckets of an S3 service; everything else, the
  network and the browser, is out of reach.  The key files hold what the cryptography of the bench
  reads.
\<close>

record process =
  pr_env :: "string \<rightharpoonup> bytes"
  pr_table :: s3_table

definition unreachable :: "('w, 'a) io" where
  "unreachable = fail (Msg ''unreachable'')"

definition offline_http :: "'w http_api" where
  "offline_http =
    \<lparr>http_send = (\<lambda>c rq. unreachable), http_bytes = (\<lambda>rs. unreachable), http_text = (\<lambda>rs. unreachable),
     http_build = Inr, header_name = Inr, header_value = Inr, url_parse = (\<lambda>u. None)\<rparr>"

definition offline_api :: "(bytes \<times> json) list \<Rightarrow> 'w api_env" where
  "offline_api tbl =
    \<lparr>ae_http = offline_http, ae_json = bench_json tbl,
     ae_session_from_slice = (\<lambda>b. Inl (Msg ''JSON'')), ae_list_from_value = (\<lambda>v. Inl (Msg ''JSON'')),
     ae_sleep = (\<lambda>n w. ((), w))\<rparr>"

definition no_browser :: "'w chromium_api" where
  "no_browser =
    \<lparr>ch_create_dir_all = (\<lambda>d. unreachable), ch_build = Inr, ch_launch = (\<lambda>c. unreachable),
     ch_get_cookies = (\<lambda>b. unreachable), ch_clear_cookies = (\<lambda>b. unreachable),
     ch_set_cookies = (\<lambda>b ps. unreachable), ch_get_targets = (\<lambda>b. unreachable),
     ch_listen = (\<lambda>b e. unreachable), ch_new_page = (\<lambda>b u. unreachable),
     ch_add_script = (\<lambda>p s. unreachable), ch_goto = (\<lambda>p u. unreachable),
     ch_close = (\<lambda>b. unreachable), ch_wait = (\<lambda>b. unreachable)\<rparr>"

definition still_chrono :: "'w chrono" where
  "still_chrono =
    \<lparr>utc_now = (\<lambda>w. (0, w)), add_std_duration = (\<lambda>t n. Inr (t + int n * 10 ^ 9)),
     format_compact = (\<lambda>t. show_nat (nat t)), display_time = (\<lambda>t. show_nat (nat t)),
     timestamp_secs = (\<lambda>t. t div 10 ^ 9)\<rparr>"

definition process_session :: "(bytes \<times> json) list \<Rightarrow> process session_env" where
  "process_session tbl =
    \<lparr>se_crypto = bench_crypto, se_chrono = still_chrono, se_api = offline_api tbl,
     se_chromium = no_browser, se_pointer_serde = table_serde [(bench_pointer ''0'' 0, ''P0'')],
     se_state_serde = table_serde [(bench_state, ''ST'')], se_lock_serde = refuses, se_health_serde = refuses, se_index_serde = refuses\<rparr>"

definition process_gpt :: "process gpt_env" where
  "process_gpt =
    \<lparr>gv_api = offline_api [], gv_debug_log = False, gv_detail_from_value = (\<lambda>v. Inl (Msg ''JSON'')),
     gv_detail_to_vec_pretty = (\<lambda>d. Inl (Msg ''JSON'')), gv_timestamp_opt = (\<lambda>t. None),
     gv_rfc3339 = (\<lambda>t. []), gv_f64_display = (\<lambda>f. [])\<rparr>"

abbreviation on_table :: "(s3_table, 'e, 'a) eio \<Rightarrow> (process, 'e, 'a) eio" where
  "on_table \<equiv> on_part pr_table (\<lambda>t w. w\<lparr>pr_table := t\<rparr>)"

definition process_s3 :: "process s3_client" where
  "process_s3 =
    \<lparr>put_object = (\<lambda>rq. on_table (table_put rq)), get_object = (\<lambda>b k. on_table (table_get b k)),
     collect_body = (\<lambda>s w. (Inr s, w)), head_object = (\<lambda>b k. on_table (table_head b k)),
     list_objects_v2 = (\<lambda>b p. on_table (table_list b p)),
     delete_object = (\<lambda>b k e. on_table (table_delete b k e))\<rparr>"

definition process_buckets :: "process buckets" where
  "process_buckets w = table_buckets (pr_table w)"

lemma process_s3_documented: "s3_service process_s3 process_buckets"
proof -
  note defs = process_s3_def process_buckets_def table_buckets_def on_part_def Let_def
  have "put_documented process_s3 process_buckets"
    by (auto simp: put_documented_def defs table_put_def update_conv' split: if_splits)
  moreover have "get_documented process_s3 process_buckets"
    by (auto simp: get_documented_def defs table_get_def keeps_def split: option.splits)
  moreover have "head_documented process_s3 process_buckets"
    by (auto simp: head_documented_def defs table_head_def table_list_def keeps_def split: option.splits)
  moreover have "delete_documented process_s3 process_buckets"
    by (auto simp: delete_documented_def defs table_delete_def delete_conv'
        split: option.splits if_splits)
  ultimately show ?thesis
    by (simp add: s3_service_def)
qed

definition process_backends :: "process backends" where
  "process_backends =
    \<lparr>bk_env = \<lparr>ev_vars = pr_env, ev_update = (\<lambda>m w. w\<lparr>pr_env := m\<rparr>)\<rparr>,
     bk_aws = (\<lambda>e r a s p w. (process_s3, w)),
     bk_github = \<lparr>gh_http = offline_http, gh_post = (\<lambda>c rq b. unreachable),
       gh_delete = (\<lambda>c rq. unreachable), gh_json_to_vec = (\<lambda>v. Inl (Msg ''JSON'')),
       gh_release_from_slice = (\<lambda>b. Inl (Msg ''JSON'')), gh_asset_from_slice = (\<lambda>b. Inl (Msg ''JSON'')),
       gh_assets_from_slice = (\<lambda>b. Inl (Msg ''JSON'')), gh_urlencode = (\<lambda>s. s),
       gh_status_text = show_nat\<rparr>,
     bk_asset_pages = 1,
     bk_git = \<lparr>gt_output = (\<lambda>d args. unreachable), gt_tempdir = unreachable,
       gt_create_dir_all = (\<lambda>p. unreachable), gt_exists = (\<lambda>p w. (False, w)),
       gt_write = (\<lambda>p b. unreachable), gt_read = (\<lambda>p. unreachable), gt_lossy = (\<lambda>b. b)\<rparr>,
     bk_git_cell = (\<lambda>n w. None), bk_git_set_cell = (\<lambda>n d w. w)\<rparr>"

text \<open>Thirty-two bytes, and their hexadecimal form.\<close>

definition key32 :: bytes where
  "key32 = replicate 32 (CHR ''3'')"

definition key32_hex :: string where
  "key32_hex = bench_hex_encode key32"

definition process_M :: "(bytes \<times> json) list \<Rightarrow> process command_env" where
  "process_M tbl =
    \<lparr>cm_session = process_session tbl, cm_gpt = process_gpt, cm_backends = process_backends,
     cm_loader = bench_loader\<lparr>ld_files := [''config.toml'' \<mapsto> ''toml'', ''age.txt'' \<mapsto> ''age1'', ''/etc/pub.hex'' \<mapsto> key32_hex]\<rparr>,
     cm_archive = \<lparr>rd_read_dir = (\<lambda>d. unreachable), rd_read = (\<lambda>p. unreachable),
       rd_array_from_slice = (\<lambda>b. Inl (Msg ''JSON''))\<rparr>,
     cm_rfc3339 = show_nat \<circ> nat, cm_generate = (\<lambda>w. ((key32, key32), w)),
     cm_pages = 1, cm_events = [], cm_schedule = []\<rparr>"

text \<open>The bucket holds a snapshot under the prefix of \<open>bench_config\<close>, signed by \<open>key32\<close>.\<close>

definition process_start :: process where
  "process_start =
    \<lparr>pr_env = [AGE_IDENTITY \<mapsto> ''AGE-SECRET-KEY-1'', SIGN_SECRET \<mapsto> key32_hex, ''AK'' \<mapsto> ''a'', ''SK'' \<mapsto> ''s''],
     pr_table = \<lparr>tb_objects = [((''b'', ''p/latest.json''), ''P0'', ''1''),
       ((''b'', ''p/snapshots/0.zst.age''), ''SST'', ''2''),
       ((''b'', ''p/snapshots/0.zst.age.sig''), bench_hex_encode (key32 @ ''SST''), ''3'')], tb_next = 4\<rparr>\<rparr>"

lemma process_M_simps [simp]:
  "cm_session (process_M tbl) = process_session tbl" "cm_backends (process_M tbl) = process_backends"
  "cm_generate (process_M tbl) w = ((key32, key32), w)"
  "cm_files (process_M tbl) = [''config.toml'' \<mapsto> ''toml'', ''age.txt'' \<mapsto> ''age1'', ''/etc/pub.hex'' \<mapsto> key32_hex]"
  "cm_crypto (process_M tbl) = bench_crypto"
  "cm_env (process_M tbl) = \<lparr>ev_vars = pr_env, ev_update = (\<lambda>m w. w\<lparr>pr_env := m\<rparr>)\<rparr>"
  "bk_env process_backends = \<lparr>ev_vars = pr_env, ev_update = (\<lambda>m w. w\<lparr>pr_env := m\<rparr>)\<rparr>"
  "bk_aws process_backends e r a s p w = (process_s3, w)"
  "se_chrono (process_session tbl) = still_chrono" "ae_json (se_api (process_session tbl)) = bench_json tbl"
  by (simp_all add: process_M_def process_session_def process_backends_def cm_files_def cm_crypto_def
      cm_env_def offline_api_def)

lemma process_texts:
  "from_utf8 ''AGE-SECRET-KEY-1'' = Some ''AGE-SECRET-KEY-1''"
  "from_utf8 ''age1'' = Some ''age1''" "from_utf8 ''a'' = Some ''a''" "from_utf8 ''s'' = Some ''s''"
  "age_key_line ''AGE-SECRET-KEY-1'' = ''AGE-SECRET-KEY-1''" "trim ''age1'' = ''age1''"
  by code_simp+

lemma key32_text:
  "length key32 = 32" "from_utf8 key32_hex = Some key32_hex"
  "parse_signing_key bench_crypto key32_hex = Inr key32"
  "parse_verifying_key bench_crypto key32_hex = Inr key32"
proof -
  have enc: "hex_encode bench_crypto key32 = key32_hex"
    by (simp add: bench_crypto_def key32_hex_def)
  show len: "length key32 = 32" by (simp add: key32_def)
  show "from_utf8 key32_hex = Some key32_hex"
    using hex_text_roundtrip(1) [OF bench_hex_codec, of key32] unfolding enc .
  have "hex_decode bench_crypto (trim key32_hex) = Inr key32"
    using hex_text_roundtrip(2) [OF bench_hex_codec, of key32] unfolding enc .
  then show "parse_signing_key bench_crypto key32_hex = Inr key32"
    "parse_verifying_key bench_crypto key32_hex = Inr key32"
    using len by (simp_all add: parse_signing_key_def parse_verifying_key_def res_bind_def res_context_def)
      (simp_all add: bench_crypto_def)
qed

lemma process_names:
  "AGE_IDENTITY \<noteq> SIGN_SECRET" "''AK'' \<noteq> AGE_IDENTITY" "''SK'' \<noteq> AGE_IDENTITY"
  "''AK'' \<noteq> SIGN_SECRET" "''SK'' \<noteq> SIGN_SECRET" "''GITHUB_RUN_ID'' \<noteq> AGE_IDENTITY"
  "''GITHUB_RUN_ID'' \<noteq> SIGN_SECRET"
  by (simp_all add: AGE_IDENTITY_def SIGN_SECRET_def)

lemma process_prepared:
  "\<exists>a w'. run_prepare (process_M tbl) bench_config process_start = (Inr a, w')"
proof -
  have age: "age_parse bench_crypto ''AGE-SECRET-KEY-1'' = Inr ''AGE-SECRET-KEY-1''"
    by (simp add: age_parse_def process_texts) (simp add: bench_crypto_def)
  have recip: "config_recipient (process_M tbl) bench_config = Inr ''age1''"
    by (simp add: config_recipient_def read_recipient_def read_to_string_def res_bind_def
        res_context_def ok_or_def bench_config_def process_texts) (simp add: bench_crypto_def)
  have pub: "pubkey_text (process_M tbl) bench_config = Inr key32_hex"
    by (simp add: pubkey_text_def read_to_string_def res_bind_def res_context_def ok_or_def
        bench_config_def key32_text)
  have stores: "primary_cfg bench_config = Inr (StoreS3 ''primary'' ''https://r2'' ''auto'' ''b'' ''p/'' ''AK'' ''SK'')"
    "mirrors_cfg bench_config = Inr []"
    by (simp_all add: primary_cfg_def mirrors_cfg_def bench_config_def)
  show ?thesis
    by (simp add: run_prepare_def take_identity_def age_take_from_env_def read_env_def env_var_def
        remove_var_def process_start_def process_texts key32_text process_names process_names [symmetric] age recip pub stores
        and_then_def effect_def lift_res_def ret_def ok_or_def
        take_signing_key_def minisign_take_from_env_def build_all_def build_primary_def
        build_store_def with_context_def map_err_def credential_take_from_env_def s3_store_new_def
        pick_run_id_def still_chrono_def)
qed

section \<open>Secrets do not stay\<close>

text \<open>
  C13: When \<open>run\<close> has prepared, the secrets it was given are no longer in the environment: neither
  the age identity, nor the signing key, nor the variables of the primary store; so the browser it
  launches next does not inherit them.
\<close>

theorem secrets_leave_environment:
  assumes env: "env_ok (cm_env M)" and aws: "aws_keeps_env (cm_backends M)"
    and clock: "keeps (ev_vars (cm_env M)) (utc_now (se_chrono (cm_session M)))"
    and run: "run_prepare M cfg w = (Inr a, w')" and c: "primary_cfg cfg = Inr c"
  shows "list_all (\<lambda>v. ev_vars (cm_env M) w' v = None)
    (AGE_IDENTITY # SIGN_SECRET # secret_vars c)"
proof -
  from run obtain c' w1 w2 w3 id sk st where
    id: "take_identity M w = (Inr id, w1)" and sk: "take_signing_key M w1 = (Inr sk, w2)" and
    p: "primary_cfg cfg = Inr c'" and st: "build_store (cm_backends M) 0 c' w2 = (Inr st, w3)" and
    later: "\<And>v. ev_vars (cm_env M) w3 v = None \<Longrightarrow> ev_vars (cm_env M) w' v = None"
    by (elim run_prepare_steps) (use env aws clock in blast)
  have env': "env_ok (bk_env (cm_backends M))" and P: "cm_env M = bk_env (cm_backends M)"
    using env by (simp_all add: cm_env_def)
  note parts = shrinks_prepare_parts [OF env aws clock]
  have "ev_vars (cm_env M) w1 AGE_IDENTITY = None"
    using id unfolding take_identity_def by (auto elim!: io_elims dest: taken(1) [OF env])
  then have "ev_vars (cm_env M) w2 AGE_IDENTITY = None"
    by (rule gone_stays [OF parts(2) sk])
  moreover have "ev_vars (cm_env M) w2 SIGN_SECRET = None"
    using sk unfolding take_signing_key_def by (auto elim!: io_elims dest: taken(2) [OF env])
  ultimately have "ev_vars (cm_env M) w3 AGE_IDENTITY = None" "ev_vars (cm_env M) w3 SIGN_SECRET = None"
    using gone_stays [OF shrinks_build_store [OF env' aws] st] by (auto simp: P)
  moreover have "list_all (\<lambda>v. ev_vars (cm_env M) w3 v = None) (secret_vars c)"
    using built_store_secrets [OF env' aws st] p c by (simp add: P)
  ultimately show ?thesis
    using later by (auto simp: list_all_iff)
qed

theorem secrets_leave_environment_witness:
  "\<exists>w'. snd (run_prepare (process_M []) bench_config process_start) = w' \<and>
    pr_env w' AGE_IDENTITY = None \<and> pr_env w' SIGN_SECRET = None \<and> pr_env w' ''SK'' = None"
proof -
  obtain a w' where run: "run_prepare (process_M []) bench_config process_start = (Inr a, w')"
    using process_prepared by blast
  from secrets_leave_environment [OF _ _ _ run, of "StoreS3 ''primary'' ''https://r2'' ''auto'' ''b'' ''p/'' ''AK'' ''SK''"]
  have "pr_env w' AGE_IDENTITY = None" "pr_env w' SIGN_SECRET = None" "pr_env w' ''SK'' = None"
    by (simp_all add: env_ok_def aws_keeps_env_def still_chrono_def keeps_def primary_cfg_def
        bench_config_def secret_vars_def)
  with run show ?thesis by simp
qed

section \<open>The keys that are generated\<close>

text \<open>
  The keys that \<open>gen-keys --json\<close> prints are a pair the other commands accept: the printed
  secret parses to a signing key, the printed public key to a verifying key, and what the one signs
  the other verifies.
\<close>

theorem generated_keys_work:
  assumes "hex_codec (cm_crypto M)"
    and "\<And>v b. js_to_vec (ae_json (se_api (cm_session M))) v = Inr b \<Longrightarrow>
      js_from_slice (ae_json (se_api (cm_session M))) b = Inr v"
    and "cm_generate M w = ((sk, vk), w1)" and "length sk = 32" and "length vk = 32"
    and "ed_verifying_key (cm_crypto M) vk = Inr v"
    and "ed_key_pair (cm_crypto M) (ed_signing_key (cm_crypto M) sk) v"
    and "gen_keys M True w = (Inr out, w')"
  shows "\<exists>pub secret k k'.
    js_from_slice (ae_json (se_api (cm_session M))) out =
      Inr (JObject [(''pubkey'', JString pub), (''secret'', JString secret)]) \<and>
    parse_signing_key (cm_crypto M) secret = Inr k \<and> parse_verifying_key (cm_crypto M) pub = Inr k' \<and>
    verify (cm_crypto M) k' p (sign (cm_crypto M) k p) = Inr ()"
proof -
  have "js_to_vec (ae_json (se_api (cm_session M))) (JObject
      [(''pubkey'', JString (hex_encode (cm_crypto M) vk)), (''secret'', JString (hex_encode (cm_crypto M) sk))])
    = Inr out"
    using assms(3,8) by (auto simp: gen_keys_def Let_def elim!: io_elims)
  then have "js_from_slice (ae_json (se_api (cm_session M))) out = Inr (JObject
      [(''pubkey'', JString (hex_encode (cm_crypto M) vk)), (''secret'', JString (hex_encode (cm_crypto M) sk))])"
    by (rule assms(2))
  moreover have "parse_signing_key (cm_crypto M) (hex_encode (cm_crypto M) sk) =
      Inr (ed_signing_key (cm_crypto M) sk)"
    using assms(4) hex_text_roundtrip(2) [OF assms(1)]
    by (simp add: parse_signing_key_def res_bind_def res_context_def)
  moreover have "parse_verifying_key (cm_crypto M) (hex_encode (cm_crypto M) vk) = Inr v"
    using assms(5,6) hex_text_roundtrip(2) [OF assms(1)]
    by (simp add: parse_verifying_key_def res_bind_def res_context_def)
  ultimately show ?thesis
    using verify_sign [OF assms(7)] by blast
qed

definition generated_json :: json where
  "generated_json = JObject [(''pubkey'', JString key32_hex), (''secret'', JString key32_hex)]"

theorem generated_keys_work_witness:
  "\<exists>k. parse_signing_key (cm_crypto (process_M [])) key32_hex = Inr k \<and>
    parse_verifying_key (cm_crypto (process_M [])) key32_hex = Inr k \<and>
    verify (cm_crypto (process_M [])) k ''p'' (sign (cm_crypto (process_M [])) k ''p'') = Inr ()"
proof -
  let ?M = "process_M [(''{}'', generated_json)]"
  have enc: "hex_encode bench_crypto key32 = key32_hex"
    by (simp add: bench_crypto_def key32_hex_def)
  have gen: "gen_keys ?M True process_start = (Inr ''{}'', process_start)"
    by (simp add: gen_keys_def and_then_def effect_def lift_res_def bench_json_def
        enc generated_json_def ok_or_def)
  have json: "js_from_slice (ae_json (se_api (cm_session ?M))) b = Inr v"
    if "js_to_vec (ae_json (se_api (cm_session ?M))) v = Inr b" for v b
    using that by (auto simp: bench_json_def ok_or_def split: option.splits if_splits)
  have vk: "ed_verifying_key (cm_crypto ?M) key32 = Inr key32"
    and pair: "ed_key_pair (cm_crypto ?M) (ed_signing_key (cm_crypto ?M) key32) key32"
    using bench_ed [of key32] by (simp_all add: bench_crypto_def)
  have hex: "hex_codec (cm_crypto ?M)" by (simp add: bench_hex_codec)
  have keys: "cm_generate ?M process_start = ((key32, key32), process_start)" by simp
  have "\<exists>pub secret k k'.
      js_from_slice (ae_json (se_api (cm_session ?M))) ''{}'' =
        Inr (JObject [(''pubkey'', JString pub), (''secret'', JString secret)]) \<and>
      parse_signing_key (cm_crypto ?M) secret = Inr k \<and> parse_verifying_key (cm_crypto ?M) pub = Inr k' \<and>
      verify (cm_crypto ?M) k' ''p'' (sign (cm_crypto ?M) k ''p'') = Inr ()"
    by (rule generated_keys_work [OF hex _ keys key32_text(1) key32_text(1) vk pair gen]) (rule json)
  then obtain pub secret k k' where
    "js_from_slice (bench_json [(''{}'', generated_json)]) ''{}'' =
      Inr (JObject [(''pubkey'', JString pub), (''secret'', JString secret)])"
    "parse_signing_key (cm_crypto ?M) secret = Inr k" "parse_verifying_key (cm_crypto ?M) pub = Inr k'"
    "verify (cm_crypto ?M) k' ''p'' (sign (cm_crypto ?M) k ''p'') = Inr ()"
    unfolding process_M_simps by (elim exE conjE)
  moreover from this(1) have "secret = key32_hex" "pub = key32_hex"
    by (simp_all add: bench_json_def ok_or_def generated_json_def)
  ultimately show ?thesis by (simp add: key32_text)
qed

end
