(* ===== verification/Verify_Run.thy ===== *)
theory Verify_Run
  imports Commands_Run
begin

text \<open>
  The whole of \<open>repossess verify\<close>, from the command line to the verdict: the configuration, the
  secrets of the environment, the key file, the construction of the primary store on S3 and the
  checks of the snapshot.
\<close>

section \<open>The buckets while a command prepares\<close>

definition env_keeps :: "'w backends \<Rightarrow> 'w buckets \<Rightarrow> bool" where
  "env_keeps B bs \<longleftrightarrow>
    (\<forall>m w. bs (ev_update (bk_env B) m w) = bs w) \<and> (\<forall>e r a s p. keeps bs (bk_aws B e r a s p))"

lemma keeps_env_var: "keeps v (env_var P x)"
  by (simp add: keeps_def env_var_def)

lemma keeps_remove_var: "env_keeps B bs \<Longrightarrow> keeps bs (remove_var (bk_env B) x)"
  by (simp add: keeps_def remove_var_def env_keeps_def)

lemma keeps_take_identity:
  "env_keeps (cm_backends M) bs \<Longrightarrow> keeps bs (take_identity M)"
  unfolding take_identity_def age_take_from_env_def read_env_def cm_env_def
  by (intro keeps_intros keeps_env_var keeps_remove_var)

lemma built_s3:
  fixes B :: "'w backends"
  assumes "env_keeps B bs"
    and "build_store B slot (StoreS3 name endpoint region bucket prefx ak sk) w = (Inr st, w')"
  obtains s :: "'w s3_store" and c :: store_credential and w1 where "st = s3_snapshot_store s" "s3_bucket s = bucket" "s3_prefix s = prefx"
    "s3_the_client s = fst (bk_aws B endpoint region (sc_access_key c) (sc_secret_key c) True w1)"
    "bs w' = bs w"
proof -
  from assms(2) obtain c w1 client where
    cred: "credential_take_from_env (bk_env B) ak sk w = (Inr c, w1)" and
    client: "bk_aws B endpoint region (sc_access_key c) (sc_secret_key c) True w1 = (client, w')" and
    st: "st = s3_snapshot_store \<lparr>s3_name = name, s3_endpoint = endpoint, s3_region = region,
      s3_bucket = bucket, s3_prefix = prefx, s3_the_client = client\<rparr>"
    unfolding build_store_def s3_store_new_def by (auto elim!: io_elims)
  have "keeps bs (credential_take_from_env (bk_env B) ak sk)"
    unfolding credential_take_from_env_def read_env_def
    by (intro keeps_intros keeps_env_var keeps_remove_var assms(1))
  moreover have "keeps bs (bk_aws B endpoint region (sc_access_key c) (sc_secret_key c) True)"
    using assms(1) by (simp add: env_keeps_def)
  ultimately have "bs w' = bs w"
    using cred client keepsD by metis
  with st client show thesis
    by (intro that [of "\<lparr>s3_name = name, s3_endpoint = endpoint, s3_region = region,
      s3_bucket = bucket, s3_prefix = prefx, s3_the_client = client\<rparr>" c w1]) simp_all
qed

text \<open>The objects under a prefix of a bucket.\<close>

definition bucket_objects :: "'w buckets \<Rightarrow> string \<Rightarrow> string \<Rightarrow> 'w objects" where
  "bucket_objects bs bucket prefx w k = bs w bucket (prefx @ k)"

section \<open>Property\<close>

text \<open>
  C21: When \<open>repossess verify\<close> succeeds on a configuration whose primary is on S3, the bucket of the
  configuration holds, under its prefix, a published snapshot: a pointer, an object with its
  digest, and a signature by the key of the configured file, that opens with the identity the
  environment held; and no object of any bucket was changed.
\<close>

theorem verify_command_sound:
  fixes M :: "'w command_env"
  assumes "load_here M path w = (Inr cfg, w)"
    and "primary_cfg cfg = Inr (StoreS3 name endpoint region bucket prefx ak sk)"
    and "\<And>e r a s p v. s3_service (fst (bk_aws (cm_backends M) e r a s p v)) bs"
    and "env_keeps (cm_backends M) bs"
    and "main_dispatch M path Verify w = (Inr out, w')"
  shows "\<exists>raw ident hex vk rd.
    ev_vars (cm_env M) w AGE_IDENTITY = Some raw \<and> age_parse (cm_crypto M) raw = Inr ident \<and>
    pubkey_text M cfg = Inr hex \<and> parse_verifying_key (cm_crypto M) hex = Inr vk \<and>
    published (cm_session M) (bucket_objects bs bucket prefx) ident vk w rd \<and> bs w' = bs w"
proof -
  from assms(1,5) have "verify_command M cfg w = (Inr out, w')"
    by (simp add: main_dispatch_def and_then_def)
  then obtain ident w1 hex vk st w2 where
    id: "take_identity M w = (Inr ident, w1)" and hex: "pubkey_text M cfg = Inr hex" and
    vk: "parse_verifying_key (cm_crypto M) hex = Inr vk" and
    st: "build_primary M cfg w1 = (Inr st, w2)" and
    ver: "verify_snapshot (cm_session M) (cm_rfc3339 M) st ident vk w2 = (Inr out, w')"
    unfolding verify_command_def by (auto elim!: io_elims)
  from id obtain raw where raw: "ev_vars (cm_env M) w AGE_IDENTITY = Some raw"
    "age_parse (cm_crypto M) raw = Inr ident"
    unfolding take_identity_def age_take_from_env_def read_env_def env_var_def
    by (auto simp: ok_or_def from_utf8_def elim!: io_elims split: option.splits bind_splits if_splits)
  from st assms(2) have "build_store (cm_backends M) 0 (StoreS3 name endpoint region bucket prefx ak sk) w1 =
      (Inr st, w2)"
    unfolding build_primary_def by (auto elim!: io_elims)
  from built_s3 [OF assms(4) this] obtain s :: "'w s3_store" and c :: store_credential and w3 where
    s: "st = s3_snapshot_store s" "s3_bucket s = bucket" "s3_prefix s = prefx"
      "s3_the_client s = fst (bk_aws (cm_backends M) endpoint region (sc_access_key c) (sc_secret_key c) True w3)"
    and same: "bs w2 = bs w1" .
  have service: "s3_service (s3_the_client s) bs"
    by (simp add: s(4) assms(3))
  have objs: "s3_objects s bs = bucket_objects bs bucket prefx"
    using s(2,3) by (intro ext) (simp add: s3_objects_def bucket_objects_def full_key_def)
  have store: "snapshot_store st (bucket_objects bs bucket prefx)"
    using s3_meets_contract [OF service] unfolding s(1) objs by (rule per_object_store.axioms(1))
  from ver obtain rd where "restore (cm_session M) st ident vk w2 = (Inr rd, w')"
    unfolding verify_restore by (auto elim!: io_elims)
  then have "published (cm_session M) (bucket_objects bs bucket prefx) ident vk w2 rd"
    by (rule snapshot_store.restore_sound [OF store])
  moreover have w1: "bs w1 = bs w"
    by (rule keepsD [OF keeps_take_identity [OF assms(4)] id])
  ultimately have "published (cm_session M) (bucket_objects bs bucket prefx) ident vk w rd"
    using same by (simp add: published_def body_at_def bucket_objects_def)
  moreover have "keeps bs (st_get st k)" for k
    using s3_keeps(1) [of s bs k] service by (simp add: s(1) s3_snapshot_store_def s3_service_def)
  then have "keeps bs (verify_snapshot (cm_session M) (cm_rfc3339 M) st ident vk)"
    unfolding verify_snapshot_def Let_def by (intro keeps_intros)
  from keepsD [OF this ver] have "bs w' = bs w"
    using w1 same by simp
  ultimately show ?thesis
    using raw hex vk by blast
qed

text \<open>The hypotheses hold on the process of theory \<open>Commands_Run\<close>, and the command succeeds there.\<close>

definition process_cfg :: config where
  "process_cfg = bench_config\<lparr>
      cg_browser := (cg_browser bench_config)\<lparr>bw_user_data_dir := ''/srv/app/profile''\<rparr>,
      cg_crypto := (cg_crypto bench_config)\<lparr>cy_recipient_file := ''/srv/app/age.txt''\<rparr>\<rparr>"

lemma process_loads:
  "load_here (process_M tbl) ''config.toml'' process_start = (Inr process_cfg, process_start)"
proof -
  have utf8: "valid_utf8 ''toml''"
    by (rule valid_utf8_ascii) (simp add: byte_def)
  show ?thesis
    by (simp add: load_here_def process_M_def load_config_def bench_loader_def read_to_string_def
        from_utf8_def utf8 res_bind_def res_context_def ok_or_def Let_def path_parent_def
        trim_end_slash_def resolve_path_def path_join_def path_is_relative_def bench_config_def
        process_cfg_def validate_def ensure_def env_var_def cm_env_def process_backends_def
        process_start_def AGE_IDENTITY_def SIGN_SECRET_def del: valid_utf8.simps)
qed

lemma process_get:
  assumes "map_of (tb_objects (pr_table w)) (''b'', ''p/'' @ k) = Some (b, e)"
    and "s = \<lparr>s3_name = n, s3_endpoint = ep, s3_region = r, s3_bucket = ''b'', s3_prefix = ''p/'',
      s3_the_client = process_s3\<rparr>"
  shows "and_then (with_context c (st_get (s3_snapshot_store s) k)) f w = f (b, e) w"
  using assms
  by (simp add: s3_snapshot_store_def s3_get_def full_key_def and_then_def with_context_def map_err_def
      process_s3_def on_part_def table_get_def unwrap_or_default_def ret_def)

lemma process_verified:
  "\<exists>out w'. main_dispatch (process_M []) ''config.toml'' Verify process_start = (Inr out, w')"
proof -
  let ?s = "\<lparr>s3_name = ''primary'', s3_endpoint = ''https://r2'', s3_region = ''auto'', s3_bucket = ''b'',
      s3_prefix = ''p/'', s3_the_client = process_s3\<rparr> :: process s3_store"
  let ?w1 = "process_start\<lparr>pr_env := [SIGN_SECRET \<mapsto> key32_hex, ''AK'' \<mapsto> ''a'', ''SK'' \<mapsto> ''s'']\<rparr>"
    and ?w2 = "process_start\<lparr>pr_env := [SIGN_SECRET \<mapsto> key32_hex]\<rparr>"
  have "age_parse bench_crypto ''AGE-SECRET-KEY-1'' = Inr ''AGE-SECRET-KEY-1''"
    by (simp add: age_parse_def process_texts) (simp add: bench_crypto_def)
  then have id: "take_identity (process_M []) process_start = (Inr ''AGE-SECRET-KEY-1'', ?w1)"
    by (simp add: take_identity_def age_take_from_env_def read_env_def env_var_def remove_var_def
        process_start_def process_texts process_names process_names [symmetric] and_then_def effect_def
        lift_res_def ret_def ok_or_def)
  have hex: "pubkey_text (process_M []) process_cfg = Inr key32_hex"
    by (simp add: pubkey_text_def read_to_string_def res_bind_def res_context_def ok_or_def
        process_cfg_def bench_config_def key32_text)
  have "primary_cfg process_cfg = Inr (StoreS3 ''primary'' ''https://r2'' ''auto'' ''b'' ''p/'' ''AK'' ''SK'')"
    by (simp add: primary_cfg_def process_cfg_def bench_config_def)
  then have st: "build_primary (process_M []) process_cfg ?w1 = (Inr (s3_snapshot_store ?s), ?w2)"
    by (simp add: build_primary_def build_store_def credential_take_from_env_def read_env_def
        env_var_def remove_var_def s3_store_new_def process_texts process_names
        process_names [symmetric] process_start_def and_then_def effect_def lift_res_def ret_def
        with_context_def map_err_def ok_or_def fun_upd_twist)
  have utf8: "from_utf8 (bench_hex_encode (key32 @ ''SST'')) = Some (bench_hex_encode (key32 @ ''SST''))"
    and sig: "hex_decode bench_crypto (trim (bench_hex_encode (key32 @ ''SST''))) = Inr (key32 @ ''SST'')"
    using hex_text_roundtrip [OF bench_hex_codec, of "key32 @ ''SST''"] by (simp_all add: bench_crypto_simps)
  have rest: "\<exists>out. verify_snapshot (process_session []) fmt (s3_snapshot_store ?s) ''AGE-SECRET-KEY-1'' key32 ?w2 = (Inr out, ?w2)" for fmt
  proof -
    have parse: "from_slice (se_pointer_serde (process_session [])) ''P0'' = Inr (bench_pointer ''0'' 0)"
      "se_crypto (process_session []) = bench_crypto"
      "se_state_serde (process_session []) = table_serde [(bench_state, ''ST'')]"
      by (simp_all add: process_session_def ok_or_def)
    have ver: "verify bench_crypto key32 ''SST'' (key32 @ ''SST'') = Inr ()"
      by (simp add: bench_crypto_simps)
    show ?thesis
      by (simp add: verify_snapshot_def process_get process_start_def LATEST_KEY_def parse Let_def
          bench_pointer_def [of "''0''" 0] verify_digest_def ensure_def ok_or_def utf8 sig ver
          ret_apply res_context_def bench_crypto_simps bench_texts)
  qed
  obtain out where "verify_snapshot (process_session []) (cm_rfc3339 (process_M [])) (s3_snapshot_store ?s)
      ''AGE-SECRET-KEY-1'' key32 ?w2 = (Inr out, ?w2)"
    using rest by blast
  then show ?thesis
    by (simp add: main_dispatch_def verify_command_def and_then_def process_loads id hex st key32_text)
qed

theorem verify_command_sound_witness:
  "\<exists>rd. published (process_session []) (bucket_objects process_buckets ''b'' ''p/'')
    ''AGE-SECRET-KEY-1'' key32 process_start rd"
proof -
  obtain out w' where run: "main_dispatch (process_M []) ''config.toml'' Verify process_start = (Inr out, w')"
    using process_verified by blast
  have primary: "primary_cfg process_cfg =
      Inr (StoreS3 ''primary'' ''https://r2'' ''auto'' ''b'' ''p/'' ''AK'' ''SK'')"
    by (simp add: primary_cfg_def process_cfg_def bench_config_def)
  have service: "s3_service (fst (bk_aws (cm_backends (process_M [])) e r a s p v)) process_buckets"
    for e r a s p v
    by (simp add: process_s3_documented)
  have keeps: "env_keeps (cm_backends (process_M [])) process_buckets"
    by (simp add: env_keeps_def keeps_def process_buckets_def)
  have hex: "pubkey_text (process_M []) process_cfg = Inr key32_hex"
    by (simp add: pubkey_text_def read_to_string_def res_bind_def res_context_def ok_or_def
        process_cfg_def bench_config_def key32_text)
  have age: "age_parse bench_crypto ''AGE-SECRET-KEY-1'' = Inr ''AGE-SECRET-KEY-1''"
    by (simp add: age_parse_def process_texts) (simp add: bench_crypto_def)
  have env: "pr_env process_start AGE_IDENTITY = Some ''AGE-SECRET-KEY-1''"
    by (simp add: process_start_def process_names process_names [symmetric])
  from verify_command_sound [OF process_loads primary service keeps run] show ?thesis
    by (auto simp: hex age env key32_text)
qed

end
