(* ===== verification/Run_Run.thy ===== *)
theory Run_Run
  imports Verify_Run
begin

text \<open>
  The whole of \<open>repossess run\<close> on a primary store on S3, from the command line to the new snapshot
  in the bucket.
\<close>

section \<open>What else the command touches\<close>

text \<open>The clock, the sealing of age files, the network and the browser change no object of a bucket.\<close>

definition surroundings_keep :: "'w session_env \<Rightarrow> 'w buckets \<Rightarrow> bool" where
  "surroundings_keep E bs \<longleftrightarrow>
    keeps bs (utc_now (se_chrono E)) \<and> (\<forall>x. keeps bs (age_wrap_output (se_crypto E) x)) \<and>
    api_env_keeps (se_api E) bs \<and> chromium_keeps (se_chromium E) bs"

lemma s3_session_site:
  assumes "s3_service (s3_the_client s) bs" and "surroundings_keep E bs"
  shows "session_site (s3_snapshot_store s) (s3_objects s bs) E []"
proof -
  have "keeps (s3_objects s bs) m" if "keeps bs m" for m :: "'a \<Rightarrow> 'r \<times> 'a"
    using that by (auto simp: keeps_def s3_objects_def fun_eq_iff)
  note lift = this
  show ?thesis
  proof (intro session_site.intro session_site_axioms.intro)
    show "snapshot_store (s3_snapshot_store s) (s3_objects s bs)"
      using s3_meets_contract [OF assms(1)] by (rule per_object_store.axioms(1))
  qed (use assms(2) in \<open>auto simp: surroundings_keep_def api_env_keeps_def http_keeps_def
      chromium_keeps_def intro: lift\<close>)
qed

lemma keeps_run_prepare_parts:
  assumes "env_keeps (cm_backends M) bs" and "keeps bs (utc_now (se_chrono (cm_session M)))"
  shows "keeps bs (take_identity M)" "keeps bs (take_signing_key M)" "keeps bs (pick_run_id M)"
  unfolding take_identity_def age_take_from_env_def take_signing_key_def minisign_take_from_env_def
    pick_run_id_def read_env_def cm_env_def
  by (intro keeps_intros keeps_env_var keeps_remove_var assms)+

lemma prepared_s3:
  fixes M :: "'w command_env"
  assumes keep: "env_keeps (cm_backends M) bs" "keeps bs (utc_now (se_chrono (cm_session M)))"
    and cfg: "primary_cfg cfg = Inr (StoreS3 name endpoint region bucket prefx ak sk)"
      "mirrors_cfg cfg = Inr []"
    and run: "run_prepare M cfg w = (Inr a, w1)"
  obtains s :: "'w s3_store" and c :: store_credential and w2
    where "ra_primary a = s3_snapshot_store s" "ra_mirrors a = []"
    "s3_bucket s = bucket" "s3_prefix s = prefx"
    "s3_the_client s = fst (bk_aws (cm_backends M) endpoint region (sc_access_key c) (sc_secret_key c) True w2)"
    "bs w1 = bs w"
proof -
  from run obtain ident v1 key v2 st v3 rid where
    id: "take_identity M w = (Inr ident, v1)" and key: "take_signing_key M v1 = (Inr key, v2)" and
    st: "build_store (cm_backends M) 0 (StoreS3 name endpoint region bucket prefx ak sk) v2 = (Inr st, v3)" and
    rid: "pick_run_id M v3 = (Inr rid, w1)" and
    a: "ra_primary a = st" "ra_mirrors a = []"
    unfolding run_prepare_def build_all_def build_primary_def cfg
    by (auto elim!: io_elims split: prod.splits)
  note parts = keeps_run_prepare_parts [OF keep]
  from built_s3 [OF keep(1) st] obtain s :: "'w s3_store" and c :: store_credential and v4 where
    s: "st = s3_snapshot_store s" "s3_bucket s = bucket" "s3_prefix s = prefx"
      "s3_the_client s = fst (bk_aws (cm_backends M) endpoint region (sc_access_key c) (sc_secret_key c) True v4)"
    and same: "bs v3 = bs v2" .
  from s a that [of s c v4] same keepsD [OF parts(1) id] keepsD [OF parts(2) key] keepsD [OF parts(3) rid]
  show thesis by simp
qed

section \<open>Property\<close>


section \<open>A run from the command line\<close>

text \<open>
  The process of theory \<open>Commands_Run\<close>, with a browser, a server that answers the canary, and a clock
  that stands at three seconds.
\<close>

definition ready_lock :: lock where
  "ready_lock =
    \<lparr>lk_run_id = ''local-3'', lk_created_at = 3 * 10 ^ 9, lk_expires_at = 303 * 10 ^ 9\<rparr>"

definition ready_session :: "process session_env" where
  "ready_session =
    \<lparr>se_crypto = bench_crypto,
     se_chrono = still_chrono\<lparr>utc_now := (\<lambda>w. (3 * 10 ^ 9, w)),
       format_compact := (\<lambda>t. show_nat (nat (t div 10 ^ 9)))\<rparr>,
     se_api = (offline_api [])\<lparr>ae_http := canary_http, ae_json := canary_json []\<rparr>,
     se_chromium = bench_chromium [bench_cookie],
     se_pointer_serde = table_serde [(bench_pointer ''0'' 0, ''P0''),
       (bench_pointer ''3'' 3000000000, ''P3'')],
     se_state_serde = table_serde [(bench_state, ''ST'')],
     se_lock_serde = table_serde [(ready_lock, ''LK'')], se_health_serde = refuses, se_index_serde = refuses\<rparr>"

definition ready_cfg :: config where
  "ready_cfg = process_cfg\<lparr>cg_workloads := []\<rparr>"

definition ready_M :: "process command_env" where
  "ready_M = (process_M [])\<lparr>cm_session := ready_session,
     cm_loader := bench_loader\<lparr>ld_files := [''config.toml'' \<mapsto> ''toml'', ''/srv/app/age.txt'' \<mapsto> ''age1'',
       ''/etc/pub.hex'' \<mapsto> key32_hex], ld_toml := (\<lambda>s. Inr bench_cfg)\<rparr>\<rparr>"

definition ready_s3 :: "process s3_store" where
  "ready_s3 = \<lparr>s3_name = ''primary'', s3_endpoint = ''https://r2'', s3_region = ''auto'', s3_bucket = ''b'',
    s3_prefix = ''p/'', s3_the_client = process_s3\<rparr>"

definition ready_args :: "process run_args" where
  "ready_args = \<lparr>ra_identity = ''AGE-SECRET-KEY-1'', ra_recipient = ''age1'', ra_signing_key = key32,
    ra_verify_pubkey = key32, ra_primary = s3_snapshot_store ready_s3, ra_mirrors = [], ra_run_id = ''local-3''\<rparr>"

text \<open>The world once the secrets are taken, with the given objects in the bucket.\<close>

definition ready_world :: "((string \<times> string) \<times> bytes \<times> string) list \<Rightarrow> nat \<Rightarrow> process" where
  "ready_world xs n = \<lparr>pr_env = Map.empty, pr_table = \<lparr>tb_objects = xs, tb_next = n\<rparr>\<rparr>"

lemma ready_M_simps [simp]:
  "cm_session ready_M = ready_session" "cm_backends ready_M = process_backends"
  "cm_files ready_M = [''config.toml'' \<mapsto> ''toml'', ''/srv/app/age.txt'' \<mapsto> ''age1'', ''/etc/pub.hex'' \<mapsto> key32_hex]"
  "cm_crypto ready_M = bench_crypto"
  "cm_env ready_M = \<lparr>ev_vars = pr_env, ev_update = (\<lambda>m w. w\<lparr>pr_env := m\<rparr>)\<rparr>"
  "se_crypto ready_session = bench_crypto" "utc_now (se_chrono ready_session) w = (3000000000, w)"
  "timestamp_secs (se_chrono ready_session) t = t div 10 ^ 9"
  "format_compact (se_chrono ready_session) t = show_nat (nat (t div 10 ^ 9))"
  "add_std_duration (se_chrono ready_session) t n = Inr (t + int n * 10 ^ 9)"
  "se_chromium ready_session = bench_chromium [bench_cookie]"
  "ae_http (se_api ready_session) = canary_http" "ae_json (se_api ready_session) = canary_json []"
  "se_lock_serde ready_session = table_serde [(ready_lock, ''LK'')]"
  "se_state_serde ready_session = table_serde [(bench_state, ''ST'')]"
  "se_health_serde ready_session = table_serde []"
  by (simp_all add: ready_M_def ready_session_def cm_files_def cm_crypto_def cm_env_def refuses_def
      still_chrono_def process_backends_def)

lemma ready_loads: "load_here ready_M ''config.toml'' process_start = (Inr ready_cfg, process_start)"
proof -
  have utf8: "valid_utf8 ''toml''"
    by (rule valid_utf8_ascii) (simp add: byte_def)
  show ?thesis
    by (simp add: load_here_def ready_M_def process_M_def load_config_def bench_loader_def read_to_string_def
        from_utf8_def utf8 res_bind_def res_context_def ok_or_def Let_def path_parent_def
        trim_end_slash_def resolve_path_def path_join_def path_is_relative_def bench_cfg_def bench_config_def
        process_cfg_def ready_cfg_def validate_def ensure_def env_var_def cm_env_def process_backends_def
        process_start_def AGE_IDENTITY_def SIGN_SECRET_def del: valid_utf8.simps)
qed

lemma ready_prepared:
  "run_prepare ready_M ready_cfg process_start =
    (Inr ready_args, ready_world (tb_objects (pr_table process_start)) 4)"
proof -
  have age: "age_parse bench_crypto ''AGE-SECRET-KEY-1'' = Inr ''AGE-SECRET-KEY-1''"
    by (simp add: age_parse_def process_texts) (simp add: bench_crypto_def)
  have recip: "config_recipient ready_M ready_cfg = Inr ''age1''"
    by (simp add: config_recipient_def read_recipient_def read_to_string_def res_bind_def
        res_context_def ok_or_def ready_cfg_def process_cfg_def bench_config_def process_texts)
      (simp add: bench_crypto_def)
  have pub: "pubkey_text ready_M ready_cfg = Inr key32_hex"
    by (simp add: pubkey_text_def read_to_string_def res_bind_def res_context_def ok_or_def
        ready_cfg_def process_cfg_def bench_config_def key32_text)
  have stores: "primary_cfg ready_cfg = Inr (StoreS3 ''primary'' ''https://r2'' ''auto'' ''b'' ''p/'' ''AK'' ''SK'')"
    "mirrors_cfg ready_cfg = Inr []"
    by (simp_all add: primary_cfg_def mirrors_cfg_def ready_cfg_def process_cfg_def bench_config_def)
  show ?thesis
    by (simp add: run_prepare_def take_identity_def age_take_from_env_def read_env_def env_var_def
        remove_var_def process_start_def process_texts key32_text process_names process_names [symmetric] age recip pub stores
        and_then_def effect_def lift_res_def ret_def ok_or_def
        take_signing_key_def minisign_take_from_env_def build_all_def build_primary_def
        build_store_def with_context_def map_err_def credential_take_from_env_def s3_store_new_def
        pick_run_id_def ready_args_def ready_s3_def ready_world_def show_int_def bench_numerals fun_upd_twist)
qed

text \<open>One step of a chain on the bucket.\<close>

abbreviation in_bucket :: "string \<Rightarrow> string \<times> string" where
  "in_bucket k \<equiv> (''b'', ''p/'' @ k)"

lemma ready_put:
  "and_then (st_put (s3_snapshot_store ready_s3) k b) f (ready_world xs n) =
    f \<lparr>pr_etag = show_nat n\<rparr> (ready_world (AList.update (in_bucket k) (b, show_nat n) xs) (Suc n))"
  by (simp add: s3_snapshot_store_def s3_put_def ready_s3_def full_key_def process_s3_def on_part_def
      table_put_def put_precondition_def Let_def with_context_def map_err_def and_then_def ret_def
      unwrap_or_default_def ready_world_def)

lemma ready_create:
  assumes "map_of xs (in_bucket k) = None"
  shows "and_then (st_put_if_unmodified (s3_snapshot_store ready_s3) k b None) f (ready_world xs n) =
    f \<lparr>pr_etag = show_nat n\<rparr> (ready_world (AList.update (in_bucket k) (b, show_nat n) xs) (Suc n))"
  using assms
  by (simp add: s3_snapshot_store_def s3_put_if_unmodified_def ready_s3_def full_key_def process_s3_def
      on_part_def table_put_def put_precondition_def Let_def with_context_def map_err_def and_then_def
      ret_def unwrap_or_default_def ready_world_def)

lemma ready_update:
  assumes "map_of xs (in_bucket k) = Some (x, e)"
  shows "and_then (with_context c (st_put_if_unmodified (s3_snapshot_store ready_s3) k b (Some e))) f
      (ready_world xs n) =
    f \<lparr>pr_etag = show_nat n\<rparr> (ready_world (AList.update (in_bucket k) (b, show_nat n) xs) (Suc n))"
  using assms
  by (simp add: s3_snapshot_store_def s3_put_if_unmodified_def ready_s3_def full_key_def process_s3_def
      on_part_def table_put_def put_precondition_def Let_def with_context_def map_err_def and_then_def
      ret_def unwrap_or_default_def ready_world_def)

lemma ready_get:
  assumes "map_of xs (in_bucket k) = Some (b, e)"
  shows "and_then (with_context c (st_get (s3_snapshot_store ready_s3) k)) f (ready_world xs n) =
    f (b, e) (ready_world xs n)"
  using assms by (intro process_get [OF _ ready_s3_def]) (simp add: ready_world_def)

lemma ready_head:
  "map_of xs (in_bucket k) = None \<Longrightarrow>
    and_then (st_head (s3_snapshot_store ready_s3) k) f (ready_world xs n) = f None (ready_world xs n)"
  by (simp add: s3_snapshot_store_def s3_head_def ready_s3_def full_key_def process_s3_def
      on_part_def table_head_def attempt_def and_then_def ret_def ready_world_def)

lemma ready_clock:
  "and_then (effect (utc_now (se_chrono ready_session))) f w = f 3000000000 w"
  by (simp add: and_then_def effect_def)

lemmas ready_steps = ready_put ready_create ready_update ready_get ready_head ready_clock

lemma ready_pointer_serde:
  "to_vec_pretty (se_pointer_serde ready_session) (bench_pointer ''3'' 3000000000) = Inr ''P3''"
  "from_slice (se_pointer_serde ready_session) ''P0'' = Inr (bench_pointer ''0'' 0)"
  by (simp_all add: ready_session_def bench_pointer_def ok_or_def)

definition locked_objects :: "((string \<times> string) \<times> bytes \<times> string) list" where
  "locked_objects = tb_objects (pr_table process_start) @ [(in_bucket LOCK_KEY, ''LK'', show_nat 4)]"

lemma locked_objects_simp:
  "locked_objects = [((''b'', ''p/latest.json''), ''P0'', ''1''), ((''b'', ''p/snapshots/0.zst.age''), ''SST'', ''2''),
    ((''b'', ''p/snapshots/0.zst.age.sig''), bench_hex_encode (key32 @ ''SST''), ''3''),
    ((''b'', ''p/lock.json''), ''LK'', show_nat 4)]"
  by (simp add: locked_objects_def process_start_def LOCK_KEY_def)

lemma ready_acquire:
  "acquire (se_chrono ready_session) (se_lock_serde ready_session) (s3_snapshot_store ready_s3) ''local-3'' 300
      (ready_world (tb_objects (pr_table process_start)) 4) =
    (Inr \<lparr>lg_store = s3_snapshot_store ready_s3, lg_etag = show_nat 4\<rparr>, ready_world locked_objects 5)"
proof -
  have l: "\<lparr>lk_run_id = ''local-3'', lk_created_at = 3000000000, lk_expires_at = 303000000000\<rparr> = ready_lock"
    by (simp add: ready_lock_def)
  show ?thesis
    by (simp add: acquire_def ready_steps Let_def l ok_or_def LOCK_KEY_def process_start_def
        ret_apply locked_objects_def)
qed

lemma ready_restore:
  "restore ready_session (s3_snapshot_store ready_s3) ''AGE-SECRET-KEY-1'' key32 (ready_world locked_objects n) =
    (Inr \<lparr>rd_pointer = bench_pointer ''0'' 0, rd_pointer_etag = ''1'', rd_state = bench_state\<rparr>,
     ready_world locked_objects n)"
proof -
  have utf8: "from_utf8 (bench_hex_encode (key32 @ ''SST'')) = Some (bench_hex_encode (key32 @ ''SST''))"
    and sig: "hex_decode bench_crypto (trim (bench_hex_encode (key32 @ ''SST''))) = Inr (key32 @ ''SST'')"
    using hex_text_roundtrip [OF bench_hex_codec, of "key32 @ ''SST''"] by (simp_all add: bench_crypto_simps)
  have ver: "verify bench_crypto key32 ''SST'' (key32 @ ''SST'') = Inr ()"
    by (simp add: bench_crypto_simps)
  show ?thesis
    by (simp add: restore_def ready_steps Let_def locked_objects_simp LATEST_KEY_def ready_pointer_serde
        bench_pointer_def [of "''0''" 0] verify_digest_def ensure_def ok_or_def utf8 sig ver ret_apply
        res_context_def bench_crypto_simps bench_texts)
qed

text \<open>What the save leaves in the bucket.\<close>

definition saved_objects :: "((string \<times> string) \<times> bytes \<times> string) list" where
  "saved_objects = [((''b'', ''p/latest.json''), ''P3'', show_nat 7), ((''b'', ''p/snapshots/0.zst.age''), ''SST'', ''2''),
    ((''b'', ''p/snapshots/0.zst.age.sig''), bench_hex_encode (key32 @ ''SST''), ''3''),
    ((''b'', ''p/lock.json''), ''LK'', show_nat 4),
    ((''b'', ''p/snapshots/3.zst.age''), ''SST'', show_nat 5),
    ((''b'', ''p/snapshots/3.zst.age.sig''), bench_hex_encode (key32 @ ''SST''), show_nat 6)]"

lemma ready_save:
  "save ready_session (s3_snapshot_store ready_s3) [] ''age1'' key32 bench_state (bench_pointer ''0'' 0) ''1''
      (ready_world locked_objects 5) = (Inr ''3'', ready_world saved_objects 8)"
proof -
  have p: "\<lparr>lp_version = ''3'', lp_object = ''snapshots/3.zst.age'', lp_object_sha256 = ''535354'',
     lp_signature_object = ''snapshots/3.zst.age.sig'', lp_created_at = 3000000000,
     lp_format = StorageStateV1\<rparr> = bench_pointer ''3'' 3000000000"
    by (simp add: bench_pointer_def)
  have mono: "ensure_monotonic K (Some (bench_pointer ''0'' 0)) (bench_pointer ''3'' 3000000000) = Inr ()"
    for K :: "process chrono"
    by (simp add: bench_pointer_def ensure_monotonic_def ensure_def)
  show ?thesis
    by (simp add: save_def ready_steps Let_def locked_objects_simp saved_objects_def snapshot_key_def
        snapshot_sig_key_def p mono ready_pointer_serde LATEST_KEY_def ret_apply bench_crypto_simps
        bench_texts)
qed

lemma ready_run_locked:
  "run_locked ready_session ready_cfg pages (s3_snapshot_store ready_s3) [] ''AGE-SECRET-KEY-1'' ''age1''
      key32 key32 (ready_world locked_objects 5) = (Inr (Saved ''3''), ready_world saved_objects 8)"
  by (rule scripted_run_locked [OF _ _ _ _ _ _ _ _ ready_restore])
    (simp_all add: ready_cfg_def process_cfg_def bench_config_def ready_save del: table_serde_simps)

lemma ready_concluded:
  "\<exists>w'. conclude_run ready_session ''local-3'' (s3_snapshot_store ready_s3) started
      \<lparr>lg_store = s3_snapshot_store ready_s3, lg_etag = show_nat 4\<rparr> (Inr (Saved ''3''))
      (ready_world saved_objects 8) = (Inr (), w')"
  by (simp add: conclude_run_def release_def health_ok_def health_write_def ok_or_def effect_def ret_def
      attempt_def and_then_def split: prod.split)

lemma ready_run:
  "\<exists>w'. main_dispatch ready_M ''config.toml'' Run process_start = (Inr [], w')"
proof -
  have ttl: "cg_lock_ttl_seconds ready_cfg = 300"
    by (simp add: ready_cfg_def process_cfg_def bench_config_def)
  have m: "match_result (run_locked ready_session ready_cfg pages (s3_snapshot_store ready_s3) []
      ''AGE-SECRET-KEY-1'' ''age1'' key32 key32) (ready_world locked_objects 5) =
    (Inr (Inr (Saved ''3'')), ready_world saved_objects 8)" for pages
    by (simp add: match_result_def and_then_def attempt_def ready_run_locked ret_def)
  obtain w' where w': "conclude_run ready_session ''local-3'' (s3_snapshot_store ready_s3) 3000000000
      \<lparr>lg_store = s3_snapshot_store ready_s3, lg_etag = show_nat 4\<rparr> (Inr (Saved ''3''))
      (ready_world saved_objects 8) = (Inr (), w')"
    using ready_concluded by blast
  have "run_session ready_session ready_cfg pages ''local-3'' (s3_snapshot_store ready_s3) []
      ''AGE-SECRET-KEY-1'' ''age1'' key32 key32
      (ready_world (tb_objects (pr_table process_start)) 4) = (Inr (), w')" for pages
    unfolding run_session_def ready_clock ttl and_then_Inr [where m = "acquire _ _ _ _ _", OF ready_acquire]
      and_then_Inr [where m = "match_result _", OF m]
    by (rule w')
  then show ?thesis
    by (simp add: main_dispatch_def run_command_def and_then_def ready_loads ready_prepared ready_args_def
        ret_apply)
qed


end
