(* ===== verification/Run_Facts.thy ===== *)
theory Run_Facts
  imports Session_Run
begin

text \<open>
  What a run does not touch, and what it leaves behind whatever its outcome: the canary as the gate
  before any write, the released lock, and the health record.
\<close>

section \<open>A view a run keeps\<close>

text \<open>The keys the locked part of a run writes: the snapshot, the pointer and the workloads' own.\<close>

definition workload_keys :: "workload_cfg \<Rightarrow> string set" where
  "workload_keys wcfg = (case wcfg of ChatgptChats c \<Rightarrow> chats_keys c)"

definition run_keys :: "config \<Rightarrow> string set" where
  "run_keys cfg = {LATEST_KEY} \<union> range snapshot_key \<union> range snapshot_sig_key \<union>
    \<Union> (workload_keys ` set (cg_workloads cfg))"

lemma LOCK_not_run_key: "LOCK_KEY \<notin> run_keys cfg"
  using LATEST_not_chats(2)
  by (auto simp: run_keys_def workload_keys_def split: workload_cfg.splits)

locale session_frame =
  fixes E :: "'w session_env" and cfg :: config and st :: "'w store" and mirrors :: "'w store list"
    and v :: "'w \<Rightarrow> 'v"
  assumes gets: "keeps v (st_get st k)" and heads: "keeps v (st_head st k)"
    and puts: "k \<in> run_keys cfg \<Longrightarrow> keeps v (st_put st k b)"
    and cass: "k \<in> run_keys cfg \<Longrightarrow> keeps v (st_put_if_unmodified st k b x)"
    and mirror_puts: "k \<in> run_keys cfg \<Longrightarrow> m \<in> set mirrors \<Longrightarrow> keeps v (st_put m k b)"
    and clock: "keeps v (utc_now (se_chrono E))"
    and sealing: "keeps v (age_wrap_output (se_crypto E) e)"
    and network: "api_env_keeps (se_api E) v"
    and chromium: "chromium_keeps (se_chromium E) v"

context session_frame begin

lemma own_keys [simp]:
  "LATEST_KEY \<in> run_keys cfg" "snapshot_key ts \<in> run_keys cfg" "snapshot_sig_key ts \<in> run_keys cfg"
  by (simp_all add: run_keys_def)

lemma browser_rules:
  "keeps v (launch (se_chromium E) bin dir hl)"
  "keeps v (import_storage_state (se_chromium E) s state)"
  "keeps v (export_storage_state (se_chromium E) s)"
  "keeps v (close_session (se_chromium E) s)"
  using chromium
  unfolding chromium_keeps_def launch_def import_storage_state_def export_storage_state_def
    export_cookies_def close_session_def Let_def
  by (auto intro!: keeps_intros)

lemma keeps_restore: "keeps v (restore E st ident vk)"
  unfolding restore_def Let_def by (intro keeps_intros gets)

lemma keeps_save: "keeps v (save E st mirrors recip sk state prev tag)"
  unfolding save_def Let_def
  by (intro keeps_intros keeps_encrypt sealing clock puts cass mirror_puts own_keys)

lemma keeps_workload:
  assumes "wcfg \<in> set (cg_workloads cfg)" and "build_workload E pages wcfg = Inr (nm, workload)"
  shows "keeps v (workload \<lparr>wx_http = http, wx_primary = st, wx_mirrors = mirrors,
    wx_recipient = r, wx_identity = i\<rparr>)"
proof -
  obtain c where c: "wcfg = ChatgptChats c" by (cases wcfg)
  have own: "conv_key c cid \<in> run_keys cfg" "index_key c \<in> run_keys cfg" for cid
    using assms(1) c by (force simp: run_keys_def workload_keys_def)+
  have "chats_frame (se_chats E) c \<lparr>wx_http = http, wx_primary = st, wx_mirrors = mirrors,
      wx_recipient = r, wx_identity = i\<rparr> v"
    by unfold_locales
      (auto simp: se_chats_def intro: gets heads clock sealing network puts cass mirror_puts own)
  from chats_frame.keeps_chats_run [OF this] assms(2) c show ?thesis
    by (auto simp: build_workload_def)
qed

lemma keeps_run_workloads:
  "set ws \<subseteq> set (cg_workloads cfg) \<Longrightarrow> keeps v (run_workloads E pages \<lparr>wx_http = http,
    wx_primary = st, wx_mirrors = mirrors, wx_recipient = r, wx_identity = i\<rparr> ws)"
proof (induction ws)
  case Nil
  then show ?case by (simp add: keeps_ret)
next
  case (Cons wcfg ws)
  then show ?case
    by (cases "build_workload E pages wcfg")
      (auto simp: keeps_fail intro!: keeps_and_then keeps_with_context dest: keeps_workload [rotated]
        split: prod.splits)
qed

lemma keeps_run_locked: "keeps v (run_locked E cfg pages st mirrors ident recip sk vk)"
  unfolding run_locked_def Let_def
  using network
  by (intro keeps_intros keeps_restore browser_rules keeps_run_workloads keeps_save keeps_check)
    (auto simp: api_env_keeps_def)

end

section \<open>The canary as a gate\<close>

text \<open>Whatever the server answers to the canary request, it is not what the configuration expects.\<close>

definition canary_refuses :: "'w session_env \<Rightarrow> canary_cfg \<Rightarrow> bool" where
  "canary_refuses E cn \<longleftrightarrow>
    (\<forall>client w resp w1. http_get (ae_http (se_api E)) client (cn_url cn) w = (Inr resp, w1) \<longrightarrow>
      rs_status resp = cn_expected_status cn \<longrightarrow>
      (\<forall>raw w2 body. http_bytes (ae_http (se_api E)) resp w1 = (Inr raw, w2) \<longrightarrow>
        js_from_slice (ae_json (se_api E)) raw = Inr body \<longrightarrow>
        Option.bind (js_pointer (ae_json (se_api E)) (cn_field cn) body) json_str \<noteq>
          Some (cn_expected_value cn)))"

lemma check_refused:
  assumes "canary_refuses E cn"
    and "check (ae_http (se_api E)) (ae_json (se_api E)) client (cn_url cn) (cn_expected_status cn)
      (cn_field cn) (cn_expected_value cn) w = (Inr c, w')"
  shows "\<not> cr_ok c"
  using assms(2) assms(1) [unfolded canary_refuses_def, rule_format, of client w]
  unfolding check_def Let_def by (auto elim!: io_elims split: if_splits)

lemma keeps_and_then_on:
  assumes "keeps v m" and "\<And>x w w'. m w = (Inr x, w') \<Longrightarrow> P x" and "\<And>x. P x \<Longrightarrow> keeps v (f x)"
  shows "keeps v (and_then m f)"
  unfolding keeps_def
proof
  fix w
  show "v (snd (and_then m f w)) = v w"
  proof (cases rule: and_then_cases [of m w f])
    case (err e w1)
    then show ?thesis using keepsD [OF assms(1)] by simp
  next
    case (ok x w1)
    then show ?thesis using keepsD [OF assms(1)] keeps_snd [OF assms(3) [OF assms(2)]] by metis
  qed
qed

context session_site begin

lemma run_locked_refused:
  assumes "canary_refuses E (cg_canary cfg)"
  shows "keeps objs (run_locked E cfg pages st mirrors ident recip sk vk)"
    and "run_locked E cfg pages st mirrors ident recip sk vk w = (Inr (Saved ts), w') \<Longrightarrow> False"
proof -
  show "keeps objs (run_locked E cfg pages st mirrors ident recip sk vk)"
    unfolding run_locked_def Let_def
    by (rule keeps_and_then, rule restore_keeps launch_keeps import_keeps keeps_lift_res)+
      (rule keeps_and_then_on [where P = "\<lambda>c. \<not> cr_ok c", OF keeps_check [OF http_keeps]],
        auto intro!: keeps_and_then keeps_attempt keeps_ret close_keeps dest: check_refused [OF assms])
  show False if "run_locked E cfg pages st mirrors ident recip sk vk w = (Inr (Saved ts), w')"
    using that unfolding run_locked_def Let_def
    by (auto elim!: io_elims split: if_splits dest: check_refused [OF assms])
qed

lemma run_session_refused:
  assumes "canary_refuses E (cg_canary cfg)"
    and "run_session E cfg pages run_id st mirrors ident recip sk vk w = (r, w')"
  shows "(\<exists>e. r = Inl e) \<and>
    (\<forall>k. k \<noteq> LOCK_KEY \<longrightarrow> \<not> prefix ''health/'' k \<longrightarrow> body_at objs k w' = body_at objs k w)"
  using assms(2)
proof (cases rule: run_session_split)
  case (unwound e v)
  then show ?thesis
    using keepsD [OF run_locked_refused(1) [OF assms(1)] unwound(3)] by (simp add: body_at_def)
next
  case (locked res v v')
  have "res \<noteq> Inr (Saved ts)" for ts
    using run_locked_refused(2) [OF assms(1)] locked(2) by blast
  then have "\<exists>e. r = Inl e"
    using outcome_reported_Inr [of res] locked(4) by (cases r) auto
  then show ?thesis
    using keepsD [OF run_locked_refused(1) [OF assms(1)] locked(2)] locked(1,3)
    by (simp add: body_at_def)
qed auto

end

section \<open>The end of a run\<close>

lemma lock_view_keys: "k \<in> run_keys cfg \<Longrightarrow> LOCK_KEY \<noteq> k"
  using LOCK_not_run_key by auto

text \<open>On a store that moves no etag but that of the key it writes, the lock stays as it was taken.\<close>

lemma lock_frame:
  assumes "session_site st objs E mirrors" and "per_object_store st objs"
  shows "session_frame E cfg st mirrors (\<lambda>w. objs w LOCK_KEY)"
proof -
  note site = session_site.mirrors_keep [OF assms(1)] session_site.clock [OF assms(1)]
    session_site.sealing [OF assms(1)]
  have object: "keeps (\<lambda>w. objs w LOCK_KEY) m" if "keeps objs m" for m :: "'a \<Rightarrow> 'b \<times> 'a"
    using that by (simp add: keeps_def)
  have "http_keeps (ae_http (se_api E)) objs" "\<And>n. keeps objs (ae_sleep (se_api E) n)"
    using session_site.network [OF assms(1)] by (auto simp: api_env_keeps_def)
  then have "api_env_keeps (se_api E) (\<lambda>w. objs w LOCK_KEY)"
    by (auto simp: api_env_keeps_def http_keeps_def keeps_def)
  moreover have "chromium_keeps (se_chromium E) (\<lambda>w. objs w LOCK_KEY)"
    using session_site.chromium [OF assms(1)] by (auto simp: chromium_keeps_def keeps_def)
  moreover have "keeps (\<lambda>w. objs w LOCK_KEY) (st_get st k)" "keeps (\<lambda>w. objs w LOCK_KEY) (st_head st k)"
    for k
    using snapshot_store.get_obj_keeps snapshot_store.head_obj_keeps per_object_store.axioms(1) [OF assms(2)]
    by blast+
  moreover have "keeps (\<lambda>w. objs w LOCK_KEY) (st_put m k b)" if "m \<in> set mirrors" for m k b
    using site(1) [OF that] by (simp add: keeps_def)
  moreover have "keeps (\<lambda>w. objs w LOCK_KEY) (utc_now (se_chrono E))"
    "keeps (\<lambda>w. objs w LOCK_KEY) (age_wrap_output (se_crypto E) e)" for e
    using site(2,3) by (simp_all add: keeps_def)
  ultimately show ?thesis
    using lock_view_keys per_object_store.put_other [OF assms(2)] per_object_store.cas_other [OF assms(2)]
    by (intro session_frame.intro) blast+
qed

text \<open>The lock of the bench is such a view.\<close>

interpretation bench_lock_view:
  session_frame bench_E cfg bench_primary "[bench_mirror]" "\<lambda>w. bench_objects w LOCK_KEY"
  by (rule lock_frame [OF bench_session.session_site_axioms bench.per_object_store_axioms])

text \<open>The record a run writes of its outcome.\<close>

definition outcome_status :: "outcome res \<Rightarrow> health_status" where
  "outcome_status res =
    (case res of Inr (Saved ts) \<Rightarrow> HealthOk | Inr (CanaryFailed c ob) \<Rightarrow> HealthCanaryFailed
     | Inl e \<Rightarrow> HealthError)"

definition logged :: "'w session_env \<Rightarrow> 'w objects \<Rightarrow> string \<Rightarrow> datetime \<Rightarrow> health_status \<Rightarrow> 'w \<Rightarrow> bool" where
  "logged E objs run_id started status w \<longleftrightarrow>
    (\<exists>rc b. to_vec_pretty (se_health_serde E) rc = Inr b \<and>
      body_at objs (health_key (se_chrono E) rc) w = Some b \<and> hr_run_id rc = run_id \<and>
      hr_started_at rc = started \<and> hr_status rc = status)"

definition outcome_record ::
    "'w chrono \<Rightarrow> string \<Rightarrow> datetime \<Rightarrow> outcome res \<Rightarrow> ('w, report, health_record) eio" where
  "outcome_record K run_id started res =
    (case res of
       Inr (Saved version) \<Rightarrow> health_ok K run_id started version
     | Inr (CanaryFailed status observed) \<Rightarrow> health_canary_failed K run_id started status observed
     | Inl e \<Rightarrow> health_error K run_id started (report_chain e))"

lemma outcome_record_result:
  "\<exists>rc. outcome_record K run_id started res w = (Inr rc, snd (utc_now K w)) \<and>
    hr_run_id rc = run_id \<and> hr_started_at rc = started \<and> hr_status rc = outcome_status res"
  by (cases "utc_now K w")
    (auto simp: outcome_record_def health_ok_def health_canary_failed_def health_error_def and_then_def
      effect_def ret_def outcome_status_def split: sum.splits outcome.splits)

lemma conclude_run_cleans:
  assumes store: "per_object_store st objs" and up: "responsive st objs"
    and clock: "keeps objs (utc_now (se_chrono E))"
    and written: "\<And>rc. \<exists>b. to_vec_pretty (se_health_serde E) rc = Inr b"
    and own: "lg_store g = st" "objs w LOCK_KEY = Some (lb, lg_etag g)"
    and run: "conclude_run E run_id st started g res w = (r, w')"
  shows "objs w' LOCK_KEY = None \<and> logged E objs run_id started (outcome_status res) w'"
proof -
  note laws = per_object_store.axioms(1) [OF store]
  have "etag_at objs LOCK_KEY w = Some (lg_etag g)"
    using own(2) by (simp add: etag_at_def)
  then obtain w1 where rel: "st_delete_if_match st LOCK_KEY (lg_etag g) w = (Inr (), w1)"
    using responsiveD(5) [OF up] by blast
  then have gone: "objs w1 LOCK_KEY = None"
    using snapshot_store.delete_ok [OF laws] by blast
  obtain rc where rc: "outcome_record (se_chrono E) run_id started res w1 = (Inr rc, snd (utc_now (se_chrono E) w1))"
    "hr_run_id rc = run_id" "hr_started_at rc = started" "hr_status rc = outcome_status res"
    using outcome_record_result [of "se_chrono E" run_id started res w1] by metis
  let ?w2 = "snd (utc_now (se_chrono E) w1)" and ?k = "health_key (se_chrono E) rc"
  obtain b where b: "to_vec_pretty (se_health_serde E) rc = Inr b"
    using written by blast
  obtain p w3 where put: "st_put st ?k b ?w2 = (Inr p, w3)"
    using responsiveD(3) [OF up] by blast
  have "w' = w3"
    using run rel rc(1) b put unfolding conclude_run_def outcome_record_def [symmetric]
    by (auto simp: and_then_def attempt_def release_def own health_write_def ret_def fail_def
        split: sum.splits outcome.splits)
  moreover have "objs w3 LOCK_KEY = None"
    using keepsD [OF per_object_store.put_other [OF store health_key_other(2) [symmetric]] put]
      gone keeps_snd [OF clock, of w1] by simp
  moreover have "body_at objs ?k w3 = Some b"
    using snapshot_store.put_ok [OF laws put] by (simp add: body_at_def)
  ultimately show ?thesis
    using b rc by (auto simp: logged_def)
qed

lemma run_session_cleans:
  assumes site: "session_site st objs E mirrors" and store: "per_object_store st objs"
    and up: "responsive st objs"
    and written: "\<And>rc. \<exists>b. to_vec_pretty (se_health_serde E) rc = Inr b"
    and acq: "acquire (se_chrono E) (se_lock_serde E) st run_id (cg_lock_ttl_seconds cfg)
      (snd (utc_now (se_chrono E) w)) = (Inr g, w1)"
    and run: "run_session E cfg pages run_id st mirrors ident recip sk vk w = (r, w')"
    and calm: "\<And>e. r = Inl e \<Longrightarrow> \<not> unwinds e"
  shows "objs w' LOCK_KEY = None \<and>
    (\<exists>status. logged E objs run_id (fst (utc_now (se_chrono E) w)) status w' \<and>
      (status = HealthOk \<longleftrightarrow> r = Inr ()))"
proof -
  note clock = session_site.clock [OF site]
  from snapshot_store.acquire_taken [OF per_object_store.axioms(1) [OF store] clock acq]
  obtain body where own: "lg_store g = st" "objs w1 LOCK_KEY = Some (body, lg_etag g)"
    by blast
  obtain m w2 where m: "match_result (run_locked E cfg pages st mirrors ident recip sk vk) w1 = (m, w2)"
    by fastforce
  have start: "run_session E cfg pages run_id st mirrors ident recip sk vk w =
      and_then (match_result (run_locked E cfg pages st mirrors ident recip sk vk))
        (conclude_run E run_id st (fst (utc_now (se_chrono E) w)) g) w1"
    using acq by (cases "utc_now (se_chrono E) w") (simp add: run_session_def and_then_def effect_def)
  from match_result_cases [OF m] obtain res where
    res: "m = Inr res" "run_locked E cfg pages st mirrors ident recip sk vk w1 = (res, w2)"
    using run calm by (auto simp: start and_then_def m)
  have "objs w2 LOCK_KEY = objs w1 LOCK_KEY"
    by (rule keepsD [OF session_frame.keeps_run_locked [OF lock_frame [OF site store]] res(2)])
  moreover have end_: "conclude_run E run_id st (fst (utc_now (se_chrono E) w)) g res w2 = (r, w')"
    using run m res(1) by (simp add: start and_then_def)
  ultimately have "objs w' LOCK_KEY = None \<and>
      logged E objs run_id (fst (utc_now (se_chrono E) w)) (outcome_status res) w'"
    using conclude_run_cleans [OF store up clock written own(1) _ end_] own(2) by simp
  moreover have "outcome_status res = HealthOk \<longleftrightarrow> r = Inr ()"
    using conclude_run_reports [of res E run_id st "fst (utc_now (se_chrono E) w)" g w2] end_
    by (auto simp: outcome_reported_def outcome_status_def split: sum.splits outcome.splits)
  ultimately show ?thesis by blast
qed

section \<open>Properties\<close>

text \<open>
  C7: A logged-out session is never saved over a good one: while the server does not answer the
  canary as the configuration expects, every run fails, and changes no object of the primary but
  its lock and its health record; no workload runs, and neither snapshot nor pointer is written.
\<close>

theorem logged_out_run_writes_nothing:
  assumes "session_site st objs E mirrors" and "canary_refuses E (cg_canary cfg)"
    and "run_session E cfg pages run_id st mirrors ident recip sk vk w = (r, w')"
  shows "(\<exists>e. r = Inl e) \<and>
    (\<forall>k. k \<noteq> LOCK_KEY \<longrightarrow> \<not> prefix ''health/'' k \<longrightarrow> body_at objs k w' = body_at objs k w)"
  using assms(2,3) by (rule session_site.run_session_refused [OF assms(1)])

text \<open>The bench with a server that has logged the session out.\<close>

definition bench_out :: "bench session_env" where
  "bench_out = bench_E\<lparr>se_api := bench_env (\<lambda>_. \<lparr>rs_status = 403, rs_headers = [], rs_body = []\<rparr>)
     [] (\<lambda>_. Inr [])\<rparr>"

theorem logged_out_run_writes_nothing_witness:
  "\<exists>e w'. run_session bench_out bench_cfg 0 ''run-1'' bench_primary [bench_mirror] ''AGE'' ''age1'' ''k'' ''k''
      bench_seeded = (Inl e, w') \<and>
    body_at bench_objects LATEST_KEY w' = body_at bench_objects LATEST_KEY bench_seeded"
proof -
  obtain r w' where run: "run_session bench_out bench_cfg 0 ''run-1'' bench_primary [bench_mirror] ''AGE''
      ''age1'' ''k'' ''k'' bench_seeded = (r, w')" by fastforce
  have site: "session_site bench_primary bench_objects bench_out [bench_mirror]"
    by (rule bench_site) (simp_all add: bench_out_def)
  have out: "canary_refuses bench_out (cg_canary bench_cfg)"
    by (simp add: canary_refuses_def http_get_def bench_out_def bench_env_def bench_http_def bench_cfg_def
        bench_config_def)
  have "LATEST_KEY \<noteq> LOCK_KEY" "\<not> prefix ''health/'' LATEST_KEY"
    by (simp_all add: LATEST_KEY_def LOCK_KEY_def)
  with logged_out_run_writes_nothing [OF site out run] run show ?thesis by blast
qed

text \<open>
  C14: A run that got its lock cleans up: on a store that is up, whatever its outcome short of a panic,
  \<open>lock.json\<close> is gone when it returns, and \<open>health/\<close> holds a record with its run id and the time it
  started, whose status is \<open>ok\<close> exactly when the run succeeded.
\<close>

theorem run_cleans_up:
  assumes "session_site st objs E mirrors" and "per_object_store st objs" and "responsive st objs"
    and "\<And>rc. \<exists>b. to_vec_pretty (se_health_serde E) rc = Inr b"
    and "acquire (se_chrono E) (se_lock_serde E) st run_id (cg_lock_ttl_seconds cfg)
      (snd (utc_now (se_chrono E) w)) = (Inr g, w1)"
    and "run_session E cfg pages run_id st mirrors ident recip sk vk w = (r, w')"
    and "\<And>e. r = Inl e \<Longrightarrow> \<not> unwinds e"
  shows "objs w' LOCK_KEY = None \<and>
    (\<exists>status. logged E objs run_id (fst (utc_now (se_chrono E) w)) status w' \<and>
      (status = HealthOk \<longleftrightarrow> r = Inr ()))"
  using assms by (rule run_session_cleans)

theorem run_cleans_up_witness:
  "bench_objects bench_ran LOCK_KEY = None \<and>
    logged bench_E bench_objects ''run-1'' 1000000000 HealthOk bench_ran"
proof -
  have now: "utc_now (se_chrono bench_E) bench_seeded = (1000000000, bench_seeded\<lparr>bn_clock := 2000000000\<rparr>)"
    by (simp add: bench_chrono_def bench_seeded_def Let_def)
  have acq: "acquire (se_chrono bench_E) (se_lock_serde bench_E) bench_primary ''run-1''
      (cg_lock_ttl_seconds bench_cfg) (snd (utc_now (se_chrono bench_E) bench_seeded)) =
    (Inr \<lparr>lg_store = bench_primary, lg_etag = show_nat 4\<rparr>, bench_locked_world [] 4 3000000000)"
    using bench_acquire unfolding now by (simp add: bench_cfg_def bench_config_def)
  have written: "\<exists>b. to_vec_pretty (se_health_serde bench_E) rc = Inr b" for rc
    by (simp add: writes_def)
  from run_cleans_up [OF bench_session.session_site_axioms bench.per_object_store_axioms bench_responsive
      written acq bench_run] show ?thesis
    by (simp add: now [simplified])
qed

end
