(* ===== verification/Returns.thy ===== *)
theory Returns
  imports Stores
begin

text \<open>
  A small calculus of total correctness: calls that return with an \<open>Ok\<close>, and what they return.
\<close>

text \<open>\<open>m\<close> returns on \<open>w\<close>, with a result and a world that satisfy \<open>Q\<close>.\<close>

definition reaches :: "('w, 'e, 'a) eio \<Rightarrow> 'w \<Rightarrow> ('a \<Rightarrow> 'w \<Rightarrow> bool) \<Rightarrow> bool" where
  "reaches m w Q \<longleftrightarrow> (\<exists>x w'. m w = (Inr x, w') \<and> Q x w')"

lemma reaches_known: "m w = (Inr x, w') \<Longrightarrow> reaches m w Q \<longleftrightarrow> Q x w'"
  by (simp add: reaches_def)

lemma reaches_and_then [simp]:
  "reaches (and_then m f) w Q \<longleftrightarrow> reaches m w (\<lambda>x w'. reaches (f x) w' Q)"
  by (auto simp: reaches_def and_then_def split: prod.splits sum.splits)

lemma reaches_context [simp]: "reaches (with_context c m) w Q \<longleftrightarrow> reaches m w Q"
  by (auto simp: reaches_def with_context_def map_err_def split: prod.splits sum.splits)

lemma reaches_pure [simp]:
  "reaches (ret x) w Q \<longleftrightarrow> Q x w"
  "reaches (fail e) w Q \<longleftrightarrow> False"
  "reaches (lift_res r) w Q \<longleftrightarrow> (\<exists>x. r = Inr x \<and> Q x w)"
  "reaches (effect g) w Q \<longleftrightarrow> Q (fst (g w)) (snd (g w))"
  "reaches (map_err h m) w Q \<longleftrightarrow> reaches m w Q"
  by (auto simp: reaches_def ret_def fail_def lift_res_def effect_def map_err_def
      split: prod.splits sum.splits)

lemma reaches_attempt [simp]: "reaches (attempt m) w Q \<longleftrightarrow> Q (fst (m w)) (snd (m w))"
  by (auto simp: reaches_def attempt_def split: prod.splits)

lemma reaches_mono: "reaches m w Q \<Longrightarrow> (\<And>x w'. m w = (Inr x, w') \<Longrightarrow> Q x w' \<Longrightarrow> Q' x w') \<Longrightarrow> reaches m w Q'"
  by (auto simp: reaches_def)

text \<open>A call that always returns, and keeps a view.\<close>

definition returns :: "('w, 'e, 'a) eio \<Rightarrow> bool" where
  "returns m \<longleftrightarrow> (\<forall>w. \<exists>x w'. m w = (Inr x, w'))"

lemma reaches_returns:
  assumes "returns m" and "keeps v m" and "\<And>x w'. v w' = v w \<Longrightarrow> Q x w'"
  shows "reaches m w Q"
proof -
  obtain x w' where m: "m w = (Inr x, w')"
    using assms(1) unfolding returns_def by blast
  with assms(3) [OF keepsD [OF assms(2) m]] show ?thesis
    by (simp add: reaches_known)
qed

lemma returnsE:
  assumes "returns m"
  obtains x w' where "m w = (Inr x, w')"
  using assms unfolding returns_def by blast

lemma returns_and_then:
  assumes "returns m" and "\<And>x. returns (f x)"
  shows "returns (and_then m f)"
  unfolding returns_def
proof
  fix w
  obtain x w1 where "m w = (Inr x, w1)" using assms(1) by (rule returnsE)
  moreover obtain y w2 where "f x w1 = (Inr y, w2)" using assms(2) by (rule returnsE)
  ultimately show "\<exists>y w2. and_then m f w = (Inr y, w2)" by (simp add: and_then_def)
qed

lemma returns_map_err:
  assumes "returns m"
  shows "returns (map_err h m)"
  unfolding returns_def
proof
  fix w
  obtain x w1 where "m w = (Inr x, w1)" using assms by (rule returnsE)
  then show "\<exists>y w2. map_err h m w = (Inr y, w2)" by (simp add: map_err_def)
qed

lemma returns_pure:
  "returns (ret x)" "returns (attempt m)" "returns (effect g)" "returns (lift_res (Inr x))"
  by (simp_all add: returns_def ret_def attempt_def effect_def lift_res_def split: prod.splits)

lemma returns_if: "returns m \<Longrightarrow> returns m' \<Longrightarrow> returns (if b then m else m')"
  by simp

lemma returns_context: "returns m \<Longrightarrow> returns (with_context c m)"
  unfolding with_context_def by (rule returns_map_err)

lemmas returns_intros = returns_and_then returns_map_err returns_pure returns_if returns_context

text \<open>A loop that returns in every turn, with an invariant over the part of the list it has done.\<close>

lemma reaches_fold_io:
  assumes "\<And>pre x rest a w. xs = pre @ x # rest \<Longrightarrow> P pre a w \<Longrightarrow> reaches (f a x) w (P (pre @ [x]))"
    and "P [] a w"
  shows "reaches (fold_io f a xs) w (P xs)"
proof -
  have "reaches (fold_io f a ys) w (P xs)" if "xs = pre @ ys" "P pre a w" for pre ys a w
    using that
  proof (induction ys arbitrary: pre a w)
    case Nil
    then show ?case by simp
  next
    case (Cons y ys)
    from assms(1) [OF Cons.prems] show ?case
      by (simp, rule reaches_mono) (use Cons.IH [of "pre @ [y]"] Cons.prems(1) in simp)
  qed
  from this [of "[]"] assms(2) show ?thesis by simp
qed

lemma reaches_fanout [simp]:
  "reaches (fanout ms k b) w Q \<longleftrightarrow> Q () (snd (fanout ms k b w :: unit res \<times> 'w))" for w :: 'w
  by (simp add: reaches_def fanout_fold)

end
