(* ===== verification/Run_Total.thy ===== *)
theory Run_Total
  imports Run_Facts Returns
begin

text \<open>
  When a run succeeds: with a published session, a free lock, a clock that has moved on, and
  services that are up, the daily run returns \<open>Ok\<close>.
\<close>

section \<open>Services that are up\<close>

text \<open>The browser starts, takes the cookies it is given and reports some.\<close>

definition browser_up :: "'w chromium_api \<Rightarrow> bool" where
  "browser_up CH \<longleftrightarrow>
    (\<forall>d. returns (ch_create_dir_all CH d)) \<and> (\<forall>c. \<exists>c'. ch_build CH c = Inr c') \<and>
    (\<forall>c. returns (ch_launch CH c)) \<and> (\<forall>b. returns (ch_clear_cookies CH b)) \<and>
    (\<forall>b ps. returns (ch_set_cookies CH b ps)) \<and>
    (\<forall>b w. \<exists>c cs w'. ch_get_cookies CH b w = (Inr (c # cs), w'))"

lemma browser_returns:
  assumes "browser_up CH"
  shows "returns (launch CH bin dir hl)" and "returns (import_storage_state CH s state)"
    and "returns (export_storage_state CH s)" and "returns (close_session CH s)"
proof -
  have lift: "returns (lift_res (ch_build CH c))" for c :: browser_config
    using assms by (auto simp: browser_up_def returns_def lift_res_def)
  have get: "returns (ch_get_cookies CH b)" for b
    using assms unfolding browser_up_def returns_def by blast
  show "returns (launch CH bin dir hl)" "returns (import_storage_state CH s state)"
    "returns (export_storage_state CH s)" "returns (close_session CH s)"
    unfolding launch_def import_storage_state_def export_storage_state_def export_cookies_def
      close_session_def Let_def
    using assms by (auto simp: browser_up_def intro!: returns_intros lift get)
qed

lemma export_some:
  assumes "browser_up CH" and "export_storage_state CH s w = (Inr state, w')"
  shows "ss_cookies state \<noteq> []"
proof -
  obtain c cs w1 where "ch_get_cookies CH (bs_browser s) w = (Inr (c # cs), w1)"
    using assms(1) unfolding browser_up_def by blast
  with assms(2) show ?thesis
    by (auto simp: export_storage_state_def export_cookies_def and_then_def with_context_def map_err_def
        ret_def)
qed

text \<open>The client can be built, and the site answers it as a logged-in session is answered.\<close>

definition canary_accepts :: "'w session_env \<Rightarrow> canary_cfg \<Rightarrow> bool" where
  "canary_accepts E cn \<longleftrightarrow>
    (\<forall>jar. \<exists>client. build_client (ae_http (se_api E)) jar cn = Inr client) \<and>
    (\<forall>client w. \<exists>resp w1. http_get (ae_http (se_api E)) client (cn_url cn) w = (Inr resp, w1) \<and>
      rs_status resp = cn_expected_status cn \<and>
      (\<exists>raw w2 body. http_bytes (ae_http (se_api E)) resp w1 = (Inr raw, w2) \<and>
        js_from_slice (ae_json (se_api E)) raw = Inr body \<and>
        Option.bind (js_pointer (ae_json (se_api E)) (cn_field cn) body) json_str =
          Some (cn_expected_value cn)))"

lemma check_accepted:
  assumes "canary_accepts E cn"
  shows "reaches (check (ae_http (se_api E)) (ae_json (se_api E)) client (cn_url cn)
    (cn_expected_status cn) (cn_field cn) (cn_expected_value cn)) w (\<lambda>c w'. cr_ok c)"
proof -
  obtain resp w1 raw w2 body where
    "http_get (ae_http (se_api E)) client (cn_url cn) w = (Inr resp, w1)"
    "rs_status resp = cn_expected_status cn" "http_bytes (ae_http (se_api E)) resp w1 = (Inr raw, w2)"
    "js_from_slice (ae_json (se_api E)) raw = Inr body"
    "Option.bind (js_pointer (ae_json (se_api E)) (cn_field cn) body) json_str = Some (cn_expected_value cn)"
    using assms unfolding canary_accepts_def by meson
  then show ?thesis
    by (simp add: check_def Let_def reaches_known)
qed

text \<open>A new session can be compressed, sealed for the recipient and described.\<close>

definition sealing_works :: "'w session_env \<Rightarrow> recipient \<Rightarrow> bool" where
  "sealing_works E recip \<longleftrightarrow>
    (\<forall>s. \<exists>z. compress (se_crypto E) (se_state_serde E) s = Inr z) \<and>
    (\<forall>z. returns (encrypt (se_crypto E) z recip)) \<and>
    (\<forall>p. \<exists>b. to_vec_pretty (se_pointer_serde E) p = Inr b)"

text \<open>The configured workloads run through.\<close>

definition workloads_succeed :: "'w session_env \<Rightarrow> nat \<Rightarrow> config \<Rightarrow> bool" where
  "workloads_succeed E pages cfg \<longleftrightarrow>
    (\<forall>wcfg \<in> set (cg_workloads cfg). \<exists>nm workload. build_workload E pages wcfg = Inr (nm, workload) \<and>
      (\<forall>ctx. returns (workload ctx)))"

lemma run_workloads_returns:
  assumes "\<forall>wcfg \<in> set ws. \<exists>nm workload. build_workload E pages wcfg = Inr (nm, workload) \<and>
    (\<forall>ctx. returns (workload ctx))"
  shows "returns (run_workloads E pages ctx ws)"
  using assms
proof (induction ws)
  case (Cons wcfg ws)
  then obtain nm workload where "build_workload E pages wcfg = Inr (nm, workload)" "returns (workload ctx)"
    by auto
  with Cons show ?case
    by (auto intro!: returns_intros)
qed (simp add: returns_intros)


section \<open>A run on services that are up\<close>

context per_object_store begin

lemma acquire_other:
  assumes "keeps objs (utc_now K)" and "k \<noteq> LOCK_KEY"
  shows "keeps (\<lambda>w. objs w k) (acquire K J st run_id ttl)"
proof -
  have "keeps (\<lambda>w. objs w k) (utc_now K)"
    using assms(1) by (simp add: keeps_def)
  then show ?thesis
    unfolding acquire_def Let_def
    using assms(2) by (auto intro!: keeps_intros frame_rules cas_other)
qed

end

text \<open>The view a run keeps until its compare-and-swap: the entry of \<open>latest.json\<close> with its etag.\<close>

lemma save_returns:
  assumes site: "session_site st objs E mirrors" and store: "per_object_store st objs"
    and up: "responsive st objs" and seals: "sealing_works E recip"
    and tag: "etag_at objs LATEST_KEY w = Some tag"
    and later: "\<And>v. lp_created_at prev < fst (utc_now (se_chrono E) v)"
  shows "\<exists>ts w'. save E st mirrors recip sk state prev tag w = (Inr ts, w')"
proof -
  let ?C = "se_crypto E" and ?K = "se_chrono E"
  obtain z where z: "compress ?C (se_state_serde E) state = Inr z"
    using seals unfolding sealing_works_def by blast
  obtain ct w1 where enc: "encrypt ?C z recip w = (Inr ct, w1)"
    using seals unfolding sealing_works_def returns_def by blast
  obtain now w2 where now: "utc_now ?K w1 = (now, w2)" by fastforce
  define ts where "ts = format_compact ?K now"
  let ?sig = "hex_encode ?C (sign ?C sk ct)"
  obtain r1 w3 where put1: "st_put st (snapshot_key ts) ct w2 = (Inr r1, w3)"
    using responsiveD(3) [OF up] by blast
  obtain r2 w4 where put2: "st_put st (snapshot_sig_key ts) ?sig w3 = (Inr r2, w4)"
    using responsiveD(3) [OF up] by blast
  obtain pb where pb: "to_vec_pretty (se_pointer_serde E) (snapshot_pointer E ts ct now) = Inr pb"
    using seals unfolding sealing_works_def by blast
  note other = per_object_store.put_other [OF store]
  have "objs w4 LATEST_KEY = objs w LATEST_KEY"
    using keepsD [OF session_site.encrypt_keeps [OF site] enc]
      keepsD [OF session_site.clock [OF site] now] keepsD [OF other put1, of LATEST_KEY]
      keepsD [OF other put2, of LATEST_KEY] by simp
  then have "etag_at objs LATEST_KEY w4 = Some tag"
    using tag by (simp add: etag_at_def)
  then obtain r3 w5 where cas: "st_put_if_unmodified st LATEST_KEY pb (Some tag) w4 = (Inr r3, w5)"
    using responsiveD(4) [OF up] by blast
  have "ensure_monotonic ?K (Some prev) (snapshot_pointer E ts ct now) = Inr ()"
    using later [of w1] now by (simp add: ensure_monotonic_def ensure_def)
  then have "reaches (save E st mirrors recip sk state prev tag) w (\<lambda>_ _. True)"
    unfolding save_def Let_def snapshot_pointer_def [symmetric]
    by (simp add: z pb reaches_known enc put1 put2 cas now ts_def [symmetric])
  then show ?thesis by (simp add: reaches_def)
qed

lemma object_view: "keeps objs m \<Longrightarrow> keeps (\<lambda>w. objs w k) m"
  by (simp add: keeps_def)

lemma workloads_keep_pointer:
  assumes site: "session_site st objs E mirrors" and store: "per_object_store st objs"
  shows "keeps (\<lambda>w. objs w LATEST_KEY) (run_workloads E pages
    \<lparr>wx_http = http, wx_primary = st, wx_mirrors = mirrors, wx_recipient = r, wx_identity = i\<rparr> ws)"
proof (induction ws)
  case Nil
  then show ?case by (simp add: keeps_ret)
next
  case (Cons wcfg ws)
  obtain c where c: "wcfg = ChatgptChats c" by (cases wcfg)
  let ?v = "\<lambda>w. objs w LATEST_KEY"
  note laws = per_object_store.axioms(1) [OF store]
  have network: "api_env_keeps (se_api E) ?v"
    using session_site.network [OF site] by (auto simp: api_env_keeps_def http_keeps_def keeps_def)
  have "chats_frame (se_chats E) c \<lparr>wx_http = http, wx_primary = st, wx_mirrors = mirrors,
      wx_recipient = r, wx_identity = i\<rparr> ?v"
    using not_own_key [OF LATEST_not_chats(1), of c] network
    by unfold_locales
      (auto simp: se_chats_def intro: snapshot_store.get_obj_keeps [OF laws]
        snapshot_store.head_obj_keeps [OF laws] per_object_store.put_other [OF store]
        per_object_store.cas_other [OF store] object_view [OF session_site.mirrors_keep [OF site]]
        object_view [OF session_site.clock [OF site]] object_view [OF session_site.sealing [OF site]])
  from chats_frame.keeps_chats_run [OF this] Cons.IH c show ?case
    by (auto simp: build_workload_def intro!: keeps_intros)
qed

lemma run_locked_returns:
  assumes site: "session_site st objs E mirrors" and store: "per_object_store st objs"
    and up: "responsive st objs" and published: "published E objs ident vk w rd"
    and later: "\<And>v. lp_created_at (rd_pointer rd) < fst (utc_now (se_chrono E) v)"
    and browser: "browser_up (se_chromium E)" and canary: "canary_accepts E (cg_canary cfg)"
    and work: "workloads_succeed E pages cfg" and seals: "sealing_works E recip"
  shows "\<exists>ts w'. run_locked E cfg pages st mirrors ident recip sk vk w = (Inr (Saved ts), w')"
proof -
  let ?CH = "se_chromium E" and ?v = "\<lambda>w. objs w LATEST_KEY"
  note laws = per_object_store.axioms(1) [OF store] and up' = browser_returns [OF browser]
  note keep = session_site.launch_keeps [OF site] session_site.import_keeps [OF site]
    session_site.export_keeps [OF site] session_site.close_keeps [OF site]
  have "readable st objs"
    using up by (auto simp: readable_def responsive_def)
  then obtain v1 where restore: "restore E st ident vk w = (Inr rd, v1)"
    using snapshot_store.restore_complete [OF laws] published by blast
  obtain s v2 where launch: "launch ?CH (bw_chromium_bin (cg_browser cfg)) (bw_user_data_dir (cg_browser cfg))
      (bw_headless (cg_browser cfg)) v1 = (Inr s, v2)"
    using up'(1) by (rule returnsE)
  obtain v3 where import: "import_storage_state ?CH s (rd_state rd) v2 = (Inr (), v3)"
    using up'(2) by (rule returnsE) auto
  let ?jar = "cookies_to_reqwest_jar (ae_http (se_api E)) (ss_cookies (rd_state rd))"
  obtain http where client: "build_client (ae_http (se_api E)) ?jar (cg_canary cfg) = Inr http"
    using canary unfolding canary_accepts_def by blast
  obtain c v4 where check: "check (ae_http (se_api E)) (ae_json (se_api E)) http (cn_url (cg_canary cfg))
      (cn_expected_status (cg_canary cfg)) (cn_field (cg_canary cfg)) (cn_expected_value (cg_canary cfg)) v3 =
      (Inr c, v4)" "cr_ok c"
    using check_accepted [OF canary, of http v3] by (auto simp: reaches_def)
  let ?ctx = "\<lparr>wx_http = http, wx_primary = st, wx_mirrors = mirrors, wx_recipient = recip,
    wx_identity = ident\<rparr>"
  obtain v5 where works: "run_workloads E pages ?ctx (cg_workloads cfg) v4 = (Inr (), v5)"
    using run_workloads_returns work unfolding workloads_succeed_def by (metis returnsE old.unit.exhaust)
  obtain state v6 where export: "export_storage_state ?CH s v5 = (Inr state, v6)"
    using up'(3) by (rule returnsE)
  obtain v7 where close: "close_session ?CH s v6 = (Inr (), v7)"
    using up'(4) by (rule returnsE) auto
  have "?v v7 = ?v w"
    using keepsD [OF snapshot_store.restore_keeps [OF laws] restore] keepsD [OF keep(1) launch]
      keepsD [OF keep(2) import] keepsD [OF keeps_check [OF session_site.http_keeps [OF site]] check(1)]
      keepsD [OF workloads_keep_pointer [OF site store] works] keepsD [OF keep(3) export]
      keepsD [OF keep(4) close] by simp
  with published have "etag_at objs LATEST_KEY v7 = Some (rd_pointer_etag rd)"
    by (auto simp: published_def etag_at_def)
  from save_returns [OF site store up seals this later] obtain ts v8 where
    "save E st mirrors recip sk state (rd_pointer rd) (rd_pointer_etag rd) v7 = (Inr ts, v8)" by blast
  then have "reaches (run_locked E cfg pages st mirrors ident recip sk vk) w (\<lambda>x w'. \<exists>ts. x = Saved ts)"
    unfolding run_locked_def Let_def
    using export_some [OF browser export] check(2)
    by (simp add: reaches_known restore launch import client check(1) works export close)
  then show ?thesis by (auto simp: reaches_def)
qed

text \<open>The lock is free or expired for a run that starts now, and can be written.\<close>

definition lock_available :: "'w session_env \<Rightarrow> 'w objects \<Rightarrow> string \<Rightarrow> nat \<Rightarrow> 'w \<Rightarrow> bool" where
  "lock_available E objs run_id ttl w \<longleftrightarrow>
    takeable (se_lock_serde E) objs (fst (utc_now (se_chrono E) w)) w \<and>
    (\<exists>expires body. add_std_duration (se_chrono E) (fst (utc_now (se_chrono E) w)) ttl = Inr expires \<and>
      to_vec_pretty (se_lock_serde E) \<lparr>lk_run_id = run_id, lk_created_at = fst (utc_now (se_chrono E) w),
        lk_expires_at = expires\<rparr> = Inr body)"

lemma run_session_returns:
  assumes site: "session_site st objs E mirrors" and store: "per_object_store st objs"
    and up: "responsive st objs" and published: "published E objs ident vk w rd"
    and keys: "lp_object (rd_pointer rd) \<noteq> LOCK_KEY" "lp_signature_object (rd_pointer rd) \<noteq> LOCK_KEY"
    and later: "\<And>v. lp_created_at (rd_pointer rd) < fst (utc_now (se_chrono E) v)"
    and lock: "lock_available E objs run_id (cg_lock_ttl_seconds cfg) (snd (utc_now (se_chrono E) w))"
    and browser: "browser_up (se_chromium E)" and canary: "canary_accepts E (cg_canary cfg)"
    and work: "workloads_succeed E pages cfg" and seals: "sealing_works E recip"
  shows "\<exists>w'. run_session E cfg pages run_id st mirrors ident recip sk vk w = (Inr (), w')"
proof -
  let ?K = "se_chrono E" and ?J = "se_lock_serde E" and ?ttl = "cg_lock_ttl_seconds cfg"
  note clock = session_site.clock [OF site]
  obtain started w1 where now: "utc_now ?K w = (started, w1)" by fastforce
  obtain g w2 where acq: "acquire ?K ?J st run_id ?ttl w1 = (Inr g, w2)"
    using lock snapshot_store.acquire_responsive [OF per_object_store.axioms(1) [OF store] up clock]
    unfolding lock_available_def now snd_conv by metis
  have same: "objs w2 k = objs w k" if "k \<noteq> LOCK_KEY" for k
    using keepsD [OF clock now] keepsD [OF per_object_store.acquire_other [OF store clock that] acq] by simp
  have "LATEST_KEY \<noteq> LOCK_KEY" by (simp add: LATEST_KEY_def LOCK_KEY_def)
  then have "published E objs ident vk w2 rd"
    using published same keys by (simp add: published_def body_at_def)
  from run_locked_returns [OF site store up this later browser canary work seals] obtain ts w3 where
    locked: "run_locked E cfg pages st mirrors ident recip sk vk w2 = (Inr (Saved ts), w3)" by blast
  obtain r w4 where end_: "conclude_run E run_id st started g (Inr (Saved ts)) w3 = (r, w4)" by fastforce
  with conclude_run_reports [of "Inr (Saved ts)" E run_id st started g w3] have "r = Inr ()"
    by (simp add: outcome_reported_def)
  with end_ have "reaches (run_session E cfg pages run_id st mirrors ident recip sk vk) w (\<lambda>_ _. True)"
    unfolding run_session_def match_result_def by (simp add: now reaches_known acq locked)
  then show ?thesis by (auto simp: reaches_def)
qed

section \<open>Property\<close>


text \<open>The bench with a clock that stands still and serializers that write one text each.\<close>

definition bench_steady :: "bench session_env" where
  "bench_steady = bench_E\<lparr>se_chrono := bench_chrono\<lparr>utc_now := \<lambda>w. (5 * 10 ^ 9, w)\<rparr>,
     se_pointer_serde := (se_pointer_serde bench_E)\<lparr>to_vec_pretty := \<lambda>_. Inr ''P5''\<rparr>,
     se_state_serde := (se_state_serde bench_E)\<lparr>to_vec := \<lambda>_. Inr ''ST''\<rparr>,
     se_lock_serde := writes ''LK''\<rparr>"


end
