(* ===== verification/Mirrors_Run.thy ===== *)
theory Mirrors_Run
  imports Run_Facts
begin

text \<open>
  What the mirrors hold: a mirror that accepted its writes during a run holds the same snapshot as
  the primary, so the session can be restored from it.
\<close>

section \<open>One mirror among the stores\<close>

text \<open>The objects of the mirror are its own: no request to another store, and no clock, moves them.\<close>

locale mirror_site = snapshot_store m mobjs for m :: "'w store" and mobjs :: "'w objects" +
  fixes E :: "'w session_env" and st :: "'w store" and before after :: "'w store list"
  assumes accepts: "\<exists>r w'. st_put m k b w = (Inr r, w')"
    and others: "m' \<in> set before \<union> set after \<Longrightarrow> keeps mobjs (st_put m' k b)"
    and primary: "keeps mobjs (st_put st k b)" "keeps mobjs (st_delete_if_match st k tag)"
    and clock: "keeps mobjs (utc_now (se_chrono E))"

context mirror_site begin

lemma fanout_reaches:
  "body_at mobjs k (snd (fanout (before @ m # after) k b w)) = Some b \<and>
    (\<forall>k'. k' \<noteq> k \<longrightarrow> body_at mobjs k' (snd (fanout (before @ m # after) k b w)) = body_at mobjs k' w)"
proof -
  let ?go = "\<lambda>ms w. fold (\<lambda>m. snd \<circ> st_put m k b) ms w"
  have elsewhere: "mobjs (?go ms w) = mobjs w" if "set ms \<subseteq> set before \<union> set after" for ms w
    using that others by (induction ms arbitrary: w) (auto simp: keeps_def)
  have "body_at mobjs k (snd (st_put m k b v)) = Some b" for v
  proof -
    obtain r v' where "st_put m k b v = (Inr r, v')" using accepts by blast
    with put_ok [OF this] show ?thesis by (simp add: body_at_def)
  qed
  moreover have "body_at mobjs k' (snd (st_put m k b v)) = body_at mobjs k' v" if "k' \<noteq> k" for k' v
    using put_frame [OF that] by (simp add: keeps_def)
  ultimately show ?thesis
    by (simp add: fanout_fold body_at_def elsewhere)
qed

lemma fanout_body:
  assumes "fanout (before @ m # after) k b w = (r :: unit res, w')"
  shows "body_at mobjs k w' = Some b" and "k' \<noteq> k \<Longrightarrow> body_at mobjs k' w' = body_at mobjs k' w"
proof -
  have w': "w' = snd (fanout (before @ m # after) k b w :: unit res \<times> 'w)"
    using assms by simp
  show "body_at mobjs k w' = Some b" unfolding w' by (simp add: fanout_reaches)
  show "body_at mobjs k' w' = body_at mobjs k' w" if "k' \<noteq> k"
    using that unfolding w' by (simp add: fanout_reaches)
qed

lemma conclude_run_mirror:
  assumes own: "lg_store g = st"
  shows "keeps mobjs (conclude_run E run_id st started g res)"
  unfolding conclude_run_def release_def health_ok_def health_canary_failed_def health_error_def own
  by (auto intro!: keeps_intros health_write_keeps primary clock split: sum.splits outcome.splits)

end

lemma save_mirrored:
  assumes site: "session_site st objs E (before @ m # after)" and mirror: "mirror_site m mobjs E st before after"
    and codecs: "codecs_ok E ident recip sk vk"
    and ok: "save E st (before @ m # after) recip sk state prev tag w = (Inr ts, w')"
  shows "\<exists>p e e'. published E objs ident vk w' \<lparr>rd_pointer = p, rd_pointer_etag = e, rd_state = state\<rparr> \<and>
    published E mobjs ident vk w' \<lparr>rd_pointer = p, rd_pointer_etag = e', rd_state = state\<rparr> \<and>
    lp_object p = snapshot_key ts \<and> lp_signature_object p = snapshot_sig_key ts"
proof -
  from ok obtain z ct w1 now w2 r1 w3 r2 w4 pb r3 w5 w6 w7 where
    z: "compress (se_crypto E) (se_state_serde E) state = Inr z"
    and enc: "encrypt (se_crypto E) z recip w = (Inr ct, w1)"
    and put1: "st_put st (snapshot_key ts) ct w2 = (Inr r1, w3)"
    and put2: "st_put st (snapshot_sig_key ts)
      (hex_encode (se_crypto E) (sign (se_crypto E) sk ct)) w3 = (Inr r2, w4)"
    and pb: "to_vec_pretty (se_pointer_serde E) (snapshot_pointer E ts ct now) = Inr pb"
    and cas: "st_put_if_unmodified st LATEST_KEY pb (Some tag) w4 = (Inr r3, w5)"
    and fan: "fanout (before @ m # after) (snapshot_key ts) ct w5 = (Inr () :: unit res, w6)"
      "fanout (before @ m # after) (snapshot_sig_key ts)
        (hex_encode (se_crypto E) (sign (se_crypto E) sk ct)) w6 = (Inr () :: unit res, w7)"
      "fanout (before @ m # after) LATEST_KEY pb w7 = (Inr () :: unit res, w')"
    by (rule save_steps)
  note body = mirror_site.fanout_body [OF mirror]
  have b: "body_at mobjs LATEST_KEY w' = Some pb" "body_at mobjs (snapshot_key ts) w' = Some ct"
    "body_at mobjs (snapshot_sig_key ts) w' = Some (hex_encode (se_crypto E) (sign (se_crypto E) sk ct))"
    using body(1) [OF fan(1)] body(1) [OF fan(2)] body(1) [OF fan(3)] body(2) [OF fan(2)] body(2) [OF fan(3)]
    by simp_all
  from b(1) obtain e' where "mobjs w' LATEST_KEY = Some (pb, e')"
    by (auto simp: body_at_def)
  then have "published E mobjs ident vk w'
      \<lparr>rd_pointer = snapshot_pointer E ts ct now, rd_pointer_etag = e', rd_state = state\<rparr>"
    using b by (intro publishedI [OF codecs z enc pb]) simp_all
  moreover have "published E objs ident vk w'
      \<lparr>rd_pointer = snapshot_pointer E ts ct now, rd_pointer_etag = pr_etag r3, rd_state = state\<rparr>"
    using session_site.save_published [OF site codecs z enc put1 put2 pb refl cas fan] .
  ultimately show ?thesis by (intro exI conjI) (assumption, assumption, simp_all)
qed

text \<open>A run that succeeded has saved and then concluded.\<close>

lemma run_session_saved:
  assumes site: "session_site st objs E mirrors"
    and ok: "run_session E cfg pages run_id st mirrors ident recip sk vk w = (Inr (), w')"
  obtains started g and prev :: restored and state v ts w1 where "lg_store g = st"
    and "save E st mirrors recip sk state (rd_pointer prev) (rd_pointer_etag prev) v = (Inr ts, w1)"
    and "conclude_run E run_id st started g (Inr (Saved ts)) w1 = (Inr (), w')"
proof -
  from ok obtain started v1 g v2 m w1 where
    acq: "acquire (se_chrono E) (se_lock_serde E) st run_id (cg_lock_ttl_seconds cfg) v1 = (Inr g, v2)"
    and m: "match_result (run_locked E cfg pages st mirrors ident recip sk vk) v2 = (Inr m, w1)"
    and end_: "conclude_run E run_id st started g m w1 = (Inr (), w')"
    unfolding run_session_def by (auto elim!: io_elims)
  have own: "lg_store g = st"
    using snapshot_store.acquire_taken [OF session_site.axioms(1) [OF site] session_site.clock [OF site] acq]
    by blast
  obtain ts where ts: "m = Inr (Saved ts)"
    using conclude_run_reports [of m E run_id st started g w1] end_ outcome_reported_Inr by auto
  with match_result_cases [OF m]
  have "run_locked E cfg pages st mirrors ident recip sk vk v2 = (Inr (Saved ts), w1)" by auto
  then obtain prev v3 v state where "restore E st ident vk v2 = (Inr prev, v3)"
    and saved: "save E st mirrors recip sk state (rd_pointer prev) (rd_pointer_etag prev) v = (Inr ts, w1)"
    unfolding run_locked_def Let_def by (auto elim!: io_elims split: if_splits)
  show thesis
    by (rule that [OF own saved end_ [unfolded ts]])
qed

section \<open>Property\<close>


text \<open>The mirror of the bench.\<close>

definition bench_mirror_objects :: "bench objects" where
  "bench_mirror_objects w = mem_objects (bn_mirror w)"

interpretation bench_mirror_site:
  mirror_site bench_mirror bench_mirror_objects bench_E bench_primary "[]" "[]"
proof -
  have "per_object_store bench_mirror bench_mirror_objects"
    unfolding bench_mirror_def bench_mirror_objects_def by (rule mem_per_object_store) simp
  then have "snapshot_store bench_mirror bench_mirror_objects"
    by (rule per_object_store.axioms(1))
  moreover have "mirror_site_axioms bench_mirror bench_mirror_objects bench_E bench_primary [] []"
    by unfold_locales
      (auto simp: bench_mirror_def bench_primary_def bench_mirror_objects_def mem_store_def on_part_def
        mem_put_def keeps_def bench_chrono_def Let_def split: prod.splits)
  ultimately show "mirror_site bench_mirror bench_mirror_objects bench_E bench_primary [] []"
    by (rule mirror_site.intro)
qed


end
