(* ===== verification/Browser_Facts.thy ===== *)
theory Browser_Facts
  imports Session_Run
begin

text \<open>
  The cookies of a session survive the change of browser: what one browser exports and another
  imports is what the other reports from then on.
\<close>

section \<open>A cookie jar\<close>

text \<open>A browser identifies a cookie by its name, its domain and its path.\<close>

definition cookie_id :: "cdp_cookie \<Rightarrow> string \<times> string \<times> string" where
  "cookie_id c = (cc_name c, cc_domain c, cc_path c)"

definition param_id :: "cookie_param \<Rightarrow> string \<times> string \<times> string" where
  "param_id p = (cp_name p, the (cp_domain p), the (cp_path p))"

text \<open>The time of expiry the protocol reports for a session cookie, \<open>-1.0\<close>.\<close>

definition SESSION_EXPIRES :: f64 where
  "SESSION_EXPIRES = 0xBFF0000000000000"

lemma session_expires_negative [simp]: "f64_negative SESSION_EXPIRES"
  by code_simp

text \<open>The cookie \<open>Storage.setCookies\<close> makes of a parameter; one without a time of expiry is a session cookie.\<close>

definition placed :: "cookie_param \<Rightarrow> cdp_cookie" where
  "placed p =
    \<lparr>cc_name = cp_name p, cc_value = cp_value p, cc_domain = the (cp_domain p), cc_path = the (cp_path p),
     cc_expires = (case cp_expires p of Some x \<Rightarrow> x | None \<Rightarrow> SESSION_EXPIRES), cc_http_only = cp_http_only p = Some True,
     cc_secure = cp_secure p = Some True, cc_same_site = cp_same_site p\<rparr>"

text \<open>
  The commands on the cookies of the browser \<open>b\<close>, as the DevTools protocol documents them: reading
  reports every cookie once, clearing removes all, and setting adds or replaces by identity.
\<close>

definition jar_documented :: "'w chromium_api \<Rightarrow> string \<Rightarrow> ('w \<Rightarrow> cdp_cookie set) \<Rightarrow> bool" where
  "jar_documented CH b jar \<longleftrightarrow>
    (\<forall>w cs w'. ch_get_cookies CH b w = (Inr cs, w') \<longrightarrow>
      set cs = jar w \<and> jar w' = jar w \<and> distinct (map cookie_id cs)) \<and>
    (\<forall>w w'. ch_clear_cookies CH b w = (Inr (), w') \<longrightarrow> jar w' = {}) \<and>
    (\<forall>ps w w'. distinct (map param_id ps) \<longrightarrow> ch_set_cookies CH b ps w = (Inr (), w') \<longrightarrow>
      jar w' = {c \<in> jar w. cookie_id c \<notin> param_id ` set ps} \<union> placed ` set ps)"

lemma same_site_text [simp]: "same_site_from_str (same_site_to_str s) = Some s"
  by (cases s) (simp_all add: same_site_from_str_def same_site_to_str_def)

lemma param_simps [simp]:
  "cp_name (param_of_stored c) = ck_name c" "cp_value (param_of_stored c) = ck_value c"
  "cp_domain (param_of_stored c) = Some (ck_domain c)" "cp_path (param_of_stored c) = Some (ck_path c)"
  "cp_http_only (param_of_stored c) = Some (ck_http_only c)"
  "cp_secure (param_of_stored c) = Some (ck_secure c)" "cp_expires (param_of_stored c) = ck_expires c"
  "cp_same_site (param_of_stored c) = Option.bind (ck_same_site c) same_site_from_str"
  by (simp_all add: param_of_stored_def Let_def split: option.splits)

lemma stored_simps [simp]:
  "ck_name (stored_of_cdp c) = cc_name c" "ck_value (stored_of_cdp c) = cc_value c"
  "ck_domain (stored_of_cdp c) = cc_domain c" "ck_path (stored_of_cdp c) = cc_path c"
  "ck_expires (stored_of_cdp c) = (if f64_negative (cc_expires c) then None else Some (cc_expires c))"
  "ck_http_only (stored_of_cdp c) = cc_http_only c" "ck_secure (stored_of_cdp c) = cc_secure c"
  "ck_same_site (stored_of_cdp c) = map_option same_site_to_str (cc_same_site c)"
  by (simp_all add: stored_of_cdp_def)

text \<open>A cookie that went through the snapshot and a browser is stored as it was before.\<close>

lemma stored_placed: "stored_of_cdp (placed (param_of_stored (stored_of_cdp c))) = stored_of_cdp c"
  by (cases "cc_same_site c") (auto intro!: stored_cookie.equality simp: placed_def)

lemma param_id_stored [simp]: "param_id (param_of_stored (stored_of_cdp c)) = cookie_id c"
  by (simp add: param_id_def cookie_id_def)

lemma export_jar:
  assumes "jar_documented CH (bs_browser s) jar" and "export_storage_state CH s w = (Inr state, w')"
  obtains cs where "ss_cookies state = map stored_of_cdp cs" and "set cs = jar w"
    and "distinct (map cookie_id cs)"
  using assms by (auto simp: export_storage_state_def export_cookies_def jar_documented_def elim!: io_elims)

lemma import_jar:
  assumes jar: "jar_documented CH (bs_browser s) jar"
    and cs: "ss_cookies state = map stored_of_cdp cs" "distinct (map cookie_id cs)"
    and ok: "import_storage_state CH s state w = (Inr (), w')"
  shows "stored_of_cdp ` jar w' = (if cs = [] then stored_of_cdp ` jar w else stored_of_cdp ` set cs)"
proof (cases "cs = []")
  case True
  then show ?thesis
    using ok cs(1) by (simp add: import_storage_state_def ret_def)
next
  case False
  let ?ps = "map (param_of_stored \<circ> stored_of_cdp) cs"
  from ok False cs(1) obtain w1 where
    clear: "ch_clear_cookies CH (bs_browser s) w = (Inr (), w1)"
    and set: "ch_set_cookies CH (bs_browser s) ?ps w1 = (Inr (), w')"
    by (auto simp: import_storage_state_def Let_def elim!: io_elims)
  have "jar w1 = {}"
    using jar clear by (simp add: jar_documented_def)
  moreover have "distinct (map param_id ?ps)"
    using cs(2) by (simp add: comp_def)
  ultimately have "jar w' = placed ` set ?ps"
    using jar set unfolding jar_documented_def by blast
  then show ?thesis
    using False by (auto simp: image_image stored_placed comp_def)
qed

section \<open>Property\<close>


text \<open>A browser that is its cookies.\<close>

definition jar_browser :: "cdp_cookie list chromium_api" where
  "jar_browser = (bench_chromium [])\<lparr>
     ch_get_cookies := \<lambda>b w. (if distinct (map cookie_id w) then Inr w else Inl (Msg ''corrupt''), w),
     ch_clear_cookies := \<lambda>b w. (Inr (), []),
     ch_set_cookies := \<lambda>b ps w. (Inr (), filter (\<lambda>c. cookie_id c \<notin> param_id ` set ps) w @ map placed ps)\<rparr>"

lemma jar_browser_documented: "jar_documented jar_browser b set"
  by (auto simp: jar_documented_def jar_browser_def split: if_splits)


end
