(* ===== verification/Chats_Total.thy ===== *)
theory Chats_Total
  imports Chats_Run Returns Unary_Text
begin

text \<open>
  The archive catches up: on a store that is up, with a server that lists and serves the
  conversations, a run of the workload succeeds and leaves an index in which every conversation of
  the part of the listing it walked is up to date.
\<close>

section \<open>Calls of the client\<close>

lemma reaches_on_world [simp]:
  "reaches (on_world m) s Q \<longleftrightarrow> reaches m (ap_world s) (\<lambda>x w. Q x (s\<lparr>ap_world := w\<rparr>))"
  by (auto simp: reaches_def on_world_def on_part_def split: prod.splits)

lemma reaches_with_token [simp]:
  "reaches (with_token tok m) w Q \<longleftrightarrow>
    reaches m \<lparr>ap_world = w, ap_token = tok\<rparr> (\<lambda>x s. Q x (ap_world s))"
  by (auto simp: reaches_def with_token_def split: prod.splits)

text \<open>Conversations and indexes can be sealed; the server hands out the bodies of the listed ones.\<close>

definition archiving_works :: "'w chats_env \<Rightarrow> chats_cfg \<Rightarrow> recipient \<Rightarrow> bool" where
  "archiving_works V cfg recip \<longleftrightarrow>
    (\<forall>v. returns (encode_conversation V cfg v recip)) \<and> (\<forall>idx. returns (encode_index V idx recip))"

definition serves_bodies ::
    "'w api_env \<Rightarrow> http_client \<Rightarrow> chats_cfg \<Rightarrow> conversation_summary list \<Rightarrow> bool" where
  "serves_bodies E http cfg xs \<longleftrightarrow>
    (\<forall>sm \<in> set xs. \<forall>s. \<exists>body s'. get_raw E http cfg (sm_id sm) s = (Inr body, s'))"

text \<open>What the archive in the store is: no index yet, or one the identity opens.\<close>

definition stored_index ::
    "'w chats_env \<Rightarrow> chats_cfg \<Rightarrow> 'w objects \<Rightarrow> identity \<Rightarrow> 'w \<Rightarrow> chats_index \<Rightarrow> bool" where
  "stored_index V cfg objs ident w idx \<longleftrightarrow>
    (case body_at objs (index_key cfg) w of
       None \<Rightarrow> ci_entries idx = []
     | Some b \<Rightarrow> decode_index V b ident = Inr idx)"

text \<open>An entry is up to date for a listed conversation.\<close>

definition up_to_date :: "chats_index \<Rightarrow> conversation_summary \<Rightarrow> bool" where
  "up_to_date idx sm \<longleftrightarrow> known idx sm \<or>
    (\<exists>e. map_of (ci_entries idx) (sm_id sm) = Some e \<and> ce_update_time e = sm_update_time sm)"

lemma known_cong: "ci_entries idx = ci_entries idx' \<Longrightarrow> known idx = known idx'"
  by (simp add: known_def fun_eq_iff)

text \<open>An index with the conversations \<open>sms\<close> archived over another.\<close>

definition archived :: "chats_index \<Rightarrow> conversation_summary list \<Rightarrow> chats_index \<Rightarrow> bool" where
  "archived idx sms idx' \<longleftrightarrow>
    (\<forall>sm \<in> set sms. \<exists>e. map_of (ci_entries idx') (sm_id sm) = Some e \<and> ce_update_time e = sm_update_time sm) \<and>
    (\<forall>cid. cid \<notin> sm_id ` set sms \<longrightarrow> map_of (ci_entries idx') cid = map_of (ci_entries idx) cid)"

lemma archived_Nil [simp]: "archived idx [] idx"
  by (simp add: archived_def)

lemma archived_insert:
  assumes "archived idx sms idx1" and "sm_id sm \<notin> sm_id ` set sms" and "ce_update_time e = sm_update_time sm"
  shows "archived idx (sms @ [sm]) (insert_entry (sm_id sm) e idx1)"
  using assms by (auto simp: archived_def insert_entry_def update_conv') (metis image_eqI)

lemma archived_up_to_date:
  assumes "archived idx (outdated idx pre) idx'" and "distinct (map sm_id pre)" and "sm \<in> set pre"
  shows "up_to_date idx' sm"
proof (cases "known idx sm")
  case True
  have "sm_id sm \<notin> sm_id ` set (outdated idx pre)"
    using True assms(2,3) by (auto simp: outdated_def distinct_map dest: inj_onD)
  then have "map_of (ci_entries idx') (sm_id sm) = map_of (ci_entries idx) (sm_id sm)"
    using assms(1) by (simp add: archived_def)
  then show ?thesis
    using True by (simp add: up_to_date_def known_def)
next
  case False
  then show ?thesis
    using assms(1,3) by (auto simp: archived_def up_to_date_def outdated_def)
qed

lemma concat_chunks: "concat (chunks n xs) = xs"
  by (induction n xs rule: chunks.induct) simp_all

section \<open>The phases return\<close>

locale live_archive = chats_site st objs V ctx + per_object_store st objs
    for st :: "'w store" and objs :: "'w objects" and V :: "'w chats_env" and ctx :: "'w workload_ctx" +
  fixes cfg :: chats_cfg
  assumes up: "responsive st objs" and seals: "archiving_works V cfg (wx_recipient ctx)"

context live_archive begin

abbreviation index_entry :: "'w \<Rightarrow> (bytes \<times> string) option" where
  "index_entry w \<equiv> objs w (index_key cfg)"

lemma index_view: "keeps objs m \<Longrightarrow> keeps index_entry m"
  by (simp add: keeps_def)

lemma index_frame: "bodies_frame V cfg ctx index_entry"
proof -
  have "http_keeps (ae_http (ve_api V)) index_entry"
    using network by (auto simp: api_env_keeps_def http_keeps_def intro: index_view)
  then show ?thesis
    by unfold_locales
      (auto simp: primary api_env_keeps_def intro!: get_obj_keeps head_obj_keeps put_other
        intro: index_view [OF mirrors] index_view [OF clock] index_view [OF sealing] index_view [OF sleep_keeps])
qed

lemma load_index_returns:
  assumes "stored_index V cfg objs (wx_identity ctx) w idx"
  shows "\<exists>idx0 w'. load_index V cfg (wx_primary ctx) (wx_identity ctx) w =
      (Inr (idx0, etag_at objs (index_key cfg) w), w') \<and>
    ci_entries idx0 = ci_entries idx \<and> objs w' = objs w"
proof -
  obtain w1 where head: "st_head st (index_key cfg) w = (Inr (etag_at objs (index_key cfg) w), w1)"
    using responsiveD(2) [OF up] by blast
  have same: "objs w1 = objs w" by (rule keepsD [OF head_keeps head])
  show ?thesis
  proof (cases "objs w (index_key cfg)")
    case None
    obtain now w2 where now: "utc_now (ve_chrono V) w1 = (now, w2)" by fastforce
    have "objs w2 = objs w" using keepsD [OF clock now] same by simp
    then show ?thesis
      using None assms head now
      by (simp add: load_index_def Let_def primary and_then_def etag_at_def index_empty_def effect_def ret_def
          stored_index_def body_at_def)
  next
    case (Some be)
    obtain b e where be: "be = (b, e)" by fastforce
    obtain w2 where got: "st_get st (index_key cfg) w1 = (Inr (b, e), w2)"
      using responsiveD(1) [OF up, of w1 "index_key cfg" b e] Some be same by auto
    have "objs w2 = objs w" using keepsD [OF get_keeps got] same by simp
    then show ?thesis
      using Some be assms head got
      by (simp add: load_index_def Let_def primary and_then_def etag_at_def with_context_def map_err_def ret_def
          lift_res_def stored_index_def body_at_def)
  qed
qed

lemma store_conversation_returns:
  "reaches (store_conversation V cfg ctx cid t u body) w (\<lambda>e w'. ce_update_time e = u \<and> index_entry w' = index_entry w)"
proof -
  obtain c w1 where enc: "encode_conversation V cfg body (wx_recipient ctx) w = (Inr c, w1)"
    using seals unfolding archiving_works_def returns_def by blast
  obtain r w2 where put: "st_put st (conv_key cfg cid) c w1 = (Inr r, w2)"
    using responsiveD(3) [OF up] by blast
  let ?call = "store_conversation V cfg ctx cid t u body"
  have "reaches ?call w (\<lambda>e w'. ce_update_time e = u)"
    by (simp add: store_conversation_def Let_def primary reaches_known enc put)
  then show ?thesis
    by (rule reaches_mono) (use keepsD [OF bodies_frame.keeps_store_conversation [OF index_frame]] in blast)
qed

lemma fetch_one_returns:
  assumes "get_raw (ve_api V) (wx_http ctx) cfg (sm_id sm) (s\<lparr>ap_world := snd (ae_sleep (ve_api V)
      (cf_detail_delay_ms cfg) (ap_world s))\<rparr>) = (Inr body, s1)"
  shows "reaches (fetch_one V cfg ctx (idx, []) sm) s (\<lambda>acc s'. snd acc = [] \<and>
    (\<exists>e. fst acc = insert_entry (sm_id sm) e idx \<and> ce_update_time e = sm_update_time sm) \<and>
    index_entry (ap_world s') = index_entry (ap_world s))"
proof -
  have "reaches (fetch_one V cfg ctx (idx, []) sm) s (\<lambda>acc s'. snd acc = [] \<and>
      (\<exists>e. fst acc = insert_entry (sm_id sm) e idx \<and> ce_update_time e = sm_update_time sm))"
    unfolding fetch_one_def store_summary_def
    by (simp add: assms)
      (rule reaches_mono [OF store_conversation_returns], auto)
  then show ?thesis
    by (rule reaches_mono)
      (use keepsD [OF bodies_frame.keeps_fetch_one [OF index_frame]] in auto)
qed

lemma fetch_batches_returns:
  assumes serves: "serves_bodies (ve_api V) (wx_http ctx) cfg (pre @ concat cs)"
    and ids: "distinct (map sm_id (pre @ concat cs))"
    and before: "archived idx pre idx1"
  shows "reaches (fetch_batches V cfg ctx i (idx1, []) cs) s (\<lambda>acc s'. snd acc = [] \<and>
    archived idx (pre @ concat cs) (fst acc) \<and> index_entry (ap_world s') = index_entry (ap_world s))"
  using assms
proof (induction cs arbitrary: pre idx1 i s)
  case Nil
  then show ?case by simp
next
  case (Cons chunk cs)
  let ?o = "index_entry (ap_world s)"
  let ?P = "\<lambda>ys acc s'. snd acc = [] \<and> archived idx (pre @ ys) (fst acc) \<and> index_entry (ap_world s') = ?o"
  have turn: "reaches (fetch_one V cfg ctx acc sm) s1 (?P (ys @ [sm]))"
    if split: "chunk = ys @ sm # zs" and inv: "?P ys acc s1" for ys sm zs acc s1
  proof -
    obtain idx2 where acc: "acc = (idx2, [])" and idx2: "archived idx (pre @ ys) idx2"
      and same: "index_entry (ap_world s1) = ?o"
      using inv by (cases acc) auto
    have new: "sm_id sm \<notin> sm_id ` set (pre @ ys)"
      using Cons.prems(2) split by auto
    obtain body s2 where "get_raw (ve_api V) (wx_http ctx) cfg (sm_id sm) (s1\<lparr>ap_world := snd (ae_sleep (ve_api V)
        (cf_detail_delay_ms cfg) (ap_world s1))\<rparr>) = (Inr body, s2)"
      using Cons.prems(1) split unfolding serves_bodies_def by fastforce
    from fetch_one_returns [OF this, of idx2] show ?thesis
      unfolding acc
      by (rule reaches_mono) (use archived_insert [OF idx2 new] same in auto)
  qed
  have rest: "reaches (fetch_batches V cfg ctx (i + 1) acc cs) s2 (\<lambda>acc s'. snd acc = [] \<and>
      archived idx (pre @ concat (chunk # cs)) (fst acc) \<and> index_entry (ap_world s') = ?o)"
    if "?P chunk acc s2" for acc s2
    using Cons.IH [of "pre @ chunk" "fst acc" "i + 1" s2] Cons.prems that
    by (cases acc) (auto elim: reaches_mono)
  have pause: "index_entry (ap_world (s\<lparr>ap_world := snd (ae_sleep (ve_api V) n (ap_world s))\<rparr>)) = ?o" for n
    using keeps_snd [OF index_view [OF sleep_keeps], of n "ap_world s"] by simp
  have "reaches (fold_io (fetch_one V cfg ctx) (idx1, []) chunk) s1
      (\<lambda>acc s2. reaches (fetch_batches V cfg ctx (i + 1) acc cs) s2 (\<lambda>acc s'. snd acc = [] \<and>
        archived idx (pre @ concat (chunk # cs)) (fst acc) \<and> index_entry (ap_world s') = ?o))"
    if "index_entry (ap_world s1) = ?o" for s1
    by (rule reaches_mono [OF reaches_fold_io [where P = ?P]])
      (use turn rest that Cons.prems(3) in auto)
  from this [of s] this [OF pause, of "cf_detail_batch_cooldown_ms cfg"] show ?case
    by (cases "i > 0") simp_all
qed

lemma save_index_returns:
  assumes "etag_at objs (index_key cfg) w = tag"
  shows "\<exists>w'. save_index V cfg ctx idx tag w = (Inr (), w')"
proof -
  obtain now w1 where now: "utc_now (ve_chrono V) w = (now, w1)" by fastforce
  obtain b w2 where enc: "encode_index V (idx\<lparr>ci_updated_at := now\<rparr>) (wx_recipient ctx) w1 = (Inr b, w2)"
    using seals unfolding archiving_works_def returns_def by blast
  have "objs w2 = objs w"
    using keepsD [OF clock now] keepsD [OF encode_index_keeps enc] by simp
  then obtain r w3 where cas: "st_put_if_unmodified st (index_key cfg) b tag w2 = (Inr r, w3)"
    using responsiveD(4) [OF up, of "index_key cfg" w2 tag b] assms by (auto simp: etag_at_def)
  have "reaches (save_index V cfg ctx idx tag) w (\<lambda>_ _. True)"
    by (simp add: save_index_def Let_def primary now reaches_known enc cas)
  then show ?thesis by (auto simp: reaches_def)
qed

lemma chats_run_catches_up:
  assumes keys: "age_key_pair (ve_crypto V) (wx_identity ctx) (wx_recipient ctx)"
    and serde: "\<And>i. serde_ok (ve_index_serde V) i"
    and stored: "stored_index V cfg objs (wx_identity ctx) w idx"
    and token: "returns (api_new (ve_api V) (wx_http ctx) cfg)"
    and listing: "serves_listing (ve_api V) (wx_http ctx) cfg xs"
    and fits: "length xs + unat (page_limit cfg) < 2 ^ 32" "length xs div unat (page_limit cfg) < pages"
    and bodies: "serves_bodies (ve_api V) (wx_http ctx) cfg xs" and ids: "distinct (map sm_id xs)"
  shows "\<exists>w' idx' pre post. chats_run V cfg pages ctx w = (Inr (), w') \<and>
    stored_index V cfg objs (wx_identity ctx) w' idx' \<and> xs = pre @ post \<and>
    (post = [] \<or> ends_known idx (unat (stop_after cfg)) pre) \<and> (\<forall>sm \<in> set pre. up_to_date idx' sm)"
proof -
  let ?tag = "etag_at objs (index_key cfg) w"
  from load_index_returns [OF stored] obtain idx0 w1 where
    load: "load_index V cfg (wx_primary ctx) (wx_identity ctx) w = (Inr (idx0, ?tag), w1)"
    and idx0: "ci_entries idx0 = ci_entries idx" and w1: "objs w1 = objs w" by blast
  obtain tok w2 where tok: "api_new (ve_api V) (wx_http ctx) cfg w1 = (Inr tok, w2)"
    using token by (rule returnsE)
  let ?s = "\<lparr>ap_world = w2, ap_token = tok\<rparr>"
  from collect_loop_spec [OF listing fits(1), of 0 idx0 0 pages ?s] fits(2) page_limit_pos(2) [of cfg]
  obtain pre post s1 where walk: "collect_outdated (ve_api V) (wx_http ctx) cfg idx0 pages ?s =
      (Inr (outdated idx0 pre), s1)" and xs: "xs = pre @ post"
    and stop: "post = [] \<or> ends_known idx0 (unat (stop_after cfg)) pre"
    by (auto simp: collect_outdated_def outdated_def)
  have s1: "objs (ap_world s1) = objs w"
    using keepsD [OF collect_keeps walk] keepsD [OF keeps_api_new [OF network] tok] w1 by simp
  have stop': "post = [] \<or> ends_known idx (unat (stop_after cfg)) pre"
    using stop known_cong [OF idx0] by (simp add: ends_known_def)
  note start = chats_run_def chats_phases_def
  show ?thesis
  proof (cases "outdated idx0 pre = []")
    case True
    have "reaches (chats_run V cfg pages ctx) w (\<lambda>_ w'. w' = ap_world s1)"
      by (simp add: start reaches_known load tok walk True)
    moreover have "stored_index V cfg objs (wx_identity ctx) (ap_world s1) idx"
      using stored s1 by (simp add: stored_index_def body_at_def)
    moreover have "up_to_date idx sm" if "sm \<in> set pre" for sm
      using True that known_cong [OF idx0] by (auto simp: outdated_def up_to_date_def filter_empty_conv)
    ultimately show ?thesis
      using xs stop' by (auto simp: reaches_def)
  next
    case False
    let ?cs = "chunks (batch_size cfg) (outdated idx0 pre)"
    have cs: "concat ?cs = outdated idx0 pre"
      by (simp add: concat_chunks)
    have "serves_bodies (ve_api V) (wx_http ctx) cfg ([] @ concat ?cs)" "distinct (map sm_id ([] @ concat ?cs))"
      unfolding append_Nil cs using bodies ids
      by (auto simp: xs serves_bodies_def outdated_def distinct_map_filter)
    from fetch_batches_returns [OF this archived_Nil, where i = 0 and s = s1 and idx = idx0] obtain idx1 s2 where
      fetch: "fetch_batches V cfg ctx 0 (idx0, []) ?cs s1 = (Inr (idx1, []), s2)"
      and idx1: "archived idx0 (outdated idx0 pre) idx1"
      and s2: "index_entry (ap_world s2) = index_entry (ap_world s1)"
      by (auto simp: reaches_def cs)
    have "etag_at objs (index_key cfg) (ap_world s2) = ?tag"
      using s1 s2 by (simp add: etag_at_def)
    from save_index_returns [OF this] obtain w' where
      saved: "save_index V cfg ctx idx1 ?tag (ap_world s2) = (Inr (), w')" by blast
    have "reaches (chats_run V cfg pages ctx) w (\<lambda>_ w''. w'' = w')"
      by (simp add: start reaches_known load tok walk False fetch retry_sweep_def saved)
    moreover from save_index_ok(2) [OF keys serde saved] obtain now where
      "stored_index V cfg objs (wx_identity ctx) w' (idx1\<lparr>ci_updated_at := now\<rparr>)"
      by (auto simp: stored_index_def)
    moreover have "up_to_date (idx1\<lparr>ci_updated_at := now\<rparr>) sm" if "sm \<in> set pre" for sm
      using archived_up_to_date [OF idx1 _ that] ids xs by (simp add: up_to_date_def known_def)
    ultimately show ?thesis
      using xs stop' by (auto simp: reaches_def)
  qed
qed

end

section \<open>A server that serves everything\<close>

text \<open>A text for every index.\<close>

definition entry_text :: "string \<times> chats_index_entry \<Rightarrow> string" where
  "entry_text p = (case p of (cid, e) \<Rightarrow>
    string_text cid @ option_text (unary \<circ> unat) (ce_update_time e) @ option_text string_text (ce_title e) @
    string_text (ce_object_key e) @ string_text (ce_sha256 e) @ unary (ce_bytes e) @ int_text (ce_stored_at e))"

definition take_entry :: "string \<Rightarrow> (string \<times> chats_index_entry) \<times> string" where
  "take_entry t =
    (let (cid, t) = take_string t;
         (u, t) = take_option (\<lambda>t. let (n, t) = take_unary t in (of_nat n, t)) t;
         (ti, t) = take_option take_string t;
         (k, t) = take_string t; (sha, t) = take_string t; (n, t) = take_unary t; (at, t) = take_int t
     in ((cid, \<lparr>ce_update_time = u, ce_title = ti, ce_object_key = k, ce_sha256 = sha, ce_bytes = n,
           ce_stored_at = at\<rparr>), t))"

lemma take_entry: "take_entry (entry_text p @ t) = (p, t)"
proof (cases p)
  case (Pair cid e)
  have u: "take_option (\<lambda>t. let (n, t) = take_unary t in (of_nat n, t)) (option_text (unary \<circ> unat) x @ t) = (x, t)"
    for x :: "f64 option" and t
    by (rule take_option) simp
  have ti: "take_option take_string (option_text string_text x @ t) = (x, t)" for x t
    by (rule take_option) simp
  show ?thesis
    by (cases e) (simp add: take_entry_def entry_text_def Pair u [unfolded Let_def] ti Let_def)
qed

definition index_serde :: "chats_index serde" where
  "index_serde =
    (let enc = (\<lambda>i. Inr (unary (unat (ci_schema_version i)) @ int_text (ci_updated_at i) @
           list_text entry_text (ci_entries i)));
         dec = (\<lambda>t. let (v, t) = take_unary t; (at, t) = take_int t; (xs, t) = take_list take_entry t
           in Inr \<lparr>ci_schema_version = of_nat v, ci_updated_at = at, ci_entries = xs\<rparr>)
     in \<lparr>to_vec = enc, to_vec_pretty = enc, from_slice = dec\<rparr>)"

lemma index_serde: "serde_ok index_serde i" "\<exists>b. to_vec_pretty index_serde i = Inr b"
proof -
  have "take_list take_entry (list_text entry_text xs) = (xs, [])" for xs
    using take_list [of take_entry entry_text xs "[]"] take_entry by simp
  then show "serde_ok index_serde i" "\<exists>b. to_vec_pretty index_serde i = Inr b"
    by (cases i; simp add: serde_ok_def index_serde_def Let_def)+
qed

definition open_env :: "conversation_summary list \<Rightarrow> bench chats_env" where
  "open_env xs =
    \<lparr>ve_api = listing_env xs, ve_chrono = bench_chrono, ve_crypto = bench_crypto, ve_index_serde = index_serde\<rparr>"

lemma open_network: "api_env_keeps (listing_env xs) bench_objects"
  by (auto simp: api_env_keeps_def http_keeps_def listing_env_def bench_env_def bench_http_def keeps_def
      bench_objects_def)

lemma open_site: "chats_site bench_primary bench_objects (open_env xs) bench_ctx"
  by unfold_locales
    (auto simp: open_env_def bench_ctx_def bench_mirror_keeps bench_clock_keeps open_network bench_crypto_def
      keeps_ret)

lemma open_seals: "archiving_works (open_env xs) cfg r"
proof -
  have lift: "returns (lift_res x)" if "x = Inr y" for x :: "'b + 'c" and y
    using that by (simp add: returns_def lift_res_def)
  have enc: "returns (encrypt bench_crypto b r)" for b
    by (auto simp: encrypt_def bench_crypto_def intro!: returns_intros lift)
  show ?thesis
    unfolding archiving_works_def encode_conversation_def encode_index_def open_env_def
    using index_serde(2)
    by (auto simp: res_context_def listing_env_def bench_crypto_def [THEN arg_cong, of zstd_encode_all]
        intro!: returns_intros lift enc split: sum.splits) (metis sum.distinct(1))
qed

interpretation open_archive: live_archive bench_primary bench_objects "open_env xs" bench_ctx cfg
  by (intro live_archive.intro live_archive_axioms.intro open_site bench.per_object_store_axioms
      bench_responsive open_seals)

text \<open>Its index is a view that is kept until it is saved.\<close>

interpretation open_index_view:
  bodies_frame "open_env xs" cfg bench_ctx "\<lambda>w. bench_objects w (index_key cfg)"
  by (rule live_archive.index_frame [OF open_archive.live_archive_axioms])

lemma open_bodies: "serves_bodies (listing_env ys) bench_client bench_chats_cfg xs"
proof -
  have "\<exists>body s'. get_raw (listing_env ys) bench_client bench_chats_cfg cid s = (Inr body, s')" for cid s
  proof (cases s)
    case (fields w t)
    have "get_json (listing_env ys) bench_client bench_chats_cfg url s = (Inr (JString url), s)" for url
      unfolding fields
      by (subst get_json_success [where resp = "\<lparr>rs_status = 200, rs_headers = [], rs_body = url\<rparr>"])
        (auto simp: answers_def listing_env_def bench_http_def is_success_def classify_body_def json_get_def)
    then show ?thesis by (simp add: get_raw_def map_err_def)
  qed
  then show ?thesis by (simp add: serves_bodies_def)
qed

lemma open_token: "returns (api_new (listing_env xs) bench_client bench_chats_cfg)"
  by (simp add: returns_def api_new_def fetch_session_def Let_def listing_env_def bench_http_def http_get_def
      and_then_def with_context_def map_err_def lift_res_def ok_or_def is_success_def is_char_boundary_def ret_def
      bench_env_def)

section \<open>Property\<close>



end
