(* ===== verification/History.thy ===== *)
theory History
  imports Run_Run
begin

text \<open>
  Any number of runs, one after the other, each with any outcome: the session that was seeded is
  never lost.  A run that fails on its way leaves the old snapshot restorable, also when it fails
  between its uploads or at the closing compare-and-swap, as long as it does not write its snapshot
  under the very stamp of the one it started from.
\<close>

section \<open>A compare-and-swap that happens or does not\<close>

locale atomic_store = snapshot_store +
  assumes cas_atomic: "body_at objs k (snd (st_put_if_unmodified st k b x w)) = body_at objs k w \<or>
    body_at objs k (snd (st_put_if_unmodified st k b x w)) = Some b"

interpretation bench_atomic: atomic_store bench_primary bench_objects
  by unfold_locales
    (auto simp: bench_primary_def mem_store_def on_part_def mem_put_if_unmodified_def mem_put_def Let_def
      bench_objects_def body_at_def mem_objects_def update_conv'
      split: option.splits prod.splits)

text \<open>S3 carries out a put as a whole or not at all.\<close>

definition put_atomic :: "'w s3_client \<Rightarrow> 'w buckets \<Rightarrow> bool" where
  "put_atomic cl bs \<longleftrightarrow>
    (\<forall>rq w. map_option fst (bs (snd (put_object cl rq w)) (po_bucket rq) (po_key rq)) =
        map_option fst (bs w (po_bucket rq) (po_key rq)) \<or>
      map_option fst (bs (snd (put_object cl rq w)) (po_bucket rq) (po_key rq)) = Some (po_body rq))"

lemma s3_atomic:
  assumes "s3_service (s3_the_client s) bs" and "put_atomic (s3_the_client s) bs"
  shows "atomic_store (s3_snapshot_store s) (s3_objects s bs)"
proof (intro atomic_store.intro atomic_store_axioms.intro)
  show "snapshot_store (s3_snapshot_store s) (s3_objects s bs)"
    using s3_meets_contract [OF assms(1)] by (rule per_object_store.axioms(1))
  fix k b x w
  show "body_at (s3_objects s bs) k (snd (st_put_if_unmodified (s3_snapshot_store s) k b x w)) =
      body_at (s3_objects s bs) k w \<or>
    body_at (s3_objects s bs) k (snd (st_put_if_unmodified (s3_snapshot_store s) k b x w)) = Some b"
    using assms(2) [unfolded put_atomic_def, rule_format,
      of "\<lparr>po_bucket = s3_bucket s, po_key = full_key s k, po_body = b, po_if_match = x,
        po_if_none_match = (if x = None then Some ''*'' else None)\<rparr>" w]
    by (simp add: s3_snapshot_store_def s3_cas_request body_at_def s3_objects_def)
qed

lemma table_atomic: "put_atomic table_client table_buckets"
  by (auto simp: put_atomic_def table_client_def table_put_def table_buckets_def Let_def update_conv')

interpretation s3_documented_atomic:
  atomic_store "s3_snapshot_store (table_s3 prefx)" "s3_objects (table_s3 prefx) table_buckets"
  by (rule s3_atomic) (simp_all add: table_s3_def table_client_documented table_atomic)

section \<open>The time of a save\<close>

text \<open>The time \<open>save\<close> reads for the stamp of its snapshot, and what it does from then on.\<close>

definition save_time :: "'w session_env \<Rightarrow> recipient \<Rightarrow> storage_state \<Rightarrow> 'w \<Rightarrow> datetime option" where
  "save_time E recip state w =
    (case compress (se_crypto E) (se_state_serde E) state of
       Inl _ \<Rightarrow> None
     | Inr z \<Rightarrow>
         (case encrypt (se_crypto E) z recip w of
            (Inl _, _) \<Rightarrow> None
          | (Inr ct, v) \<Rightarrow> Some (fst (utc_now (se_chrono E) v))))"

definition save_tail ::
    "'w session_env \<Rightarrow> 'w store \<Rightarrow> 'w store list \<Rightarrow> signing_key \<Rightarrow> latest_pointer \<Rightarrow> string \<Rightarrow> bytes \<Rightarrow>
      datetime \<Rightarrow> ('w, string) io" where
  "save_tail E st mirrors sk prev tag ct now =
    (let ts = format_compact (se_chrono E) now; p = snapshot_pointer E ts ct now;
         sig = hex_encode (se_crypto E) (sign (se_crypto E) sk ct) in
    and_then (lift_res (ensure_monotonic (se_chrono E) (Some prev) p)) (\<lambda>_.
    and_then (st_put st (snapshot_key ts) ct) (\<lambda>_.
    and_then (st_put st (snapshot_sig_key ts) sig) (\<lambda>_.
    and_then (lift_res (to_vec_pretty (se_pointer_serde E) p)) (\<lambda>pb.
    and_then (with_context CAS_context (st_put_if_unmodified st LATEST_KEY pb (Some tag))) (\<lambda>_.
    and_then (fanout mirrors (snapshot_key ts) ct) (\<lambda>_.
    and_then (fanout mirrors (snapshot_sig_key ts) sig) (\<lambda>_.
    and_then (fanout mirrors LATEST_KEY pb) (\<lambda>_. ret ts)))))))))"

context session_site begin

lemma save_split:
  assumes "save E st mirrors recip sk state prev tag w = (r, w')"
  obtains (unsealed) e where "r = Inl e" and "objs w' = objs w"
  | (sealed) z ct v now v' where
      "compress (se_crypto E) (se_state_serde E) state = Inr z"
      and "encrypt (se_crypto E) z recip w = (Inr ct, v)" and "utc_now (se_chrono E) v = (now, v')"
      and "objs v' = objs w" and "save_time E recip state w = Some now"
      and "save_tail E st mirrors sk prev tag ct now v' = (r, w')"
proof -
  have save: "save E st mirrors recip sk state prev tag =
    and_then (lift_res (compress (se_crypto E) (se_state_serde E) state)) (\<lambda>z.
    and_then (encrypt (se_crypto E) z recip) (\<lambda>ct.
    and_then (effect (utc_now (se_chrono E))) (save_tail E st mirrors sk prev tag ct)))"
    unfolding save_def save_tail_def Let_def snapshot_pointer_def CAS_context_def ..
  show thesis
  proof (cases "compress (se_crypto E) (se_state_serde E) state")
    case (Inl e)
    with assms have "r = Inl e" "w' = w"
      by (simp_all add: save and_then_def lift_res_def fail_def)
    with unsealed show thesis by simp
  next
    case z: (Inr z)
    obtain x v where enc: "encrypt (se_crypto E) z recip w = (x, v)" by fastforce
    have same: "objs v = objs w"
      using keepsD [OF encrypt_keeps enc] .
    obtain now v' where now: "utc_now (se_chrono E) v = (now, v')" by fastforce
    show thesis
    proof (cases x)
      case (Inl e)
      with assms z enc have "r = Inl e" "w' = v"
        by (simp_all add: save and_then_def lift_res_def)
      with unsealed same show thesis by simp
    next
      case (Inr ct)
      have "save_tail E st mirrors sk prev tag ct now v' = (r, w')"
        using assms enc now by (simp add: save and_then_def lift_res_def effect_def z Inr)
      then show thesis
        using sealed [OF z enc [unfolded Inr] now] same keepsD [OF clock now] z enc now Inr
        by (simp add: save_time_def)
    qed
  qed
qed

lemma save_tail_frame:
  assumes "k \<noteq> LATEST_KEY" and "k \<noteq> snapshot_key (format_compact (se_chrono E) now)"
    and "k \<noteq> snapshot_sig_key (format_compact (se_chrono E) now)"
  shows "keeps (body_at objs k) (save_tail E st mirrors sk prev tag ct now)"
  unfolding save_tail_def Let_def
  by (intro keeps_intros put_frame cas_frame keeps_body [OF mirrors_keep] assms)

text \<open>
  Whatever stops a save, the pointer is the old one, or the new one over a snapshot that is complete:
  both objects are written before it.
\<close>

lemma save_tail_pointer:
  assumes atomic: "atomic_store st objs" and codecs: "codecs_ok E ident recip sk vk"
    and z: "compress (se_crypto E) (se_state_serde E) state = Inr z"
    and enc: "encrypt (se_crypto E) z recip w = (Inr ct, w1)"
    and run: "save_tail E st mirrors sk prev tag ct now v = (r, w')"
  shows "body_at objs LATEST_KEY w' = body_at objs LATEST_KEY v \<or>
    (\<exists>e. published E objs ident vk w' \<lparr>rd_pointer = snapshot_pointer E (format_compact (se_chrono E) now) ct now,
      rd_pointer_etag = e, rd_state = state\<rparr>)"
proof -
  let ?ts = "format_compact (se_chrono E) now"
  let ?p = "snapshot_pointer E ?ts ct now" and ?sig = "hex_encode (se_crypto E) (sign (se_crypto E) sk ct)"
  define up where "up =
    and_then (lift_res (ensure_monotonic (se_chrono E) (Some prev) ?p)) (\<lambda>_.
    and_then (st_put st (snapshot_key ?ts) ct) (\<lambda>_.
    and_then (st_put st (snapshot_sig_key ?ts) ?sig) (\<lambda>_.
    lift_res (to_vec_pretty (se_pointer_serde E) ?p))))"
  define move where "move = (\<lambda>pb.
    and_then (with_context CAS_context (st_put_if_unmodified st LATEST_KEY pb (Some tag))) (\<lambda>_.
    and_then (fanout mirrors (snapshot_key ?ts) ct) (\<lambda>_.
    and_then (fanout mirrors (snapshot_sig_key ?ts) ?sig) (\<lambda>_.
    and_then (fanout mirrors LATEST_KEY pb) (\<lambda>_. ret ?ts)))))"
  have tail: "save_tail E st mirrors sk prev tag ct now = and_then up move"
    by (simp add: save_tail_def up_def move_def Let_def and_then_assoc)
  have still: "keeps (body_at objs LATEST_KEY) up"
    unfolding up_def by (intro keeps_intros put_frame) simp_all
  show ?thesis
  proof (cases rule: and_then_cases [of up v move])
    case (err e v1)
    with run tail have "w' = v1" by simp
    with keepsD [OF still err(1)] show ?thesis by simp
  next
    case (ok pb v1)
    from ok(1) obtain r1 v2 r2 where
      put1: "st_put st (snapshot_key ?ts) ct v = (Inr r1, v2)"
      and put2: "st_put st (snapshot_sig_key ?ts) ?sig v2 = (Inr r2, v1)"
      and pb: "to_vec_pretty (se_pointer_serde E) ?p = Inr pb"
      unfolding up_def by (auto elim!: io_elims)
    have move: "move pb v1 = (r, w')"
      using run tail ok(2) by simp
    let ?v2 = "snd (st_put_if_unmodified st LATEST_KEY pb (Some tag) v1)"
    have w': "objs w' = objs ?v2"
    proof -
      have "objs (snd (move pb v1)) =
          objs (snd (with_context CAS_context (st_put_if_unmodified st LATEST_KEY pb (Some tag)) v1))"
        unfolding move_def by (rule and_then_keeps_tail) (intro keeps_intros mirrors_keep)
      with move show ?thesis by simp
    qed
    have o: "body_at objs (snapshot_key ?ts) w' = Some ct" "body_at objs (snapshot_sig_key ?ts) w' = Some ?sig"
      using keeps_snd [OF cas_frame, of "snapshot_key ?ts" LATEST_KEY pb "Some tag" v1]
        keeps_snd [OF cas_frame, of "snapshot_sig_key ?ts" LATEST_KEY pb "Some tag" v1]
        keepsD [OF put_frame put2, of "snapshot_key ?ts"] put_ok [OF put1] put_ok [OF put2] w'
      by (simp_all add: body_at_def)
    from atomic_store.cas_atomic [OF atomic, of LATEST_KEY pb "Some tag" v1] show ?thesis
    proof
      assume "body_at objs LATEST_KEY ?v2 = body_at objs LATEST_KEY v1"
      with keepsD [OF still ok(1)] w' show ?thesis by (simp add: body_at_def)
    next
      assume "body_at objs LATEST_KEY ?v2 = Some pb"
      then obtain e where "objs w' LATEST_KEY = Some (pb, e)"
        using w' by (auto simp: body_at_def)
      then show ?thesis
        using publishedI [OF codecs z enc pb _ _ _ _, of objs w' e] o by auto
    qed
  qed
qed

end


section \<open>A session in the store\<close>

text \<open>
  A snapshot with cookies that passes every check, stored under the keys of its own stamp; a stamp is
  a time of the clock in \<open>format_compact\<close> and does not end in \<open>.json\<close>, which would make its key that of
  a conversation under the prefix \<open>snapshots/\<close>.
\<close>

definition session_kept ::
    "'w session_env \<Rightarrow> 'w objects \<Rightarrow> identity \<Rightarrow> verifying_key \<Rightarrow> 'w \<Rightarrow> restored \<Rightarrow> bool" where
  "session_kept E objs ident vk w rd \<longleftrightarrow>
    published E objs ident vk w rd \<and> ss_cookies (rd_state rd) \<noteq> [] \<and>
    lp_object (rd_pointer rd) = snapshot_key (lp_version (rd_pointer rd)) \<and>
    lp_signature_object (rd_pointer rd) = snapshot_sig_key (lp_version (rd_pointer rd)) \<and>
    \<not> suffix ''.json'' (lp_version (rd_pointer rd))"

definition stamps_plain :: "'w chrono \<Rightarrow> bool" where
  "stamps_plain K \<longleftrightarrow> (\<forall>t. \<not> suffix ''.json'' (format_compact K t))"

definition snapshot_keys :: "string \<Rightarrow> string set" where
  "snapshot_keys ts = {LATEST_KEY, snapshot_key ts, snapshot_sig_key ts}"

lemma session_kept_cong:
  assumes "session_kept E objs ident vk w rd"
    and "\<And>k. k \<in> snapshot_keys (lp_version (rd_pointer rd)) \<Longrightarrow> body_at objs k w' = body_at objs k w"
  shows "\<exists>rd'. session_kept E objs ident vk w' rd' \<and> rd_pointer rd' = rd_pointer rd"
proof -
  have "\<exists>tag. published E objs ident vk w' (rd\<lparr>rd_pointer_etag := tag\<rparr>)"
    using assms by (intro published_cong) (auto simp: session_kept_def snapshot_keys_def)
  with assms(1) show ?thesis
    by (fastforce simp: session_kept_def)
qed

lemma snapshot_not_chats:
  assumes "\<not> suffix ''.json'' ts" and "k \<in> snapshot_keys ts"
  shows "k \<notin> chats_keys c"
proof -
  have "snapshot_sig_key ts \<notin> chats_keys c" "snapshot_key ts \<noteq> index_key c"
    by (auto simp: chats_keys_def snapshot_key_def snapshot_sig_key_def index_key_def conv_key_def
        dest: arg_cong [where f = rev])
  moreover have "snapshot_key ts \<noteq> conv_key c cid" for cid
  proof
    assume "snapshot_key ts = conv_key c cid"
    then have "''snapshots/'' @ ts = (cf_prefix c @ ''conv/'' @ cid) @ ''.json''"
      by (simp add: snapshot_key_def conv_key_def append_eq_append_conv2)
    then have "suffix ''.json'' (''snapshots/'' @ ts)"
      by (metis suffixI)
    with assms(1) show False
      by (auto simp: suffix_append suffix_Cons)
  qed
  ultimately show ?thesis
    using assms(2) LATEST_not_chats(1) by (auto simp: snapshot_keys_def chats_keys_def)
qed

section \<open>The part of a run before its save\<close>

text \<open>
  It ends with the status of a failed canary, or with the restored snapshot and the session to save.
\<close>

definition run_work ::
    "'w session_env \<Rightarrow> config \<Rightarrow> nat \<Rightarrow> 'w store \<Rightarrow> 'w store list \<Rightarrow> identity \<Rightarrow> recipient \<Rightarrow>
      verifying_key \<Rightarrow> ('w, (nat \<times> string option) + (restored \<times> storage_state)) io" where
  "run_work E cfg pages st mirrors ident recip vk =
    (let CH = se_chromium E; H = ae_http (se_api E); JS = ae_json (se_api E) in
    and_then (restore E st ident vk) (\<lambda>prev.
    and_then (launch CH (bw_chromium_bin (cg_browser cfg)) (bw_user_data_dir (cg_browser cfg))
        (bw_headless (cg_browser cfg))) (\<lambda>session.
    and_then (import_storage_state CH session (rd_state prev)) (\<lambda>_.
    let jar = cookies_to_reqwest_jar H (ss_cookies (rd_state prev)) in
    and_then (lift_res (build_client H jar (cg_canary cfg))) (\<lambda>http.
    and_then (check H JS http (cn_url (cg_canary cfg)) (cn_expected_status (cg_canary cfg))
        (cn_field (cg_canary cfg)) (cn_expected_value (cg_canary cfg))) (\<lambda>c.
    if \<not> cr_ok c then
      and_then (attempt (close_session CH session)) (\<lambda>_. ret (Inl (cr_status c, cr_observed c)))
    else
      and_then (run_workloads E pages
          \<lparr>wx_http = http, wx_primary = st, wx_mirrors = mirrors, wx_recipient = recip,
           wx_identity = ident\<rparr> (cg_workloads cfg)) (\<lambda>_.
      and_then (export_storage_state CH session) (\<lambda>state.
      and_then (close_session CH session) (\<lambda>_.
      if ss_cookies state = [] then fail (Msg ''post-run cookies empty; refusing to save'')
      else ret (Inr (prev, state)))))))))))"

lemma run_locked_work:
  "run_locked E cfg pages st mirrors ident recip sk vk =
    and_then (run_work E cfg pages st mirrors ident recip vk) (\<lambda>x.
      case x of
        Inl (c, ob) \<Rightarrow> ret (CanaryFailed c ob)
      | Inr (prev, state) \<Rightarrow>
          and_then (save E st mirrors recip sk state (rd_pointer prev) (rd_pointer_etag prev))
            (\<lambda>ts. ret (Saved ts)))"
  unfolding run_locked_def run_work_def Let_def and_then_assoc and_then_if and_then_ret and_then_fail
  by (simp cong: if_cong)

text \<open>The time at which a run, started in the given world, stamps its snapshot, if it comes to that.\<close>

definition run_save_time ::
    "'w session_env \<Rightarrow> config \<Rightarrow> nat \<Rightarrow> string \<Rightarrow> 'w run_args \<Rightarrow> 'w \<Rightarrow> datetime option" where
  "run_save_time E cfg pages run_id a w =
    (case lock_taken E cfg (ra_primary a) run_id w of
       None \<Rightarrow> None
     | Some v \<Rightarrow>
         (case run_work E cfg pages (ra_primary a) (ra_mirrors a) (ra_identity a) (ra_recipient a)
             (ra_verify_pubkey a) v of
            (Inr (Inr (prev, state)), v') \<Rightarrow> save_time E (ra_recipient a) state v'
          | _ \<Rightarrow> None))"

context session_site begin

lemma run_work_frame:
  assumes "\<And>c. k \<notin> chats_keys c"
  shows "keeps (body_at objs k) (run_work E cfg pages st mirrors ident recip vk)"
  unfolding run_work_def Let_def
  by (intro keeps_intros keeps_body [OF restore_keeps] keeps_body [OF launch_keeps]
      keeps_body [OF import_keeps] keeps_body [OF keeps_check [OF http_keeps]]
      keeps_body [OF export_keeps] keeps_body [OF close_keeps] run_workloads_keeps assms)

lemma run_work_cookies:
  "run_work E cfg pages st mirrors ident recip vk w = (Inr (Inr (prev, state)), w') \<Longrightarrow>
    ss_cookies state \<noteq> []"
  unfolding run_work_def Let_def by (auto elim!: io_elims split: if_splits)

lemma save_keeps_session:
  assumes atomic: "atomic_store st objs" and codecs: "codecs_ok E ident recip sk vk"
    and plain: "stamps_plain (se_chrono E)" and old: "session_kept E objs ident vk w old"
    and fresh: "\<And>t. save_time E recip state w = Some t \<Longrightarrow>
      format_compact (se_chrono E) t \<noteq> lp_version (rd_pointer old)"
    and state: "ss_cookies state \<noteq> []"
    and run: "save E st mirrors recip sk state prev tag w = (r, w')"
  shows "\<exists>new. session_kept E objs ident vk w' new"
  using run
proof (cases rule: save_split)
  case (unsealed e)
  then show ?thesis
    using session_kept_cong [OF old, of w'] by (auto simp: body_at_def)
next
  case (sealed z ct v now v')
  let ?ts = "format_compact (se_chrono E) now"
  have kept: "body_at objs k w' = body_at objs k w"
    if "k \<in> snapshot_keys (lp_version (rd_pointer old))" "k \<noteq> LATEST_KEY" for k
    using that fresh [OF sealed(5)] sealed(4) keepsD [OF save_tail_frame sealed(6), of k]
    by (auto simp: snapshot_keys_def snapshot_key_def snapshot_sig_key_def body_at_def)
  from save_tail_pointer [OF atomic codecs sealed(1,2,6)] show ?thesis
  proof
    assume "body_at objs LATEST_KEY w' = body_at objs LATEST_KEY v'"
    then have "body_at objs LATEST_KEY w' = body_at objs LATEST_KEY w"
      using sealed(4) by (simp add: body_at_def)
    then show ?thesis
      using session_kept_cong [OF old, of w'] kept by metis
  next
    assume "\<exists>e. published E objs ident vk w' \<lparr>rd_pointer = snapshot_pointer E ?ts ct now,
      rd_pointer_etag = e, rd_state = state\<rparr>"
    then show ?thesis
      using state plain by (force simp: session_kept_def stamps_plain_def)
  qed
qed

lemma run_locked_keeps_session:
  assumes atomic: "atomic_store st objs" and codecs: "codecs_ok E ident recip sk vk"
    and plain: "stamps_plain (se_chrono E)" and old: "session_kept E objs ident vk w old"
    and fresh: "\<And>prev state v t. run_work E cfg pages st mirrors ident recip vk w =
        (Inr (Inr (prev, state)), v) \<Longrightarrow> save_time E recip state v = Some t \<Longrightarrow>
      format_compact (se_chrono E) t \<noteq> lp_version (rd_pointer old)"
    and run: "run_locked E cfg pages st mirrors ident recip sk vk w = (r, w')"
  shows "\<exists>new. session_kept E objs ident vk w' new"
proof -
  obtain x v where work: "run_work E cfg pages st mirrors ident recip vk w = (x, v)" by fastforce
  have "body_at objs k v = body_at objs k w" if "k \<in> snapshot_keys (lp_version (rd_pointer old))" for k
    using old that by (intro keepsD [OF run_work_frame work] snapshot_not_chats) (auto simp: session_kept_def)
  then obtain mid where mid: "session_kept E objs ident vk v mid" "rd_pointer mid = rd_pointer old"
    using session_kept_cong [OF old] by metis
  show ?thesis
  proof (cases "\<exists>prev state. x = Inr (Inr (prev, state))")
    case True
    then obtain prev state where x: "x = Inr (Inr (prev, state))" by blast
    note work = work [unfolded x]
    have "w' = snd (save E st mirrors recip sk state (rd_pointer prev) (rd_pointer_etag prev) v)"
      using arg_cong [OF run, of snd]
      by (simp add: run_locked_work and_then_Inr [where m = "run_work _ _ _ _ _ _ _ _", OF work])
    then obtain y where
      "save E st mirrors recip sk state (rd_pointer prev) (rd_pointer_etag prev) v = (y, w')"
      by (metis prod.collapse)
    then show ?thesis
      using save_keeps_session [OF atomic codecs plain mid(1) _ run_work_cookies [OF work]]
        fresh [OF work] mid(2) by metis
  next
    case False
    then have "w' = v"
      using run work by (auto simp: run_locked_work and_then_def ret_def split: sum.splits prod.splits)
    with mid show ?thesis by blast
  qed
qed

end

section \<open>Runs, one after the other\<close>

text \<open>
  The save of the run does not fall into the second of the snapshot that \<open>latest.json\<close> names: the stamp
  it would use is not that snapshot's.
\<close>

definition off_stamp ::
    "'w session_env \<Rightarrow> 'w objects \<Rightarrow> config \<Rightarrow> nat \<Rightarrow> string \<Rightarrow> 'w run_args \<Rightarrow> 'w \<Rightarrow> bool" where
  "off_stamp E objs cfg pages run_id a w \<longleftrightarrow>
    (\<forall>pb p t. body_at objs LATEST_KEY w = Some pb \<longrightarrow> from_slice (se_pointer_serde E) pb = Inr p \<longrightarrow>
      run_save_time E cfg pages run_id a w = Some t \<longrightarrow> format_compact (se_chrono E) t \<noteq> lp_version p)"

text \<open>
  A history: runs with any outcome, and between them anything that leaves the pointer and the
  snapshots alone.
\<close>

inductive run_history ::
    "'w session_env \<Rightarrow> 'w objects \<Rightarrow> config \<Rightarrow> 'w run_args \<Rightarrow> 'w \<Rightarrow> 'w \<Rightarrow> bool"
  for E :: "'w session_env" and objs :: "'w objects" and cfg :: config and a :: "'w run_args" and w :: 'w
where
  start: "run_history E objs cfg a w w"
| run: "run_history E objs cfg a w v'"
    if "run_history E objs cfg a w v" and "off_stamp E objs cfg pages run_id a v"
      and "run_session E cfg pages run_id (ra_primary a) (ra_mirrors a) (ra_identity a) (ra_recipient a)
        (ra_signing_key a) (ra_verify_pubkey a) v = (r, v')"
| between: "run_history E objs cfg a w v'"
    if "run_history E objs cfg a w v"
      and "\<And>k. k = LATEST_KEY \<or> prefix ''snapshots/'' k \<Longrightarrow> body_at objs k v' = body_at objs k v"

lemma snapshot_keys_other:
  assumes "k \<in> snapshot_keys ts"
  shows "k \<noteq> LOCK_KEY" and "\<not> prefix ''health/'' k" and "k = LATEST_KEY \<or> prefix ''snapshots/'' k"
  using assms
  by (auto simp: snapshot_keys_def snapshot_key_def snapshot_sig_key_def LATEST_KEY_def LOCK_KEY_def)

lemma run_session_keeps_session:
  assumes site: "session_site (ra_primary a) objs E (ra_mirrors a)"
    and atomic: "atomic_store (ra_primary a) objs"
    and codecs: "codecs_ok E (ra_identity a) (ra_recipient a) (ra_signing_key a) (ra_verify_pubkey a)"
    and plain: "stamps_plain (se_chrono E)"
    and old: "session_kept E objs (ra_identity a) (ra_verify_pubkey a) w old"
    and off: "off_stamp E objs cfg pages run_id a w"
    and run: "run_session E cfg pages run_id (ra_primary a) (ra_mirrors a) (ra_identity a) (ra_recipient a)
        (ra_signing_key a) (ra_verify_pubkey a) w = (r, w')"
  shows "\<exists>new. session_kept E objs (ra_identity a) (ra_verify_pubkey a) w' new"
proof -
  note other = snapshot_keys_other
  have inner: "\<exists>new. session_kept E objs (ra_identity a) (ra_verify_pubkey a) v' new"
    if same: "\<And>k. k \<noteq> LOCK_KEY \<Longrightarrow> body_at objs k v = body_at objs k w"
      and taken: "lock_taken E cfg (ra_primary a) run_id w = Some v"
      and run: "run_locked E cfg pages (ra_primary a) (ra_mirrors a) (ra_identity a) (ra_recipient a)
        (ra_signing_key a) (ra_verify_pubkey a) v = (x, v')" for v v' x
  proof -
    obtain mid where mid: "session_kept E objs (ra_identity a) (ra_verify_pubkey a) v mid"
      "rd_pointer mid = rd_pointer old"
      using session_kept_cong [OF old] same other(1) by metis
    have "format_compact (se_chrono E) t \<noteq> lp_version (rd_pointer mid)"
      if "run_work E cfg pages (ra_primary a) (ra_mirrors a) (ra_identity a) (ra_recipient a)
          (ra_verify_pubkey a) v = (Inr (Inr (prev, state)), u)"
        and "save_time E (ra_recipient a) state u = Some t" for prev state u t
      using off old that mid(2) taken
      by (force simp: off_stamp_def run_save_time_def session_kept_def published_def body_at_def)
    then show ?thesis
      using session_site.run_locked_keeps_session [OF site atomic codecs plain mid(1) _ run] by blast
  qed
  show ?thesis
  proof (cases rule: session_site.run_session_split [OF site run])
    case (1 e)
    then show ?thesis using session_kept_cong [OF old] other(1) by metis
  next
    case (2 e v)
    then show ?thesis using inner by blast
  next
    case (3 res v v')
    then obtain new where "session_kept E objs (ra_identity a) (ra_verify_pubkey a) v' new"
      using inner by blast
    then show ?thesis using session_kept_cong [of E objs _ _ v' new w'] 3(3) other by metis
  qed
qed

lemma run_history_keeps_session:
  assumes "run_history E objs cfg a w w'"
    and "session_site (ra_primary a) objs E (ra_mirrors a)" and "atomic_store (ra_primary a) objs"
    and "codecs_ok E (ra_identity a) (ra_recipient a) (ra_signing_key a) (ra_verify_pubkey a)"
    and "stamps_plain (se_chrono E)"
    and "\<exists>rd. session_kept E objs (ra_identity a) (ra_verify_pubkey a) w rd"
  shows "\<exists>rd. session_kept E objs (ra_identity a) (ra_verify_pubkey a) w' rd"
  using assms(1)
proof induction
  case start
  show ?case by (rule assms(6))
next
  case (run v pages run_id r v')
  then show ?case using run_session_keeps_session [OF assms(2-5)] by blast
next
  case (between v v')
  then show ?case using session_kept_cong snapshot_keys_other(3) by metis
qed

section \<open>Property\<close>



lemma bench_stamps_plain: "stamps_plain bench_chrono"
proof -
  have "\<not> suffix ''.json'' (show_nat n)" for n
  proof
    assume "suffix ''.json'' (show_nat n)"
    then have "CHR ''n'' \<in> set (show_nat n)"
      by (auto simp: suffix_def)
    then have "byte_in 48 57 (CHR ''n'')" by (rule show_nat_digits)
    then show False by (simp add: byte_in_def byte_def)
  qed
  then show ?thesis by (simp add: stamps_plain_def bench_chrono_def)
qed

definition bench_args :: "bench run_args" where
  "bench_args =
    \<lparr>ra_identity = ''AGE'', ra_recipient = ''age1'', ra_signing_key = ''k'', ra_verify_pubkey = ''k'',
     ra_primary = bench_primary, ra_mirrors = [bench_mirror], ra_run_id = ''run-1''\<rparr>"

lemma bench_args_simps [simp]:
  "ra_identity bench_args = ''AGE''" "ra_recipient bench_args = ''age1''"
  "ra_signing_key bench_args = ''k''" "ra_verify_pubkey bench_args = ''k''"
  "ra_primary bench_args = bench_primary" "ra_mirrors bench_args = [bench_mirror]"
  by (simp_all add: bench_args_def)

lemma bench_save_time: "save_time bench_E ''age1'' bench_state w = Some (bn_clock w)"
  by (simp add: save_time_def bench_crypto_simps ret_def del: table_serde_simps)
    (simp add: bench_chrono_def)

lemma scripted_run_work:
  assumes E: "se_chromium E = bench_chromium [bench_cookie]" "ae_http (se_api E) = canary_http"
      "ae_json (se_api E) = canary_json tbl"
    and cfg: "cg_workloads cfg = []" "cn_headers (cg_canary cfg) = []"
      "cn_expected_status (cg_canary cfg) = 200" "cn_field (cg_canary cfg) = ''/id''"
      "cn_expected_value (cg_canary cfg) = ''me''"
    and r: "restore E st ident vk w = (Inr rd, w1)" "rd_state rd = bench_state"
  shows "run_work E cfg pages st ms ident recip vk w = (Inr (Inr (rd, bench_state)), w1)"
proof -
  have client: "build_client canary_http jar (cg_canary cfg) = Inr \<lparr>hc_jar = jar,
      hc_user_agent = Some (cn_user_agent (cg_canary cfg)),
      hc_headers = [(''accept'', ''application/json, text/plain, */*'')]\<rparr>" for jar
    by (simp add: build_client_def cfg res_bind_def bench_http_def res_context_def)
  have cookies: "ss_cookies bench_state \<noteq> []"
    by (simp add: bench_state_def)
  show ?thesis
    unfolding run_work_def Let_def E
    by (simp add: and_then_Inr [where m = "restore _ _ _ _", OF r(1)] r(2) cfg scripted_browser client
        scripted_canary cookies ret_apply and_then_ret del: table_serde_simps)
qed

text \<open>The run of the bench saves at its third second, over a snapshot of the start.\<close>

lemma bench_run_off_stamp: "off_stamp bench_E bench_objects bench_cfg 0 ''run-1'' bench_args bench_seeded"
proof -
  have "format_compact bench_chrono t = show_nat 3"
    if "run_save_time bench_E bench_cfg 0 ''run-1'' bench_args bench_seeded = Some t" for t
  proof -
    have "bn_clock bench_seeded = 1000000000" "cg_lock_ttl_seconds bench_cfg = 300"
      by (simp_all add: bench_seeded_def Let_def bench_cfg_def bench_config_def)
    then have taken: "lock_taken bench_E bench_cfg bench_primary ''run-1'' bench_seeded =
        Some (bench_locked_world [] 4 3000000000)"
      using bench_acquire
      by (simp add: lock_taken_def bench_chrono_def [THEN arg_cong, of utc_now] del: table_serde_simps)
    have work: "run_work bench_E bench_cfg 0 bench_primary [bench_mirror] ''AGE'' ''age1'' ''k''
        (bench_locked_world [] 4 3000000000) =
      (Inr (Inr (\<lparr>rd_pointer = bench_pointer ''0'' 0, rd_pointer_etag = show_nat 3, rd_state = bench_state\<rparr>,
        bench_state)), bench_locked_world [] 4 3000000000)"
      by (rule scripted_run_work [OF _ _ _ _ _ _ _ _ bench_restore])
        (simp_all add: bench_cfg_def bench_config_def del: table_serde_simps)
    show ?thesis
      using that by (simp add: run_save_time_def taken work bench_save_time)
        (auto simp: bench_locked_world_def bench_chrono_def)
  qed
  moreover have "lp_version p = ''0''"
    if "body_at bench_objects LATEST_KEY bench_seeded = Some pb"
      "from_slice (se_pointer_serde bench_E) pb = Inr p" for pb p
  proof -
    have "pb = ''P0''"
      using that(1) by (simp add: body_at_def bench_objects_def mem_objects_def bench_seeded_def mem_of_def
          Let_def LATEST_KEY_def)
    with that(2) show ?thesis
      by (auto simp: bench_pointer_serde bench_pointer_def)
  qed
  ultimately show ?thesis
    by (simp add: off_stamp_def bench_texts)
qed

lemma bench_refused_off_stamp:
  "off_stamp bench_E bench_objects bench_cfg 0 ''run-2'' bench_args w"
proof -
  have "cg_lock_ttl_seconds bench_cfg = 300"
    by (simp add: bench_cfg_def bench_config_def)
  then show ?thesis
    by (simp add: off_stamp_def run_save_time_def lock_taken_def bench_acquire_refused
        del: table_serde_simps)
qed

text \<open>A run that saves, and one that fails.\<close>

lemma bench_history: "run_history bench_E bench_objects bench_cfg bench_args bench_seeded
    (bench_ran\<lparr>bn_clock := 7 * 10 ^ 9\<rparr>)"
proof -
  have first: "run_history bench_E bench_objects bench_cfg bench_args bench_seeded bench_ran"
    using run_history.run [OF run_history.start bench_run_off_stamp, of "Inr ()" bench_ran]
    by (simp add: bench_run)
  have "bn_clock bench_ran = 5 * 10 ^ 9"
    by (simp add: bench_ran_def Let_def)
  with run_history.run [OF first bench_refused_off_stamp, unfolded bench_args_simps, OF bench_run_refused]
  show ?thesis by simp
qed


end
