(* ===== verification/Spec2Isabelle.thy ===== *)
theory Spec2Isabelle
  imports Lock_Protocol Import_Run Git_Facts Github_Run Chatgpt_Facts Export_Facts Run_Run
    Run_Total Mirrors_Run Browser_Facts Chats_Total History
begin

text \<open>
  A model of \<open>repossess\<close>, a program that keeps a logged-in browser session alive: once a day it
  restores the session from an encrypted, signed snapshot in an object store, checks with a canary
  request that it is still logged in, runs its workloads against the site, and saves a new snapshot.

  The parts, in the order the theories build on each other.

  \<^item> \<open>Prelude\<close> and \<open>Rust_Std\<close>: effects, errors and frames; UTF-8, strings, numbers.  \<open>Returns\<close>: a
    calculus of calls that return, for total correctness.  \<open>Unary_Text\<close>: texts for concrete worlds.
  \<^item> \<open>Crypto\<close> (\<open>crypto/\<close>) and \<open>Snapshot\<close> (\<open>snapshot.rs\<close>, \<open>archive.rs\<close>, the data of
    \<open>browser/cdp.rs\<close>): keys, signatures, the pointer \<open>latest.json\<close>, digests and the archive.
  \<^item> \<open>Stores\<close> (\<open>stores/mod.rs\<close>): the trait \<open>SnapshotStore\<close> as a record of operations, its contract
    as the locales \<open>snapshot_store\<close> and \<open>per_object_store\<close>, a store that is up as \<open>responsive\<close>, and the
    fan-out to mirrors.  \<open>Mem_Store\<close>
    (the store of \<open>tests/chatgpt_workload.rs\<close>) and \<open>S3_Store\<close> (\<open>stores/s3.rs\<close>) interpret it.
    \<open>Bench\<close> is a concrete world for witnesses.
  \<^item> \<open>Lock\<close> (\<open>lock.rs\<close>): the single-writer lock, from the contract alone; \<open>Lock_Protocol\<close>: any
    interleaving of its requests by any number of processes.
  \<^item> \<open>Json\<close>, \<open>Http\<close> (\<open>browser/canary.rs\<close>), \<open>Browser\<close> (\<open>browser/cdp.rs\<close>), \<open>Health\<close> (\<open>health.rs\<close>),
    \<open>Config\<close> (\<open>config.rs\<close>).
  \<^item> \<open>Chats_Api\<close>, \<open>Chats\<close>, \<open>Chats_Archive\<close>, \<open>Chats_Run\<close> (\<open>workload/chatgpt_chats.rs\<close>): the HTTP client
    with its retries, the incremental walk, the encrypted archive and its index.  The locale
    \<open>chats_site\<close> states what a run relies on, \<open>bodies_frame\<close> and \<open>chats_frame\<close> what of the world the
    walk and the whole run leave alone.  \<open>Chats_Total\<close>: when a run succeeds, and that the archive then
    is up to date (the locale \<open>live_archive\<close>).
  \<^item> \<open>Session\<close>, \<open>Session_Facts\<close>, \<open>Session_Run\<close> (\<open>commands/run.rs\<close>, \<open>verify.rs\<close>, \<open>seed.rs\<close>): restore,
    the locked run, save; the locale \<open>session_site\<close>.  \<open>Run_Facts\<close>: the views a run keeps (the locale
    \<open>session_frame\<close>), the canary as the gate before any write, and the end of a run, which releases the
    lock and records the outcome.  \<open>Run_Total\<close>: when a run succeeds.  \<open>Mirrors_Run\<close>: what a mirror (the
    locale \<open>mirror_site\<close>) holds after a run.  \<open>History\<close>: no sequence of runs, whatever their outcomes, loses the
    session; on stores whose conditional write happens as a whole or not at all (the locale \<open>atomic_store\<close>).
    \<open>Browser_Facts\<close>: the cookies of a session on their way through two browsers.

  \<^item> \<open>Git_Branch\<close>, \<open>Git_Facts\<close> (\<open>stores/git_branch.rs\<close>): the store on a git branch, over the \<open>git\<close>
    program; what its etags are worth follows from what git promises of a push with a lease.
    \<open>Github_Release\<close>, \<open>Github_Facts\<close> (\<open>stores/github_release.rs\<close>): the store on release assets.
    Neither meets the contract \<open>per_object_store\<close>, and the theories say why.  \<open>Github_Mirror\<close> and
    \<open>Github_Run\<close>: what the store on releases does as a mirror, over the locale \<open>github_service\<close> of what
    GitHub documents, and a small GitHub that meets it.
  \<^item> \<open>Chatgpt\<close>, \<open>Chatgpt_Facts\<close> (\<open>workload/chatgpt.rs\<close>) and \<open>Export\<close>, \<open>Export_Facts\<close>
    (\<open>commands/export.rs\<close>): the client of the web API, Markdown, the export of one conversation.
  \<^item> \<open>Import\<close>, \<open>Import_Facts\<close>, \<open>Import_Run\<close> (\<open>commands/import_chatgpt.rs\<close>): filling the archive from
    a data export, with uploads in flight that interleave in any order.
  \<^item> \<open>Secrets\<close>, \<open>Secrets_Facts\<close> (\<open>secrets.rs\<close>, \<open>build_store\<close>), \<open>Commands\<close>, \<open>Commands_Run\<close>,
    \<open>Verify_Run\<close>, \<open>Run_Run\<close> (\<open>main.rs\<close> and the first lines of the commands): the environment of the
    process, the key files, the construction of the stores, the dispatch, and the commands \<open>verify\<close>
    and \<open>run\<close> as a whole on a bucket of S3.

  A theory \<open>X\<close> holds the definitions, \<open>X_Facts\<close> the invariants and frames, \<open>X_Run\<close> the properties of
  the whole with concrete runs that meet their hypotheses.

  Libraries (age, ed25519, zstd, serde, chrono, reqwest, chromiumoxide, the AWS SDK, the TOML
  parser), the \<open>git\<close> program, the file system and the services are records of functions that the
  definitions take as arguments; what a theorem relies on of them is a named hypothesis
  (\<open>codecs_ok\<close>, \<open>age_key_pair\<close>, \<open>s3_service\<close>, \<open>push_is_cas\<close>, \<open>jar_documented\<close> and so on).  The state of the world is a
  type variable.

  Loops of the source that a server can prolong have fuel: the retry loops of the two HTTP clients
  have the number of requests their configurations allow, proved to be enough for the workload's;
  the walk over the listing and the listing of release assets have a bound on their pages, and
  \<open>incremental_walk\<close> and \<open>list_assets_complete\<close> state how many are enough; \<open>wait_and_capture\<close>
  consumes the list of the events it sees.  The uploads of the import consume a schedule, which says
  which upload advances next; \<open>import_uploads_end\<close> states how long a schedule is enough.  The walk from
  a message to the root of its conversation is a partial function, since it need not return;
  \<open>walk_to_current_spec\<close> says when it does.

  Not modelled: log lines; the parser of the command line, which \<open>clap\<close> derives and \<open>main_process\<close> takes as
  an argument; the removal of the temporary work
  directory of a git branch store; the configuration of the SDK client in \<open>S3Store::new\<close>; the unit
  tests.
\<close>

end
